(* ===== verification/Prelude.thy ===== *)
theory Prelude
  imports Main "HOL-Library.Word" "HOL-Library.Char_ord" "HOL-Library.List_Lexorder"
begin

section \<open>Prelude: shared types, collections and list lemmas\<close>

text \<open>
  What every component of the library shares.

  \<^item> Bytes are \<open>8 word\<close>s, a \<open>bytes::Bytes\<close> buffer is a list of them. Rust strings are
    HOL strings (lists of UTF-8 bytes, so \<open>length\<close> is \<open>str::len\<close>).
  \<^item> A \<open>usize\<close> is a natural number; the bound \<open>usize_max\<close> of the 64-bit targets the
    wheels are built for is written out wherever the code can hit it (parsing, allocation).
    Every \<open>usize\<close> subtraction of the source is modelled by \<open>-\<close> on \<open>nat\<close> and comes with a
    lemma that it does not go below zero, or is a \<open>saturating_sub\<close>.
  \<^item> An operation that mutates a Rust value takes the value and returns it updated beside
    its result, on the error paths too: an object keeps what was written before the error.
  \<^item> \<open>stream_simps\<close> collects the rewriting rules of the byte-stream components,
    \<open>taken_simps\<close> those of the take-once objects, \<open>header_simps\<close> those of header maps.
\<close>

named_theorems stream_simps \<open>rewriting rules of the byte-stream components\<close>
named_theorems taken_simps \<open>rewriting rules of objects that can be consumed once\<close>
named_theorems header_simps \<open>rewriting rules of header maps\<close>

type_synonym byte = "8 word"
type_synonym bytes = "byte list"

definition usize_max :: nat where
  "usize_max = 2 ^ 64 - 1"

definition isize_max :: nat where
  "isize_max = 2 ^ 63 - 1"

subsection \<open>Results\<close>

text \<open>\<open>Option::ok_or_else\<close> and the \<open>?\<close> operator on results.\<close>

definition ok_or :: "'e \<Rightarrow> 'a option \<Rightarrow> 'e + 'a" where
  "ok_or e x = (case x of None \<Rightarrow> Inl e | Some a \<Rightarrow> Inr a)"

lemma ok_or_simps [simp]:
  "ok_or e None = Inl e" "ok_or e (Some a) = Inr a"
  by (simp_all add: ok_or_def)

lemma ok_or_Inr_iff [simp]: "ok_or e x = Inr a \<longleftrightarrow> x = Some a"
  by (cases x) auto

fun and_then :: "'e + 'a \<Rightarrow> ('a \<Rightarrow> 'e + 'b) \<Rightarrow> 'e + 'b" where
  "and_then (Inl e) f = Inl e"
| "and_then (Inr a) f = f a"

fun map_res :: "('a \<Rightarrow> 'b) \<Rightarrow> 'e + 'a \<Rightarrow> 'e + 'b" where
  "map_res f (Inl e) = Inl e"
| "map_res f (Inr a) = Inr (f a)"

fun map_err :: "('e \<Rightarrow> 'f) \<Rightarrow> 'e + 'a \<Rightarrow> 'f + 'a" where
  "map_err f (Inl e) = Inl (f e)"
| "map_err f (Inr a) = Inr a"

lemma map_res_InrE:
  assumes "map_res f r = Inr b"
  obtains a where "r = Inr a" "b = f a"
  using assms by (cases r) auto

lemma and_then_Inr_iff: "and_then r f = Inr b \<longleftrightarrow> (\<exists>a. r = Inr a \<and> f a = Inr b)"
  by (cases r) auto

text \<open>\<open>Iterator::collect\<close> into a \<open>Result\<close>: stops at the first error.\<close>

fun collect_res :: "('e + 'a) list \<Rightarrow> 'e + 'a list" where
  "collect_res [] = Inr []"
| "collect_res (r # rs) =
     (case r of Inl e \<Rightarrow> Inl e | Inr a \<Rightarrow> map_res (\<lambda>as. a # as) (collect_res rs))"

lemma collect_res_map_Inr [simp]: "collect_res (map (\<lambda>x. Inr (f x)) xs) = Inr (map f xs)"
  by (induction xs) auto

lemma collect_res_Inr_length: "collect_res rs = Inr as \<Longrightarrow> length as = length rs"
proof (induction rs arbitrary: as)
  case (Cons r rs)
  then show ?case by (cases "collect_res rs") (auto split: sum.splits)
qed simp

subsection \<open>Text\<close>

definition str_bytes :: "string \<Rightarrow> bytes" where
  "str_bytes s = map (\<lambda>c. of_nat (of_char c)) s"

definition bytes_str :: "bytes \<Rightarrow> string" where
  "bytes_str bs = map (\<lambda>b. char_of (unat b)) bs"

text \<open>\<open>Display\<close> of an unsigned integer.\<close>

fun show_nat :: "nat \<Rightarrow> string" where
  "show_nat n =
     (if n < 10 then [char_of (48 + n)] else show_nat (n div 10) @ [char_of (48 + n mod 10)])"

declare show_nat.simps [simp del]

subsection \<open>Lists\<close>

lemma take_append_split:
  "length xs \<le> n \<Longrightarrow> take n (xs @ ys) = xs @ take (n - length xs) ys"
  by simp

lemma concat_filter_nonempty [simp]: "concat (filter (\<lambda>x. x \<noteq> []) xss) = concat xss"
  by (induction xss) auto

lemma sum_list_length_concat: "length (concat xss) = sum_list (map length xss)"
  by (induction xss) auto

end
