(* ===== verification/Exceptions.thy ===== *)
theory Exceptions
  imports Prelude
begin

section \<open>Exceptions and the mapping of transport errors\<close>

text \<open>
  Models \<open>src/exceptions/exceptions.rs\<close> and \<open>src/exceptions/utils.rs\<close>: the exception
  classes, the details they carry, the walk along \<open>Error::source\<close> and the classification
  of a \<open>reqwest::Error\<close> into an exception class. A Rust error is its \<open>Display\<close> string,
  what the code can downcast it to, and its source. What a \<open>reqwest::Error\<close> answers to
  \<open>is_timeout\<close>, \<open>is_body\<close> and so on is data of the error. The \<open>regex\<close> crate is a
  parameter \<open>is_match\<close>: the pattern lists are the source's.
\<close>

subsection \<open>Exception classes and exception values\<close>

datatype exc_type =
    PyKeyError | PyRuntimeError | PyValueError | PyTypeError | PyStopIteration
  | PyCancelledError | PyNotImplementedError | PanicException
  | PyBorrowError | PyUserException string
  | RequestError | StatusError | RedirectError | BodyDecodeError | DecodeError | JSONDecodeError
  | TransportError | RequestTimeoutError | NetworkError
  | ConnectTimeoutError | ReadTimeoutError | WriteTimeoutError | PoolTimeoutError
  | ConnectError | ReadError | WriteError | ClientClosedError | BuilderError | RequestPanicError

text \<open>
  The \<open>details\<close> argument: \<open>Causes None\<close> is \<open>{"causes": null}\<close>; a cause is an object
  with its message or, for a panic, the text itself; \<open>from_custom\<close> is used
  with a status and with a JSON error position and document.
\<close>

datatype cause = CauseMessage string | CauseText string

datatype exc_details =
    NoDetails
  | Causes "cause list option"
  | StatusDetails nat
  | JsonDetails nat string

datatype py_err = PyErr (exc_class: exc_type) (exc_message: string) (exc_details: exc_details)

type_synonym 'a pyres = "py_err + 'a"

abbreviation key_error :: "string \<Rightarrow> py_err" where
  "key_error m \<equiv> PyErr PyKeyError m NoDetails"

abbreviation runtime_error :: "string \<Rightarrow> py_err" where
  "runtime_error m \<equiv> PyErr PyRuntimeError m NoDetails"

abbreviation value_error :: "string \<Rightarrow> py_err" where
  "value_error m \<equiv> PyErr PyValueError m NoDetails"

abbreviation stop_iteration :: "string \<Rightarrow> py_err" where
  "stop_iteration m \<equiv> PyErr PyStopIteration m NoDetails"

abbreviation cancelled_error :: "string \<Rightarrow> py_err" where
  "cancelled_error m \<equiv> PyErr PyCancelledError m NoDetails"

abbreviation panic :: "string \<Rightarrow> py_err" where
  "panic m \<equiv> PyErr PanicException m NoDetails"

subsection \<open>Rust errors and their sources\<close>

record reqwest_flags =
  is_timeout :: bool
  is_connect :: bool
  is_body :: bool
  is_decode :: bool
  is_redirect :: bool
  is_builder :: bool

datatype err_downcast =
    AsPyErr py_err
  | AsReqwest reqwest_flags
  | AsHyper bool
  | AsOther

datatype std_error = StdError (display: string) (downcast: err_downcast) (source: "std_error option")

fun error_causes_iter :: "std_error \<Rightarrow> std_error list" where
  "error_causes_iter (StdError d k None) = [StdError d k None]"
| "error_causes_iter (StdError d k (Some s)) = StdError d k (Some s) # error_causes_iter s"

definition details_from_causes :: "std_error list \<Rightarrow> exc_details" where
  "details_from_causes errs =
     (let causes = map (\<lambda>e. CauseMessage (display e)) errs in Causes (if causes = [] then None else Some causes))"

definition details_from_err :: "std_error \<Rightarrow> exc_details" where
  "details_from_err e = details_from_causes (error_causes_iter e)"

definition from_causes :: "exc_type \<Rightarrow> string \<Rightarrow> std_error list \<Rightarrow> py_err" where
  "from_causes c message err_causes = PyErr c message (details_from_causes err_causes)"

definition from_msg :: "exc_type \<Rightarrow> string \<Rightarrow> py_err" where
  "from_msg c message = from_causes c message []"

definition from_err :: "exc_type \<Rightarrow> string \<Rightarrow> std_error \<Rightarrow> py_err" where
  "from_err c message e = PyErr c message (details_from_err e)"

datatype panic_payload = PanicString string | PanicStr string | PanicPyErr std_error | PanicOther

definition details_from_panic :: "panic_payload \<Rightarrow> exc_details" where
  "details_from_panic payload =
     (case payload of
        PanicString s \<Rightarrow> Causes (Some [CauseText s])
      | PanicStr s \<Rightarrow> Causes (Some [CauseText s])
      | PanicPyErr e \<Rightarrow> details_from_err e
      | PanicOther \<Rightarrow> Causes None)"

definition from_panic_payload :: "exc_type \<Rightarrow> string \<Rightarrow> panic_payload \<Rightarrow> py_err" where
  "from_panic_payload c message payload = PyErr c message (details_from_panic payload)"

subsection \<open>Classification\<close>

fun inner_py_err_in :: "std_error list \<Rightarrow> py_err option" where
  "inner_py_err_in [] = None"
| "inner_py_err_in (e # es) =
     (case downcast e of AsPyErr p \<Rightarrow> Some p | _ \<Rightarrow> inner_py_err_in es)"

definition inner_py_err :: "std_error \<Rightarrow> py_err option" where
  "inner_py_err e = inner_py_err_in (error_causes_iter e)"

definition CONNECTION_ERROR_PATTERN :: "string list" where
  "CONNECTION_ERROR_PATTERN =
     [''(?i)connection error'', ''(?i)connection(.*) closed'', ''(?i)connection refused'',
      ''(?i)connection reset'', ''(?i)connection aborted'', ''(?i)host unreachable'',
      ''(?i)network unreachable'', ''(?i)not connected'', ''(?i)address in use'',
      ''(?i)address not available'', ''(?i)network down'', ''(?i)broken pipe'',
      ''(?i)unexpected end of file'', ''(?i)unexpected eof'']"

definition TIMEOUT_ERROR_PATTERN :: "string list" where
  "TIMEOUT_ERROR_PATTERN = [''(?i)timed out'', ''(?i)timeout'']"

definition error_causes_matches ::
    "(string list \<Rightarrow> string \<Rightarrow> bool) \<Rightarrow> std_error \<Rightarrow> string list \<Rightarrow> bool" where
  "error_causes_matches is_match e pattern =
     list_ex (\<lambda>c. is_match pattern (display c)) (error_causes_iter e)"

text \<open>The flags of the error itself, which is a \<open>reqwest::Error\<close> where these are called.\<close>

definition has_flag :: "(reqwest_flags \<Rightarrow> bool) \<Rightarrow> std_error \<Rightarrow> bool" where
  "has_flag p e = (case downcast e of AsReqwest f \<Rightarrow> p f | _ \<Rightarrow> False)"

definition is_timeout_error :: "(string list \<Rightarrow> string \<Rightarrow> bool) \<Rightarrow> std_error \<Rightarrow> bool" where
  "is_timeout_error is_match e =
     (has_flag is_timeout e \<or> error_causes_matches is_match e TIMEOUT_ERROR_PATTERN)"

definition is_connect_error :: "(string list \<Rightarrow> string \<Rightarrow> bool) \<Rightarrow> std_error \<Rightarrow> bool" where
  "is_connect_error is_match e =
     (has_flag is_connect e \<or> error_causes_matches is_match e CONNECTION_ERROR_PATTERN)"

definition is_decode_error :: "std_error \<Rightarrow> bool" where
  "is_decode_error e =
     list_ex (\<lambda>c. has_flag is_decode c \<or> downcast c = AsHyper True) (error_causes_iter e)"

definition is_body_error :: "std_error \<Rightarrow> bool" where
  "is_body_error e = list_ex (\<lambda>c. has_flag (\<lambda>f. is_body f \<or> is_decode f) c) (error_causes_iter e)"

datatype error_kind = Send | Read

definition inner_map_io_error ::
    "(string list \<Rightarrow> string \<Rightarrow> bool) \<Rightarrow> std_error \<Rightarrow> error_kind \<Rightarrow> py_err" where
  "inner_map_io_error is_match e kind =
     (case inner_py_err e of
        Some py \<Rightarrow> py
      | None \<Rightarrow>
        let causes = error_causes_iter e in
        if is_timeout_error is_match e then
          (if is_body_error e then
             (case kind of
                Send \<Rightarrow> from_causes WriteTimeoutError ''request body timeout'' causes
              | Read \<Rightarrow> from_causes ReadTimeoutError ''response body timeout'' causes)
           else from_causes ConnectTimeoutError ''connection timeout'' causes)
        else if is_connect_error is_match e then
          (if is_body_error e then
             (case kind of
                Send \<Rightarrow> from_causes WriteError ''request body connection error'' causes
              | Read \<Rightarrow> from_causes ReadError ''response body connection error'' causes)
           else from_causes ConnectError ''connection error'' causes)
        else if is_decode_error e then
          (if is_body_error e then from_causes BodyDecodeError ''error decoding body'' causes
           else from_causes DecodeError ''error decoding response'' causes)
        else if has_flag is_redirect e then
          from_causes RedirectError ''error following redirect'' causes
        else if has_flag is_builder e then from_causes BuilderError ''builder error'' causes
        else from_err RequestError ''error sending request'' e)"

definition map_send_error :: "(string list \<Rightarrow> string \<Rightarrow> bool) \<Rightarrow> std_error \<Rightarrow> py_err" where
  "map_send_error is_match e = inner_map_io_error is_match e Send"

definition map_read_error :: "(string list \<Rightarrow> string \<Rightarrow> bool) \<Rightarrow> std_error \<Rightarrow> py_err" where
  "map_read_error is_match e = inner_map_io_error is_match e Read"

subsection \<open>Lemmas\<close>

lemma error_causes_iter_Cons: "\<exists>es. error_causes_iter e = e # es"
  by (cases e rule: error_causes_iter.cases) auto

lemma error_causes_iter_not_Nil [simp]: "error_causes_iter e \<noteq> []"
  using error_causes_iter_Cons [of e] by auto

lemma inner_py_err_in_None_iff:
  "inner_py_err_in es = None \<longleftrightarrow> (\<forall>c \<in> set es. \<forall>p. downcast c \<noteq> AsPyErr p)"
  by (induction es) (auto split: err_downcast.splits)

lemma inner_py_err_in_append:
  "inner_py_err_in (xs @ ys) =
     (case inner_py_err_in xs of Some p \<Rightarrow> Some p | None \<Rightarrow> inner_py_err_in ys)"
  by (induction xs) (auto split: err_downcast.splits)

lemma details_from_causes_iter:
  "details_from_causes (error_causes_iter e) = Causes (Some (map (\<lambda>c. CauseMessage (display c)) (error_causes_iter e)))"
  by (simp add: details_from_causes_def Let_def)

lemmas classifier_defs =
  inner_map_io_error_def is_timeout_error_def is_connect_error_def Let_def from_causes_def
  from_err_def details_from_err_def details_from_causes_iter

end
