(* ===== verification/Body_Reader.thy ===== *)
theory Body_Reader
  imports Exceptions
begin

section \<open>The response body reader\<close>

text \<open>
  Models \<open>BodyReader\<close> of \<open>src/response/internal/body_reader.rs\<close>: the chunks that are
  buffered, the receiver of further chunks, and \<open>read_next\<close>, \<open>next_chunk\<close>, \<open>bytes\<close>,
  \<open>read\<close>, \<open>close\<close>. The receiver is an interface here (the locale \<open>body_source\<close>):
  \<open>recv\<close> returns the next group of chunks, the end of the channel, or the error that
  ended it. Theory \<open>Body_Channel\<close> provides it.

  A \<open>CancelHandle\<close> is \<open>None\<close> when the call is never cancelled, \<open>Some n\<close> when the
  cancellation wins the race (\<open>tokio::select!\<close>) at the await point number \<open>n\<close>. The
  loops are \<open>partial_function\<close>s: a call that never returns is \<open>None\<close>.
\<close>

subsection \<open>State\<close>

type_synonym cancel_handle = "nat option"
type_synonym runtime_handle = nat

definition DEFAULT_READ_BUFFER_LIMIT :: nat where
  "DEFAULT_READ_BUFFER_LIMIT = 65536"

record streamed_read_config =
  read_buffer_limit :: nat

definition default_streamed_read_config :: streamed_read_config where
  "default_streamed_read_config = \<lparr>read_buffer_limit = DEFAULT_READ_BUFFER_LIMIT\<rparr>"

datatype body_consume_config = FullyConsumed | Streamed streamed_read_config | NoBody

record 'r body_reader =
  body_receiver :: "'r option"
  pending_chunks :: "bytes list"
  fully_consumed_body :: "bytes option"
  content_length :: "nat option"
  read_bytes :: nat
  br_runtime :: runtime_handle

type_synonym 'r recv_fun = "'r \<Rightarrow> bytes list option pyres \<times> 'r"

subsection \<open>Operations\<close>

definition cancel_wins :: "cancel_handle \<Rightarrow> bool" where
  "cancel_wins c = (c = Some 0)"

definition cancel_next :: "cancel_handle \<Rightarrow> cancel_handle" where
  "cancel_next c = map_option (\<lambda>n. n - 1) c"

definition read_next ::
    "'r recv_fun \<Rightarrow> cancel_handle \<Rightarrow> 'r body_reader \<Rightarrow>
     bytes option pyres \<times> cancel_handle \<times> 'r body_reader" where
  "read_next recv c br =
     (case pending_chunks br of
        chunk # rest \<Rightarrow> (Inr (Some chunk), c, br\<lparr>pending_chunks := rest\<rparr>)
      | [] \<Rightarrow>
        (case body_receiver br of
           None \<Rightarrow> (Inr None, c, br)
         | Some body_rx \<Rightarrow>
           if cancel_wins c then (Inl (cancelled_error ''Read was cancelled''), c, br)
           else
             (case recv body_rx of
                (Inl e, body_rx') \<Rightarrow> (Inl e, cancel_next c, br\<lparr>body_receiver := Some body_rx'\<rparr>)
              | (Inr None, body_rx') \<Rightarrow>
                  (Inr None, cancel_next c, br\<lparr>body_receiver := Some body_rx'\<rparr>)
              | (Inr (Some chunks_buffer), body_rx') \<Rightarrow>
                  (case chunks_buffer of
                     [] \<Rightarrow> (Inr None, cancel_next c, br\<lparr>body_receiver := Some body_rx'\<rparr>)
                   | first_chunk # buffer_iter \<Rightarrow>
                       (Inr (Some first_chunk), cancel_next c,
                        br\<lparr>body_receiver := Some body_rx',
                           pending_chunks := pending_chunks br @ buffer_iter\<rparr>)))))"

definition next_chunk ::
    "'r recv_fun \<Rightarrow> cancel_handle \<Rightarrow> 'r body_reader \<Rightarrow> bytes option pyres \<times> 'r body_reader" where
  "next_chunk recv c br =
     (case read_next recv c br of
        (Inl e, _, br') \<Rightarrow> (Inl e, br')
      | (Inr (Some chunk), _, br') \<Rightarrow>
          (Inr (Some chunk), br'\<lparr>read_bytes := read_bytes br' + length chunk\<rparr>)
      | (Inr None, _, br') \<Rightarrow> (Inr None, br'))"

text \<open>
  \<open>bytes\<close>: a capacity above \<open>isize::MAX\<close> makes the vector behind \<open>BytesMut\<close> panic; it is
  taken from the header, before anything is read.
\<close>

partial_function (option) bytes_loop ::
    "'r recv_fun \<Rightarrow> cancel_handle \<Rightarrow> 'r body_reader \<Rightarrow> bytes \<Rightarrow> (bytes pyres \<times> 'r body_reader) option" where
  "bytes_loop recv c br bs =
     (case read_next recv c br of
        (r, c', br') \<Rightarrow>
          (case r of
             Inl e \<Rightarrow> Some (Inl e, br')
           | Inr m \<Rightarrow>
             (case m of
                None \<Rightarrow> Some (Inr bs, br')
              | Some chunk \<Rightarrow> bytes_loop recv c' br' (bs @ chunk))))"

definition read_all ::
    "'r recv_fun \<Rightarrow> cancel_handle \<Rightarrow> 'r body_reader \<Rightarrow> (bytes pyres \<times> 'r body_reader) option" where
  "read_all recv c br =
     (case fully_consumed_body br of
        Some body \<Rightarrow> Some (Inr body, br)
      | None \<Rightarrow>
        if read_bytes br > 0 then Some (Inl (runtime_error ''Response body already consumed''), br)
        else if (case content_length br of Some len \<Rightarrow> len > isize_max | None \<Rightarrow> False) then
          Some (Inl (panic ''capacity overflow''), br)
        else
          (case bytes_loop recv c br [] of
             None \<Rightarrow> None
           | Some (Inl e, br') \<Rightarrow> Some (Inl e, br')
           | Some (Inr bs, br') \<Rightarrow>
               Some (Inr bs, br'\<lparr>read_bytes := length bs, fully_consumed_body := Some bs\<rparr>)))"

partial_function (option) read_loop ::
    "'r recv_fun \<Rightarrow> cancel_handle \<Rightarrow> nat \<Rightarrow> 'r body_reader \<Rightarrow> bytes \<Rightarrow>
     (bytes pyres \<times> 'r body_reader) option" where
  "read_loop recv c remaining br collected =
     (if remaining > 0 then
        (case read_next recv c br of
           (r, c', br') \<Rightarrow>
             (case r of
                Inl e \<Rightarrow> Some (Inl e, br')
              | Inr m \<Rightarrow>
                (case m of
                   None \<Rightarrow> Some (Inr collected, br')
                 | Some chunk \<Rightarrow>
                     read_loop recv c' (remaining - min (length chunk) remaining)
                       (if length chunk > remaining
                        then br'\<lparr>pending_chunks := drop remaining chunk # pending_chunks br'\<rparr> else br')
                       (collected @ take remaining chunk))))
      else Some (Inr collected, br))"

text \<open>
  \<open>split_off\<close> keeps the first \<open>amount\<close> bytes and gives the rest back to the front of the
  queue. The capacity that is reserved has no other effect; \<open>read_capacity\<close> is its value.
\<close>

definition read_capacity :: "'r body_reader \<Rightarrow> nat \<Rightarrow> nat" where
  "read_capacity br amount =
     (case map_option (\<lambda>content_len. content_len - read_bytes br) (content_length br) of
        Some remaining \<Rightarrow> min remaining amount
      | None \<Rightarrow> amount)"

definition read ::
    "'r recv_fun \<Rightarrow> cancel_handle \<Rightarrow> nat \<Rightarrow> 'r body_reader \<Rightarrow>
     (bytes option pyres \<times> 'r body_reader) option" where
  "read recv c amount br =
     (if amount = 0 then Some (Inr (Some []), br)
      else
        (case read_next recv c br of
           (Inl e, _, br') \<Rightarrow> Some (Inl e, br')
         | (Inr None, _, br') \<Rightarrow> Some (Inr None, br')
         | (Inr (Some first_chunk), c', br') \<Rightarrow>
             if length first_chunk \<ge> amount then
               (let br'' = (if length first_chunk > amount
                            then br'\<lparr>pending_chunks := drop amount first_chunk # pending_chunks br'\<rparr>
                            else br');
                    first = take amount first_chunk
                in Some (Inr (Some first), br''\<lparr>read_bytes := read_bytes br'' + length first\<rparr>))
             else if read_capacity br' amount > isize_max then
               Some (Inl (panic ''capacity overflow''), br')
             else
               (case read_loop recv c' (amount - length first_chunk) br' first_chunk of
                  None \<Rightarrow> None
                | Some (Inl e, br'') \<Rightarrow> Some (Inl e, br'')
                | Some (Inr collected, br'') \<Rightarrow>
                    Some (Inr (Some collected),
                          br''\<lparr>read_bytes := read_bytes br'' + length collected\<rparr>))))"

definition close_reader :: "('r \<Rightarrow> 'r) \<Rightarrow> 'r body_reader \<Rightarrow> 'r body_reader" where
  "close_reader rx_close br = br\<lparr>body_receiver := map_option rx_close (body_receiver br)\<rparr>"

subsection \<open>What is left to read\<close>

text \<open>
  \<open>msgs\<close> is what a receiver will deliver, in order. The data a reader has not handed out
  yet is its pending chunks and then the chunks of those messages.
\<close>

definition rx_msgs ::
    "('r \<Rightarrow> (bytes list pyres) list) \<Rightarrow> 'r body_reader \<Rightarrow> (bytes list pyres) list" where
  "rx_msgs msgs br = (case body_receiver br of None \<Rightarrow> [] | Some rx \<Rightarrow> msgs rx)"

definition unread_chunks :: "('r \<Rightarrow> (bytes list pyres) list) \<Rightarrow> 'r body_reader \<Rightarrow> bytes list" where
  "unread_chunks msgs br = pending_chunks br @ concat (map projr (rx_msgs msgs br))"

abbreviation unread :: "('r \<Rightarrow> (bytes list pyres) list) \<Rightarrow> 'r body_reader \<Rightarrow> bytes" where
  "unread msgs br \<equiv> concat (unread_chunks msgs br)"

definition same_counters :: "'r body_reader \<Rightarrow> 'r body_reader \<Rightarrow> bool" where
  "same_counters br br' \<longleftrightarrow>
     fully_consumed_body br' = fully_consumed_body br \<and> content_length br' = content_length br \<and>
     read_bytes br' = read_bytes br \<and> br_runtime br' = br_runtime br"

definition ok_msgs :: "(bytes list pyres) list \<Rightarrow> bool" where
  "ok_msgs ms \<longleftrightarrow> (\<forall>m \<in> set ms. \<exists>buf. m = Inr buf)"

lemma ok_msgs_simps [simp]:
  "ok_msgs []" "ok_msgs (Inr b # ms) = ok_msgs ms" "\<not> ok_msgs (Inl e # ms)"
  "ok_msgs (xs @ ys) \<longleftrightarrow> ok_msgs xs \<and> ok_msgs ys"
  by (auto simp: ok_msgs_def)

lemma ok_msgs_map_Inr [simp]: "ok_msgs (map Inr bufs)"
  by (simp add: ok_msgs_def)

lemma ok_msgs_dropI [intro]: "ok_msgs ms \<Longrightarrow> ok_msgs (drop n ms)"
  by (auto simp: ok_msgs_def dest: in_set_dropD)

lemma same_counters_refl [simp]: "same_counters br br"
  by (simp add: same_counters_def)

lemma same_counters_trans [trans]:
  "same_counters a b \<Longrightarrow> same_counters b c \<Longrightarrow> same_counters a c"
  by (simp add: same_counters_def)

lemma same_counters_stream [simp]:
  "same_counters br (br\<lparr>pending_chunks := p\<rparr>) = True"
  "same_counters br (br\<lparr>body_receiver := r\<rparr>) = True"
  "same_counters br (br\<lparr>body_receiver := r, pending_chunks := p\<rparr>) = True"
  by (simp_all add: same_counters_def)

lemma same_countersD:
  assumes "same_counters br br'"
  shows "read_bytes br' = read_bytes br" "fully_consumed_body br' = fully_consumed_body br"
    "content_length br' = content_length br" "br_runtime br' = br_runtime br"
  using assms by (simp_all add: same_counters_def)

lemma cancel_never [simp]: "\<not> cancel_wins None" "cancel_next None = None"
  by (simp_all add: cancel_wins_def cancel_next_def)

lemma cancel_Some [simp]:
  "cancel_wins (Some n) \<longleftrightarrow> n = 0" "cancel_next (Some (Suc n)) = Some n"
  by (simp_all add: cancel_wins_def cancel_next_def)

subsection \<open>The interface to the receiver and the reader's laws over it\<close>

locale body_source =
  fixes recv :: "'r recv_fun"
    and msgs :: "'r \<Rightarrow> (bytes list pyres) list"
    and invar :: "'r \<Rightarrow> bool"
  assumes recv_end: "invar rx \<Longrightarrow> msgs rx = [] \<Longrightarrow> fst (recv rx) = Inr None \<and> msgs (snd (recv rx)) = []"
    and recv_err: "invar rx \<Longrightarrow> msgs rx = Inl e # ms \<Longrightarrow> fst (recv rx) = Inl e \<and> msgs (snd (recv rx)) = ms"
    and recv_ok: "invar rx \<Longrightarrow> msgs rx = Inr buf # ms \<Longrightarrow>
      fst (recv rx) = Inr (Some buf) \<and> msgs (snd (recv rx)) = ms"
    and recv_nonempty: "invar rx \<Longrightarrow> Inr buf \<in> set (msgs rx) \<Longrightarrow> buf \<noteq> []"
    and recv_invar: "invar rx \<Longrightarrow> invar (snd (recv rx))"
begin

definition wf :: "'r body_reader \<Rightarrow> bool" where
  "wf br \<longleftrightarrow> (\<forall>rx. body_receiver br = Some rx \<longrightarrow> invar rx)"

definition same_rest :: "'r body_reader \<Rightarrow> 'r body_reader \<Rightarrow> bool" where
  "same_rest br br' \<longleftrightarrow> wf br' \<and> same_counters br br' \<and>
     (body_receiver br' = None \<longleftrightarrow> body_receiver br = None)"

lemma same_rest_trans: "same_rest a b \<Longrightarrow> same_rest b c \<Longrightarrow> same_rest a c"
  by (auto simp: same_rest_def intro: same_counters_trans)

lemma same_rest_push:
  "same_rest br br' \<Longrightarrow> same_rest br (br'\<lparr>pending_chunks := p\<rparr>)"
  by (auto simp: same_rest_def wf_def same_counters_def)

lemma wf_push [simp]: "wf (br\<lparr>pending_chunks := p\<rparr>) = wf br"
  by (simp add: wf_def)

lemma rx_msgs_push [simp]: "rx_msgs msgs (br\<lparr>pending_chunks := p\<rparr>) = rx_msgs msgs br"
  by (simp add: rx_msgs_def)

lemma read_next_pending:
  "pending_chunks br = ch # cs \<Longrightarrow> read_next recv c br = (Inr (Some ch), c, br\<lparr>pending_chunks := cs\<rparr>)"
  by (simp add: read_next_def)

lemma read_next_end:
  assumes "wf br" and "pending_chunks br = []" and "rx_msgs msgs br = []" and "\<not> cancel_wins c"
  shows "\<exists>c' br'. read_next recv c br = (Inr None, c', br') \<and> same_rest br br' \<and>
    pending_chunks br' = [] \<and> rx_msgs msgs br' = []"
proof (cases "body_receiver br")
  case None
  with assms show ?thesis by (simp add: read_next_def same_rest_def)
next
  case (Some rx)
  with assms recv_end [of rx] recv_invar [of rx]
  have "fst (recv rx) = Inr None" and "msgs (snd (recv rx)) = []" and "invar (snd (recv rx))"
    by (auto simp: wf_def rx_msgs_def)
  with Some assms show ?thesis
    by (cases "recv rx") (simp add: read_next_def same_rest_def wf_def rx_msgs_def)
qed

lemma read_next_err:
  assumes "wf br" and "pending_chunks br = []" and "rx_msgs msgs br = Inl e # ms"
    and "\<not> cancel_wins c"
  shows "\<exists>br'. read_next recv c br = (Inl e, cancel_next c, br') \<and> same_rest br br' \<and>
    pending_chunks br' = [] \<and> rx_msgs msgs br' = ms"
proof -
  from assms(3) obtain rx where rx: "body_receiver br = Some rx" and m: "msgs rx = Inl e # ms"
    by (auto simp: rx_msgs_def split: option.splits)
  with assms recv_err [of rx e ms] recv_invar [of rx]
  have "fst (recv rx) = Inl e" and "msgs (snd (recv rx)) = ms" and "invar (snd (recv rx))"
    by (auto simp: wf_def)
  with rx assms show ?thesis
    by (cases "recv rx") (simp add: read_next_def same_rest_def wf_def rx_msgs_def)
qed

lemma read_next_ok:
  assumes "wf br" and "pending_chunks br = []" and "rx_msgs msgs br = Inr buf # ms"
    and "\<not> cancel_wins c"
  shows "\<exists>ch cs br'. buf = ch # cs \<and> read_next recv c br = (Inr (Some ch), cancel_next c, br') \<and>
    same_rest br br' \<and> pending_chunks br' = cs \<and> rx_msgs msgs br' = ms"
proof -
  from assms(3) obtain rx where rx: "body_receiver br = Some rx" and m: "msgs rx = Inr buf # ms"
    by (auto simp: rx_msgs_def split: option.splits)
  with assms(1) have iv: "invar rx" by (simp add: wf_def)
  from recv_nonempty [OF iv, of buf] m obtain ch cs where buf: "buf = ch # cs"
    by (cases buf) auto
  from iv m buf recv_ok [of rx buf ms] recv_invar [of rx]
  have "fst (recv rx) = Inr (Some (ch # cs))" and "msgs (snd (recv rx)) = ms"
    and "invar (snd (recv rx))" by auto
  with rx buf assms(2,4) show ?thesis
    by (cases "recv rx") (simp add: read_next_def same_rest_def wf_def rx_msgs_def)
qed

text \<open>Without cancellation or error, \<open>read_next\<close> takes the first unread chunk.\<close>

lemma read_next_unread_Nil:
  assumes "wf br" and "ok_msgs (rx_msgs msgs br)" and "unread_chunks msgs br = []"
  shows "\<exists>br'. read_next recv None br = (Inr None, None, br') \<and> same_rest br br' \<and>
    unread_chunks msgs br' = [] \<and> ok_msgs (rx_msgs msgs br')"
proof -
  from assms(3) have p: "pending_chunks br = []" and m: "concat (map projr (rx_msgs msgs br)) = []"
    by (auto simp: unread_chunks_def)
  show ?thesis
  proof (cases "rx_msgs msgs br")
    case Nil
    have "\<exists>c' br'. read_next recv None br = (Inr None, c', br') \<and> same_rest br br' \<and>
      pending_chunks br' = [] \<and> rx_msgs msgs br' = []"
      by (rule read_next_end [OF assms(1) p Nil]) simp
    then obtain c' br' where r: "read_next recv None br = (Inr None, c', br')" "same_rest br br'"
      "pending_chunks br' = []" "rx_msgs msgs br' = []" by blast
    from r(1) have "c' = None"
      using p by (auto simp: read_next_def split: option.splits list.splits sum.splits prod.splits if_splits)
    with r show ?thesis by (simp add: unread_chunks_def)
  next
    case (Cons x ms)
    with assms(2) obtain buf where x: "x = Inr buf" by (auto simp: ok_msgs_def)
    from read_next_ok [OF assms(1) p Cons [unfolded x], of None] obtain ch cs where "buf = ch # cs"
      by auto
    with m Cons x show ?thesis by simp
  qed
qed

lemma read_next_unread_Cons:
  assumes "wf br" and "ok_msgs (rx_msgs msgs br)" and "unread_chunks msgs br = ch # cs"
  shows "\<exists>br'. read_next recv None br = (Inr (Some ch), None, br') \<and> same_rest br br' \<and>
    unread_chunks msgs br' = cs \<and> ok_msgs (rx_msgs msgs br')"
proof (cases "pending_chunks br")
  case (Cons p ps)
  with assms show ?thesis
    by (auto simp: read_next_pending unread_chunks_def same_rest_def)
next
  case Nil
  show ?thesis
  proof (cases "rx_msgs msgs br")
    case Nil
    with \<open>pending_chunks br = []\<close> assms(3) show ?thesis by (simp add: unread_chunks_def)
  next
    case (Cons x ms)
    with assms(2) obtain buf where x: "x = Inr buf" by (auto simp: ok_msgs_def)
    from read_next_ok [OF assms(1) Nil Cons [unfolded x], of None] obtain c' cs' br' where
      "buf = c' # cs'" "read_next recv None br = (Inr (Some c'), None, br')" "same_rest br br'"
      "pending_chunks br' = cs'" "rx_msgs msgs br' = ms" by auto
    with assms Nil Cons x show ?thesis by (auto simp: unread_chunks_def)
  qed
qed

end

subsection \<open>The loops\<close>

lemma unread_chunks_push [simp]:
  "unread_chunks msgs (br\<lparr>pending_chunks := x # pending_chunks br\<rparr>) = x # unread_chunks msgs br"
  by (simp add: unread_chunks_def rx_msgs_def)

lemma stream_of_counters [simp]:
  "rx_msgs msgs (br\<lparr>read_bytes := n\<rparr>) = rx_msgs msgs br"
  "rx_msgs msgs (br\<lparr>read_bytes := n, fully_consumed_body := b\<rparr>) = rx_msgs msgs br"
  "unread_chunks msgs (br\<lparr>read_bytes := n\<rparr>) = unread_chunks msgs br"
  "unread_chunks msgs (br\<lparr>read_bytes := n, fully_consumed_body := b\<rparr>) = unread_chunks msgs br"
  by (simp_all add: rx_msgs_def unread_chunks_def)

context body_source begin

lemma wf_counters [simp]:
  "wf (br\<lparr>read_bytes := n\<rparr>) = wf br"
  "wf (br\<lparr>read_bytes := n, fully_consumed_body := b\<rparr>) = wf br"
  by (simp_all add: wf_def)

lemma bytes_loop_ok:
  assumes "wf br" and "ok_msgs (rx_msgs msgs br)"
  shows "\<exists>br'. bytes_loop recv None br bs = Some (Inr (bs @ unread msgs br), br') \<and>
    same_rest br br' \<and> unread_chunks msgs br' = [] \<and> ok_msgs (rx_msgs msgs br')"
  using assms
proof (induction "unread_chunks msgs br" arbitrary: br bs)
  case Nil
  from read_next_unread_Nil [OF Nil.prems Nil.hyps [symmetric]]
  show ?case using Nil.hyps by (auto simp: bytes_loop.simps)
next
  case (Cons ch cs)
  from read_next_unread_Cons [OF Cons.prems Cons.hyps(2) [symmetric]] obtain br1 where
    r: "read_next recv None br = (Inr (Some ch), None, br1)" and s: "same_rest br br1"
    and u: "unread_chunks msgs br1 = cs" and ok: "ok_msgs (rx_msgs msgs br1)" by blast
  from s have "wf br1" by (simp add: same_rest_def)
  from Cons.hyps(1) [OF u [symmetric] this ok, of "bs @ ch"] u r s Cons.hyps(2) [symmetric]
  show ?case by (auto simp: bytes_loop.simps [of recv None br] intro: same_rest_trans)
qed

lemma read_loop_ok:
  assumes "wf br" and "ok_msgs (rx_msgs msgs br)"
  shows "\<exists>br'. read_loop recv None n br acc = Some (Inr (acc @ take n (unread msgs br)), br') \<and>
    same_rest br br' \<and> unread msgs br' = drop n (unread msgs br) \<and> ok_msgs (rx_msgs msgs br')"
  using assms
proof (induction "unread_chunks msgs br" arbitrary: br acc n)
  case Nil
  show ?case
  proof (cases "n = 0")
    case True
    with Nil.hyps Nil.prems show ?thesis by (simp add: read_loop.simps same_rest_def)
  next
    case False
    with read_next_unread_Nil [OF Nil.prems Nil.hyps [symmetric]] Nil.hyps show ?thesis
      by (auto simp: read_loop.simps)
  qed
next
  case (Cons ch cs)
  from read_next_unread_Cons [OF Cons.prems Cons.hyps(2) [symmetric]] obtain br1 where
    r: "read_next recv None br = (Inr (Some ch), None, br1)" and s: "same_rest br br1"
    and u: "unread_chunks msgs br1 = cs" and ok: "ok_msgs (rx_msgs msgs br1)" by blast
  from s have wf1: "wf br1" by (simp add: same_rest_def)
  note unr = Cons.hyps(2) [symmetric]
  consider "n = 0" | "0 < n" "length ch \<le> n" | "0 < n" "n < length ch" by linarith
  then show ?case
  proof cases
    case 1
    with Cons.prems show ?thesis by (simp add: read_loop.simps same_rest_def)
  next
    case 2
    from Cons.hyps(1) [OF u [symmetric] wf1 ok, of "n - length ch" "acc @ ch"] 2 r s unr u
    show ?thesis by (auto simp: read_loop.simps [of recv None n br acc] intro: same_rest_trans)
  next
    case 3
    let ?br2 = "br1\<lparr>pending_chunks := drop n ch # pending_chunks br1\<rparr>"
    have "read_loop recv None n br acc = Some (Inr (acc @ take n ch), ?br2)"
      using 3 r by (simp add: read_loop.simps)
    moreover have "same_rest br ?br2" using s by (rule same_rest_push)
    ultimately show ?thesis using 3 unr u ok by auto
  qed
qed

lemma read_all_ok:
  assumes "wf br" and "ok_msgs (rx_msgs msgs br)" and "fully_consumed_body br = None"
    and "read_bytes br = 0" and "\<forall>len. content_length br = Some len \<longrightarrow> len \<le> isize_max"
  shows "\<exists>br'. read_all recv None br = Some (Inr (unread msgs br), br') \<and> wf br' \<and>
    unread_chunks msgs br' = [] \<and> ok_msgs (rx_msgs msgs br') \<and>
    read_bytes br' = length (unread msgs br) \<and> fully_consumed_body br' = Some (unread msgs br)"
proof -
  from bytes_loop_ok [OF assms(1,2), of "[]"] obtain br1 where
    l: "bytes_loop recv None br [] = Some (Inr (unread msgs br), br1)" and s: "same_rest br br1"
    and u: "unread_chunks msgs br1 = []" and ok: "ok_msgs (rx_msgs msgs br1)" by auto
  let ?br' = "br1\<lparr>read_bytes := length (unread msgs br), fully_consumed_body := Some (unread msgs br)\<rparr>"
  have "read_all recv None br = Some (Inr (unread msgs br), ?br')"
    using assms(3-5) l by (auto simp: read_all_def split: option.splits)
  with s u ok show ?thesis by (auto simp: same_rest_def)
qed

lemma next_chunk_ok:
  assumes "wf br" and "ok_msgs (rx_msgs msgs br)"
  shows "\<exists>br' out. next_chunk recv None br = (Inr out, br') \<and> wf br' \<and> ok_msgs (rx_msgs msgs br') \<and>
    out = (case unread_chunks msgs br of [] \<Rightarrow> None | ch # _ \<Rightarrow> Some ch) \<and>
    unread_chunks msgs br' = tl (unread_chunks msgs br) \<and>
    read_bytes br' = read_bytes br + length (case out of None \<Rightarrow> [] | Some ch \<Rightarrow> ch) \<and>
    fully_consumed_body br' = fully_consumed_body br \<and> content_length br' = content_length br"
proof (cases "unread_chunks msgs br")
  case Nil
  from read_next_unread_Nil [OF assms Nil] Nil show ?thesis
    by (auto simp: next_chunk_def same_rest_def same_counters_def)
next
  case (Cons ch cs)
  from read_next_unread_Cons [OF assms Cons] obtain br1 where
    "read_next recv None br = (Inr (Some ch), None, br1)" "same_rest br br1"
    "unread_chunks msgs br1 = cs" "ok_msgs (rx_msgs msgs br1)" by blast
  then show ?thesis using Cons
    by (auto simp: next_chunk_def same_rest_def same_counters_def)
qed

text \<open>
  \<open>read\<close> with a positive amount: the next \<open>amount\<close> bytes, fewer only at the end of the
  body, and \<open>None\<close> only when no chunk is left.
\<close>

lemma read_ok:
  assumes "wf br" and "ok_msgs (rx_msgs msgs br)" and "amount > 0" and "amount \<le> isize_max"
  shows "\<exists>br'. read recv None amount br =
      Some (Inr (if unread_chunks msgs br = [] then None else Some (take amount (unread msgs br))), br') \<and>
    wf br' \<and> ok_msgs (rx_msgs msgs br') \<and> unread msgs br' = drop amount (unread msgs br) \<and>
    read_bytes br' = read_bytes br + length (take amount (unread msgs br)) \<and>
    fully_consumed_body br' = fully_consumed_body br \<and> content_length br' = content_length br"
proof (cases "unread_chunks msgs br")
  case Nil
  from read_next_unread_Nil [OF assms(1,2) Nil] Nil assms(3) show ?thesis
    by (auto simp: read_def same_rest_def same_counters_def)
next
  case (Cons ch cs)
  from read_next_unread_Cons [OF assms(1,2) Cons] obtain br1 where
    r: "read_next recv None br = (Inr (Some ch), None, br1)" and s: "same_rest br br1"
    and u: "unread_chunks msgs br1 = cs" and ok: "ok_msgs (rx_msgs msgs br1)" by blast
  from s have wf1: "wf br1" by (simp add: same_rest_def)
  consider "length ch > amount" | "length ch = amount" | "length ch < amount" by linarith
  then show ?thesis
  proof cases
    case 1
    with r s u ok Cons assms(3) show ?thesis
      by (auto simp: read_def Let_def same_rest_def same_counters_def)
  next
    case 2
    with r s u ok Cons assms(3) show ?thesis
      by (auto simp: read_def Let_def same_rest_def same_counters_def)
  next
    case 3
    have cap: "read_capacity br1 amount \<le> isize_max"
      using assms(4) by (auto simp: read_capacity_def split: option.splits)
    from read_loop_ok [OF wf1 ok, of "amount - length ch" ch] obtain br2 where
      l: "read_loop recv None (amount - length ch) br1 ch =
        Some (Inr (ch @ take (amount - length ch) (unread msgs br1)), br2)" and s2: "same_rest br1 br2"
      and u2: "unread msgs br2 = drop (amount - length ch) (unread msgs br1)"
      and ok2: "ok_msgs (rx_msgs msgs br2)" by blast
    let ?out = "ch @ take (amount - length ch) (unread msgs br1)"
    have out: "?out = take amount (unread msgs br)" using 3 Cons u by simp
    have "read recv None amount br =
      Some (Inr (Some ?out), br2\<lparr>read_bytes := read_bytes br2 + length ?out\<rparr>)"
      using assms(3) r 3 cap l by (simp add: read_def)
    with s s2 u u2 ok2 3 Cons show ?thesis unfolding out
      by (auto simp: same_rest_def same_counters_def)
  qed
qed

end

subsection \<open>Errors and cancellation\<close>

lemma bytes_loop_drain:
  "bytes_loop recv c br bs =
     bytes_loop recv c (br\<lparr>pending_chunks := []\<rparr>) (bs @ concat (pending_chunks br))"
proof (induction "pending_chunks br" arbitrary: br bs)
  case Nil
  have eq: "br\<lparr>pending_chunks := []\<rparr> = br" using Nil by (cases br) simp
  show ?case unfolding eq using Nil [symmetric] by simp
next
  case (Cons ch cs)
  have "bytes_loop recv c br bs = bytes_loop recv c (br\<lparr>pending_chunks := cs\<rparr>) (bs @ ch)"
    using Cons.hyps(2) [symmetric] by (simp add: bytes_loop.simps [of recv c br] read_next_def)
  also have "\<dots> = bytes_loop recv c (br\<lparr>pending_chunks := []\<rparr>) (bs @ concat (pending_chunks br))"
    using Cons.hyps(1) [of "br\<lparr>pending_chunks := cs\<rparr>" "bs @ ch"] Cons.hyps(2) [symmetric] by simp
  finally show ?case .
qed

lemma read_next_cancelled:
  "pending_chunks br = [] \<Longrightarrow> body_receiver br \<noteq> None \<Longrightarrow>
   read_next recv (Some 0) br = (Inl (cancelled_error ''Read was cancelled''), Some 0, br)"
  by (auto simp: read_next_def)

context body_source begin

lemma bytes_loop_msg:
  assumes "wf br" and "pending_chunks br = []" and "rx_msgs msgs br = Inr buf # ms"
    and "\<not> cancel_wins c"
  shows "\<exists>br1. bytes_loop recv c br bs = bytes_loop recv (cancel_next c) br1 (bs @ concat buf) \<and>
    same_rest br br1 \<and> pending_chunks br1 = [] \<and> rx_msgs msgs br1 = ms"
proof -
  from read_next_ok [OF assms] obtain ch cs br1 where buf: "buf = ch # cs"
    and r: "read_next recv c br = (Inr (Some ch), cancel_next c, br1)" and s: "same_rest br br1"
    and p: "pending_chunks br1 = cs" and m: "rx_msgs msgs br1 = ms" by blast
  have "bytes_loop recv c br bs = bytes_loop recv (cancel_next c) br1 (bs @ ch)"
    using r by (simp add: bytes_loop.simps [of recv c br])
  also have "\<dots> = bytes_loop recv (cancel_next c) (br1\<lparr>pending_chunks := []\<rparr>) (bs @ concat buf)"
    using bytes_loop_drain [of recv "cancel_next c" br1 "bs @ ch"] p buf by simp
  finally show ?thesis using same_rest_push [OF s, of "[]"] m by fastforce
qed

lemma bytes_loop_err:
  assumes "wf br" and "rx_msgs msgs br = map Inr bufs @ Inl e # ms"
  shows "\<exists>br'. bytes_loop recv None br bs = Some (Inl e, br') \<and> same_rest br br' \<and>
    pending_chunks br' = [] \<and> rx_msgs msgs br' = ms"
proof -
  have "\<exists>br'. bytes_loop recv None br bs = Some (Inl e, br') \<and> same_rest br br' \<and>
      pending_chunks br' = [] \<and> rx_msgs msgs br' = ms"
    if "wf br" "rx_msgs msgs br = map Inr bufs @ Inl e # ms" "pending_chunks br = []" for br bs
    using that
  proof (induction bufs arbitrary: br bs)
    case Nil
    from read_next_err [OF Nil.prems(1,3), of e ms None] Nil.prems(2) show ?case
      by (auto simp: bytes_loop.simps)
  next
    case (Cons buf bufs)
    from bytes_loop_msg [OF Cons.prems(1,3), of buf _ None bs] Cons.prems(2) obtain br1 where
      "bytes_loop recv None br bs = bytes_loop recv None br1 (bs @ concat buf)"
      "same_rest br br1" "pending_chunks br1 = []" "rx_msgs msgs br1 = map Inr bufs @ Inl e # ms"
      by auto
    with Cons.IH [of br1 "bs @ concat buf"] show ?case
      by (auto simp: same_rest_def intro: same_counters_trans)
  qed
  from this [of "br\<lparr>pending_chunks := []\<rparr>" "bs @ concat (pending_chunks br)"] assms
    bytes_loop_drain [of recv None br bs]
  show ?thesis by (auto simp: same_rest_def same_counters_def)
qed

lemma bytes_loop_cancelled:
  assumes "wf br" and "ok_msgs (rx_msgs msgs br)" and "body_receiver br \<noteq> None"
    and "n \<le> length (rx_msgs msgs br)"
  shows "\<exists>br'. bytes_loop recv (Some n) br bs =
      Some (Inl (cancelled_error ''Read was cancelled''), br') \<and> same_rest br br' \<and>
    pending_chunks br' = [] \<and> rx_msgs msgs br' = drop n (rx_msgs msgs br)"
proof -
  have "\<exists>br'. bytes_loop recv (Some n) br bs =
      Some (Inl (cancelled_error ''Read was cancelled''), br') \<and> same_rest br br' \<and>
      pending_chunks br' = [] \<and> rx_msgs msgs br' = drop n (rx_msgs msgs br)"
    if "wf br" "ok_msgs (rx_msgs msgs br)" "body_receiver br \<noteq> None"
      "n \<le> length (rx_msgs msgs br)" "pending_chunks br = []" for br bs
    using that
  proof (induction n arbitrary: br bs)
    case 0
    then show ?case by (simp add: bytes_loop.simps read_next_cancelled same_rest_def)
  next
    case (Suc n)
    from Suc.prems(2,4) obtain buf ms where m: "rx_msgs msgs br = Inr buf # ms"
      by (cases "rx_msgs msgs br") (auto simp: ok_msgs_def)
    from bytes_loop_msg [OF Suc.prems(1,5) m, of "Some (Suc n)" bs] obtain br1 where
      "bytes_loop recv (Some (Suc n)) br bs = bytes_loop recv (Some n) br1 (bs @ concat buf)"
      "same_rest br br1" "pending_chunks br1 = []" "rx_msgs msgs br1 = ms" by auto
    with Suc.IH [of br1 "bs @ concat buf"] Suc.prems m show ?case
      by (auto simp: same_rest_def same_counters_def)
  qed
  from this [of "br\<lparr>pending_chunks := []\<rparr>" "bs @ concat (pending_chunks br)"] assms
    bytes_loop_drain [of recv "Some n" br bs]
  show ?thesis by (auto simp: same_rest_def same_counters_def)
qed

end

end
