(* ===== verification/Header_Api.thy ===== *)
theory Header_Api
  imports Exceptions "HOL-Library.Multiset"
begin

section \<open>The interface to the \<open>http\<close> crate's header map\<close>

text \<open>
  The \<open>http\<close> crate is not part of the repository. What the code calls of it is a record
  of operations, \<open>'m http_ops\<close>, that every definition over header maps takes as an
  argument; \<open>'m\<close> is the type of \<open>http::HeaderMap\<close>. The locale \<open>http_headers\<close> states the
  documented behaviour of those operations over \<open>get_all\<close>. Iteration order is not
  documented and nothing here depends on it, beyond the order of the values of one key.
  Operations that can exceed the crate's maximum size return the message of the error; what
  the map then holds is not documented and no law speaks of it.

  \<open>HeaderName\<close> and \<open>HeaderValue\<close> are the newtypes of \<open>src/internal/types.rs\<close>: a name is
  its (lower case) string, a value its bytes and the sensitive mark.
\<close>

subsection \<open>Names and values\<close>

datatype header_name = HeaderName (name_str: string)

datatype header_value = HeaderValue (hv_bytes: bytes) (hv_sensitive: bool)

text \<open>\<open>Ord\<close> for names is that of the string, for values that of the bytes, whatever is sensitive.\<close>

datatype rust_ordering = Less | Equal | Greater

definition ord_cmp :: "'a :: linorder \<Rightarrow> 'a \<Rightarrow> rust_ordering" where
  "ord_cmp a b = (if a < b then Less else if a = b then Equal else Greater)"

definition header_name_cmp :: "header_name \<Rightarrow> header_name \<Rightarrow> rust_ordering" where
  "header_name_cmp a b = ord_cmp (name_str a) (name_str b)"

definition header_name_partial_cmp :: "header_name \<Rightarrow> header_name \<Rightarrow> rust_ordering option" where
  "header_name_partial_cmp a b = Some (header_name_cmp a b)"

definition header_value_cmp :: "header_value \<Rightarrow> header_value \<Rightarrow> rust_ordering" where
  "header_value_cmp a b = ord_cmp (hv_bytes a) (hv_bytes b)"

definition header_value_partial_cmp :: "header_value \<Rightarrow> header_value \<Rightarrow> rust_ordering option" where
  "header_value_partial_cmp a b = Some (header_value_cmp a b)"

lemma ord_cmp_iff:
  "ord_cmp a b = Less \<longleftrightarrow> a < b" "ord_cmp a b = Equal \<longleftrightarrow> a = b" "ord_cmp a b = Greater \<longleftrightarrow> b < a"
  by (auto simp: ord_cmp_def)

text \<open>Names are ordered by what \<open>cmp\<close> answers; values are not, since \<open>cmp\<close> takes no notice of the mark.\<close>

instantiation header_name :: linorder
begin

definition less_eq_header_name :: "header_name \<Rightarrow> header_name \<Rightarrow> bool" where
  "less_eq_header_name a b \<longleftrightarrow> header_name_cmp a b \<noteq> Greater"

definition less_header_name :: "header_name \<Rightarrow> header_name \<Rightarrow> bool" where
  "less_header_name a b \<longleftrightarrow> header_name_cmp a b = Less"

instance
  by standard
    (auto simp: less_eq_header_name_def less_header_name_def header_name_cmp_def ord_cmp_iff header_name.expand)

end

lemma header_value_cmp_equal: "header_value_cmp a b = Equal \<longleftrightarrow> hv_bytes a = hv_bytes b"
  by (simp add: header_value_cmp_def ord_cmp_iff)

definition set_sensitive :: "bool \<Rightarrow> header_value \<Rightarrow> header_value" where
  "set_sensitive b v = HeaderValue (hv_bytes v) b"

lemma set_sensitive_simps [simp]:
  "hv_bytes (set_sensitive b v) = hv_bytes v" "hv_sensitive (set_sensitive b v) = b"
  by (simp_all add: set_sensitive_def)

subsection \<open>The operations\<close>

record 'm http_ops =
  parse_name :: "string \<Rightarrow> string + header_name"
  parse_value :: "string \<Rightarrow> string + header_value"
  value_to_str :: "header_value \<Rightarrow> string + string"
  hm_new :: 'm
  hm_get :: "'m \<Rightarrow> header_name \<Rightarrow> header_value option"
  hm_get_all :: "'m \<Rightarrow> header_name \<Rightarrow> header_value list"
  hm_contains :: "'m \<Rightarrow> header_name \<Rightarrow> bool"
  hm_iter :: "'m \<Rightarrow> (header_name \<times> header_value) list"
  hm_keys :: "'m \<Rightarrow> header_name list"
  hm_values :: "'m \<Rightarrow> header_value list"
  hm_len :: "'m \<Rightarrow> nat"
  hm_keys_len :: "'m \<Rightarrow> nat"
  hm_is_empty :: "'m \<Rightarrow> bool"
  hm_clear :: "'m \<Rightarrow> 'm"
  hm_try_insert :: "'m \<Rightarrow> header_name \<Rightarrow> header_value \<Rightarrow> (string + header_value option) \<times> 'm"
  hm_try_append :: "'m \<Rightarrow> header_name \<Rightarrow> header_value \<Rightarrow> (string + bool) \<times> 'm"
  hm_try_entry :: "'m \<Rightarrow> header_name \<Rightarrow> (string + bool) \<times> 'm"
  hm_remove_entry_mult :: "'m \<Rightarrow> header_name \<Rightarrow> header_value list \<times> 'm"
  hm_insert_mult :: "'m \<Rightarrow> header_name \<Rightarrow> header_value \<Rightarrow> header_value list \<times> 'm"
  hm_vacant_insert :: "'m \<Rightarrow> header_name \<Rightarrow> header_value \<Rightarrow> (string + unit) \<times> 'm"
  hm_extend :: "'m \<Rightarrow> 'm \<Rightarrow> 'm"
  hm_eq :: "'m \<Rightarrow> 'm \<Rightarrow> bool"

text \<open>
  \<open>hm_try_entry\<close> is \<open>try_entry\<close>: \<open>True\<close> for \<open>Entry::Occupied\<close>, \<open>False\<close> for
  \<open>Entry::Vacant\<close>; the three operations after it are those of the entries. Lookups by a
  \<open>&str\<close> parse it as a name; a string that is no name matches nothing.
\<close>

definition name_of :: "'m http_ops \<Rightarrow> string \<Rightarrow> header_name option" where
  "name_of H s = (case parse_name H s of Inl _ \<Rightarrow> None | Inr k \<Rightarrow> Some k)"

definition hm_get_str :: "'m http_ops \<Rightarrow> 'm \<Rightarrow> string \<Rightarrow> header_value option" where
  "hm_get_str H m s = (case name_of H s of None \<Rightarrow> None | Some k \<Rightarrow> hm_get H m k)"

definition hm_get_all_str :: "'m http_ops \<Rightarrow> 'm \<Rightarrow> string \<Rightarrow> header_value list" where
  "hm_get_all_str H m s = (case name_of H s of None \<Rightarrow> [] | Some k \<Rightarrow> hm_get_all H m k)"

definition hm_contains_str :: "'m http_ops \<Rightarrow> 'm \<Rightarrow> string \<Rightarrow> bool" where
  "hm_contains_str H m s = (case name_of H s of None \<Rightarrow> False | Some k \<Rightarrow> hm_contains H m k)"

subsection \<open>The documented laws\<close>

locale http_headers =
  fixes H :: "'m http_ops"
  assumes get_all_new: "hm_get_all H (hm_new H) k = []"
    and get_law: "hm_get H m k = (case hm_get_all H m k of [] \<Rightarrow> None | v # _ \<Rightarrow> Some v)"
    and contains_law: "hm_contains H m k \<longleftrightarrow> hm_get_all H m k \<noteq> []"
    and parse_idem: "parse_name H s = Inr k \<Longrightarrow> parse_name H (name_str k) = Inr k"
    and keys_distinct: "distinct (hm_keys H m)"
    and keys_set: "k \<in> set (hm_keys H m) \<longleftrightarrow> hm_get_all H m k \<noteq> []"
    and iter_key: "map snd (filter (\<lambda>p. fst p = k) (hm_iter H m)) = hm_get_all H m k"
    and values_iter: "mset (hm_values H m) = mset (map snd (hm_iter H m))"
    and len_law: "hm_len H m = length (hm_iter H m)"
    and keys_len_law: "hm_keys_len H m = length (hm_keys H m)"
    and is_empty_law: "hm_is_empty H m \<longleftrightarrow> hm_iter H m = []"
    and clear_law: "hm_get_all H (hm_clear H m) k = []"
    and insert_law: "hm_try_insert H m k v = (Inr old, m') \<Longrightarrow>
      hm_get_all H m' = (hm_get_all H m)(k := [v])"
    and append_law: "hm_try_append H m k v = (Inr b, m') \<Longrightarrow>
      hm_get_all H m' = (hm_get_all H m)(k := hm_get_all H m k @ [v]) \<and> b = (hm_get_all H m k \<noteq> [])"
    and entry_law: "hm_try_entry H m k = (Inr occ, m') \<Longrightarrow>
      hm_get_all H m' = hm_get_all H m \<and> occ = (hm_get_all H m k \<noteq> [])"
    and remove_law: "hm_get_all H m k \<noteq> [] \<Longrightarrow> hm_remove_entry_mult H m k = (vs, m') \<Longrightarrow>
      vs = hm_get_all H m k \<and> hm_get_all H m' = (hm_get_all H m)(k := [])"
    and insert_mult_law: "hm_get_all H m k \<noteq> [] \<Longrightarrow> hm_insert_mult H m k v = (vs, m') \<Longrightarrow>
      vs = hm_get_all H m k \<and> hm_get_all H m' = (hm_get_all H m)(k := [v])"
    and vacant_law: "hm_get_all H m k = [] \<Longrightarrow> hm_vacant_insert H m k v = (Inr u, m') \<Longrightarrow>
      hm_get_all H m' = (hm_get_all H m)(k := [v])"
    and extend_law: "hm_get_all H (hm_extend H m m2) k =
      (if hm_get_all H m2 k \<noteq> [] then hm_get_all H m2 k else hm_get_all H m k)"
    and eq_law: "hm_eq H m m2 \<longleftrightarrow> (\<forall>k. map hv_bytes (hm_get_all H m k) = map hv_bytes (hm_get_all H m2 k))"
begin

lemma iter_mem: "(k, v) \<in> set (hm_iter H m) \<longleftrightarrow> v \<in> set (hm_get_all H m k)"
  by (force simp flip: iter_key)

lemma iter_mset:
  "mset (hm_iter H m) = mset (concat (map (\<lambda>k. map (Pair k) (hm_get_all H m k)) (hm_keys H m)))"
proof -
  have split: "mset xs = mset (concat (map (\<lambda>k. filter (\<lambda>p. fst p = k) xs) ks))"
    if "distinct ks" "fst ` set xs \<subseteq> set ks" for xs :: "(header_name \<times> header_value) list" and ks
    using that
  proof (induction ks arbitrary: xs)
    case (Cons k ks)
    let ?ys = "filter (\<lambda>p. fst p \<noteq> k) xs"
    have "mset xs = mset (filter (\<lambda>p. fst p = k) xs) + mset ?ys"
      by (simp add: mset_filter multiset_partition)
    also have "mset ?ys = mset (concat (map (\<lambda>k'. filter (\<lambda>p. fst p = k') ?ys) ks))"
      using Cons.prems by (intro Cons.IH) auto
    also have "map (\<lambda>k'. filter (\<lambda>p. fst p = k') ?ys) ks = map (\<lambda>k'. filter (\<lambda>p. fst p = k') xs) ks"
      using Cons.prems(1) by (auto intro!: filter_cong)
    finally show ?case by simp
  qed simp
  have "filter (\<lambda>p. fst p = k) (hm_iter H m) = map (Pair k) (hm_get_all H m k)" for k
  proof -
    have "filter (\<lambda>p. fst p = k) xs = map (Pair k) (map snd (filter (\<lambda>p. fst p = k) xs))"
      for xs :: "(header_name \<times> header_value) list"
      by (induction xs) auto
    from this [of "hm_iter H m"] show ?thesis by (simp only: iter_key)
  qed
  moreover have "fst ` set (hm_iter H m) \<subseteq> set (hm_keys H m)"
    by (auto simp: keys_set iter_mem)
  ultimately show ?thesis using split [OF keys_distinct [of m], of "hm_iter H m"] by simp
qed

lemma len_sum: "hm_len H m = sum_list (map (\<lambda>k. length (hm_get_all H m k)) (hm_keys H m))"
proof -
  have "hm_len H m = size (mset (hm_iter H m))" by (simp add: len_law)
  also have "\<dots> = length (concat (map (\<lambda>k. map (Pair k) (hm_get_all H m k)) (hm_keys H m)))"
    by (simp add: iter_mset)
  finally show ?thesis by (simp add: length_concat comp_def)
qed

lemma empty_iff: "hm_iter H m = [] \<longleftrightarrow> (\<forall>k. hm_get_all H m k = [])"
proof
  assume "hm_iter H m = []"
  then show "\<forall>k. hm_get_all H m k = []" by (simp flip: iter_key)
next
  assume none: "\<forall>k. hm_get_all H m k = []"
  show "hm_iter H m = []"
  proof (cases "hm_iter H m")
    case (Cons p ps)
    with iter_mem [of "fst p" "snd p" m] none show ?thesis by simp
  qed
qed

lemma get_str_eq:
  "hm_get_str H m s = (case hm_get_all_str H m s of [] \<Rightarrow> None | v # _ \<Rightarrow> Some v)"
  by (simp add: hm_get_str_def hm_get_all_str_def get_law split: option.splits)

end

end
