(* ===== verification/Body_Channel.thy ===== *)
theory Body_Channel
  imports Body_Reader Header_Api
begin

section \<open>The background reader of a response body\<close>

text \<open>
  Models \<open>Receiver\<close> and \<open>Reader\<close> of \<open>src/response/internal/body_reader.rs\<close>: a spawned
  task polls the frames of the body, groups the chunks and sends the groups over a channel of
  capacity two; the receiver takes them out, can cancel the task through a token and can be
  dropped. The task and the receiver run concurrently: \<open>step\<close> is the transition
  relation, with one event per await point, and the lemmas quantify over every schedule. The
  body is the list of what \<open>body.frame()\<close> yields before it ends. \<open>recv\<close> is one
  schedule as a function: it runs the task until a message is there, and provides the
  interface \<open>body_source\<close> the body reader is verified over.
\<close>

subsection \<open>The reader: grouping chunks\<close>

datatype frame = DataFrame bytes | TrailersFrame

type_synonym frames = "(std_error + frame) list"
type_synonym patterns = "string list \<Rightarrow> string \<Rightarrow> bool"

record reader =
  buffer :: "bytes list option"
  tot_bytes :: nat
  buffer_size :: nat

datatype chunk_outcome = Finalized | Buffered | SendBuffer "bytes list"

text \<open>\<open>send_chunk\<close> up to its await point: \<open>SendBuffer\<close> is the group handed to \<open>tx.send\<close>.\<close>

definition send_chunk :: "bytes \<Rightarrow> reader \<Rightarrow> chunk_outcome \<times> reader" where
  "send_chunk chunk r =
     (case buffer r of
        None \<Rightarrow> (Finalized, r)
      | Some buf \<Rightarrow>
        let tot = tot_bytes r + length chunk;
            buf' = buf @ [chunk]
        in if tot < buffer_size r then (Buffered, r\<lparr>tot_bytes := tot, buffer := Some buf'\<rparr>)
           else (SendBuffer buf', r\<lparr>tot_bytes := 0, buffer := Some []\<rparr>))"

definition finalize :: "reader \<Rightarrow> bytes list option \<times> reader" where
  "finalize r =
     (case buffer r of
        None \<Rightarrow> (None, r)
      | Some buf \<Rightarrow> (if buf \<noteq> [] then Some buf else None, r\<lparr>buffer := None\<rparr>))"

subsection \<open>The task and the channel\<close>

text \<open>
  \<open>Polling\<close> awaits \<open>body.frame()\<close>; \<open>Sending m go\<close> awaits \<open>tx.send(m)\<close>, and the loop goes
  on afterwards if \<open>go\<close>; \<open>Leaving\<close> is past the \<open>select!\<close>, which has dropped the sender;
  \<open>Exited\<close> is past \<open>drop(request_permit.take())\<close>.
\<close>

datatype task = Polling | Sending "bytes list pyres" bool | Leaving | Exited

record chan =
  task :: task
  body :: frames
  rdr :: reader
  queue :: "bytes list pyres list"
  rx_dropped :: bool
  close_token :: bool
  permit :: bool

definition CHANNEL_SIZE :: nat where
  "CHANNEL_SIZE = 2"

definition start :: "frames \<Rightarrow> bool \<Rightarrow> nat \<Rightarrow> chan" where
  "start fs request_permit buf_size =
     \<lparr>task = Polling, body = fs, rdr = \<lparr>buffer = Some [], tot_bytes = 0, buffer_size = buf_size\<rparr>,
      queue = [], rx_dropped = False, close_token = False, permit = request_permit\<rparr>"

definition on_frame :: "patterns \<Rightarrow> frames \<Rightarrow> reader \<Rightarrow> task \<times> frames \<times> reader" where
  "on_frame is_match fs r =
     (case fs of
        [] \<Rightarrow> (case finalize r of
                (Some buf, r') \<Rightarrow> (Sending (Inr buf) False, [], r')
              | (None, r') \<Rightarrow> (Leaving, [], r'))
      | Inl e # fs' \<Rightarrow> (Sending (Inl (map_read_error is_match e)) False, fs', r)
      | Inr TrailersFrame # fs' \<Rightarrow> (Polling, fs', r)
      | Inr (DataFrame chunk) # fs' \<Rightarrow>
          if chunk = [] then (Polling, fs', r)
          else (case send_chunk chunk r of
                  (Finalized, r') \<Rightarrow> (Leaving, fs', r')
                | (Buffered, r') \<Rightarrow> (Polling, fs', r')
                | (SendBuffer buf, r') \<Rightarrow> (Sending (Inr buf) True, fs', r')))"

definition after_poll :: "patterns \<Rightarrow> chan \<Rightarrow> chan" where
  "after_poll is_match s =
     (case on_frame is_match (body s) (rdr s) of
        (t, fs, r) \<Rightarrow> s\<lparr>task := t, body := fs, rdr := r\<rparr>)"

definition after_send :: "bytes list pyres \<Rightarrow> bool \<Rightarrow> chan \<Rightarrow> chan" where
  "after_send m go s = s\<lparr>task := (if go then Polling else Leaving), queue := queue s @ [m]\<rparr>"

datatype event =
    Poll | SendOk | SendFailed | Cancelled | Release
  | Recv "bytes list pyres option" | Close | DropRx

definition task_event :: "event \<Rightarrow> bool" where
  "task_event ev \<longleftrightarrow> ev \<in> {Poll, SendOk, SendFailed, Cancelled, Release}"

lemma task_event_simps [simp]:
  "task_event Poll" "task_event SendOk" "task_event SendFailed" "task_event Cancelled"
  "task_event Release" "\<not> task_event (Recv m)" "\<not> task_event Close" "\<not> task_event DropRx"
  by (simp_all add: task_event_def)

fun tx_dropped :: "task \<Rightarrow> bool" where
  "tx_dropped Leaving = True"
| "tx_dropped Exited = True"
| "tx_dropped _ = False"

inductive step :: "patterns \<Rightarrow> event \<Rightarrow> chan \<Rightarrow> chan \<Rightarrow> bool" for is_match where
  poll: "task s = Polling \<Longrightarrow> step is_match Poll s (after_poll is_match s)"
| send_ok: "task s = Sending m go \<Longrightarrow> length (queue s) < CHANNEL_SIZE \<Longrightarrow> \<not> rx_dropped s \<Longrightarrow>
    step is_match SendOk s (after_send m go s)"
| send_failed: "task s = Sending m go \<Longrightarrow> rx_dropped s \<Longrightarrow> step is_match SendFailed s (s\<lparr>task := Leaving\<rparr>)"
| cancelled: "\<not> tx_dropped (task s) \<Longrightarrow> close_token s \<Longrightarrow> step is_match Cancelled s (s\<lparr>task := Leaving\<rparr>)"
| release: "task s = Leaving \<Longrightarrow> step is_match Release s (s\<lparr>task := Exited, permit := False\<rparr>)"
| rx_recv: "\<not> rx_dropped s \<Longrightarrow> queue s = m # q \<Longrightarrow> step is_match (Recv (Some m)) s (s\<lparr>queue := q\<rparr>)"
| rx_end: "\<not> rx_dropped s \<Longrightarrow> queue s = [] \<Longrightarrow> tx_dropped (task s) \<Longrightarrow> step is_match (Recv None) s s"
| rx_close: "\<not> rx_dropped s \<Longrightarrow> step is_match Close s (s\<lparr>close_token := True\<rparr>)"
| rx_drop: "\<not> rx_dropped s \<Longrightarrow> step is_match DropRx s (s\<lparr>rx_dropped := True, queue := []\<rparr>)"

inductive_cases step_elim: "step is_match ev s s'"
inductive_simps step_Recv: "step is_match (Recv m) s s'"

text \<open>The same transitions as a function: an event has at most one outcome.\<close>

fun event_step :: "patterns \<Rightarrow> event \<Rightarrow> chan \<Rightarrow> chan option" where
  "event_step is_match Poll s = (if task s = Polling then Some (after_poll is_match s) else None)"
| "event_step is_match SendOk s =
     (case task s of
        Sending m go \<Rightarrow> if length (queue s) < CHANNEL_SIZE \<and> \<not> rx_dropped s then Some (after_send m go s) else None
      | _ \<Rightarrow> None)"
| "event_step is_match SendFailed s =
     (case task s of Sending m go \<Rightarrow> if rx_dropped s then Some (s\<lparr>task := Leaving\<rparr>) else None | _ \<Rightarrow> None)"
| "event_step is_match Cancelled s =
     (if \<not> tx_dropped (task s) \<and> close_token s then Some (s\<lparr>task := Leaving\<rparr>) else None)"
| "event_step is_match Release s =
     (if task s = Leaving then Some (s\<lparr>task := Exited, permit := False\<rparr>) else None)"
| "event_step is_match (Recv None) s =
     (if \<not> rx_dropped s \<and> queue s = [] \<and> tx_dropped (task s) then Some s else None)"
| "event_step is_match (Recv (Some m)) s =
     (case queue s of
        [] \<Rightarrow> None
      | m' # q \<Rightarrow> if m' = m \<and> \<not> rx_dropped s then Some (s\<lparr>queue := q\<rparr>) else None)"
| "event_step is_match Close s = (if \<not> rx_dropped s then Some (s\<lparr>close_token := True\<rparr>) else None)"
| "event_step is_match DropRx s = (if \<not> rx_dropped s then Some (s\<lparr>rx_dropped := True, queue := []\<rparr>) else None)"

lemma step_event_step: "step is_match ev s s' \<longleftrightarrow> event_step is_match ev s = Some s'"
proof
  show "step is_match ev s s' \<Longrightarrow> event_step is_match ev s = Some s'"
    by (erule step_elim) simp_all
next
  show "event_step is_match ev s = Some s' \<Longrightarrow> step is_match ev s s'"
    by (cases "(is_match, ev, s)" rule: event_step.cases)
      (auto split: if_splits task.splits list.splits intro: step.intros)
qed

inductive run :: "patterns \<Rightarrow> event list \<Rightarrow> chan \<Rightarrow> chan \<Rightarrow> bool" for is_match where
  run_Nil: "run is_match [] s s"
| run_Cons: "step is_match ev s s' \<Longrightarrow> run is_match evs s' s'' \<Longrightarrow> run is_match (ev # evs) s s''"

inductive_simps run_Nil_iff [simp]: "run is_match [] s s'"
inductive_simps run_Cons_iff: "run is_match (ev # evs) s s'"

lemma run_append:
  "run is_match (evs @ evs') s s'' \<longleftrightarrow> (\<exists>s'. run is_match evs s s' \<and> run is_match evs' s' s'')"
  by (induction evs arbitrary: s) (auto simp: run_Cons_iff)

text \<open>An invariant of the steps is one of the runs.\<close>

lemma run_invariant:
  assumes "run is_match evs s s'" and "I s" and "\<And>ev s s'. step is_match ev s s' \<Longrightarrow> I s \<Longrightarrow> I s'"
  shows "I s'"
  using assms by (induction rule: run.induct) auto

subsection \<open>The messages a body is cut into\<close>

fun reader_msgs :: "patterns \<Rightarrow> reader \<Rightarrow> frames \<Rightarrow> bytes list pyres list" where
  "reader_msgs is_match r [] = (case fst (finalize r) of Some buf \<Rightarrow> [Inr buf] | None \<Rightarrow> [])"
| "reader_msgs is_match r (Inl e # fs) = [Inl (map_read_error is_match e)]"
| "reader_msgs is_match r (Inr TrailersFrame # fs) = reader_msgs is_match r fs"
| "reader_msgs is_match r (Inr (DataFrame chunk) # fs) =
     (if chunk = [] then reader_msgs is_match r fs
      else (case send_chunk chunk r of
              (Finalized, r') \<Rightarrow> []
            | (Buffered, r') \<Rightarrow> reader_msgs is_match r' fs
            | (SendBuffer buf, r') \<Rightarrow> Inr buf # reader_msgs is_match r' fs))"

text \<open>What the task will still send, and with the queue, what the receiver can still get.\<close>

definition pending_msgs :: "patterns \<Rightarrow> chan \<Rightarrow> bytes list pyres list" where
  "pending_msgs is_match s =
     (case task s of
        Polling \<Rightarrow> reader_msgs is_match (rdr s) (body s)
      | Sending m go \<Rightarrow> m # (if go then reader_msgs is_match (rdr s) (body s) else [])
      | Leaving \<Rightarrow> []
      | Exited \<Rightarrow> [])"

definition chan_msgs :: "patterns \<Rightarrow> chan \<Rightarrow> bytes list pyres list" where
  "chan_msgs is_match s = queue s @ pending_msgs is_match s"

definition received :: "event list \<Rightarrow> bytes list pyres list" where
  "received evs = List.map_filter (\<lambda>ev. case ev of Recv m \<Rightarrow> m | _ \<Rightarrow> None) evs"

lemma received_simps [simp]:
  "received [] = []"
  "received (Recv (Some m) # evs) = m # received evs"
  "received (Recv None # evs) = received evs"
  "received (Poll # evs) = received evs" "received (SendOk # evs) = received evs"
  "received (SendFailed # evs) = received evs" "received (Cancelled # evs) = received evs"
  "received (Release # evs) = received evs" "received (Close # evs) = received evs"
  "received (DropRx # evs) = received evs"
  by (simp_all add: received_def map_filter_simps)

lemma chan_msgs_poll [simp]:
  "task s = Polling \<Longrightarrow> chan_msgs is_match (after_poll is_match s) = chan_msgs is_match s"
  by (cases "(is_match, rdr s, body s)" rule: reader_msgs.cases)
    (auto simp: chan_msgs_def pending_msgs_def after_poll_def on_frame_def
      split: prod.splits option.splits chunk_outcome.splits)

lemma chan_msgs_send [simp]:
  "task s = Sending m go \<Longrightarrow> chan_msgs is_match (after_send m go s) = chan_msgs is_match s"
  by (simp add: chan_msgs_def pending_msgs_def after_send_def)

lemma pending_msgs_update [simp]:
  "pending_msgs is_match (s\<lparr>queue := q\<rparr>) = pending_msgs is_match s"
  "pending_msgs is_match (s\<lparr>close_token := b\<rparr>) = pending_msgs is_match s"
  "pending_msgs is_match (s\<lparr>rx_dropped := b, queue := q\<rparr>) = pending_msgs is_match s"
  "pending_msgs is_match (s\<lparr>task := Leaving\<rparr>) = []"
  "pending_msgs is_match (s\<lparr>task := Exited, permit := b\<rparr>) = []"
  by (simp_all add: pending_msgs_def split: task.split)

lemma pending_msgs_Leaving [simp]: "task s = Leaving \<Longrightarrow> pending_msgs is_match s = []"
  by (simp add: pending_msgs_def)

lemma pending_msgs_tx_dropped: "tx_dropped (task s) \<Longrightarrow> pending_msgs is_match s = []"
  by (cases "task s") (simp_all add: pending_msgs_def)

text \<open>
  A step of a channel whose receiver is alive hands out the first message, or keeps them
  all, or (a cancellation) keeps those in the queue.
\<close>

lemma step_msgs:
  assumes "step is_match ev s s'" and "\<not> rx_dropped s'"
  shows "\<exists>cut. chan_msgs is_match s = received [ev] @ chan_msgs is_match s' @ cut \<and>
    (ev \<noteq> Cancelled \<longrightarrow> cut = [])"
  using assms
proof cases
  case (poll)
  then show ?thesis by simp
next
  case (send_ok m go)
  then show ?thesis by simp
qed (auto simp: chan_msgs_def)

lemma step_rx_alive: "step is_match ev s s' \<Longrightarrow> \<not> rx_dropped s' \<Longrightarrow> \<not> rx_dropped s"
  by (erule step_elim) (auto simp: after_poll_def after_send_def split: prod.splits)

lemma received_Cons: "received (ev # evs) = received [ev] @ received evs"
  by (simp add: received_def List.map_filter_def)

lemma run_rx_alive: "run is_match evs s s' \<Longrightarrow> \<not> rx_dropped s' \<Longrightarrow> \<not> rx_dropped s"
  by (induction rule: run.induct) (auto dest: step_rx_alive)

lemma run_msgs:
  assumes "run is_match evs s s'" and "\<not> rx_dropped s'"
  shows "\<exists>cut. chan_msgs is_match s = received evs @ chan_msgs is_match s' @ cut \<and>
    (Cancelled \<notin> set evs \<longrightarrow> cut = [])"
  using assms
proof (induction rule: run.induct)
  case (run_Cons ev s s1 evs s2)
  from run_Cons.IH [OF run_Cons.prems] obtain cut where
    c: "chan_msgs is_match s1 = received evs @ chan_msgs is_match s2 @ cut"
    "Cancelled \<notin> set evs \<longrightarrow> cut = []" by blast
  from step_msgs [OF run_Cons.hyps(1)] run_rx_alive [OF run_Cons.hyps(2) run_Cons.prems]
  obtain cut' where "chan_msgs is_match s = received [ev] @ chan_msgs is_match s1 @ cut'"
    "ev \<noteq> Cancelled \<longrightarrow> cut' = []" by blast
  with c show ?case by (auto simp: received_Cons [of ev evs])
qed simp

text \<open>Messages that were received stay a prefix when the receiver is dropped later.\<close>

lemma run_received_prefix:
  assumes "run is_match evs s s'" and "\<not> rx_dropped s"
  shows "\<exists>rest. chan_msgs is_match s = received evs @ rest"
  using assms
proof (induction rule: run.induct)
  case (run_Cons ev s s1 evs s2)
  show ?case
  proof (cases "rx_dropped s1")
    case True
    have "received evs' = []" if "run is_match evs' t t'" "rx_dropped t" for evs' t t'
      using that
    proof (induction rule: run.induct)
      case (run_Cons ev t t1 evs t2)
      from run_Cons.hyps(1) run_Cons.prems have "received [ev] = [] \<and> rx_dropped t1"
        by cases (auto simp: after_poll_def split: prod.splits)
      with run_Cons.IH show ?case by (simp add: received_Cons [of ev evs])
    qed simp
    with run_Cons.hyps(2) True have "received evs = []" by blast
    moreover from run_Cons.hyps(1) run_Cons.prems True have "received [ev] = []"
      by cases (auto simp: after_poll_def after_send_def split: prod.splits)
    ultimately show ?thesis by (simp add: received_Cons [of ev evs])
  next
    case False
    from run_Cons.IH [OF False] obtain rest where "chan_msgs is_match s1 = received evs @ rest" ..
    moreover from step_msgs [OF run_Cons.hyps(1) False] obtain cut where
      "chan_msgs is_match s = received [ev] @ chan_msgs is_match s1 @ cut" by blast
    ultimately show ?thesis by (auto simp: received_Cons [of ev evs])
  qed
qed simp

subsection \<open>The data is neither lost, reordered nor duplicated\<close>

definition frame_bytes :: "std_error + frame \<Rightarrow> bytes" where
  "frame_bytes f = (case f of Inr (DataFrame b) \<Rightarrow> b | _ \<Rightarrow> [])"

definition body_bytes :: "frames \<Rightarrow> bytes" where
  "body_bytes fs = concat (map frame_bytes fs)"

definition no_errors :: "frames \<Rightarrow> bool" where
  "no_errors fs \<longleftrightarrow> list_all (\<lambda>f. \<not> isl f) fs"

lemma body_bytes_simps [simp]:
  "body_bytes [] = []" "body_bytes (Inr TrailersFrame # fs) = body_bytes fs"
  "body_bytes (Inr (DataFrame b) # fs) = b @ body_bytes fs"
  "body_bytes (Inl e # fs) = body_bytes fs"
  by (simp_all add: body_bytes_def frame_bytes_def)

lemma no_errors_simps [simp]:
  "no_errors []" "no_errors (Inr f # fs) = no_errors fs" "\<not> no_errors (Inl e # fs)"
  by (simp_all add: no_errors_def)

definition msgs_bytes :: "bytes list pyres list \<Rightarrow> bytes" where
  "msgs_bytes ms = concat (concat (map projr ms))"

lemma msgs_bytes_simps [simp]:
  "msgs_bytes [] = []" "msgs_bytes (Inr b # ms) = concat b @ msgs_bytes ms"
  "msgs_bytes (xs @ ys) = msgs_bytes xs @ msgs_bytes ys"
  by (simp_all add: msgs_bytes_def)

definition open_reader :: "reader \<Rightarrow> bytes list \<Rightarrow> bool" where
  "open_reader r buf \<longleftrightarrow> buffer r = Some buf \<and> tot_bytes r = length (concat buf) \<and>
     (buf \<noteq> [] \<longrightarrow> tot_bytes r < buffer_size r) \<and> [] \<notin> set buf"

lemma open_reader_start [simp]:
  "open_reader \<lparr>buffer = Some [], tot_bytes = 0, buffer_size = n\<rparr> []"
  by (simp add: open_reader_def)

text \<open>One chunk: it joins the buffer, or the buffer with it is sent and starts anew.\<close>

lemma send_chunk_open:
  assumes "open_reader r buf" and "chunk \<noteq> []"
  shows "(\<exists>r'. send_chunk chunk r = (Buffered, r') \<and> open_reader r' (buf @ [chunk]) \<and>
      buffer_size r' = buffer_size r) \<or>
    (\<exists>r'. send_chunk chunk r = (SendBuffer (buf @ [chunk]), r') \<and> open_reader r' [] \<and>
      buffer_size r' = buffer_size r)"
  using assms by (auto simp: send_chunk_def open_reader_def Let_def)

lemma finalize_open:
  "open_reader r buf \<Longrightarrow> fst (finalize r) = (if buf \<noteq> [] then Some buf else None)"
  by (simp add: finalize_def open_reader_def)

lemma reader_msgs_ok:
  assumes "open_reader r buf" and "no_errors fs"
  shows "ok_msgs (reader_msgs is_match r fs) \<and>
    msgs_bytes (reader_msgs is_match r fs) = concat buf @ body_bytes fs"
  using assms
proof (induction is_match r fs arbitrary: buf rule: reader_msgs.induct)
  case (1 is_match r)
  then show ?case by (simp add: finalize_open)
next
  case (4 is_match r chunk fs)
  show ?case
  proof (cases "chunk = []")
    case True
    with 4 show ?thesis by simp
  next
    case False
    with send_chunk_open [OF "4.prems"(1) False] "4.IH" "4.prems"(2) show ?thesis by fastforce
  qed
qed auto

lemma reader_msgs_nonempty:
  assumes "open_reader r buf" and "Inr b \<in> set (reader_msgs is_match r fs)"
  shows "b \<noteq> []"
  using assms
proof (induction is_match r fs arbitrary: buf rule: reader_msgs.induct)
  case (1 is_match r)
  then show ?case by (auto simp: finalize_open split: if_splits)
next
  case (4 is_match r chunk fs)
  show ?case
  proof (cases "chunk = []")
    case True
    with 4 show ?thesis by simp
  next
    case False
    with send_chunk_open [OF "4.prems"(1) False] "4.IH" "4.prems" show ?thesis by fastforce
  qed
qed auto

text \<open>
  An error ends the messages. The chunks that were still being grouped when it came are
  not sent: the receiver gets fewer than \<open>buffer_size\<close> bytes less than what had arrived.
\<close>

lemma reader_msgs_error:
  assumes "open_reader r buf" and "no_errors fs"
  shows "\<exists>ms lost. reader_msgs is_match r (fs @ Inl e # fs') = ms @ [Inl (map_read_error is_match e)] \<and>
    ok_msgs ms \<and> msgs_bytes ms @ lost = concat buf @ body_bytes fs \<and>
    (lost = [] \<or> length lost < buffer_size r)"
  using assms
proof (induction is_match r fs arbitrary: buf rule: reader_msgs.induct)
  case (1 is_match r)
  then show ?case by (cases "buf = []") (auto simp: open_reader_def)
next
  case (4 is_match r chunk fs)
  show ?case
  proof (cases "chunk = []")
    case True
    with 4 show ?thesis by simp
  next
    case False
    from send_chunk_open [OF "4.prems"(1) False] show ?thesis
    proof (elim disjE exE conjE)
      fix r' assume s: "send_chunk chunk r = (Buffered, r')" "open_reader r' (buf @ [chunk])"
        "buffer_size r' = buffer_size r"
      from "4.IH"(2) [OF False s(1) [symmetric] refl s(2)] "4.prems"(2) False s show ?thesis by simp
    next
      fix r' assume s: "send_chunk chunk r = (SendBuffer (buf @ [chunk]), r')" "open_reader r' []"
        "buffer_size r' = buffer_size r"
      from "4.IH"(3) [OF False s(1) [symmetric] refl s(2)] "4.prems"(2) obtain ms lost where
        "reader_msgs is_match r' (fs @ Inl e # fs') = ms @ [Inl (map_read_error is_match e)]"
        "ok_msgs ms" "msgs_bytes ms @ lost = body_bytes fs" "lost = [] \<or> length lost < buffer_size r"
        using s by auto
      with False s show ?thesis
        by (intro exI [of _ "Inr (buf @ [chunk]) # ms"] exI [of _ lost]) auto
    qed
  qed
qed auto

subsection \<open>Invariant of the task and the channel\<close>

definition msg_ok :: "nat \<Rightarrow> bytes list pyres \<Rightarrow> bool" where
  "msg_ok n m = (case m of Inl _ \<Rightarrow> True | Inr b \<Rightarrow> b \<noteq> [] \<and> length (concat b) \<le> n)"

definition in_flight :: "chan \<Rightarrow> bytes list pyres list" where
  "in_flight s = queue s @ (case task s of Sending m _ \<Rightarrow> [m] | _ \<Rightarrow> [])"

fun looping :: "task \<Rightarrow> bool" where
  "looping Polling = True"
| "looping (Sending m go) = go"
| "looping _ = False"

definition frames_le :: "nat \<Rightarrow> frames \<Rightarrow> bool" where
  "frames_le n fs \<longleftrightarrow> list_all (\<lambda>f. length (frame_bytes f) \<le> n) fs"

lemma frames_le_Cons [simp]:
  "frames_le n (f # fs) \<longleftrightarrow> length (frame_bytes f) \<le> n \<and> frames_le n fs" "frames_le n []"
  by (simp_all add: frames_le_def)

definition chan_inv :: "nat \<Rightarrow> nat \<Rightarrow> chan \<Rightarrow> bool" where
  "chan_inv n frame_max s \<longleftrightarrow>
     length (queue s) \<le> CHANNEL_SIZE \<and>
     (permit s \<longrightarrow> task s \<noteq> Exited) \<and>
     buffer_size (rdr s) = n \<and>
     (looping (task s) \<longrightarrow> (\<exists>buf. open_reader (rdr s) buf)) \<and>
     (\<forall>m \<in> set (in_flight s). msg_ok (n + frame_max) m) \<and>
     frames_le frame_max (body s)"

lemma chan_inv_start: "frames_le k fs \<Longrightarrow> chan_inv n k (start fs pm n)"
  by (auto simp: chan_inv_def start_def in_flight_def intro: open_reader_start)

lemma open_reader_sizes:
  "open_reader r buf \<Longrightarrow> length (concat buf) \<le> buffer_size r"
  by (cases "buf = []") (auto simp: open_reader_def)

lemma chan_inv_poll:
  assumes "chan_inv n k s" and "task s = Polling"
  shows "chan_inv n k (after_poll is_match s)"
proof -
  from assms obtain buf where o: "open_reader (rdr s) buf" by (auto simp: chan_inv_def)
  note sz = open_reader_sizes [OF o]
  show ?thesis
  proof (cases "body s")
    case Nil
    have "finalize (rdr s) = (if buf \<noteq> [] then Some buf else None, (rdr s)\<lparr>buffer := None\<rparr>)"
      using o by (simp add: finalize_def open_reader_def)
    with assms o sz Nil show ?thesis
      by (auto simp: chan_inv_def after_poll_def on_frame_def in_flight_def msg_ok_def)
  next
    case (Cons f fs)
    consider e where "f = Inl e" | "f = Inr TrailersFrame" | "f = Inr (DataFrame [])"
      | ch where "f = Inr (DataFrame ch)" "ch \<noteq> []"
      by (metis frame.exhaust sum.exhaust)
    then show ?thesis
    proof cases
      case 4
      from send_chunk_open [OF o 4(2)] show ?thesis
      proof (elim disjE exE conjE)
        fix r' assume "send_chunk ch (rdr s) = (Buffered, r')" "open_reader r' (buf @ [ch])"
          "buffer_size r' = buffer_size (rdr s)"
        with assms Cons 4 show ?thesis
          by (auto simp: chan_inv_def after_poll_def on_frame_def in_flight_def)
      next
        fix r' assume "send_chunk ch (rdr s) = (SendBuffer (buf @ [ch]), r')" "open_reader r' []"
          "buffer_size r' = buffer_size (rdr s)"
        with assms Cons 4 sz show ?thesis
          by (auto simp: chan_inv_def after_poll_def on_frame_def in_flight_def msg_ok_def
              frame_bytes_def)
      qed
    qed (use assms Cons o in \<open>auto simp: chan_inv_def after_poll_def on_frame_def in_flight_def msg_ok_def\<close>)
  qed
qed

lemma chan_inv_step:
  assumes "step is_match ev s s'" and "chan_inv n k s"
  shows "chan_inv n k s'"
  using assms
proof cases
  case poll
  with assms(2) show ?thesis by (simp add: chan_inv_poll)
next
  case (send_ok m go)
  with assms(2) show ?thesis
    by (cases go) (auto simp: chan_inv_def after_send_def in_flight_def)
qed (auto simp: chan_inv_def in_flight_def dest: in_set_butlastD)

lemma chan_inv_run: "run is_match evs s s' \<Longrightarrow> chan_inv n k s \<Longrightarrow> chan_inv n k s'"
  by (rule run_invariant) (auto intro: chan_inv_step)

text \<open>Bytes held between the network and the receiver.\<close>

definition resident :: "chan \<Rightarrow> nat" where
  "resident s = sum_list (map (\<lambda>m. length (concat (projr m))) (filter (\<lambda>m. \<not> isl m) (in_flight s))) +
     (case buffer (rdr s) of None \<Rightarrow> 0 | Some buf \<Rightarrow> if looping (task s) then length (concat buf) else 0)"

lemma sum_list_le_length: "\<forall>x \<in> set xs. f x \<le> (c::nat) \<Longrightarrow> sum_list (map f xs) \<le> length xs * c"
  by (induction xs) auto

lemma resident_le:
  assumes "chan_inv n k s"
  shows "resident s \<le> 3 * (n + k) + n"
proof -
  let ?ms = "filter (\<lambda>m. \<not> isl m) (in_flight s)"
  have "sum_list (map (\<lambda>m. length (concat (projr m))) ?ms) \<le> length ?ms * (n + k)"
    using assms by (intro sum_list_le_length) (auto simp: chan_inv_def msg_ok_def split: sum.splits)
  also have "length (in_flight s) \<le> 3"
    using assms by (auto simp: chan_inv_def in_flight_def CHANNEL_SIZE_def split: task.splits)
  then have "length ?ms \<le> 3" by (rule order_trans [OF length_filter_le])
  then have "length ?ms * (n + k) \<le> 3 * (n + k)" by (rule mult_right_mono) simp
  finally show ?thesis
    using assms by (auto simp: resident_def chan_inv_def open_reader_def split: option.splits
        dest!: open_reader_sizes)
qed

subsection \<open>Progress\<close>

text \<open>
  \<open>work\<close> bounds the number of task events left; the receiver's events do not change it.
\<close>

definition work :: "chan \<Rightarrow> nat" where
  "work s =
     (case task s of
        Polling \<Rightarrow> 3 * length (body s) + 3
      | Sending m go \<Rightarrow> if go then 3 * length (body s) + 5 else 2
      | Leaving \<Rightarrow> 1
      | Exited \<Rightarrow> 0)"

lemma work_poll: "task s = Polling \<Longrightarrow> work (after_poll is_match s) < work s"
  by (auto simp: work_def after_poll_def on_frame_def
      split: list.splits prod.splits sum.splits frame.splits chunk_outcome.splits option.splits)

lemma work_send: "task s = Sending m go \<Longrightarrow> work (after_send m go s) < work s"
  by (simp add: work_def after_send_def)

lemma work_step:
  assumes "step is_match ev s s'"
  shows "if task_event ev then work s' < work s else work s' = work s"
  using assms
proof cases
  case poll
  then show ?thesis by (simp add: task_event_def work_poll)
next
  case (send_ok m go)
  then show ?thesis by (simp add: task_event_def work_send)
next
  case (cancelled)
  then show ?thesis by (cases "task s") (simp_all add: task_event_def work_def)
qed (simp_all add: task_event_def work_def split: task.split)

lemma permit_run:
  assumes "run is_match evs s s'" and "permit s \<longleftrightarrow> pm \<and> task s \<noteq> Exited"
  shows "permit s' \<longleftrightarrow> pm \<and> task s' \<noteq> Exited"
  using assms
proof (rule run_invariant)
  fix ev s s'
  assume "step is_match ev s s'" and "permit s \<longleftrightarrow> pm \<and> task s \<noteq> Exited"
  then show "permit s' \<longleftrightarrow> pm \<and> task s' \<noteq> Exited"
    by cases (auto simp: after_poll_def on_frame_def after_send_def
        split: prod.splits list.splits sum.splits frame.splits option.splits chunk_outcome.splits if_splits)
qed

lemma received_append [simp]: "received (evs @ evs') = received evs @ received evs'"
  by (simp add: received_def map_filter_def)

lemma work_run:
  "run is_match evs s s' \<Longrightarrow> length (filter task_event evs) + work s' \<le> work s"
proof (induction rule: run.induct)
  case (run_Cons ev s s1 evs s2)
  with work_step [OF run_Cons.hyps(1)] show ?case by (auto split: if_splits)
qed simp

text \<open>
  The task is never stuck but when it waits for room in the channel, and then the receiver
  can make room.
\<close>

lemma task_progress:
  assumes "task s \<noteq> Exited"
  shows "(\<exists>ev s'. task_event ev \<and> step is_match ev s s') \<or>
    (\<not> rx_dropped s \<and> length (queue s) \<ge> CHANNEL_SIZE \<and> (\<exists>m s'. step is_match (Recv (Some m)) s s'))"
proof (cases "task s")
  case Polling
  then show ?thesis by (meson task_event_simps step.poll)
next
  case (Sending m go)
  show ?thesis
  proof (cases "rx_dropped s")
    case True
    with Sending show ?thesis by (meson task_event_simps step.send_failed)
  next
    case False
    show ?thesis
    proof (cases "length (queue s) < CHANNEL_SIZE")
      case True
      with Sending False show ?thesis by (meson task_event_simps step.send_ok)
    next
      case full: False
      then obtain x q where "queue s = x # q" by (cases "queue s") (auto simp: CHANNEL_SIZE_def)
      with False full show ?thesis by (meson step.rx_recv linorder_not_less)
    qed
  qed
next
  case Leaving
  then show ?thesis by (meson task_event_simps step.release)
qed (use assms in simp)

text \<open>Without room being made: a closed token or a dropped receiver unblocks the task.\<close>

lemma close_releases:
  assumes "close_token s" and "task s \<noteq> Exited"
  shows "\<exists>evs s'. run is_match evs s s' \<and> set evs \<subseteq> {Cancelled, Release} \<and> task s' = Exited \<and> \<not> permit s'"
proof (cases "task s = Leaving")
  case True
  then have "step is_match Release s (s\<lparr>task := Exited, permit := False\<rparr>)" by (rule step.release)
  then show ?thesis by (intro exI [of _ "[Release]"] exI) (auto simp: run_Cons_iff)
next
  case False
  with assms(2) have "\<not> tx_dropped (task s)" by (cases "task s") auto
  with assms(1) have "step is_match Cancelled s (s\<lparr>task := Leaving\<rparr>)" by (blast intro: step.cancelled)
  moreover have "step is_match Release (s\<lparr>task := Leaving\<rparr>)
    ((s\<lparr>task := Leaving\<rparr>)\<lparr>task := Exited, permit := False\<rparr>)" by (rule step.release) simp
  ultimately have "run is_match [Cancelled, Release] s ((s\<lparr>task := Leaving\<rparr>)\<lparr>task := Exited, permit := False\<rparr>)"
    by (auto simp: run_Cons_iff)
  then show ?thesis by (intro exI [of _ "[Cancelled, Release]"] exI) auto
qed

lemma step_dropped: "step is_match ev s s' \<Longrightarrow> rx_dropped s \<Longrightarrow> rx_dropped s'"
  by (erule step_elim) (simp_all add: after_poll_def after_send_def split: prod.split)

lemma dropped_step:
  "rx_dropped s \<Longrightarrow> task s \<noteq> Exited \<Longrightarrow> \<exists>ev s'. task_event ev \<and> step is_match ev s s' \<and> rx_dropped s'"
  using task_progress [of s is_match] step_dropped by blast

lemma dropped_releases:
  assumes "rx_dropped s"
  shows "\<exists>evs s'. run is_match evs s s' \<and> list_all task_event evs \<and> task s' = Exited"
  using assms
proof (induction "work s" arbitrary: s rule: less_induct)
  case less
  show ?case
  proof (cases "task s = Exited")
    case True
    then show ?thesis by (intro exI [of _ "[]"] exI [of _ s]) simp
  next
    case False
    from dropped_step [OF less.prems this, of is_match] obtain ev s1 where
      ev: "task_event ev" "step is_match ev s s1" "rx_dropped s1" by blast
    from work_step [OF ev(2)] ev(1) have "work s1 < work s" by simp
    from less.hyps [OF this ev(3)] obtain evs s' where
      "run is_match evs s1 s'" "list_all task_event evs" "task s' = Exited" by blast
    with ev show ?thesis by (intro exI [of _ "ev # evs"] exI [of _ s']) (auto simp: run_Cons_iff)
  qed
qed

subsection \<open>Receiving as a function\<close>

text \<open>
  \<open>drive\<close> lets the task run as long as the receiver waits: until there is a message in
  the queue or the sender is gone.
\<close>

function drive :: "patterns \<Rightarrow> chan \<Rightarrow> chan" where
  "drive is_match s =
     (if queue s \<noteq> [] then s
      else (case task s of
              Polling \<Rightarrow> drive is_match (after_poll is_match s)
            | Sending m go \<Rightarrow> after_send m go s
            | _ \<Rightarrow> s))"
  by pat_completeness auto
termination
  by (relation "measure (\<lambda>(_, s). work s)") (auto simp: work_poll)

declare drive.simps [simp del]

definition recv :: "patterns \<Rightarrow> chan \<Rightarrow> bytes list option pyres \<times> chan" where
  "recv is_match s =
     (let s' = drive is_match s in
      case queue s' of
        [] \<Rightarrow> (Inr None, s')
      | m # q \<Rightarrow> (map_res Some m, s'\<lparr>queue := q\<rparr>))"

definition receiver_close :: "chan \<Rightarrow> chan" where
  "receiver_close s = s\<lparr>close_token := True\<rparr>"

definition alive :: "chan \<Rightarrow> bool" where
  "alive s \<longleftrightarrow> \<not> rx_dropped s \<and> \<not> close_token s \<and> (\<exists>n k. chan_inv n k s)"

lemma drive_run:
  "\<not> rx_dropped s \<Longrightarrow> \<exists>evs. run is_match evs s (drive is_match s) \<and> set evs \<subseteq> {Poll, SendOk}"
proof (induction is_match s rule: drive.induct)
  case (1 is_match s)
  show ?case
  proof (cases "queue s = [] \<and> \<not> tx_dropped (task s)")
    case False
    then have "drive is_match s = s" by (subst drive.simps) (auto split: task.split)
    then show ?thesis by (intro exI [of _ "[]"]) simp
  next
    case True
    show ?thesis
    proof (cases "task s")
      case Polling
      have d: "drive is_match s = drive is_match (after_poll is_match s)"
        using True Polling by (subst drive.simps) simp
      have "\<not> rx_dropped (after_poll is_match s)"
        using "1.prems" by (simp add: after_poll_def split: prod.split)
      with "1.IH" True Polling obtain evs where
        "run is_match evs (after_poll is_match s) (drive is_match (after_poll is_match s))"
        "set evs \<subseteq> {Poll, SendOk}" by auto
      moreover have "step is_match Poll s (after_poll is_match s)" using Polling by (rule step.poll)
      ultimately show ?thesis unfolding d
        by (intro exI [of _ "Poll # evs"]) (auto simp: run_Cons_iff)
    next
      case (Sending m go)
      have d: "drive is_match s = after_send m go s"
        using True Sending by (subst drive.simps) simp
      have "step is_match SendOk s (after_send m go s)"
        using Sending True "1.prems" by (intro step.send_ok) (auto simp: CHANNEL_SIZE_def)
      then show ?thesis unfolding d by (intro exI [of _ "[SendOk]"]) (auto simp: run_Cons_iff)
    qed (use True in auto)
  qed
qed

lemma drive_msgs: "chan_msgs is_match (drive is_match s) = chan_msgs is_match s"
proof (induction is_match s rule: drive.induct)
  case (1 is_match s)
  then show ?case by (subst drive.simps) (auto split: task.split)
qed

lemma drive_stops: "queue (drive is_match s) = [] \<Longrightarrow> tx_dropped (task (drive is_match s))"
proof (induction is_match s rule: drive.induct)
  case (1 is_match s)
  then show ?case
    by (subst (asm) (2) drive.simps, subst drive.simps)
      (auto simp: after_send_def split: task.splits if_splits)
qed

lemma drive_flags [simp]:
  "rx_dropped (drive is_match s) = rx_dropped s" "close_token (drive is_match s) = close_token s"
proof -
  have "rx_dropped (drive is_match s) = rx_dropped s \<and> close_token (drive is_match s) = close_token s"
  proof (induction is_match s rule: drive.induct)
    case (1 is_match s)
    then show ?case
      by (auto simp: drive.simps [of is_match s] after_send_def after_poll_def
          split: task.split prod.splits)
  qed
  then show "rx_dropped (drive is_match s) = rx_dropped s" "close_token (drive is_match s) = close_token s"
    by auto
qed

text \<open>\<open>recv\<close> is one of the schedules of the transition system.\<close>

lemma recv_run:
  assumes "\<not> rx_dropped s" and "recv is_match s = (r, s')"
  shows "\<exists>evs m. run is_match (evs @ [Recv m]) s s' \<and> set evs \<subseteq> {Poll, SendOk} \<and>
    r = (case m of None \<Rightarrow> Inr None | Some x \<Rightarrow> map_res Some x)"
proof -
  from drive_run [OF assms(1), of is_match] obtain evs where
    d: "run is_match evs s (drive is_match s)" "set evs \<subseteq> {Poll, SendOk}" by blast
  show ?thesis
  proof (cases "queue (drive is_match s)")
    case Nil
    have "step is_match (Recv None) (drive is_match s) (drive is_match s)"
      using assms(1) Nil drive_stops [OF Nil] by (intro step.rx_end) auto
    with d Nil assms(2) show ?thesis
      by (intro exI [of _ evs] exI [of _ None]) (auto simp: recv_def Let_def run_append run_Cons_iff)
  next
    case (Cons m q)
    have "step is_match (Recv (Some m)) (drive is_match s) ((drive is_match s)\<lparr>queue := q\<rparr>)"
      using assms(1) Cons by (intro step.rx_recv) auto
    with d Cons assms(2) show ?thesis
      by (intro exI [of _ evs] exI [of _ "Some m"])
        (auto simp: recv_def Let_def run_append run_Cons_iff)
  qed
qed

lemma alive_recv:
  assumes "alive s"
  shows "alive (snd (recv is_match s))"
proof -
  from assms obtain n k where a: "\<not> rx_dropped s" "\<not> close_token s" "chan_inv n k s"
    by (auto simp: alive_def)
  obtain r s' where r: "recv is_match s = (r, s')" by fastforce
  from recv_run [OF a(1) r] obtain evs where "run is_match evs s s'" by blast
  from chan_inv_run [OF this a(3)] have "chan_inv n k s'" .
  moreover from r a have "\<not> rx_dropped s'" "\<not> close_token s'"
    by (auto simp: recv_def Let_def split: list.splits)
  ultimately show ?thesis using r by (auto simp: alive_def)
qed

lemma chan_msgs_drive_cases:
  assumes "chan_msgs is_match s = ms"
  shows "case ms of
      [] \<Rightarrow> queue (drive is_match s) = []
    | m # ms' \<Rightarrow> \<exists>q. queue (drive is_match s) = m # q \<and> chan_msgs is_match ((drive is_match s)\<lparr>queue := q\<rparr>) = ms'"
proof (cases "queue (drive is_match s)")
  case Nil
  with drive_stops [OF Nil] drive_msgs [of is_match s] pending_msgs_tx_dropped assms show ?thesis
    by (auto simp: chan_msgs_def)
next
  case (Cons m q)
  with drive_msgs [of is_match s] assms show ?thesis by (auto simp: chan_msgs_def)
qed

lemma alive_nonempty:
  assumes "alive s" and "Inr b \<in> set (chan_msgs is_match s)"
  shows "b \<noteq> []"
proof -
  from assms(1) obtain n k where inv: "chan_inv n k s" by (auto simp: alive_def)
  then have fl: "Inr b \<in> set (in_flight s) \<Longrightarrow> b \<noteq> []" by (auto simp: chan_inv_def msg_ok_def)
  have rd: "b \<noteq> []" if "looping (task s)" "Inr b \<in> set (reader_msgs is_match (rdr s) (body s))"
    using inv that by (auto simp: chan_inv_def dest: reader_msgs_nonempty)
  from assms(2) fl rd show ?thesis
    by (cases "task s") (auto simp: chan_msgs_def pending_msgs_def in_flight_def split: if_splits)
qed

interpretation rx: body_source "recv is_match" "chan_msgs is_match" alive for is_match
proof (unfold_locales, goal_cases)
  case (1 s)
  from chan_msgs_drive_cases [OF 1(2)] drive_msgs [of is_match s] 1 show ?case
    by (simp add: recv_def Let_def)
next
  case (2 s e ms)
  from chan_msgs_drive_cases [OF 2(2)] show ?case by (auto simp: recv_def Let_def)
next
  case (3 s buf ms)
  from chan_msgs_drive_cases [OF 3(2)] show ?case by (auto simp: recv_def Let_def)
next
  case (4 s buf)
  then show ?case by (rule alive_nonempty)
next
  case (5 s)
  then show ?case by (rule alive_recv)
qed

lemma alive_start: "alive (start fs pm n)"
proof -
  have "frames_le (sum_list (map (\<lambda>f. length (frame_bytes f)) fs)) fs"
    unfolding frames_le_def list_all_iff by (auto intro: member_le_sum_list)
  from chan_inv_start [OF this] show ?thesis by (auto simp: alive_def start_def)
qed

lemma chan_msgs_start:
  "chan_msgs is_match (start fs pm n) =
     reader_msgs is_match \<lparr>buffer = Some [], tot_bytes = 0, buffer_size = n\<rparr> fs"
  by (simp add: chan_msgs_def pending_msgs_def start_def)

end
