(* ===== verification/Http_Types.thy ===== *)
theory Http_Types
  imports Exceptions
begin

section \<open>Versions, status codes and the head of a response\<close>

text \<open>
  Models the conversions of \<open>Version\<close> and \<open>StatusCode\<close> of \<open>src/internal/types.rs\<close> and the
  head \<open>http::response::Parts\<close> of a response. \<open>http::StatusCode\<close> is the \<open>http\<close> crate's:
  its operations are the record \<open>status_ops\<close>, what it documents of them the locale
  \<open>http_status\<close>.
\<close>

subsection \<open>Versions\<close>

datatype http_version = HTTP_09 | HTTP_10 | HTTP_11 | HTTP_2 | HTTP_3

definition version_into_py :: "http_version \<Rightarrow> string" where
  "version_into_py v =
     (if v = HTTP_10 then ''HTTP/1.0'' else if v = HTTP_11 then ''HTTP/1.1''
      else if v = HTTP_2 then ''HTTP/2.0'' else if v = HTTP_3 then ''HTTP/3.0''
      else ''HTTP/0.9'')"

definition version_extract :: "string \<Rightarrow> http_version pyres" where
  "version_extract s =
     (if s = ''HTTP/1.0'' then Inr HTTP_10 else if s = ''HTTP/1.1'' then Inr HTTP_11
      else if s = ''HTTP/2.0'' then Inr HTTP_2 else if s = ''HTTP/3.0'' then Inr HTTP_3
      else if s = ''HTTP/0.9'' then Inr HTTP_09 else Inl (value_error ''invalid http version''))"

subsection \<open>Status codes\<close>

record 'st status_ops =
  from_u16 :: "16 word \<Rightarrow> 'st option"
  as_u16 :: "'st \<Rightarrow> 16 word"
  is_client_error :: "'st \<Rightarrow> bool"
  is_server_error :: "'st \<Rightarrow> bool"

definition status_into_py :: "'st status_ops \<Rightarrow> 'st \<Rightarrow> nat" where
  "status_into_py S st = unat (as_u16 S st)"

text \<open>\<open>u16_res\<close> is what PyO3 extracts from the argument as a \<open>u16\<close>.\<close>

definition status_extract :: "'st status_ops \<Rightarrow> 16 word pyres \<Rightarrow> 'st pyres" where
  "status_extract S u16_res =
     and_then u16_res (\<lambda>n. ok_or (value_error ''invalid status code'') (from_u16 S n))"

locale http_status =
  fixes S :: "'st status_ops"
  assumes from_u16_range: "from_u16 S n \<noteq> None \<longleftrightarrow> 100 \<le> unat n \<and> unat n < 1000"
    and as_from: "from_u16 S n = Some st \<Longrightarrow> as_u16 S st = n"
    and client_range: "is_client_error S st \<longleftrightarrow> 400 \<le> unat (as_u16 S st) \<and> unat (as_u16 S st) < 500"
    and server_range: "is_server_error S st \<longleftrightarrow> 500 \<le> unat (as_u16 S st) \<and> unat (as_u16 S st) < 600"
begin

lemma status_extract_iff:
  "status_extract S (Inr n) = Inr st \<Longrightarrow> as_u16 S st = n \<and> 100 \<le> unat n \<and> unat n < 1000"
  using from_u16_range [of n] by (auto simp: status_extract_def as_from)

lemma status_roundtrip: "status_extract S (Inr (of_nat (status_into_py S st))) = Inr st' \<Longrightarrow> as_u16 S st' = as_u16 S st"
  using status_extract_iff [of "as_u16 S st" st'] by (simp add: status_into_py_def)

lemma status_extract_range:
  "(\<exists>st. status_extract S (Inr n) = Inr st) \<longleftrightarrow> 100 \<le> unat n \<and> unat n < 1000"
  using from_u16_range [of n] by (auto simp: status_extract_def)

lemma not_both: "\<not> (is_client_error S st \<and> is_server_error S st)"
  by (simp add: client_range server_range)

end

text \<open>Codes as their number meet the laws.\<close>

definition u16_status :: "16 word status_ops" where
  "u16_status = \<lparr>
     from_u16 = (\<lambda>n. if 100 \<le> unat n \<and> unat n < 1000 then Some n else None),
     as_u16 = (\<lambda>n. n),
     is_client_error = (\<lambda>n. 400 \<le> unat n \<and> unat n < 500),
     is_server_error = (\<lambda>n. 500 \<le> unat n \<and> unat n < 600)\<rparr>"

interpretation u16: http_status u16_status
  by unfold_locales (auto simp: u16_status_def split: if_splits)

subsection \<open>The head of a response\<close>

record ('m, 'st, 'x) http_parts =
  parts_status :: 'st
  parts_version :: http_version
  parts_headers :: 'm
  parts_extensions :: 'x

lemma version_round: "version_extract (version_into_py v) = Inr v"
  by (cases v) (simp_all add: version_extract_def version_into_py_def)

end
