(* ===== verification/Body_Init.thy ===== *)
theory Body_Init
  imports Body_Channel Http_Types
begin

section \<open>Setting up the body reader of a response\<close>

text \<open>
  Models \<open>BodyReader::initialize\<close>, \<open>read_limit\<close> and \<open>content_length\<close> of
  \<open>src/response/internal/body_reader.rs\<close>: how much of the body is read before the
  response is handed out, when the background reader is started, and when the permit that
  limits concurrent requests is dropped. \<open>Response::chunk\<close> is \<open>reqwest\<close>'s: it is a
  parameter, the locale \<open>response_chunks\<close> states what it documents.
\<close>

subsection \<open>The Content-Length header\<close>

definition digit_of :: "char \<Rightarrow> nat option" where
  "digit_of c = (if CHR ''0'' \<le> c \<and> c \<le> CHR ''9'' then Some (of_char c - 48) else None)"

fun parse_digits :: "nat \<Rightarrow> string \<Rightarrow> nat option" where
  "parse_digits acc [] = Some acc"
| "parse_digits acc (c # cs) =
     (case digit_of c of
        None \<Rightarrow> None
      | Some d \<Rightarrow> if acc * 10 + d > usize_max then None else parse_digits (acc * 10 + d) cs)"

text \<open>\<open>str::parse::<usize>\<close> of the standard library: one optional plus sign, then digits.\<close>

definition parse_usize :: "string \<Rightarrow> nat option" where
  "parse_usize s =
     (let ds = (case s of c # cs \<Rightarrow> if c = CHR ''+'' then cs else s | [] \<Rightarrow> [])
      in if ds = [] then None else parse_digits 0 ds)"

definition CONTENT_LENGTH :: header_name where
  "CONTENT_LENGTH = HeaderName ''content-length''"

definition content_length_of :: "'m http_ops \<Rightarrow> 'm \<Rightarrow> nat option" where
  "content_length_of H headers =
     Option.bind (hm_get H headers CONTENT_LENGTH) (\<lambda>v.
       Option.bind (case value_to_str H v of Inl _ \<Rightarrow> None | Inr s \<Rightarrow> Some s) parse_usize)"

lemma parse_digits_bound: "parse_digits acc s = Some n \<Longrightarrow> acc \<le> usize_max \<Longrightarrow> n \<le> usize_max"
  by (induction acc s rule: parse_digits.induct) (auto split: option.splits if_splits)

lemma parse_usize_bound: "parse_usize s = Some n \<Longrightarrow> n \<le> usize_max"
  by (auto simp: parse_usize_def Let_def simp del: parse_digits.simps split: if_splits list.splits
      dest: parse_digits_bound)

subsection \<open>Reading up to the buffer limit\<close>

type_synonym chunk_fun = "frames \<Rightarrow> (std_error + bytes option) \<times> frames"

partial_function (option) read_limit_loop ::
    "patterns \<Rightarrow> chunk_fun \<Rightarrow> nat option \<Rightarrow> bytes list \<Rightarrow> nat \<Rightarrow> frames \<Rightarrow>
     ((bytes list \<times> bool) pyres \<times> frames) option" where
  "read_limit_loop is_match next_data byte_limit init_chunks consumed_bytes response =
     (case next_data response of
        (r, response') \<Rightarrow>
          (case r of
             Inl e \<Rightarrow> Some (Inl (map_read_error is_match e), response')
           | Inr m \<Rightarrow>
             (case m of
                None \<Rightarrow> Some (Inr (init_chunks, False), response')
              | Some chunk \<Rightarrow>
                  if (case byte_limit of Some n \<Rightarrow> consumed_bytes + length chunk \<ge> n | None \<Rightarrow> False)
                  then Some (Inr (init_chunks @ [chunk], True), response')
                  else read_limit_loop is_match next_data byte_limit (init_chunks @ [chunk])
                         (consumed_bytes + length chunk) response')))"

definition read_limit ::
    "patterns \<Rightarrow> chunk_fun \<Rightarrow> body_consume_config \<Rightarrow> frames \<Rightarrow>
     ((bytes list \<times> bool) pyres \<times> frames) option" where
  "read_limit is_match next_data read_config response =
     (case read_config of
        NoBody \<Rightarrow> Some (Inr ([], False), response)
      | FullyConsumed \<Rightarrow> read_limit_loop is_match next_data None [] 0 response
      | Streamed cfg \<Rightarrow>
          if read_buffer_limit cfg = 0 then Some (Inr ([], True), response)
          else read_limit_loop is_match next_data (Some (read_buffer_limit cfg)) [] 0 response)"

text \<open>
  \<open>initialize\<close>. The second component of the result tells whether the request permit, if
  there was one, outlives the call: it is moved to the background reader or dropped.
\<close>

definition reader_initialize ::
    "'m http_ops \<Rightarrow> patterns \<Rightarrow> chunk_fun \<Rightarrow> ('m, 'st, 'x) http_parts \<times> frames \<Rightarrow> bool \<Rightarrow>
     body_consume_config \<Rightarrow> runtime_handle \<Rightarrow>
     ((chan body_reader \<times> ('m, 'st, 'x) http_parts) pyres \<times> bool) option" where
  "reader_initialize H is_match next_data response request_permit read_config runtime =
     (case read_limit is_match next_data read_config (snd response) of
        None \<Rightarrow> None
      | Some (Inl e, _) \<Rightarrow> Some (Inl e, False)
      | Some (Inr (init_chunks, has_more), rest) \<Rightarrow>
        (let head = fst response;
             mk = (\<lambda>rx. \<lparr>body_receiver = rx, pending_chunks = init_chunks, fully_consumed_body = None,
                         content_length = content_length_of H (parts_headers head), read_bytes = 0,
                         br_runtime = runtime\<rparr>)
         in (case read_config of
               Streamed config \<Rightarrow>
                 if has_more
                 then Some (Inr (mk (Some (start rest request_permit (read_buffer_limit config))), head), request_permit)
                 else Some (Inr (mk None, head), False)
             | _ \<Rightarrow>
                 if has_more then Some (Inl (panic ''Should have fully consumed the response''), False)
                 else Some (Inr (mk None, head), False))))"

subsection \<open>What \<open>Response::chunk\<close> documents\<close>

definition frame_chunks :: "std_error + frame \<Rightarrow> bytes list" where
  "frame_chunks f = (case f of Inr (DataFrame b) \<Rightarrow> [b] | _ \<Rightarrow> [])"

text \<open>The data frames of a body, each as the chunk it is read as.\<close>

definition body_chunks :: "frames \<Rightarrow> bytes list" where
  "body_chunks fs = concat (map frame_chunks fs)"

lemma body_chunks_simps [simp]:
  "body_chunks [] = []" "body_chunks (Inr TrailersFrame # fs) = body_chunks fs"
  "body_chunks (Inr (DataFrame b) # fs) = b # body_chunks fs"
  "body_chunks (Inl e # fs) = body_chunks fs"
  by (simp_all add: body_chunks_def frame_chunks_def)

lemma concat_body_chunks: "concat (body_chunks fs) = body_bytes fs"
  by (induction fs) (auto simp: body_chunks_def frame_chunks_def body_bytes_def frame_bytes_def
      split: sum.split frame.split)

locale response_chunks =
  fixes next_data :: chunk_fun
  assumes chunk_end: "next_data [] = (Inr None, [])"
    and chunk_err: "next_data (Inl e # fs) = (Inl e, fs)"
    and chunk_data: "next_data (Inr (DataFrame b) # fs) = (Inr (Some b), fs)"
    and chunk_skip: "next_data (Inr TrailersFrame # fs) = next_data fs"
begin

lemma read_limit_loop_ok:
  assumes "no_errors fs"
  shows "\<exists>chunks more fs'. read_limit_loop is_match next_data lim init (length (concat init)) fs =
      Some (Inr (init @ chunks, more), fs') \<and>
    no_errors fs' \<and> concat chunks @ body_bytes fs' = body_bytes fs \<and>
    chunks @ body_chunks fs' = body_chunks fs \<and>
    (more \<or> fs' = []) \<and> (lim = None \<longrightarrow> \<not> more) \<and>
    (\<forall>n. lim = Some n \<longrightarrow> length (concat init) < n \<longrightarrow>
      (more \<longleftrightarrow> length (concat (init @ chunks)) \<ge> n) \<and> length (concat (butlast (init @ chunks))) < n)"
  using assms
proof (induction fs arbitrary: init)
  case Nil
  have "length (concat (butlast init)) < n" if "length (concat init) < n" for n
    using that by (cases init rule: rev_cases) auto
  then show ?case by (auto simp: read_limit_loop.simps chunk_end intro!: exI [of _ "[]"])
next
  case (Cons f fs)
  then obtain fr where f: "f = Inr fr" and ne: "no_errors fs" by (cases f) auto
  show ?case
  proof (cases fr)
    case TrailersFrame
    have "read_limit_loop is_match next_data lim init (length (concat init)) (f # fs) =
        read_limit_loop is_match next_data lim init (length (concat init)) fs"
      using f TrailersFrame by (simp add: read_limit_loop.simps [of _ next_data] chunk_skip)
    with Cons.IH [OF ne, of init] f TrailersFrame show ?thesis by simp
  next
    case (DataFrame b)
    have nd: "next_data (f # fs) = (Inr (Some b), fs)" using f DataFrame by (simp add: chunk_data)
    show ?thesis
    proof (cases "\<exists>n. lim = Some n \<and> length (concat init) + length b \<ge> n")
      case True
      with nd ne f DataFrame show ?thesis
        by (auto simp: read_limit_loop.simps [of _ next_data] intro!: exI [of _ "[b]"])
    next
      case False
      then have step: "read_limit_loop is_match next_data lim init (length (concat init)) (f # fs) =
          read_limit_loop is_match next_data lim (init @ [b]) (length (concat (init @ [b]))) fs"
        using nd by (auto simp: read_limit_loop.simps [of _ next_data _ init] split: option.split)
      from Cons.IH [OF ne, of "init @ [b]"] obtain chunks more fs' where
        r: "read_limit_loop is_match next_data lim (init @ [b]) (length (concat (init @ [b]))) fs =
          Some (Inr ((init @ [b]) @ chunks, more), fs')"
        and q: "no_errors fs'" "concat chunks @ body_bytes fs' = body_bytes fs"
          "chunks @ body_chunks fs' = body_chunks fs" "more \<or> fs' = []"
          "lim = None \<longrightarrow> \<not> more"
        and n: "\<forall>n. lim = Some n \<longrightarrow> length (concat (init @ [b])) < n \<longrightarrow>
          (more \<longleftrightarrow> length (concat ((init @ [b]) @ chunks)) \<ge> n) \<and>
          length (concat (butlast ((init @ [b]) @ chunks))) < n" by blast
      from r q n False f DataFrame show ?thesis
        unfolding step by (intro exI [of _ "b # chunks"] exI [of _ more] exI [of _ fs']) auto
    qed
  qed
qed

lemma read_limit_loop_err:
  assumes "no_errors fs"
  shows "\<exists>fs'. read_limit_loop is_match next_data None init n (fs @ Inl e # rest) =
    Some (Inl (map_read_error is_match e), fs')"
  using assms
proof (induction fs arbitrary: init n)
  case Nil
  show ?case by (simp add: read_limit_loop.simps chunk_err)
next
  case (Cons f fs)
  then show ?case
    by (cases f; cases "projr f") (auto simp: read_limit_loop.simps [of _ next_data] chunk_skip chunk_data)
qed

end

text \<open>A function with this behaviour.\<close>

fun first_data :: chunk_fun where
  "first_data [] = (Inr None, [])"
| "first_data (Inl e # fs) = (Inl e, fs)"
| "first_data (Inr (DataFrame b) # fs) = (Inr (Some b), fs)"
| "first_data (Inr TrailersFrame # fs) = first_data fs"

interpretation data: response_chunks first_data
  by unfold_locales simp_all

subsection \<open>Reading a body end to end\<close>

lemma start_fields [simp]:
  "permit (start fs pm n) = pm" "task (start fs pm n) = Polling" "close_token (start fs pm n) = False"
  "rx_dropped (start fs pm n) = False"
  by (simp_all add: start_def)

lemma rx_ok_start:
  assumes "no_errors fs"
  shows "ok_msgs (chan_msgs is_match (start fs pm n))"
    and "concat (concat (map projr (chan_msgs is_match (start fs pm n)))) = body_bytes fs"
  using reader_msgs_ok [OF open_reader_start [of n] assms, of is_match]
  by (simp_all add: chan_msgs_start msgs_bytes_def)

definition fresh_reader :: "patterns \<Rightarrow> bytes \<Rightarrow> chan body_reader \<Rightarrow> bool" where
  "fresh_reader is_match data br \<longleftrightarrow>
     rx.wf br \<and> ok_msgs (rx_msgs (chan_msgs is_match) br) \<and>
     unread (chan_msgs is_match) br = data \<and> fully_consumed_body br = None \<and> read_bytes br = 0"

context response_chunks begin

lemma read_limit_ok:
  assumes "no_errors fs"
  shows "\<exists>chunks more fs'. read_limit is_match next_data cfg fs = Some (Inr (chunks, more), fs') \<and>
    no_errors fs' \<and>
    (cfg \<noteq> NoBody \<longrightarrow> concat chunks @ body_bytes fs' = body_bytes fs \<and>
      chunks @ body_chunks fs' = body_chunks fs \<and> (more \<or> fs' = [])) \<and>
    (cfg = NoBody \<longrightarrow> chunks = []) \<and> (more \<longrightarrow> (\<exists>c. cfg = Streamed c)) \<and>
    (\<forall>c. cfg = Streamed c \<longrightarrow> (more \<longleftrightarrow> length (concat chunks) \<ge> read_buffer_limit c) \<and>
      (chunks = [] \<or> length (concat (butlast chunks)) < read_buffer_limit c))"
proof (cases cfg)
  case FullyConsumed
  from read_limit_loop_ok [OF assms, of is_match None "[]"] show ?thesis
    using FullyConsumed by (auto simp: read_limit_def)
next
  case (Streamed c)
  show ?thesis
  proof (cases "read_buffer_limit c = 0")
    case True
    with Streamed assms show ?thesis by (auto simp: read_limit_def)
  next
    case False
    from read_limit_loop_ok [OF assms, of is_match "Some (read_buffer_limit c)" "[]"]
    obtain chunks more fs' where
      "read_limit_loop is_match next_data (Some (read_buffer_limit c)) [] 0 fs =
        Some (Inr (chunks, more), fs')" "no_errors fs'"
      "concat chunks @ body_bytes fs' = body_bytes fs"
      "chunks @ body_chunks fs' = body_chunks fs" "more \<or> fs' = []"
      "(more \<longleftrightarrow> length (concat chunks) \<ge> read_buffer_limit c)"
      "length (concat (butlast chunks)) < read_buffer_limit c"
      using False by auto
    with Streamed False show ?thesis by (auto simp: read_limit_def)
  qed
qed (use assms in \<open>auto simp: read_limit_def\<close>)

lemma initialize_ok:
  assumes "no_errors fs"
  shows "\<exists>br. reader_initialize H is_match next_data (head, fs) pm cfg rt =
      Some (Inr (br, head), pm \<and> body_receiver br \<noteq> None) \<and>
    fresh_reader is_match (if cfg = NoBody then [] else body_bytes fs) br \<and>
    content_length br = content_length_of H (parts_headers head) \<and>
    (body_receiver br \<noteq> None \<longleftrightarrow>
      (\<exists>c. cfg = Streamed c \<and> length (concat (pending_chunks br)) \<ge> read_buffer_limit c)) \<and>
    (\<forall>ch. body_receiver br = Some ch \<longrightarrow> permit ch = pm \<and> task ch = Polling) \<and>
    (\<exists>rest. pending_chunks br @ rest = (if cfg = NoBody then [] else body_chunks fs) \<and>
      (body_receiver br = None \<longrightarrow> rest = [])) \<and>
    (\<forall>c. cfg = Streamed c \<longrightarrow> pending_chunks br = [] \<or>
      length (concat (butlast (pending_chunks br))) < read_buffer_limit c)"
proof -
  from read_limit_ok [OF assms, of is_match cfg] obtain chunks more fs' where
    r: "read_limit is_match next_data cfg fs = Some (Inr (chunks, more), fs')" and ne: "no_errors fs'"
    and d: "cfg \<noteq> NoBody \<longrightarrow> concat chunks @ body_bytes fs' = body_bytes fs \<and>
      chunks @ body_chunks fs' = body_chunks fs \<and> (more \<or> fs' = [])"
    and nb: "cfg = NoBody \<longrightarrow> chunks = []" and m: "more \<longrightarrow> (\<exists>c. cfg = Streamed c)"
    and lim: "\<forall>c. cfg = Streamed c \<longrightarrow> (more \<longleftrightarrow> length (concat chunks) \<ge> read_buffer_limit c) \<and>
      (chunks = [] \<or> length (concat (butlast chunks)) < read_buffer_limit c)" by blast
  note st = rx_ok_start [OF ne] alive_start
  show ?thesis
  proof (cases more)
    case True
    with m obtain c where "cfg = Streamed c" by blast
    with True r d lim st show ?thesis
      by (simp add: reader_initialize_def fresh_reader_def rx.wf_def rx_msgs_def unread_chunks_def)
        blast
  next
    case False
    with r d nb lim show ?thesis
      by (cases cfg) (auto simp: reader_initialize_def fresh_reader_def rx.wf_def rx_msgs_def unread_chunks_def)
  qed
qed

lemma initialize_err:
  assumes "no_errors fs"
  shows "reader_initialize H is_match next_data (head, fs @ Inl e # rest) pm FullyConsumed rt =
    Some (Inl (map_read_error is_match e), False)"
  using read_limit_loop_err [OF assms, of is_match "[]" 0 e rest]
  by (auto simp: reader_initialize_def read_limit_def)

end

end
