(* ===== verification/Header_Ref.thy ===== *)
theory Header_Ref
  imports Header_Api
begin

section \<open>A reference implementation of the header map interface\<close>

text \<open>
  A header map as the flat list of its pairs. It implements every operation of
  \<open>http_ops\<close> and meets every law of \<open>http_headers\<close> (the interpretation at the end),
  its size limit included. The components' theorems hold for any implementation that meets
  the laws; this one shows that the laws can be met and is what the concrete examples run on.
  The checks on the characters of names and values are those the \<open>http\<close> crate documents.
\<close>

type_synonym flat_map = "(header_name \<times> header_value) list"

definition MAX_SIZE :: nat where
  "MAX_SIZE = 32768"

definition flat_get_all :: "flat_map \<Rightarrow> header_name \<Rightarrow> header_value list" where
  "flat_get_all m k = map snd (filter (\<lambda>p. fst p = k) m)"

definition flat_without :: "flat_map \<Rightarrow> header_name \<Rightarrow> flat_map" where
  "flat_without m k = filter (\<lambda>p. fst p \<noteq> k) m"

definition is_upper :: "char \<Rightarrow> bool" where
  "is_upper c \<longleftrightarrow> CHR ''A'' \<le> c \<and> c \<le> CHR ''Z''"

definition to_lower :: "char \<Rightarrow> char" where
  "to_lower c = (if is_upper c then char_of (of_char c + (32 :: nat)) else c)"

definition is_tchar :: "char \<Rightarrow> bool" where
  "is_tchar c \<longleftrightarrow> CHR ''a'' \<le> to_lower c \<and> to_lower c \<le> CHR ''z'' \<or> CHR ''0'' \<le> c \<and> c \<le> CHR ''9'' \<or>
     c \<in> set ''!#$%&*+-.^_|~''"

definition flat_parse_name :: "string \<Rightarrow> string + header_name" where
  "flat_parse_name s =
     (if s \<noteq> [] \<and> list_all is_tchar s then Inr (HeaderName (map to_lower s))
      else Inl ''invalid HTTP header name'')"

definition flat_parse_value :: "string \<Rightarrow> string + header_value" where
  "flat_parse_value s =
     (if list_all (\<lambda>b. b \<ge> 32 \<and> b \<noteq> 127 \<or> b = 9) (str_bytes s) then Inr (HeaderValue (str_bytes s) False)
      else Inl ''failed to parse header value'')"

definition flat_to_str :: "header_value \<Rightarrow> string + string" where
  "flat_to_str v =
     (if list_all (\<lambda>b. b \<ge> 32 \<and> b < 127 \<or> b = 9) (hv_bytes v) then Inr (bytes_str (hv_bytes v))
      else Inl ''failed to convert header to a str'')"

definition flat_try_insert ::
    "flat_map \<Rightarrow> header_name \<Rightarrow> header_value \<Rightarrow> (string + header_value option) \<times> flat_map" where
  "flat_try_insert m k v =
     (if length m \<ge> MAX_SIZE then (Inl ''max size reached'', m)
      else (Inr (case flat_get_all m k of [] \<Rightarrow> None | old # _ \<Rightarrow> Some old), flat_without m k @ [(k, v)]))"

definition flat_try_append ::
    "flat_map \<Rightarrow> header_name \<Rightarrow> header_value \<Rightarrow> (string + bool) \<times> flat_map" where
  "flat_try_append m k v =
     (if length m \<ge> MAX_SIZE then (Inl ''max size reached'', m)
      else (Inr (flat_get_all m k \<noteq> []), m @ [(k, v)]))"

definition flat_try_entry :: "flat_map \<Rightarrow> header_name \<Rightarrow> (string + bool) \<times> flat_map" where
  "flat_try_entry m k =
     (if length m \<ge> MAX_SIZE then (Inl ''max size reached'', m) else (Inr (flat_get_all m k \<noteq> []), m))"

definition flat_ops :: "flat_map http_ops" where
  "flat_ops = \<lparr>
     parse_name = flat_parse_name,
     parse_value = flat_parse_value,
     value_to_str = flat_to_str,
     hm_new = [],
     hm_get = (\<lambda>m k. case flat_get_all m k of [] \<Rightarrow> None | v # _ \<Rightarrow> Some v),
     hm_get_all = flat_get_all,
     hm_contains = (\<lambda>m k. list_ex (\<lambda>p. fst p = k) m),
     hm_iter = (\<lambda>m. m),
     hm_keys = (\<lambda>m. remdups (map fst m)),
     hm_values = map snd,
     hm_len = length,
     hm_keys_len = (\<lambda>m. length (remdups (map fst m))),
     hm_is_empty = (\<lambda>m. m = []),
     hm_clear = (\<lambda>m. []),
     hm_try_insert = flat_try_insert,
     hm_try_append = flat_try_append,
     hm_try_entry = flat_try_entry,
     hm_remove_entry_mult = (\<lambda>m k. (flat_get_all m k, flat_without m k)),
     hm_insert_mult = (\<lambda>m k v. (flat_get_all m k, flat_without m k @ [(k, v)])),
     hm_vacant_insert = (\<lambda>m k v. (Inr (), m @ [(k, v)])),
     hm_extend = (\<lambda>m m2. filter (\<lambda>p. fst p \<notin> set (map fst m2)) m @ m2),
     hm_eq = (\<lambda>m m2. list_all (\<lambda>k. map hv_bytes (flat_get_all m k) = map hv_bytes (flat_get_all m2 k))
                       (map fst (m @ m2)))\<rparr>"

lemma flat_get_all_simps [simp]:
  "flat_get_all [] k = []"
  "flat_get_all (p # m) k = (if fst p = k then snd p # flat_get_all m k else flat_get_all m k)"
  "flat_get_all (m @ m2) k = flat_get_all m k @ flat_get_all m2 k"
  by (simp_all add: flat_get_all_def)

lemma flat_get_all_without [simp]:
  "flat_get_all (flat_without m k) k' = (if k' = k then [] else flat_get_all m k')"
  by (induction m) (auto simp: flat_without_def)

lemma flat_get_all_Nil_iff: "flat_get_all m k = [] \<longleftrightarrow> k \<notin> fst ` set m"
  by (induction m) auto

lemma flat_get_all_minus:
  "flat_get_all (filter (\<lambda>p. fst p \<notin> K) m) k = (if k \<in> K then [] else flat_get_all m k)"
  by (induction m) auto

lemma of_char_to_lower: "is_upper c \<Longrightarrow> (of_char (to_lower c) :: nat) = of_char c + 32"
  by (simp add: to_lower_def is_upper_def less_eq_char_def)

lemma not_upper_to_lower: "\<not> is_upper (to_lower c)"
  using of_char_to_lower [of c]
  by (cases "is_upper c") (auto simp: is_upper_def less_eq_char_def to_lower_def)

lemma to_lower_idem [simp]: "to_lower (to_lower c) = to_lower c"
  using not_upper_to_lower [of c] by (simp add: to_lower_def [of "to_lower c"])

lemma upper_to_lower: "is_upper c \<Longrightarrow> CHR ''a'' \<le> to_lower c \<and> to_lower c \<le> CHR ''z''"
  using of_char_to_lower [of c] by (simp add: is_upper_def less_eq_char_def)

lemma to_lower_tchar: "is_tchar c \<Longrightarrow> is_tchar (to_lower c)"
  using upper_to_lower [of c] to_lower_idem [of c]
  by (cases "is_upper c") (simp add: is_tchar_def, simp add: to_lower_def)

lemma flat_parse_idem:
  "flat_parse_name s = Inr k \<Longrightarrow> flat_parse_name (name_str k) = Inr k"
  by (auto simp: flat_parse_name_def list_all_iff to_lower_tchar split: if_splits)

interpretation flat: http_headers flat_ops
proof (unfold_locales, goal_cases)
  case (13 m k v old m')
  then show ?case by (auto simp: flat_ops_def flat_try_insert_def fun_eq_iff split: if_splits)
next
  case (16 m k vs m') then show ?case by (auto simp: flat_ops_def)
next
  case (17 m k v vs m') then show ?case by (auto simp: flat_ops_def)
next
  case (19 m m2 k) show ?case by (simp add: flat_ops_def flat_get_all_minus flat_get_all_Nil_iff)
next
  case (20 m m2)
  have "map hv_bytes (flat_get_all m k) = map hv_bytes (flat_get_all m2 k)"
    if "k \<notin> fst ` set m \<union> fst ` set m2" for k
    using that flat_get_all_Nil_iff [of m k] flat_get_all_Nil_iff [of m2 k] by simp
  then show ?case by (simp add: flat_ops_def list_all_iff) blast
next
  case (3 m k) show ?case by (induction m) (auto simp: flat_ops_def)
next
  case (4 s k) then show ?case using flat_parse_idem by (simp add: flat_ops_def)
next
  case (6 k m) show ?case by (simp add: flat_ops_def flat_get_all_Nil_iff)
qed (auto simp: flat_ops_def flat_get_all_def flat_try_insert_def flat_try_append_def
  flat_try_entry_def flat_without_def fun_eq_iff split: if_splits)

lemma http_headers_flat: "http_headers flat_ops"
  by (rule flat.http_headers_axioms)

end
