(* ===== verification/Body_Properties.thy ===== *)
theory Body_Properties
  imports Body_Init Header_Ref
begin

section \<open>Properties of response bodies\<close>

text \<open>
  What the reader of a response body guarantees, over the theories \<open>Body_Reader\<close>,
  \<open>Body_Channel\<close> and \<open>Body_Init\<close>. The examples run on the reference header map
  \<open>flat_ops\<close> and on \<open>first_data\<close>.
\<close>

subsection \<open>Sequences of reads\<close>

datatype read_op = ReadOp nat | NextOp

definition read_step ::
    "'r recv_fun \<Rightarrow> read_op \<Rightarrow> 'r body_reader \<Rightarrow> (bytes option pyres \<times> 'r body_reader) option" where
  "read_step recv_f rop br =
     (case rop of ReadOp n \<Rightarrow> read recv_f None n br | NextOp \<Rightarrow> Some (next_chunk recv_f None br))"

fun read_many ::
    "'r recv_fun \<Rightarrow> read_op list \<Rightarrow> 'r body_reader \<Rightarrow> (bytes option list pyres \<times> 'r body_reader) option" where
  "read_many recv_f [] br = Some (Inr [], br)"
| "read_many recv_f (rop # rops) br =
     (case read_step recv_f rop br of
        None \<Rightarrow> None
      | Some (Inl e, br') \<Rightarrow> Some (Inl e, br')
      | Some (Inr out, br') \<Rightarrow>
          map_option (map_prod (map_res (\<lambda>outs. out # outs)) id) (read_many recv_f rops br'))"

definition out_bytes :: "bytes option \<Rightarrow> bytes" where
  "out_bytes m = (case m of None \<Rightarrow> [] | Some b \<Rightarrow> b)"

definition op_ok :: "read_op \<Rightarrow> bool" where
  "op_ok rop = (case rop of ReadOp n \<Rightarrow> n \<le> isize_max | NextOp \<Rightarrow> True)"

context body_source begin

lemma read_step_ok:
  assumes "wf br" and "ok_msgs (rx_msgs msgs br)" and "op_ok rop"
  shows "\<exists>out br'. read_step recv rop br = Some (Inr out, br') \<and> wf br' \<and> ok_msgs (rx_msgs msgs br') \<and>
    unread msgs br = out_bytes out @ unread msgs br' \<and>
    read_bytes br' = read_bytes br + length (out_bytes out)"
proof (cases rop)
  case (ReadOp n)
  show ?thesis
  proof (cases "n = 0")
    case True
    with ReadOp assms show ?thesis by (simp add: read_step_def read_def out_bytes_def)
  next
    case False
    with ReadOp assms have "n \<le> isize_max" by (simp add: op_ok_def)
    from read_ok [OF assms(1,2) _ this] False ReadOp show ?thesis
      by (fastforce simp: read_step_def out_bytes_def)
  qed
next
  case NextOp
  from next_chunk_ok [OF assms(1,2)] NextOp show ?thesis
    by (cases "unread_chunks msgs br") (auto simp: read_step_def out_bytes_def)
qed

lemma read_many_ok:
  assumes "wf br" and "ok_msgs (rx_msgs msgs br)" and "list_all op_ok rops"
  shows "\<exists>outs br'. read_many recv rops br = Some (Inr outs, br') \<and> wf br' \<and> ok_msgs (rx_msgs msgs br') \<and>
    unread msgs br = concat (map out_bytes outs) @ unread msgs br' \<and>
    read_bytes br' = read_bytes br + length (concat (map out_bytes outs))"
  using assms
proof (induction rops arbitrary: br)
  case (Cons rop rops)
  from read_step_ok [OF Cons.prems(1,2), of rop] Cons.prems(3) obtain out br1 where
    s: "read_step recv rop br = Some (Inr out, br1)" "wf br1" "ok_msgs (rx_msgs msgs br1)"
    "unread msgs br = out_bytes out @ unread msgs br1"
    "read_bytes br1 = read_bytes br + length (out_bytes out)" by auto
  from Cons.IH [OF s(2,3)] Cons.prems(3) s show ?case by fastforce
qed simp

end

subsection \<open>Whole bodies\<close>

text \<open>
  C2. End to end: however the body is framed (empty frames and trailers included), whatever
  the buffer limit, and whether the body was consumed up front or streamed by the
  background reader, \<open>initialize\<close> followed by \<open>bytes()\<close> returns exactly the bytes of the
  body, counts them, and every later \<open>bytes()\<close> returns them again from the cache.
\<close>

theorem bytes_returns_whole_body:
  assumes "response_chunks next_data" and "no_errors fs" and "cfg \<noteq> NoBody"
    and "\<forall>n. content_length_of H (parts_headers head) = Some n \<longrightarrow> n \<le> isize_max"
  shows "\<exists>br held br'. reader_initialize H is_match next_data (head, fs) pm cfg rt = Some (Inr (br, head), held) \<and>
    read_all (recv is_match) None br = Some (Inr (body_bytes fs), br') \<and>
    read_bytes br' = length (body_bytes fs) \<and>
    read_all (recv is_match) c br' = Some (Inr (body_bytes fs), br')"
proof -
  from response_chunks.initialize_ok [OF assms(1,2), of H is_match head pm cfg rt] assms(3) obtain br where
    i: "reader_initialize H is_match next_data (head, fs) pm cfg rt = Some (Inr (br, head), pm \<and> body_receiver br \<noteq> None)"
    and f: "fresh_reader is_match (body_bytes fs) br"
    and l: "content_length br = content_length_of H (parts_headers head)" by auto
  from rx.read_all_ok [of br is_match] f l assms(4) obtain br' where
    "read_all (recv is_match) None br = Some (Inr (body_bytes fs), br')"
    "read_bytes br' = length (body_bytes fs)" "fully_consumed_body br' = Some (body_bytes fs)"
    by (auto simp: fresh_reader_def)
  with i show ?thesis by (auto simp: read_all_def)
qed

definition head0 :: "(flat_map, 16 word, unit) http_parts" where
  "head0 = \<lparr>parts_status = 200, parts_version = HTTP_11,
            parts_headers = [(CONTENT_LENGTH, HeaderValue [51] False)], parts_extensions = ()\<rparr>"

definition frames0 :: frames where
  "frames0 = [Inr (DataFrame [1, 2]), Inr (DataFrame []), Inr (DataFrame [3]), Inr TrailersFrame]"

lemma char_of_51: "char_of (51 :: nat) = CHR ''3''"
proof -
  have "of_char (CHR ''3'') = (51 :: nat)" by simp
  then show ?thesis by (metis char_of_char)
qed

lemma content_length_head0: "content_length_of flat_ops (parts_headers head0) = Some 3"
  by (simp add: content_length_of_def head0_def flat_ops_def flat_to_str_def bytes_str_def parse_usize_def
      CONTENT_LENGTH_def char_of_51 digit_of_def less_eq_char_def usize_max_def Let_def)

theorem bytes_returns_whole_body_witness:
  "\<exists>br held br'. reader_initialize flat_ops (\<lambda>_ _. False) first_data (head0, frames0) True
      (Streamed \<lparr>read_buffer_limit = 2\<rparr>) 0 = Some (Inr (br, head0), held) \<and>
    read_all (recv (\<lambda>_ _. False)) None br = Some (Inr [1, 2, 3], br') \<and> read_bytes br' = 3"
  using bytes_returns_whole_body [OF data.response_chunks_axioms, of frames0
      "Streamed \<lparr>read_buffer_limit = 2\<rparr>" flat_ops head0 "\<lambda>_ _. False" True 0 None]
  by (auto simp: content_length_head0 isize_max_def frames0_def numeral_3_eq_3)

text \<open>
  C4. A mix of \<open>read(n)\<close> and \<open>next_chunk()\<close> calls in any order, with any amounts, splits
  the body without losing, repeating or reordering a byte: what the calls returned, followed
  by what the reader still holds, is what it held before, and \<open>read_bytes\<close> counts what was
  returned.
\<close>

theorem reads_partition_body:
  assumes "rx.wf br" and "ok_msgs (rx_msgs (chan_msgs is_match) br)" and "list_all op_ok rops"
  shows "\<exists>outs br'. read_many (recv is_match) rops br = Some (Inr outs, br') \<and>
    unread (chan_msgs is_match) br = concat (map out_bytes outs) @ unread (chan_msgs is_match) br' \<and>
    read_bytes br' = read_bytes br + length (concat (map out_bytes outs)) \<and>
    rx.wf br' \<and> ok_msgs (rx_msgs (chan_msgs is_match) br')"
  using rx.read_many_ok [OF assms] by blast

definition reader0 :: "chan body_reader" where
  "reader0 = \<lparr>body_receiver = Some (start frames0 True 2), pending_chunks = [[9]],
     fully_consumed_body = None, content_length = None, read_bytes = 0, br_runtime = 0\<rparr>"

lemma reader0_ok:
  "rx.wf reader0" "ok_msgs (rx_msgs (chan_msgs is_match) reader0)"
  "rx_msgs (chan_msgs is_match) reader0 = [Inr [[1, 2]], Inr [[3]]]"
  "unread (chan_msgs is_match) reader0 = [9, 1, 2, 3]"
  by (simp_all add: rx.wf_def reader0_def alive_start rx_msgs_def unread_chunks_def chan_msgs_start
      frames0_def send_chunk_def finalize_def)

theorem reads_partition_body_witness:
  "\<exists>outs br'. read_many (recv (\<lambda>_ _. False)) [ReadOp 2, NextOp, ReadOp 0] reader0 = Some (Inr outs, br') \<and>
    [9, 1, 2, 3] = concat (map out_bytes outs) @ unread (chan_msgs (\<lambda>_ _. False)) br' \<and>
    rx.wf br' \<and> read_bytes br' = length (concat (map out_bytes outs))"
  using reads_partition_body [OF reader0_ok(1,2), of "[ReadOp 2, NextOp, ReadOp 0]" "\<lambda>_ _. False"]
  by (auto simp: reader0_ok(4) op_ok_def isize_max_def) (auto simp: reader0_def)

subsection \<open>Every schedule of the background reader\<close>

text \<open>
  C3. Whatever the interleaving of the background task and the receiver, the bytes that were
  received are a prefix of the body, in order; and a receiver that sees the end of the
  stream without a cancellation has received all of the body.
\<close>

theorem stream_integrity:
  assumes "run is_match evs (start fs pm n) s" and "no_errors fs"
  shows "\<exists>rest. body_bytes fs = msgs_bytes (received evs) @ rest \<and>
    (Recv None \<in> set evs \<longrightarrow> Cancelled \<notin> set evs \<longrightarrow> rest = [])"
proof -
  have all: "msgs_bytes (chan_msgs is_match (start fs pm n)) = body_bytes fs"
    using rx_ok_start(2) [OF assms(2)] by (simp add: msgs_bytes_def)
  from run_received_prefix [OF assms(1)] obtain rest where
    r: "chan_msgs is_match (start fs pm n) = received evs @ rest" by auto
  have "msgs_bytes rest = []" if rn: "Recv None \<in> set evs" and nc: "Cancelled \<notin> set evs"
  proof -
    from rn obtain evs1 evs2 where evs: "evs = evs1 @ Recv None # evs2" by (meson split_list)
    with assms(1) obtain s1 where r1: "run is_match evs1 (start fs pm n) s1"
      and s1: "\<not> rx_dropped s1" "queue s1 = []" "tx_dropped (task s1)"
      by (auto simp: run_append run_Cons_iff step_Recv)
    from run_msgs [OF r1 s1(1)] evs nc have "chan_msgs is_match (start fs pm n) = received evs1"
      by (auto simp: chan_msgs_def [of is_match s1] s1(2) pending_msgs_tx_dropped [OF s1(3)])
    with r evs show ?thesis by simp
  qed
  with r all show ?thesis by (intro exI [of _ "msgs_bytes rest"]) auto
qed

definition frames1 :: frames where
  "frames1 = [Inr (DataFrame [7])]"

definition evs1 :: "event list" where
  "evs1 = [Poll, SendOk, Poll, Recv (Some (Inr [[7]])), Recv None, Release]"

definition end1 :: chan where
  "end1 = \<lparr>task = Exited, body = [], rdr = \<lparr>buffer = None, tot_bytes = 0, buffer_size = 1\<rparr>,
     queue = [], rx_dropped = False, close_token = False, permit = False\<rparr>"

lemma run1: "run is_match evs1 (start frames1 True 1) end1"
  by (simp add: evs1_def run_Cons_iff step_event_step start_def frames1_def end1_def after_poll_def
      on_frame_def send_chunk_def finalize_def after_send_def CHANNEL_SIZE_def)

lemma received1: "received evs1 = [Inr [[7]]]"
  by (simp add: evs1_def)

theorem stream_integrity_witness:
  "body_bytes frames1 = msgs_bytes (received evs1)"
  using stream_integrity [OF run1] by (auto simp: frames1_def evs1_def)

text \<open>
  C8. The memory the background reader holds is bounded whatever the size of the body and
  however slow the receiver: the channel has at most two messages, and with frames of at most
  \<open>k\<close> bytes at most \<open>3 * (n + k) + n\<close> bytes are resident for the buffer size \<open>n\<close>.
\<close>

theorem bounded_buffering:
  assumes "run is_match evs (start fs pm n) s" and "frames_le k fs"
  shows "length (queue s) \<le> 2 \<and> resident s \<le> 3 * (n + k) + n"
proof -
  from chan_inv_run [OF assms(1) chan_inv_start [OF assms(2)]] have "chan_inv n k s" .
  then show ?thesis using resident_le by (auto simp: chan_inv_def CHANNEL_SIZE_def)
qed

theorem bounded_buffering_witness: "length (queue end1) \<le> 2 \<and> resident end1 \<le> 3 * (1 + 1) + 1"
  using bounded_buffering [OF run1, of 1] by (simp add: frames1_def frame_bytes_def)

text \<open>
  C6. The permit that limits concurrent requests is held exactly as long as the background
  task lives, on every schedule; and once the receiver is closed, the cancellation and the
  release alone, with no frame from the network and no room in the channel, end the task and
  give the permit back.
\<close>

theorem permit_lifetime:
  assumes "run is_match evs (start fs pm n) s"
  shows "(permit s \<longleftrightarrow> pm \<and> task s \<noteq> Exited) \<and>
    (close_token s \<longrightarrow> (\<exists>evs' s'. run is_match evs' s s' \<and> set evs' \<subseteq> {Cancelled, Release} \<and>
      task s' = Exited \<and> \<not> permit s'))"
proof -
  from permit_run [OF assms, of pm] have p: "permit s \<longleftrightarrow> pm \<and> task s \<noteq> Exited" by simp
  have "\<exists>evs' s'. run is_match evs' s s' \<and> set evs' \<subseteq> {Cancelled, Release} \<and> task s' = Exited \<and> \<not> permit s'"
    if "close_token s"
  proof (cases "task s = Exited")
    case True
    with p show ?thesis by (intro exI [of _ "[]"] exI [of _ s]) simp
  next
    case False
    from close_releases [OF that False] show ?thesis .
  qed
  with p show ?thesis by blast
qed

theorem permit_lifetime_witness: "\<exists>evs' s'. run (\<lambda>_ _. False) evs' ((start frames1 True 1)\<lparr>close_token := True\<rparr>) s' \<and>
    set evs' \<subseteq> {Cancelled, Release} \<and> task s' = Exited \<and> \<not> permit s'"
proof -
  have "run (\<lambda>_ _. False) [Close] (start frames1 True 1) ((start frames1 True 1)\<lparr>close_token := True\<rparr>)"
    by (simp add: run_Cons_iff step_event_step)
  from permit_lifetime [OF this] show ?thesis by simp
qed

text \<open>
  C7. The background task ends: it makes at most three steps per frame and three more, and
  until it has ended it is never stuck, unless it waits for room in a channel whose receiver is
  alive and can take a message out.
\<close>

theorem background_reader_progress:
  assumes "run is_match evs (start fs pm n) s"
  shows "length (filter task_event evs) \<le> 3 * length fs + 3 \<and>
    (task s \<noteq> Exited \<longrightarrow> (\<exists>ev s'. task_event ev \<and> step is_match ev s s') \<or>
      (\<not> rx_dropped s \<and> length (queue s) = 2 \<and> (\<exists>m s'. step is_match (Recv (Some m)) s s')))"
proof -
  have "frames_le (sum_list (map (\<lambda>f. length (frame_bytes f)) fs)) fs"
    unfolding frames_le_def list_all_iff by (auto intro: member_le_sum_list)
  from chan_inv_run [OF assms chan_inv_start [OF this]] have q: "length (queue s) \<le> 2"
    by (simp add: chan_inv_def CHANNEL_SIZE_def)
  from work_run [OF assms] have "length (filter task_event evs) \<le> 3 * length fs + 3"
    by (simp add: work_def start_def)
  with q task_progress [of s is_match] show ?thesis by (auto simp: CHANNEL_SIZE_def)
qed

theorem background_reader_progress_witness: "length (filter task_event evs1) \<le> 3 * length frames1 + 3"
  using background_reader_progress [OF run1] by simp

subsection \<open>Errors, cancellation, partial reads\<close>

definition streaming :: "frames \<Rightarrow> nat \<Rightarrow> nat option \<Rightarrow> chan body_reader" where
  "streaming fs n len = \<lparr>body_receiver = Some (start fs True n), pending_chunks = [],
     fully_consumed_body = None, content_length = len, read_bytes = 0, br_runtime = 0\<rparr>"

lemma streaming_simps [simp]:
  "rx.wf (streaming fs n len)" "pending_chunks (streaming fs n len) = []"
  "rx_msgs (chan_msgs is_match) (streaming fs n len) = chan_msgs is_match (start fs True n)"
  "read_bytes (streaming fs n len) = 0" "fully_consumed_body (streaming fs n len) = None"
  "content_length (streaming fs n len) = len" "body_receiver (streaming fs n len) = Some (start fs True n)"
  by (simp_all add: streaming_def rx.wf_def alive_start rx_msgs_def)

text \<open>
  When the transport fails after some frames, \<open>bytes()\<close> raises the mapped error instead
  of returning a truncated body. But the chunks that had been received are gone and nothing
  records it: calling \<open>bytes()\<close> again returns the empty body as if it were complete.
\<close>

theorem bytes_after_transport_error:
  assumes "no_errors fs" and "\<forall>l. len = Some l \<longrightarrow> l \<le> isize_max"
  shows "\<exists>br'. read_all (recv is_match) None (streaming (fs @ Inl e # fs') n len) =
      Some (Inl (map_read_error is_match e), br') \<and>
    map_option fst (read_all (recv is_match) None br') = Some (Inr [])"
proof -
  let ?br = "streaming (fs @ Inl e # fs') n len"
  from reader_msgs_error [OF open_reader_start [of n] assms(1), of is_match e fs'] obtain ms where
    m: "chan_msgs is_match (start (fs @ Inl e # fs') True n) = ms @ [Inl (map_read_error is_match e)]"
    and ok: "ok_msgs ms" by (auto simp: chan_msgs_start)
  from ok have "\<exists>bufs. ms = map Inr bufs"
    by (intro exI [of _ "map projr ms"]) (auto simp: ok_msgs_def comp_def intro!: map_idI [symmetric])
  then obtain bufs where ms: "ms = map Inr bufs" by blast
  have "rx_msgs (chan_msgs is_match) ?br = map Inr bufs @ Inl (map_read_error is_match e) # []"
    using m ms by simp
  from rx.bytes_loop_err [OF streaming_simps(1) this, of "[]"] obtain br' where
    l: "bytes_loop (recv is_match) None ?br [] = Some (Inl (map_read_error is_match e), br')"
    and s: "rx.same_rest ?br br'" and p: "pending_chunks br' = []" and r: "rx_msgs (chan_msgs is_match) br' = []"
    by blast
  from l assms(2) have "read_all (recv is_match) None ?br = Some (Inl (map_read_error is_match e), br')"
    by (auto simp: read_all_def not_less split: option.split)
  moreover from rx.read_all_ok [of br' is_match] s p r assms(2)
  have "map_option fst (read_all (recv is_match) None br') = Some (Inr [])"
    by (auto simp: rx.same_rest_def same_counters_def unread_chunks_def)
  ultimately show ?thesis by blast
qed

theorem bytes_after_transport_error_witness:
  "\<exists>br'. read_all (recv (\<lambda>_ _. False)) None
      (streaming (frames1 @ Inl (StdError ''broken'' AsOther None) # []) 5 (Some 9)) =
      Some (Inl (map_read_error (\<lambda>_ _. False) (StdError ''broken'' AsOther None)), br') \<and>
    map_option fst (read_all (recv (\<lambda>_ _. False)) None br') = Some (Inr [])"
  using bytes_after_transport_error [of frames1 "Some 9" "\<lambda>_ _. False"]
  by (simp add: frames1_def isize_max_def)

text \<open>
  A \<open>bytes()\<close> call that is cancelled at its await point number \<open>k\<close> raises, and drops
  what it had read: the next \<open>bytes()\<close> returns only the messages after the first \<open>k\<close>, as if
  they were the whole body, and caches that.
\<close>

theorem cancelled_bytes_loses_data:
  assumes "no_errors fs" and "\<forall>l. len = Some l \<longrightarrow> l \<le> isize_max"
    and "k \<le> length (chan_msgs is_match (start fs True n))"
  shows "\<exists>br' br''. read_all (recv is_match) (Some k) (streaming fs n len) =
      Some (Inl (cancelled_error ''Read was cancelled''), br') \<and>
    read_all (recv is_match) None br' =
      Some (Inr (msgs_bytes (drop k (chan_msgs is_match (start fs True n)))), br'')"
proof -
  let ?br = "streaming fs n len"
  have ok: "ok_msgs (rx_msgs (chan_msgs is_match) ?br)" using rx_ok_start(1) [OF assms(1)] by simp
  have "k \<le> length (rx_msgs (chan_msgs is_match) ?br)" using assms(3) by simp
  from rx.bytes_loop_cancelled [OF streaming_simps(1) ok _ this, of "[]"] obtain br' where
    l: "bytes_loop (recv is_match) (Some k) ?br [] = Some (Inl (cancelled_error ''Read was cancelled''), br')"
    and s: "rx.same_rest ?br br'" and p: "pending_chunks br' = []"
    and r: "rx_msgs (chan_msgs is_match) br' = drop k (chan_msgs is_match (start fs True n))" by auto
  have "ok_msgs (rx_msgs (chan_msgs is_match) br')" using ok r by auto
  from rx.read_all_ok [OF _ this] s p r assms(2) obtain br'' where
    "read_all (recv is_match) None br' =
      Some (Inr (msgs_bytes (drop k (chan_msgs is_match (start fs True n)))), br'')"
    by (auto simp: rx.same_rest_def same_counters_def unread_chunks_def msgs_bytes_def)
  moreover from l assms(2) have "read_all (recv is_match) (Some k) ?br =
      Some (Inl (cancelled_error ''Read was cancelled''), br')"
    by (auto simp: read_all_def not_less split: option.split)
  ultimately show ?thesis by blast
qed

theorem cancelled_bytes_loses_data_witness:
  "\<exists>br' br''. read_all (recv (\<lambda>_ _. False)) (Some 1) (streaming frames0 2 None) =
      Some (Inl (cancelled_error ''Read was cancelled''), br') \<and>
    read_all (recv (\<lambda>_ _. False)) None br' = Some (Inr [3], br'')"
  using cancelled_bytes_loses_data [of frames0 None 1 "\<lambda>_ _. False" 2]
  by (simp add: frames0_def chan_msgs_start send_chunk_def finalize_def)

text \<open>
  \<open>read(n)\<close> with a positive amount returns the next \<open>n\<close> bytes, fewer only at the end of
  the body, and \<open>None\<close> only when nothing is left; it leaves the rest in place; and after a
  read that returned a byte \<open>bytes()\<close> raises instead of returning a body with a hole.
\<close>

theorem read_takes_next_bytes:
  assumes "rx.wf br" and "ok_msgs (rx_msgs (chan_msgs is_match) br)" and "0 < n" and "n \<le> isize_max"
    and "fully_consumed_body br = None"
  shows "\<exists>out br'. read (recv is_match) None n br = Some (Inr out, br') \<and>
    (case out of
       None \<Rightarrow> unread_chunks (chan_msgs is_match) br = []
     | Some b \<Rightarrow> b = take n (unread (chan_msgs is_match) br) \<and>
         (b \<noteq> [] \<longrightarrow> read_all (recv is_match) c br' =
           Some (Inl (runtime_error ''Response body already consumed''), br'))) \<and>
    unread (chan_msgs is_match) br' = drop n (unread (chan_msgs is_match) br)"
proof -
  let ?out = "if unread_chunks (chan_msgs is_match) br = [] then None else Some (take n (unread (chan_msgs is_match) br))"
  from rx.read_ok [OF assms(1-4)] obtain br' where
    r: "read (recv is_match) None n br = Some (Inr ?out, br')"
    and u: "unread (chan_msgs is_match) br' = drop n (unread (chan_msgs is_match) br)"
    and b: "read_bytes br' = read_bytes br + length (take n (unread (chan_msgs is_match) br))"
    and f: "fully_consumed_body br' = fully_consumed_body br" by blast
  have "read_all (recv is_match) c br' = Some (Inl (runtime_error ''Response body already consumed''), br')"
    if "take n (unread (chan_msgs is_match) br) \<noteq> []"
  proof -
    from that have "0 < length (take n (unread (chan_msgs is_match) br))" by (rule length_greater_0_conv [THEN iffD2])
    with b have "read_bytes br' > 0" by linarith
    with f assms(5) show ?thesis by (simp add: read_all_def)
  qed
  with r u show ?thesis by (intro exI [of _ ?out] exI [of _ br']) auto
qed

theorem read_takes_next_bytes_witness:
  "\<exists>out br'. read (recv (\<lambda>_ _. False)) None 3 reader0 = Some (Inr out, br') \<and>
     unread (chan_msgs (\<lambda>_ _. False)) br' = [3]"
  using read_takes_next_bytes [OF reader0_ok(1,2), of 3 "\<lambda>_ _. False" None]
  by (auto simp: reader0_ok(4) isize_max_def) (auto simp: reader0_def)

text \<open>
  C10. How much of the body \<open>initialize\<close> reads, and what becomes of the permit. What it reads
  is kept as the pending chunks: the first data frames of the body, one chunk each, in order.
  A streamed body is read up to the chunk with which the limit is reached and not a chunk
  further: before the last chunk fewer bytes than the limit were buffered, and with a limit of
  zero nothing is read. The background reader is started, and the permit kept, exactly if the
  limit was reached; otherwise all chunks have been read. A body that is to be fully consumed is
  read to its end, without a body nothing is read, and in both cases, as for a short streamed body,
  the permit is given back at once. The assertion that a body was fully consumed cannot fail.
\<close>

theorem initialize_limit_and_permit:
  assumes "response_chunks next_data" and "no_errors fs"
  shows "\<exists>br held k. reader_initialize H is_match next_data (head, fs) True cfg rt = Some (Inr (br, head), held) \<and>
    (held \<longleftrightarrow> body_receiver br \<noteq> None) \<and>
    (held \<longleftrightarrow> (\<exists>c. cfg = Streamed c \<and> read_buffer_limit c \<le> length (concat (pending_chunks br)))) \<and>
    pending_chunks br = take k (body_chunks fs) \<and>
    (\<forall>c. cfg = Streamed c \<longrightarrow> pending_chunks br = [] \<or>
      length (concat (butlast (pending_chunks br))) < read_buffer_limit c) \<and>
    (\<not> held \<longrightarrow> pending_chunks br = (if cfg = NoBody then [] else body_chunks fs)) \<and>
    unread (chan_msgs is_match) br = (if cfg = NoBody then [] else body_bytes fs)"
proof -
  from response_chunks.initialize_ok [OF assms, of H is_match head True cfg rt] obtain br rest where
    i: "reader_initialize H is_match next_data (head, fs) True cfg rt =
      Some (Inr (br, head), body_receiver br \<noteq> None)"
    and u: "unread (chan_msgs is_match) br = (if cfg = NoBody then [] else body_bytes fs)"
    and h: "body_receiver br \<noteq> None \<longleftrightarrow>
      (\<exists>c. cfg = Streamed c \<and> length (concat (pending_chunks br)) \<ge> read_buffer_limit c)"
    and p: "pending_chunks br @ rest = (if cfg = NoBody then [] else body_chunks fs)"
    and e: "body_receiver br = None \<longrightarrow> rest = []"
    and lim: "\<forall>c. cfg = Streamed c \<longrightarrow> pending_chunks br = [] \<or>
      length (concat (butlast (pending_chunks br))) < read_buffer_limit c"
    by (auto simp: fresh_reader_def)
  from p have "pending_chunks br = take (length (pending_chunks br)) (body_chunks fs)"
    by (metis append_eq_conv_conj append_is_Nil_conv list.size(3) take0)
  with i u h p e lim show ?thesis
    by (intro exI [of _ br] exI [of _ "body_receiver br \<noteq> None"] exI [of _ "length (pending_chunks br)"]) auto
qed

text \<open>The limit of two bytes is reached with the first chunk: the others are not read.\<close>

lemma take_of_frames0:
  assumes "xs = take k (body_chunks frames0)" "xs = [] \<or> length (concat (butlast xs)) < 2" "xs \<noteq> []"
  shows "xs = [[1, 2]]"
  using assms by (auto simp: frames0_def take_Cons' split: if_splits)

theorem initialize_limit_and_permit_witness:
  "\<exists>br held. reader_initialize flat_ops (\<lambda>_ _. False) first_data (head0, frames0) True
      (Streamed \<lparr>read_buffer_limit = 2\<rparr>) 0 = Some (Inr (br, head0), held) \<and>
    held \<and> pending_chunks br = [[1, 2]] \<and> unread (chan_msgs (\<lambda>_ _. False)) br = [1, 2, 3]"
proof -
  have "no_errors frames0" by (simp add: frames0_def)
  from initialize_limit_and_permit [OF data.response_chunks_axioms this, of flat_ops "\<lambda>_ _. False" head0
      "Streamed \<lparr>read_buffer_limit = 2\<rparr>" 0] obtain br held k where
    i: "reader_initialize flat_ops (\<lambda>_ _. False) first_data (head0, frames0) True
      (Streamed \<lparr>read_buffer_limit = 2\<rparr>) 0 = Some (Inr (br, head0), held)"
    and h: "held \<longleftrightarrow> 2 \<le> length (concat (pending_chunks br))"
    and k: "pending_chunks br = take k (body_chunks frames0)"
    and l: "pending_chunks br = [] \<or> length (concat (butlast (pending_chunks br))) < 2"
    and n: "\<not> held \<longrightarrow> pending_chunks br = body_chunks frames0"
    and u: "unread (chan_msgs (\<lambda>_ _. False)) br = body_bytes frames0"
    by (elim exE conjE) (rule that, assumption, simp_all)
  from h n have "pending_chunks br \<noteq> []" by (auto simp: frames0_def)
  with take_of_frames0 [OF k l] i h u show ?thesis by (auto simp: frames0_def)
qed

text \<open>
  The \<open>Content-Length\<close> a server sends is trusted for the allocation: if it is above
  \<open>isize::MAX\<close> then \<open>bytes()\<close> panics, also when there is no body to read.
\<close>

theorem huge_content_length_panics:
  assumes "response_chunks next_data" and "no_errors fs"
    and "content_length_of H (parts_headers head) = Some len" and "len > isize_max"
  shows "\<exists>br held. reader_initialize H is_match next_data (head, fs) pm cfg rt = Some (Inr (br, head), held) \<and>
    read_all (recv is_match) c br = Some (Inl (panic ''capacity overflow''), br)"
proof -
  from response_chunks.initialize_ok [OF assms(1,2), of H is_match head pm cfg rt] obtain br where
    i: "reader_initialize H is_match next_data (head, fs) pm cfg rt = Some (Inr (br, head), pm \<and> body_receiver br \<noteq> None)"
    and "fully_consumed_body br = None" "read_bytes br = 0" "content_length br = Some len"
    by (auto simp: fresh_reader_def assms(3))
  then have "read_all (recv is_match) c br = Some (Inl (panic ''capacity overflow''), br)"
    using assms(4) by (simp add: read_all_def)
  with i show ?thesis by blast
qed

definition huge_head :: "(flat_map, 16 word, unit) http_parts" where
  "huge_head = head0\<lparr>parts_headers :=
     [(CONTENT_LENGTH, HeaderValue [57, 57, 57, 57, 57, 57, 57, 57, 57, 57, 57, 57, 57, 57, 57, 57, 57, 57, 57] False)]\<rparr>"

lemma char_of_57: "char_of (57 :: nat) = CHR ''9''"
proof -
  have "of_char (CHR ''9'') = (57 :: nat)" by simp
  then show ?thesis by (metis char_of_char)
qed

lemma content_length_huge: "content_length_of flat_ops (parts_headers huge_head) = Some 9999999999999999999"
  by (simp add: content_length_of_def huge_head_def flat_ops_def flat_to_str_def bytes_str_def parse_usize_def
      CONTENT_LENGTH_def char_of_57 digit_of_def less_eq_char_def usize_max_def Let_def)

theorem huge_content_length_panics_witness:
  "\<exists>br held. reader_initialize flat_ops (\<lambda>_ _. False) first_data (huge_head, []) True NoBody 0 =
      Some (Inr (br, huge_head), held) \<and>
    read_all (recv (\<lambda>_ _. False)) None br = Some (Inl (panic ''capacity overflow''), br)"
  using huge_content_length_panics [OF data.response_chunks_axioms _ content_length_huge, of "[]"]
  by (simp add: isize_max_def)

end
