(* ===== verification/Key_Val_Pairs.thy ===== *)
theory Key_Val_Pairs
  imports Exceptions
begin

section \<open>Key-value arguments from Python\<close>

text \<open>
  Models \<open>KeyValPairs\<close> of \<open>src/internal/utils.rs\<close>: headers, query and form parameters
  and extensions come in as a mapping, a list, a tuple or another sequence, each element is
  extracted to a pair, and the first failure stops the walk. \<open>'o\<close> is a Python object; what
  PyO3 extracts from one (a pair of objects, a key, a value) and how it is displayed are
  parameters. The closure that consumes the pairs passes its state \<open>'s\<close> along.
\<close>

subsection \<open>Extraction of one pair\<close>

record ('o, 'k, 'v) extractor =
  ext_pair :: "'o \<Rightarrow> ('o \<times> 'o) pyres"
  ext_key :: "'o \<Rightarrow> 'k pyres"
  ext_value :: "'o \<Rightarrow> 'v pyres"
  show_obj :: "'o \<Rightarrow> string"

definition extract_error :: "('o \<Rightarrow> 'a pyres) \<Rightarrow> ('o \<Rightarrow> string) \<Rightarrow> 'o \<Rightarrow> string \<Rightarrow> string \<Rightarrow> unit pyres" where
  "extract_error ext show v ctx part =
     (case ext v of
        Inl _ \<Rightarrow> Inl (value_error (''Invalid '' @ ctx @ '' '' @ part @ '': '' @ show v))
      | Inr _ \<Rightarrow> Inr ())"

definition kv_error :: "('o, 'k, 'v) extractor \<Rightarrow> 'o \<Rightarrow> string \<Rightarrow> unit pyres" where
  "kv_error X v ctx =
     and_then (ext_pair X v) (\<lambda>tup.
       and_then (extract_error (ext_key X) (show_obj X) (fst tup) ctx ''key'') (\<lambda>_.
         extract_error (ext_value X) (show_obj X) (snd tup) ctx ''value''))"

text \<open>PyO3 extracts a pair by its items, the first one first.\<close>

definition extract_kv :: "('o, 'k, 'v) extractor \<Rightarrow> 'o \<Rightarrow> ('k \<times> 'v) pyres" where
  "extract_kv X v =
     and_then (ext_pair X v) (\<lambda>tup.
       and_then (ext_key X (fst tup)) (\<lambda>k. map_res (Pair k) (ext_value X (snd tup))))"

definition kv :: "('o, 'k, 'v) extractor \<Rightarrow> 'o \<Rightarrow> string \<Rightarrow> ('k \<times> 'v) pyres" where
  "kv X v ctx =
     map_err (\<lambda>e. case kv_error X v ctx of Inl e' \<Rightarrow> e' | Inr _ \<Rightarrow> e) (extract_kv X v)"

subsection \<open>The walk\<close>

text \<open>
  What the Python object yields: a mapping its \<open>items()\<close> as a list (or the error of that
  call), a list and a sequence an iterator whose steps may fail, a tuple its elements.
\<close>

datatype 'o key_val_pairs =
    Mapping "'o list pyres"
  | PList "'o pyres list pyres"
  | PTuple "'o list"
  | PSequence "'o pyres list pyres"

fun try_for_each :: "('a \<Rightarrow> 's \<Rightarrow> unit pyres \<times> 's) \<Rightarrow> 'a list \<Rightarrow> 's \<Rightarrow> unit pyres \<times> 's" where
  "try_for_each f [] s = (Inr (), s)"
| "try_for_each f (x # xs) s =
     (case f x s of (Inl e, s') \<Rightarrow> (Inl e, s') | (Inr _, s') \<Rightarrow> try_for_each f xs s')"

definition on_pair ::
    "('o, 'k, 'v) extractor \<Rightarrow> string \<Rightarrow> ('k \<times> 'v \<Rightarrow> 's \<Rightarrow> unit pyres \<times> 's) \<Rightarrow> 'o \<Rightarrow> 's \<Rightarrow> unit pyres \<times> 's" where
  "on_pair X ctx f v s = (case kv X v ctx of Inl e \<Rightarrow> (Inl e, s) | Inr p \<Rightarrow> f p s)"

definition on_item ::
    "('o, 'k, 'v) extractor \<Rightarrow> string \<Rightarrow> ('k \<times> 'v \<Rightarrow> 's \<Rightarrow> unit pyres \<times> 's) \<Rightarrow> 'o pyres \<Rightarrow> 's \<Rightarrow> unit pyres \<times> 's" where
  "on_item X ctx f r s = (case r of Inl e \<Rightarrow> (Inl e, s) | Inr v \<Rightarrow> on_pair X ctx f v s)"

definition for_each ::
    "('o, 'k, 'v) extractor \<Rightarrow> 'o key_val_pairs \<Rightarrow> string \<Rightarrow> ('k \<times> 'v \<Rightarrow> 's \<Rightarrow> unit pyres \<times> 's) \<Rightarrow>
     's \<Rightarrow> unit pyres \<times> 's" where
  "for_each X kvs ctx f s =
     (case kvs of
        Mapping (Inl e) \<Rightarrow> (Inl e, s)
      | Mapping (Inr vs) \<Rightarrow> try_for_each (on_pair X ctx f) vs s
      | PList (Inl e) \<Rightarrow> (Inl e, s)
      | PList (Inr vs) \<Rightarrow> try_for_each (on_item X ctx f) vs s
      | PTuple vs \<Rightarrow> try_for_each (on_pair X ctx f) vs s
      | PSequence (Inl e) \<Rightarrow> (Inl e, s)
      | PSequence (Inr vs) \<Rightarrow> try_for_each (on_item X ctx f) vs s)"

text \<open>\<open>len\<close> asks the object, which can raise; \<open>into_vec\<close> asks first and then walks.\<close>

definition into_vec ::
    "('o, 'k, 'v) extractor \<Rightarrow> nat pyres \<Rightarrow> 'o key_val_pairs \<Rightarrow> string \<Rightarrow> ('k \<times> 'v) list pyres" where
  "into_vec X len_res kvs ctx =
     (case len_res of
        Inl e \<Rightarrow> Inl e
      | Inr _ \<Rightarrow>
        (case for_each X kvs ctx (\<lambda>p res. (Inr (), res @ [p])) [] of
           (Inl e, _) \<Rightarrow> Inl e
         | (Inr _, res) \<Rightarrow> Inr res))"

subsection \<open>Lemmas\<close>

text \<open>The pairs an argument yields up to the first failure, and that failure if any.\<close>

fun good_prefix :: "'a pyres list \<Rightarrow> 'a list \<times> py_err option" where
  "good_prefix [] = ([], None)"
| "good_prefix (Inl e # rs) = ([], Some e)"
| "good_prefix (Inr a # rs) = (case good_prefix rs of (as, e) \<Rightarrow> (a # as, e))"

definition pairs_of :: "('o, 'k, 'v) extractor \<Rightarrow> 'o key_val_pairs \<Rightarrow> string \<Rightarrow> ('k \<times> 'v) pyres list" where
  "pairs_of X kvs ctx =
     (let item = (\<lambda>r. and_then r (\<lambda>v. kv X v ctx)) in
      case kvs of
        Mapping (Inl e) \<Rightarrow> [Inl e]
      | Mapping (Inr vs) \<Rightarrow> map (\<lambda>v. kv X v ctx) vs
      | PList (Inl e) \<Rightarrow> [Inl e]
      | PList (Inr vs) \<Rightarrow> map item vs
      | PTuple vs \<Rightarrow> map (\<lambda>v. kv X v ctx) vs
      | PSequence (Inl e) \<Rightarrow> [Inl e]
      | PSequence (Inr vs) \<Rightarrow> map item vs)"

definition on_res :: "('a \<Rightarrow> 's \<Rightarrow> unit pyres \<times> 's) \<Rightarrow> 'a pyres \<Rightarrow> 's \<Rightarrow> unit pyres \<times> 's" where
  "on_res f r s = (case r of Inl e \<Rightarrow> (Inl e, s) | Inr p \<Rightarrow> f p s)"

lemma try_for_each_map: "try_for_each f (map g xs) s = try_for_each (\<lambda>x. f (g x)) xs s"
  by (induction xs arbitrary: s) (auto split: sum.splits prod.splits)

text \<open>The four shapes are one walk over the same list of results.\<close>

lemma for_each_pairs_of:
  "for_each X kvs ctx f s = try_for_each (on_res f) (pairs_of X kvs ctx) s"
proof -
  have "on_pair X ctx f = (\<lambda>v. on_res f (kv X v ctx))"
    by (simp add: fun_eq_iff on_pair_def on_res_def)
  moreover have "on_item X ctx f = (\<lambda>r. on_res f (and_then r (\<lambda>v. kv X v ctx)))"
    by (simp add: fun_eq_iff on_item_def on_pair_def on_res_def split: sum.splits)
  ultimately show ?thesis
    by (cases kvs)
      (auto simp: for_each_def pairs_of_def try_for_each_map on_res_def Let_def split: sum.splits)
qed

lemma try_for_each_good:
  assumes "\<And>p s. p \<in> set (fst (good_prefix rs)) \<Longrightarrow> f p s = (Inr (), g p s)"
  shows "try_for_each (on_res f) rs s =
    ((case snd (good_prefix rs) of None \<Rightarrow> Inr () | Some e \<Rightarrow> Inl e), fold g (fst (good_prefix rs)) s)"
  using assms
proof (induction rs arbitrary: s rule: good_prefix.induct)
  case (3 a rs)
  then show ?case by (cases "good_prefix rs") (simp add: on_res_def)
qed (simp_all add: on_res_def)

lemma fold_snoc: "fold (\<lambda>p res. res @ [p]) xs acc = acc @ xs"
  by (induction xs arbitrary: acc) auto

lemma into_vec_good:
  "into_vec X (Inr n) kvs ctx =
     (case good_prefix (pairs_of X kvs ctx) of (ps, None) \<Rightarrow> Inr ps | (_, Some e) \<Rightarrow> Inl e)"
  by (simp add: into_vec_def for_each_pairs_of try_for_each_good [where g = "\<lambda>p res. res @ [p]"]
      fold_snoc split: prod.splits option.splits)

lemma kv_ok: "ext_pair X v = Inr (a, b) \<Longrightarrow> ext_key X a = Inr k \<Longrightarrow> ext_value X b = Inr w \<Longrightarrow>
  kv X v ctx = Inr (k, w)"
  by (simp add: kv_def extract_kv_def)

lemma kv_bad_key: "ext_pair X v = Inr (a, b) \<Longrightarrow> ext_key X a = Inl e \<Longrightarrow>
  kv X v ctx = Inl (value_error (''Invalid '' @ ctx @ '' '' @ ''key'' @ '': '' @ show_obj X a))"
  by (simp add: kv_def extract_kv_def kv_error_def extract_error_def)

lemma kv_bad_value: "ext_pair X v = Inr (a, b) \<Longrightarrow> ext_key X a = Inr k \<Longrightarrow> ext_value X b = Inl e \<Longrightarrow>
  kv X v ctx = Inl (value_error (''Invalid '' @ ctx @ '' '' @ ''value'' @ '': '' @ show_obj X b))"
  by (simp add: kv_def extract_kv_def kv_error_def extract_error_def)

text \<open>A walk that succeeds has seen good pairs only, and has run the closure on all of them.\<close>

lemma try_for_each_res_ok:
  "try_for_each (on_res f) rs s = (Inr u, s') \<Longrightarrow>
   \<exists>ps. good_prefix rs = (ps, None) \<and> try_for_each f ps s = (Inr u, s')"
proof (induction rs arbitrary: s rule: good_prefix.induct)
  case (3 a rs)
  obtain r s1 where f: "f a s = (r, s1)" by fastforce
  with "3.prems" obtain u1 where r: "r = Inr u1" by (cases r) (auto simp: on_res_def)
  with "3.IH" [of s1] "3.prems" f show ?case by (auto simp: on_res_def)
qed (simp_all add: on_res_def)

lemma try_for_each_append:
  "try_for_each f (xs @ ys) s =
     (case try_for_each f xs s of (Inl e, s') \<Rightarrow> (Inl e, s') | (Inr _, s') \<Rightarrow> try_for_each f ys s')"
  by (induction xs arbitrary: s) (auto split: prod.splits sum.splits)

end
