(* ===== verification/Header_Map.thy ===== *)
theory Header_Map
  imports Header_Api Key_Val_Pairs
begin

section \<open>The Python header map\<close>

text \<open>
  Models \<open>HeaderMap\<close> of \<open>src/http/header_map/header_map.rs\<close>: a mutex around an optional
  \<open>http::HeaderMap\<close>, emptied when a builder consumes it. \<open>ref_map\<close> and \<open>mut_map\<close>
  run a closure on the map if it is still there. Every definition takes the operations \<open>H\<close>
  of the \<open>http\<close> crate (theory \<open>Header_Api\<close>) and returns its result beside the updated
  object. A value handed to Python as a string is converted by \<open>inner_str\<close>, which fails
  on bytes that are not visible ASCII.
\<close>

subsection \<open>State and access\<close>

record 'm header_map =
  inner :: "'m option"
  poisoned :: bool

definition header_map_from :: "'m \<Rightarrow> 'm header_map" where
  "header_map_from m = \<lparr>inner = Some m, poisoned = False\<rparr>"

definition safe_lock :: "'m header_map \<Rightarrow> 'm option pyres" where
  "safe_lock h = (if poisoned h then Inl (runtime_error ''HeaderMap mutex poisoned'') else Inr (inner h))"

definition consumed_error :: py_err where
  "consumed_error = runtime_error ''HeaderMap was already consumed''"

definition ref_map :: "('m \<Rightarrow> 'a pyres) \<Rightarrow> 'm header_map \<Rightarrow> 'a pyres" where
  "ref_map f h =
     (case safe_lock h of
        Inl e \<Rightarrow> Inl e
      | Inr (Some m) \<Rightarrow> f m
      | Inr None \<Rightarrow> Inl consumed_error)"

definition mut_map :: "('m \<Rightarrow> 'a pyres \<times> 'm) \<Rightarrow> 'm header_map \<Rightarrow> 'a pyres \<times> 'm header_map" where
  "mut_map f h =
     (case safe_lock h of
        Inl e \<Rightarrow> (Inl e, h)
      | Inr (Some m) \<Rightarrow> (case f m of (r, m') \<Rightarrow> (r, h\<lparr>inner := Some m'\<rparr>))
      | Inr None \<Rightarrow> (Inl consumed_error, h))"

definition try_take_inner :: "'m header_map \<Rightarrow> 'm pyres \<times> 'm header_map" where
  "try_take_inner h =
     (case safe_lock h of
        Inl e \<Rightarrow> (Inl e, h)
      | Inr m \<Rightarrow> (ok_or consumed_error m, h\<lparr>inner := None\<rparr>))"

definition try_clone :: "'m header_map \<Rightarrow> 'm header_map pyres" where
  "try_clone h = ref_map (\<lambda>m. Inr (header_map_from m)) h"

definition inner_str :: "'m http_ops \<Rightarrow> header_value \<Rightarrow> string pyres" where
  "inner_str H v = map_err value_error (value_to_str H v)"

text \<open>An argument \<open>default=...\<close>: \<open>None\<close> is the ellipsis that stands for "not given".\<close>

datatype 'o py_any = PyStr string | PyStrList "string list" | PyAnyObj 'o

definition pop_arg_res :: "'o option \<Rightarrow> string \<Rightarrow> 'o py_any pyres" where
  "pop_arg_res dflt key =
     (case dflt of Some v \<Rightarrow> Inr (PyAnyObj v) | None \<Rightarrow> Inl (key_error key))"

subsection \<open>Reading\<close>

definition getitem :: "'m http_ops \<Rightarrow> string \<Rightarrow> 'm header_map \<Rightarrow> header_value pyres" where
  "getitem H key h =
     ref_map (\<lambda>m. case hm_get_str H m key of Some v \<Rightarrow> Inr v | None \<Rightarrow> Inl (key_error key)) h"

definition header_bool :: "'m http_ops \<Rightarrow> 'm header_map \<Rightarrow> bool pyres" where
  "header_bool H h = ref_map (\<lambda>m. Inr (\<not> hm_is_empty H m)) h"

definition header_len :: "'m http_ops \<Rightarrow> 'm header_map \<Rightarrow> nat pyres" where
  "header_len H h = ref_map (\<lambda>m. Inr (hm_len H m)) h"

definition header_contains :: "'m http_ops \<Rightarrow> string \<Rightarrow> 'm header_map \<Rightarrow> bool pyres" where
  "header_contains H key h = ref_map (\<lambda>m. Inr (hm_contains_str H m key)) h"

definition header_get :: "'m http_ops \<Rightarrow> string \<Rightarrow> 'o \<Rightarrow> 'm header_map \<Rightarrow> 'o py_any pyres" where
  "header_get H key dflt h =
     ref_map (\<lambda>m. case hm_get_str H m key of
        Some v \<Rightarrow> map_res PyStr (inner_str H v)
      | None \<Rightarrow> Inr (PyAnyObj dflt)) h"

definition keys_len :: "'m http_ops \<Rightarrow> 'm header_map \<Rightarrow> nat pyres" where
  "keys_len H h = ref_map (\<lambda>m. Inr (hm_keys_len H m)) h"

definition get_one :: "'m http_ops \<Rightarrow> string \<Rightarrow> 'm header_map \<Rightarrow> header_value option pyres" where
  "get_one H key h = ref_map (\<lambda>m. Inr (hm_get_str H m key)) h"

definition get_all :: "'m http_ops \<Rightarrow> string \<Rightarrow> 'm header_map \<Rightarrow> header_value list pyres" where
  "get_all H key h = ref_map (\<lambda>m. Inr (hm_get_all_str H m key)) h"

definition keys_once_deque :: "'m http_ops \<Rightarrow> 'm header_map \<Rightarrow> header_name list pyres" where
  "keys_once_deque H h = ref_map (\<lambda>m. Inr (hm_keys H m)) h"

definition keys_mult_deque :: "'m http_ops \<Rightarrow> 'm header_map \<Rightarrow> header_name list pyres" where
  "keys_mult_deque H h = ref_map (\<lambda>m. Inr (map fst (hm_iter H m))) h"

definition get_all_extend_to_deque ::
    "'m http_ops \<Rightarrow> string \<Rightarrow> header_value list \<Rightarrow> 'm header_map \<Rightarrow> header_value list pyres" where
  "get_all_extend_to_deque H key deque h = ref_map (\<lambda>m. Inr (deque @ hm_get_all_str H m key)) h"

subsection \<open>Writing\<close>

definition insert_pair ::
    "'m http_ops \<Rightarrow> header_name \<times> header_value \<Rightarrow> 'm \<Rightarrow> unit pyres \<times> 'm" where
  "insert_pair H p m =
     (case hm_try_insert H m (fst p) (snd p) of
        (Inl e, m') \<Rightarrow> (Inl (runtime_error e), m')
      | (Inr _, m') \<Rightarrow> (Inr (), m'))"

definition append_pair ::
    "'m http_ops \<Rightarrow> header_name \<times> header_value \<Rightarrow> 'm \<Rightarrow> unit pyres \<times> 'm" where
  "append_pair H p m =
     (case hm_try_append H m (fst p) (snd p) of
        (Inl e, m') \<Rightarrow> (Inl (runtime_error e), m')
      | (Inr _, m') \<Rightarrow> (Inr (), m'))"

definition setitem ::
    "'m http_ops \<Rightarrow> header_name \<Rightarrow> header_value \<Rightarrow> 'm header_map \<Rightarrow> unit pyres \<times> 'm header_map" where
  "setitem H key value h = mut_map (insert_pair H (key, value)) h"

definition delitem :: "'m http_ops \<Rightarrow> string \<Rightarrow> 'm header_map \<Rightarrow> unit pyres \<times> 'm header_map" where
  "delitem H key h =
     (case parse_name H key of
        Inl _ \<Rightarrow> (Inl (key_error key), h)
      | Inr k \<Rightarrow>
        mut_map (\<lambda>m. case hm_try_entry H m k of
            (Inr True, m1) \<Rightarrow> (Inr (), snd (hm_remove_entry_mult H m1 k))
          | (Inr False, m1) \<Rightarrow> (Inl (key_error (name_str k)), m1)
          | (Inl e, m1) \<Rightarrow> (Inl (runtime_error e), m1)) h)"

text \<open>
  \<open>pop_inner\<close> removes the entry and appends all values but the first again. A value that is
  no visible ASCII is removed and then fails to convert.
\<close>

definition pop_inner ::
    "'m http_ops \<Rightarrow> header_name \<Rightarrow> 'o option \<Rightarrow> 'm \<Rightarrow> 'o py_any pyres \<times> 'm" where
  "pop_inner H key dflt m =
     (case hm_try_entry H m key of
        (Inl e, m1) \<Rightarrow> (Inl (runtime_error e), m1)
      | (Inr False, m1) \<Rightarrow> (pop_arg_res dflt (name_str key), m1)
      | (Inr True, m1) \<Rightarrow>
          (case hm_remove_entry_mult H m1 key of
             ([], m2) \<Rightarrow> (Inl (runtime_error ''Expected at least one value''), m2)
           | (first # new_vals, m2) \<Rightarrow>
               (case try_for_each (append_pair H) (map (Pair key) new_vals) m2 of
                  (Inl e, m3) \<Rightarrow> (Inl e, m3)
                | (Inr _, m3) \<Rightarrow> (map_res PyStr (inner_str H first), m3))))"

definition pop ::
    "'m http_ops \<Rightarrow> string \<Rightarrow> 'o option \<Rightarrow> 'm header_map \<Rightarrow> 'o py_any pyres \<times> 'm header_map" where
  "pop H key dflt h =
     (case parse_name H key of
        Inl _ \<Rightarrow> (pop_arg_res dflt key, h)
      | Inr k \<Rightarrow> mut_map (pop_inner H k dflt) h)"

definition popitem ::
    "'m http_ops \<Rightarrow> 'm header_map \<Rightarrow> (header_name \<times> 'o py_any) pyres \<times> 'm header_map" where
  "popitem H h =
     mut_map (\<lambda>m. case hm_iter H m of
         [] \<Rightarrow> (Inl (key_error ''popitem(): HeaderMap is empty''), m)
       | (key, _) # _ \<Rightarrow>
           (case pop_inner H key None m of (val, m') \<Rightarrow> (map_res (Pair key) val, m'))) h"

definition clear :: "'m http_ops \<Rightarrow> 'm header_map \<Rightarrow> unit pyres \<times> 'm header_map" where
  "clear H h = mut_map (\<lambda>m. (Inr (), hm_clear H m)) h"

text \<open>
  \<open>update(other, **kwargs)\<close>: the pairs of \<open>other\<close> first, then the keyword arguments, each
  extracted as a pair of header name and value.
\<close>

definition update ::
    "'m http_ops \<Rightarrow> ('o, header_name, header_value) extractor \<Rightarrow> 'o key_val_pairs option \<Rightarrow>
     'o list option \<Rightarrow> 'm header_map \<Rightarrow> unit pyres \<times> 'm header_map" where
  "update H X other py_kwargs h =
     mut_map (\<lambda>m.
       case (case other of Some o' \<Rightarrow> for_each X o' ''header'' (insert_pair H) m | None \<Rightarrow> (Inr (), m)) of
         (Inl e, m1) \<Rightarrow> (Inl e, m1)
       | (Inr _, m1) \<Rightarrow>
           (case py_kwargs of
              Some kwargs \<Rightarrow>
                try_for_each (on_res (insert_pair H)) (map (extract_kv X) kwargs) m1
            | None \<Rightarrow> (Inr (), m1))) h"

definition setdefault ::
    "'m http_ops \<Rightarrow> header_name \<Rightarrow> header_value \<Rightarrow> 'm header_map \<Rightarrow>
     header_value pyres \<times> 'm header_map" where
  "setdefault H key dflt h =
     mut_map (\<lambda>m. case hm_try_entry H m key of
         (Inr True, m1) \<Rightarrow> (ok_or (panic ''occupied'') (hm_get H m1 key), m1)
       | (Inr False, m1) \<Rightarrow>
           (case hm_vacant_insert H m1 key dflt of
              (Inl e, m2) \<Rightarrow> (Inl (runtime_error e), m2)
            | (Inr _, m2) \<Rightarrow> (Inr dflt, m2))
       | (Inl e, m1) \<Rightarrow> (Inl (runtime_error e), m1)) h"

definition header_insert ::
    "'m http_ops \<Rightarrow> header_name \<Rightarrow> header_value \<Rightarrow> bool \<Rightarrow> 'm header_map \<Rightarrow>
     header_value list pyres \<times> 'm header_map" where
  "header_insert H key value sens h =
     (let value = set_sensitive sens value in
      mut_map (\<lambda>m. case hm_try_entry H m key of
          (Inr True, m1) \<Rightarrow> (case hm_insert_mult H m1 key value of (vs, m2) \<Rightarrow> (Inr vs, m2))
        | (Inr False, m1) \<Rightarrow>
            (case hm_vacant_insert H m1 key value of
               (Inl e, m2) \<Rightarrow> (Inl (runtime_error e), m2)
             | (Inr _, m2) \<Rightarrow> (Inr [], m2))
        | (Inl e, m1) \<Rightarrow> (Inl (runtime_error e), m1)) h)"

definition append ::
    "'m http_ops \<Rightarrow> header_name \<Rightarrow> header_value \<Rightarrow> bool \<Rightarrow> 'm header_map \<Rightarrow>
     bool pyres \<times> 'm header_map" where
  "append H key value sens h =
     (let value = set_sensitive sens value in
      mut_map (\<lambda>m. case hm_try_append H m key value of
          (Inl e, m') \<Rightarrow> (Inl (runtime_error e), m')
        | (Inr b, m') \<Rightarrow> (Inr b, m')) h)"

definition extend_inner ::
    "'m http_ops \<Rightarrow> ('o, header_name, header_value) extractor \<Rightarrow> 'o key_val_pairs \<Rightarrow> 'm \<Rightarrow>
     unit pyres \<times> 'm" where
  "extend_inner H X other m = for_each X other ''header'' (append_pair H) m"

definition header_extend ::
    "'m http_ops \<Rightarrow> ('o, header_name, header_value) extractor \<Rightarrow> 'o key_val_pairs \<Rightarrow> 'm header_map \<Rightarrow>
     unit pyres \<times> 'm header_map" where
  "header_extend H X other h = mut_map (extend_inner H X other) h"

definition new_py ::
    "'m http_ops \<Rightarrow> ('o, header_name, header_value) extractor \<Rightarrow> nat pyres \<Rightarrow> 'o key_val_pairs option \<Rightarrow>
     'm header_map pyres" where
  "new_py H X len_res other =
     (case other of
        None \<Rightarrow> Inr (header_map_from (hm_new H))
      | Some o' \<Rightarrow>
        and_then len_res (\<lambda>_.
          case extend_inner H X o' (hm_new H) of
            (Inl e, _) \<Rightarrow> Inl e
          | (Inr _, m) \<Rightarrow> Inr (header_map_from m)))"

definition popall ::
    "'m http_ops \<Rightarrow> string \<Rightarrow> 'o option \<Rightarrow> 'm header_map \<Rightarrow> 'o py_any pyres \<times> 'm header_map" where
  "popall H key dflt h =
     (case parse_name H key of
        Inl _ \<Rightarrow> (pop_arg_res dflt key, h)
      | Inr k \<Rightarrow>
        mut_map (\<lambda>m. case hm_try_entry H m k of
            (Inr True, m1) \<Rightarrow>
              (case hm_remove_entry_mult H m1 k of
                 (vs, m2) \<Rightarrow> (map_res PyStrList (collect_res (map (inner_str H) vs)), m2))
          | (Inr False, m1) \<Rightarrow> (pop_arg_res dflt (name_str k), m1)
          | (Inl e, m1) \<Rightarrow> (Inl (runtime_error e), m1)) h)"

subsection \<open>Conversion to a dictionary, comparison\<close>

text \<open>
  \<open>dict_multi_value_inner\<close> builds a Python \<open>dict\<close>: an association list in insertion
  order. The first value of a key is a string, further ones turn it into a list.
\<close>

datatype dict_value = DStr string | DList "string list"

fun dict_get :: "(string \<times> 'b) list \<Rightarrow> string \<Rightarrow> 'b option" where
  "dict_get [] k = None"
| "dict_get ((k', v) # d) k = (if k' = k then Some v else dict_get d k)"

fun dict_set :: "(string \<times> 'b) list \<Rightarrow> string \<Rightarrow> 'b \<Rightarrow> (string \<times> 'b) list" where
  "dict_set [] k v = [(k, v)]"
| "dict_set ((k', v') # d) k v = (if k' = k then (k', v) # d else (k', v') # dict_set d k v)"

definition dict_add :: "(string \<times> dict_value) list \<Rightarrow> string \<Rightarrow> string \<Rightarrow> (string \<times> dict_value) list" where
  "dict_add dict key value =
     (case dict_get dict key of
        None \<Rightarrow> dict_set dict key (DStr value)
      | Some (DStr existing) \<Rightarrow> dict_set dict key (DList [existing, value])
      | Some (DList existing) \<Rightarrow> dict_set dict key (DList (existing @ [value])))"

definition shown_value :: "'m http_ops \<Rightarrow> bool \<Rightarrow> header_value \<Rightarrow> string pyres" where
  "shown_value H hide_sensitive v =
     (if hide_sensitive \<and> hv_sensitive v then Inr ''Sensitive'' else inner_str H v)"

fun dict_multi_value_loop ::
    "'m http_ops \<Rightarrow> bool \<Rightarrow> (header_name \<times> header_value) list \<Rightarrow> (string \<times> dict_value) list \<Rightarrow>
     (string \<times> dict_value) list pyres" where
  "dict_multi_value_loop H hide [] dict = Inr dict"
| "dict_multi_value_loop H hide ((key, v) # ps) dict =
     and_then (shown_value H hide v) (\<lambda>value.
       dict_multi_value_loop H hide ps (dict_add dict (name_str key) value))"

definition dict_multi_value_inner ::
    "'m http_ops \<Rightarrow> 'm \<Rightarrow> bool \<Rightarrow> (string \<times> dict_value) list pyres" where
  "dict_multi_value_inner H m hide_sensitive = dict_multi_value_loop H hide_sensitive (hm_iter H m) []"

definition dict_multi_value :: "'m http_ops \<Rightarrow> 'm header_map \<Rightarrow> (string \<times> dict_value) list pyres" where
  "dict_multi_value H h = ref_map (\<lambda>m. dict_multi_value_inner H m False) h"

text \<open>
  \<open>__eq__\<close> runs inside the closure of \<open>ref_map\<close>, with the mutex of the left operand
  held. The store \<open>st\<close> gives the object at each address. The right operand is a
  \<open>HeaderMap\<close> object (whose mutex is locked too), something a header map can be built from,
  or another object, which is compared with the dictionary by Python (\<open>py_eq\<close>). Locking a
  mutex its thread holds does not return: the result is then \<open>None\<close>.
\<close>

datatype ('m, 'o) eq_operand = MapObject nat | Convertible "'m header_map" | OtherObject 'o

definition header_eq ::
    "'m http_ops \<Rightarrow> ((string \<times> dict_value) list \<Rightarrow> 'o \<Rightarrow> bool pyres) \<Rightarrow> (nat \<Rightarrow> 'm header_map) \<Rightarrow>
     nat \<Rightarrow> ('m, 'o) eq_operand \<Rightarrow> bool pyres option" where
  "header_eq H py_eq st self other =
     (case safe_lock (st self) of
        Inl e \<Rightarrow> Some (Inl e)
      | Inr None \<Rightarrow> Some (Inl consumed_error)
      | Inr (Some m) \<Rightarrow>
          (case other of
             MapObject a \<Rightarrow>
               if a = self then None else Some (ref_map (\<lambda>m2. Inr (hm_eq H m m2)) (st a))
           | Convertible h \<Rightarrow> Some (ref_map (\<lambda>m2. Inr (hm_eq H m m2)) h)
           | OtherObject ob \<Rightarrow>
               Some (and_then (dict_multi_value_inner H m False) (\<lambda>d. py_eq d ob))))"

definition header_ne ::
    "'m http_ops \<Rightarrow> ((string \<times> dict_value) list \<Rightarrow> 'o \<Rightarrow> bool pyres) \<Rightarrow> (nat \<Rightarrow> 'm header_map) \<Rightarrow>
     nat \<Rightarrow> ('m, 'o) eq_operand \<Rightarrow> bool pyres option" where
  "header_ne H py_eq st self other = map_option (map_res Not) (header_eq H py_eq st self other)"

subsection \<open>Lemmas: a map that has not been consumed\<close>

definition live :: "'m header_map \<Rightarrow> 'm \<Rightarrow> bool" where
  "live h m \<longleftrightarrow> inner h = Some m \<and> \<not> poisoned h"

lemma live_from [simp]: "live (header_map_from m) m' \<longleftrightarrow> m' = m"
  by (auto simp: live_def header_map_from_def)

lemma ref_map_live [header_simps]: "live h m \<Longrightarrow> ref_map f h = f m"
  by (simp add: live_def ref_map_def safe_lock_def)

lemma mut_map_live [header_simps]:
  "live h m \<Longrightarrow> mut_map f h = (fst (f m), h\<lparr>inner := Some (snd (f m))\<rparr>)"
  by (simp add: live_def mut_map_def safe_lock_def split: prod.split)

lemma live_update [simp]: "live h m \<Longrightarrow> live (h\<lparr>inner := Some m'\<rparr>) m'' \<longleftrightarrow> m'' = m'"
  by (auto simp: live_def)

lemma take_live [header_simps]: "live h m \<Longrightarrow> try_take_inner h = (Inr m, h\<lparr>inner := None\<rparr>)"
  by (simp add: live_def try_take_inner_def safe_lock_def)

definition spent :: "'m header_map \<Rightarrow> bool" where
  "spent h \<longleftrightarrow> inner h = None \<and> \<not> poisoned h"

lemma ref_map_spent [header_simps]: "spent h \<Longrightarrow> ref_map f h = Inl consumed_error"
  by (simp add: spent_def ref_map_def safe_lock_def)

lemma mut_map_spent [header_simps]: "spent h \<Longrightarrow> mut_map f h = (Inl consumed_error, h)"
  by (simp add: spent_def mut_map_def safe_lock_def)

lemma take_spent [header_simps]: "spent h \<Longrightarrow> try_take_inner h = (Inl consumed_error, h)"
  by (simp add: spent_def try_take_inner_def safe_lock_def)

lemma take_spends: "live h m \<Longrightarrow> spent (snd (try_take_inner h))"
  by (simp add: header_simps) (simp add: live_def spent_def)

subsection \<open>Lemmas: what the operations do to the values of a key\<close>

definition values_for :: "header_name \<Rightarrow> (header_name \<times> 'v) list \<Rightarrow> 'v list" where
  "values_for k ps = map snd (filter (\<lambda>p. fst p = k) ps)"

lemma values_for_simps [simp]:
  "values_for k [] = []"
  "values_for k (p # ps) = (if fst p = k then snd p # values_for k ps else values_for k ps)"
  "values_for k (ps @ qs) = values_for k ps @ values_for k qs"
  by (simp_all add: values_for_def)

lemma values_for_map_Pair: "values_for k (map (Pair k') vs) = (if k' = k then vs else [])"
  by (induction vs) auto

context http_headers begin

lemma iter_values_for: "values_for k (hm_iter H m) = hm_get_all H m k"
  by (simp add: values_for_def iter_key)

lemma append_pairs:
  "try_for_each (append_pair H) ps m = (Inr u, m') \<Longrightarrow>
   hm_get_all H m' k = hm_get_all H m k @ values_for k ps"
proof (induction ps arbitrary: m)
  case (Cons p ps)
  obtain r m1 where a: "hm_try_append H m (fst p) (snd p) = (r, m1)" by fastforce
  with Cons.prems obtain b where r: "r = Inr b"
    by (cases r) (auto simp: append_pair_def)
  from append_law [OF a [unfolded r]] Cons.IH [of m1] Cons.prems a r show ?case
    by (auto simp: append_pair_def)
qed simp

lemma insert_pairs:
  "try_for_each (insert_pair H) ps m = (Inr u, m') \<Longrightarrow>
   hm_get_all H m' k =
     (if values_for k ps = [] then hm_get_all H m k else [last (values_for k ps)])"
proof (induction ps arbitrary: m)
  case (Cons p ps)
  obtain r m1 where a: "hm_try_insert H m (fst p) (snd p) = (r, m1)" by fastforce
  with Cons.prems obtain old where r: "r = Inr old"
    by (cases r) (auto simp: insert_pair_def)
  from insert_law [OF a [unfolded r]] Cons.IH [of m1] Cons.prems a r show ?case
    by (auto simp: insert_pair_def)
qed simp

lemma pop_inner_spec:
  assumes "pop_inner H k d m = (r, m')"
  shows "(\<exists>e. r = Inl (runtime_error e)) \<or>
    (case hm_get_all H m k of
       [] \<Rightarrow> r = pop_arg_res d (name_str k) \<and> hm_get_all H m' = hm_get_all H m
     | first # rest \<Rightarrow>
         r = map_res PyStr (inner_str H first) \<and> hm_get_all H m' = (hm_get_all H m)(k := rest))"
proof -
  obtain t m1 where te: "hm_try_entry H m k = (t, m1)" by fastforce
  show ?thesis
  proof (cases t)
    case (Inl e)
    with assms te show ?thesis by (auto simp: pop_inner_def)
  next
    case (Inr occ)
    from entry_law [OF te [unfolded Inr]]
    have ga: "hm_get_all H m1 = hm_get_all H m" and occ: "occ = (hm_get_all H m k \<noteq> [])" by auto
    show ?thesis
    proof (cases "hm_get_all H m k")
      case Nil
      with assms te Inr occ ga show ?thesis by (auto simp: pop_inner_def)
    next
      case (Cons first rest)
      obtain vs m2 where rm: "hm_remove_entry_mult H m1 k = (vs, m2)" by fastforce
      have "vs = hm_get_all H m1 k \<and> hm_get_all H m2 = (hm_get_all H m1)(k := [])"
        using Cons ga by (intro remove_law [OF _ rm]) simp
      with Cons ga have vs: "vs = first # rest" and g2: "hm_get_all H m2 = (hm_get_all H m)(k := [])"
        by auto
      obtain q m3 where tf: "try_for_each (append_pair H) (map (Pair k) rest) m2 = (q, m3)" by fastforce
      show ?thesis
      proof (cases q)
        case (Inl e)
        have "\<exists>e'. e = runtime_error e'"
          if "try_for_each (append_pair H) ps m = (Inl e, m'')" for ps m m''
          using that
          by (induction ps arbitrary: m) (auto simp: append_pair_def split: sum.splits prod.splits)
        from this [OF tf [unfolded Inl]] assms te Inr occ Cons rm vs tf Inl show ?thesis
          by (auto simp: pop_inner_def)
      next
        case (Inr u)
        from append_pairs [OF tf [unfolded Inr]] g2
        have "hm_get_all H m3 = (hm_get_all H m)(k := rest)"
          by (auto simp: fun_eq_iff values_for_map_Pair)
        with assms te \<open>t = Inr occ\<close> occ Cons rm vs tf Inr show ?thesis
          by (auto simp: pop_inner_def)
      qed
    qed
  qed
qed

end

end
