(* ===== verification/Header_Views.thy ===== *)
theory Header_Views
  imports Header_Map "HOL-Library.Product_Lexorder"
begin

section \<open>Iterators and views of the header map\<close>

text \<open>
  Models \<open>src/http/header_map/iters.rs\<close> and \<open>src/http/header_map/views.rs\<close>. The items
  iterator takes the keys when it is created and fetches the values of a key from the (shared)
  map when it comes to it; the keys iterator is a snapshot. The views read the map at each
  call. What Python does with the resulting lists (its set operations, the text of a list) is a
  parameter.
\<close>

subsection \<open>Iterators\<close>

record items_iter =
  it_keys :: "header_name list"
  cur_values :: "header_value list"

definition items_iter_new :: "'m http_ops \<Rightarrow> 'm header_map \<Rightarrow> items_iter pyres" where
  "items_iter_new H h = map_res (\<lambda>ks. \<lparr>it_keys = ks, cur_values = []\<rparr>) (keys_once_deque H h)"

definition items_fetch :: "'m http_ops \<Rightarrow> 'm header_map \<Rightarrow> items_iter \<Rightarrow> unit pyres \<times> items_iter" where
  "items_fetch H h it =
     (if cur_values it = [] then
        (case it_keys it of
           [] \<Rightarrow> (Inl (stop_iteration ''No more items''), it)
         | key # _ \<Rightarrow>
             (case get_all_extend_to_deque H (name_str key) (cur_values it) h of
                Inl e \<Rightarrow> (Inl e, it)
              | Inr vs \<Rightarrow>
                  if vs = [] then (Inl (panic ''Should have at least one value for a header key''), it)
                  else (Inr (), it\<lparr>cur_values := vs\<rparr>)))
      else (Inr (), it))"

definition items_next ::
    "'m http_ops \<Rightarrow> 'm header_map \<Rightarrow> items_iter \<Rightarrow> (header_name \<times> header_value) pyres \<times> items_iter" where
  "items_next H h it =
     (case items_fetch H h it of
        (Inl e, it1) \<Rightarrow> (Inl e, it1)
      | (Inr _, it1) \<Rightarrow>
          (case cur_values it1 of
             [] \<Rightarrow> (Inl (runtime_error ''Expected iter value''), it1)
           | value # vs \<Rightarrow>
               (let it2 = it1\<lparr>cur_values := vs\<rparr> in
                case it_keys it2 of
                  [] \<Rightarrow> (Inl (runtime_error ''Expected iter key''), it2)
                | key # ks \<Rightarrow>
                    if vs = [] then (Inr (key, value), it2\<lparr>it_keys := ks\<rparr>)
                    else (Inr (key, value), it2))))"

definition keys_iter_new :: "'m http_ops \<Rightarrow> 'm header_map \<Rightarrow> header_name list pyres" where
  "keys_iter_new H h = keys_mult_deque H h"

fun keys_next :: "header_name list \<Rightarrow> header_name pyres \<times> header_name list" where
  "keys_next (key # ks) = (Inr key, ks)"
| "keys_next [] = (Inl (stop_iteration ''No more keys''), [])"

definition values_next ::
    "'m http_ops \<Rightarrow> 'm header_map \<Rightarrow> items_iter \<Rightarrow> header_value pyres \<times> items_iter" where
  "values_next H h it = (case items_next H h it of (r, it') \<Rightarrow> (map_res snd r, it'))"

text \<open>A Python \<open>for\<close> loop over the items: until \<open>StopIteration\<close>.\<close>

partial_function (option) for_items ::
    "'m http_ops \<Rightarrow> 'm header_map \<Rightarrow> items_iter \<Rightarrow> (header_name \<times> header_value) list \<Rightarrow>
     (header_name \<times> header_value) list pyres option" where
  "for_items H h it acc =
     (case items_next H h it of
        (r, it') \<Rightarrow>
          (case r of
             Inl e \<Rightarrow> if exc_class e = PyStopIteration then Some (Inr acc) else Some (Inl e)
           | Inr p \<Rightarrow> for_items H h it' (acc @ [p])))"

subsection \<open>Views\<close>

definition items_contains :: "'m http_ops \<Rightarrow> string \<times> bytes \<Rightarrow> 'm header_map \<Rightarrow> bool pyres" where
  "items_contains H pair h =
     ref_map (\<lambda>m. Inr (list_ex (\<lambda>v. hv_bytes v = snd pair) (hm_get_all_str H m (fst pair)))) h"

definition values_contains :: "'m http_ops \<Rightarrow> bytes \<Rightarrow> 'm header_map \<Rightarrow> bool pyres" where
  "values_contains H val h = ref_map (\<lambda>m. Inr (list_ex (\<lambda>v. hv_bytes v = val) (hm_values H m))) h"

definition items_to_vec :: "'m http_ops \<Rightarrow> 'm header_map \<Rightarrow> (header_name \<times> header_value) list pyres" where
  "items_to_vec H h = ref_map (\<lambda>m. Inr (hm_iter H m)) h"

definition keys_to_vec :: "'m http_ops \<Rightarrow> 'm header_map \<Rightarrow> header_name list pyres" where
  "keys_to_vec H h = ref_map (\<lambda>m. Inr (map fst (hm_iter H m))) h"

definition values_to_vec :: "'m http_ops \<Rightarrow> 'm header_map \<Rightarrow> header_value list pyres" where
  "values_to_vec H h = ref_map (\<lambda>m. Inr (hm_values H m)) h"

definition hide_value :: "'m http_ops \<Rightarrow> header_value \<Rightarrow> header_value pyres" where
  "hide_value H v =
     (if hv_sensitive v then map_err value_error (parse_value H ''Sensitive'') else Inr v)"

definition items_to_vec_sensitive ::
    "'m http_ops \<Rightarrow> 'm header_map \<Rightarrow> (header_name \<times> header_value) list pyres" where
  "items_to_vec_sensitive H h =
     ref_map (\<lambda>m. collect_res (map (\<lambda>(k, v). map_res (Pair k) (hide_value H v)) (hm_iter H m))) h"

definition values_to_vec_sensitive :: "'m http_ops \<Rightarrow> 'm header_map \<Rightarrow> header_value list pyres" where
  "values_to_vec_sensitive H h =
     ref_map (\<lambda>m. collect_res (map (\<lambda>(k, v). hide_value H v) (hm_iter H m))) h"

definition vec_rev_iter :: "'a list \<Rightarrow> 'a list" where
  "vec_rev_iter v = rev v"

text \<open>
  \<open>PyList::new\<close> converts each element to a Python string or pair of strings; the text of the
  list is Python's (\<open>list_str\<close>).
\<close>

definition item_to_py :: "'m http_ops \<Rightarrow> header_name \<times> header_value \<Rightarrow> (string \<times> string) pyres" where
  "item_to_py H p = map_res (Pair (name_str (fst p))) (inner_str H (snd p))"

definition items_str ::
    "'m http_ops \<Rightarrow> ((string \<times> string) list \<Rightarrow> string pyres) \<Rightarrow> 'm header_map \<Rightarrow> string pyres" where
  "items_str H list_str h =
     and_then (items_to_vec_sensitive H h) (\<lambda>v.
       and_then (collect_res (map (item_to_py H) v)) list_str)"

definition items_repr ::
    "'m http_ops \<Rightarrow> ((string \<times> string) list \<Rightarrow> string pyres) \<Rightarrow> 'm header_map \<Rightarrow> string pyres" where
  "items_repr H list_repr h =
     map_res (\<lambda>r. ''HeaderMapItemsView('' @ r @ '')'') (items_str H list_repr h)"

definition values_str :: "'m http_ops \<Rightarrow> (string list \<Rightarrow> string pyres) \<Rightarrow> 'm header_map \<Rightarrow> string pyres" where
  "values_str H list_str h =
     and_then (values_to_vec_sensitive H h) (\<lambda>v.
       and_then (collect_res (map (inner_str H) v)) list_str)"

definition values_repr :: "'m http_ops \<Rightarrow> (string list \<Rightarrow> string pyres) \<Rightarrow> 'm header_map \<Rightarrow> string pyres" where
  "values_repr H list_repr h =
     map_res (\<lambda>r. ''HeaderMapValuesView('' @ r @ '')'') (values_str H list_repr h)"

definition keys_str :: "'m http_ops \<Rightarrow> (string list \<Rightarrow> string pyres) \<Rightarrow> 'm header_map \<Rightarrow> string pyres" where
  "keys_str H list_str h = and_then (keys_to_vec H h) (\<lambda>v. list_str (map name_str v))"

definition keys_repr :: "'m http_ops \<Rightarrow> (string list \<Rightarrow> string pyres) \<Rightarrow> 'm header_map \<Rightarrow> string pyres" where
  "keys_repr H list_repr h = map_res (\<lambda>r. ''HeaderMapKeysView('' @ r @ '')'') (keys_str H list_repr h)"

definition header_str ::
    "'m http_ops \<Rightarrow> ((string \<times> dict_value) list \<Rightarrow> string pyres) \<Rightarrow> 'm header_map \<Rightarrow> string pyres" where
  "header_str H dict_str h = ref_map (\<lambda>m. and_then (dict_multi_value_inner H m True) dict_str) h"

definition header_repr ::
    "'m http_ops \<Rightarrow> ((string \<times> dict_value) list \<Rightarrow> string pyres) \<Rightarrow> 'm header_map \<Rightarrow> string pyres" where
  "header_repr H dict_repr h = map_res (\<lambda>r. ''HeaderMap('' @ r @ '')'') (header_str H dict_repr h)"

subsection \<open>Comparison and set operations\<close>

text \<open>
  Names and values are compared by their string and bytes, so an element is its key:
  \<open>name_key\<close>, \<open>item_key\<close>. Rust's order on vectors and pairs is lexicographic.
\<close>

datatype compare_op = Lt | Le | Eq | Ne | Gt | Ge

definition name_key :: "header_name \<Rightarrow> string" where
  "name_key k = name_str k"

definition item_key :: "header_name \<times> header_value \<Rightarrow> string \<times> bytes" where
  "item_key p = (name_str (fst p), hv_bytes (snd p))"

definition convert_vec :: "('o \<Rightarrow> 'a pyres) \<Rightarrow> 'o pyres list pyres \<Rightarrow> 'a list pyres" where
  "convert_vec ext ob = and_then ob (\<lambda>items. collect_res (map (\<lambda>item. and_then item ext) items))"

definition richcmp :: "('b :: linorder) list \<Rightarrow> 'b list pyres \<Rightarrow> compare_op \<Rightarrow> bool" where
  "richcmp v other op =
     (case other of
        Inl _ \<Rightarrow> op = Ne
      | Inr v2 \<Rightarrow>
          (let v = sort v; v2 = sort v2 in
           case op of
             Lt \<Rightarrow> v < v2
           | Le \<Rightarrow> v \<le> v2
           | Eq \<Rightarrow> v = v2
           | Ne \<Rightarrow> v \<noteq> v2
           | Gt \<Rightarrow> v2 < v
           | Ge \<Rightarrow> v2 \<le> v))"

lemma sort_eq_iff: "sort as = sort bs \<longleftrightarrow> mset as = mset bs"
proof
  assume "sort as = sort bs"
  then have "mset (sort as) = mset (sort bs)" by (rule arg_cong)
  then show "mset as = mset bs" by simp
next
  assume "mset as = mset bs"
  then show "sort as = sort bs" by (intro properties_for_sort) simp_all
qed

text \<open>Rust's order on vectors: a proper prefix is less, else the first difference decides.\<close>

lemma list_less_iff:
  "(us :: ('b :: linorder) list) < vs \<longleftrightarrow>
     (\<exists>b bs. vs = us @ b # bs) \<or> (\<exists>p a as b bs. us = p @ a # as \<and> vs = p @ b # bs \<and> a < b)"
  unfolding list_less_def lexord_def by simp blast

lemma less_iff_not: "(a :: 'b :: linorder) < b \<longleftrightarrow> a \<noteq> b \<and> \<not> b < a"
  by auto

lemma richcmp_simps:
  "richcmp xs (Inr ys) Lt = (sort xs < sort ys)" "richcmp xs (Inr ys) Le = (sort xs \<le> sort ys)"
  "richcmp xs (Inr ys) Eq = (sort xs = sort ys)" "richcmp xs (Inr ys) Ne = (sort xs \<noteq> sort ys)"
  "richcmp xs (Inr ys) Gt = (sort ys < sort xs)" "richcmp xs (Inr ys) Ge = (sort ys \<le> sort xs)"
  "richcmp xs (Inl e) op = (op = Ne)"
  by (simp_all add: richcmp_def)

definition items_richcmp ::
    "'m http_ops \<Rightarrow> ('o \<Rightarrow> (header_name \<times> header_value) pyres) \<Rightarrow> 'm header_map \<Rightarrow>
     'o pyres list pyres \<Rightarrow> compare_op \<Rightarrow> bool pyres" where
  "items_richcmp H ext h other op =
     map_res (\<lambda>v. richcmp (map item_key v) (map_res (map item_key) (convert_vec ext other)) op) (items_to_vec H h)"

definition keys_richcmp ::
    "'m http_ops \<Rightarrow> ('o \<Rightarrow> header_name pyres) \<Rightarrow> 'm header_map \<Rightarrow> 'o pyres list pyres \<Rightarrow>
     compare_op \<Rightarrow> bool pyres" where
  "keys_richcmp H ext h other op =
     map_res (\<lambda>v. richcmp (map name_key v) (map_res (map name_key) (convert_vec ext other)) op) (keys_to_vec H h)"

text \<open>
  \<open>set_op\<close>: both sides become Python sets (\<open>mk_set\<close>, which fails on an unhashable element)
  and the method \<open>op\<close> of the left one is called.
\<close>

definition set_op ::
    "('p list \<Rightarrow> 's pyres) \<Rightarrow> ('s \<Rightarrow> string \<Rightarrow> 's \<Rightarrow> 'r pyres) \<Rightarrow> 'p list pyres \<Rightarrow> string \<Rightarrow>
     'p pyres list pyres \<Rightarrow> 'r pyres" where
  "set_op mk_set call_method v op other =
     and_then (and_then (and_then other collect_res) mk_set) (\<lambda>other_set.
       and_then (and_then v mk_set) (\<lambda>s. call_method s op other_set))"

definition items_set_op ::
    "'m http_ops \<Rightarrow> ((string \<times> string) list \<Rightarrow> 's pyres) \<Rightarrow> ('s \<Rightarrow> string \<Rightarrow> 's \<Rightarrow> 'r pyres) \<Rightarrow> string \<Rightarrow>
     'm header_map \<Rightarrow> (string \<times> string) pyres list pyres \<Rightarrow> 'r pyres" where
  "items_set_op H mk_set call_method op h other =
     and_then (items_to_vec H h) (\<lambda>v.
       set_op mk_set call_method (collect_res (map (item_to_py H) v)) op other)"

definition keys_set_op ::
    "'m http_ops \<Rightarrow> (string list \<Rightarrow> 's pyres) \<Rightarrow> ('s \<Rightarrow> string \<Rightarrow> 's \<Rightarrow> 'r pyres) \<Rightarrow> string \<Rightarrow>
     'm header_map \<Rightarrow> string pyres list pyres \<Rightarrow> 'r pyres" where
  "keys_set_op H mk_set call_method op h other =
     and_then (keys_to_vec H h) (\<lambda>v. set_op mk_set call_method (Inr (map name_str v)) op other)"

subsection \<open>Lemmas: iterating over the items\<close>

definition valid_keys :: "'m http_ops \<Rightarrow> 'm \<Rightarrow> bool" where
  "valid_keys H m \<longleftrightarrow> list_all (\<lambda>k. parse_name H (name_str k) = Inr k) (hm_keys H m)"

definition items_from :: "'m http_ops \<Rightarrow> 'm \<Rightarrow> header_name list \<Rightarrow> (header_name \<times> header_value) list" where
  "items_from H m ks = concat (map (\<lambda>k. map (Pair k) (hm_get_all H m k)) ks)"

lemma get_all_str_valid: "parse_name H (name_str k) = Inr k \<Longrightarrow> hm_get_all_str H m (name_str k) = hm_get_all H m k"
  by (simp add: hm_get_all_str_def name_of_def)

lemma items_next_value:
  "items_next H h \<lparr>it_keys = k # ks, cur_values = v # vs\<rparr> =
     (Inr (k, v), \<lparr>it_keys = (if vs = [] then ks else k # ks), cur_values = vs\<rparr>)"
  by (simp add: items_next_def items_fetch_def)

lemma items_next_fetch:
  assumes "live h m" and "parse_name H (name_str k) = Inr k" and "hm_get_all H m k = v # vs"
  shows "items_next H h \<lparr>it_keys = k # ks, cur_values = []\<rparr> =
    items_next H h \<lparr>it_keys = k # ks, cur_values = v # vs\<rparr>"
  using assms
  by (simp add: items_next_def items_fetch_def get_all_extend_to_deque_def header_simps get_all_str_valid)

lemma for_items_values:
  "for_items H h \<lparr>it_keys = k # ks, cur_values = v # vs\<rparr> acc =
     for_items H h \<lparr>it_keys = ks, cur_values = []\<rparr> (acc @ map (Pair k) (v # vs))"
proof (induction vs arbitrary: v acc)
  case Nil
  show ?case by (subst for_items.simps) (simp add: items_next_value)
next
  case (Cons w vs)
  show ?case by (subst for_items.simps) (simp add: items_next_value Cons.IH)
qed

lemma for_items_ok:
  assumes "live h m" and "\<forall>k \<in> set ks. parse_name H (name_str k) = Inr k \<and> hm_get_all H m k \<noteq> []"
  shows "for_items H h \<lparr>it_keys = ks, cur_values = []\<rparr> acc = Some (Inr (acc @ items_from H m ks))"
  using assms(2)
proof (induction ks arbitrary: acc)
  case Nil
  show ?case by (simp add: for_items.simps items_next_def items_fetch_def items_from_def)
next
  case (Cons k ks)
  then obtain v vs where g: "hm_get_all H m k = v # vs" by (cases "hm_get_all H m k") auto
  have "for_items H h \<lparr>it_keys = k # ks, cur_values = []\<rparr> acc =
      for_items H h \<lparr>it_keys = k # ks, cur_values = v # vs\<rparr> acc"
    by (subst for_items.simps, subst (2) for_items.simps)
      (use Cons.prems items_next_fetch [OF assms(1) _ g] in auto)
  also have "\<dots> = Some (Inr (acc @ items_from H m (k # ks)))"
    using Cons.prems by (simp add: for_items_values Cons.IH items_from_def g)
  finally show ?case .
qed

lemma items_next_gone:
  assumes "live h m" and "parse_name H (name_str k) = Inr k" and "hm_get_all H m k = []"
  shows "items_next H h \<lparr>it_keys = k # ks, cur_values = []\<rparr> =
    (Inl (panic ''Should have at least one value for a header key''), \<lparr>it_keys = k # ks, cur_values = []\<rparr>)"
  using assms
  by (simp add: items_next_def items_fetch_def get_all_extend_to_deque_def header_simps get_all_str_valid)

subsection \<open>Lemmas: the dictionary\<close>

lemma dict_get_set: "dict_get (dict_set d k v) k' = (if k' = k then Some v else dict_get d k')"
  by (induction d) auto

definition dict_strs :: "dict_value option \<Rightarrow> string list" where
  "dict_strs dv = (case dv of None \<Rightarrow> [] | Some (DStr s) \<Rightarrow> [s] | Some (DList ss) \<Rightarrow> ss)"

lemma dict_strs_add:
  "dict_strs (dict_get (dict_add d k s) k') =
     (if k' = k then dict_strs (dict_get d k) @ [s] else dict_strs (dict_get d k'))"
  by (auto simp: dict_add_def dict_get_set dict_strs_def split: option.splits dict_value.splits)

lemma dict_multi_value_loop_ok:
  assumes "\<forall>(k, v) \<in> set ps. \<exists>s. shown_value H hide v = Inr s"
  shows "\<exists>d. dict_multi_value_loop H hide ps dict = Inr d \<and>
    (\<forall>k. dict_strs (dict_get d k) =
      dict_strs (dict_get dict k) @ map (\<lambda>p. projr (shown_value H hide (snd p))) (filter (\<lambda>p. name_str (fst p) = k) ps))"
  using assms
proof (induction ps arbitrary: dict)
  case (Cons p ps)
  obtain k v where p: "p = (k, v)" by fastforce
  with Cons.prems obtain s where s: "shown_value H hide v = Inr s" by auto
  from Cons.IH [of "dict_add dict (name_str k) s"] Cons.prems p s show ?case
    by (auto simp: dict_strs_add)
qed simp

text \<open>Hiding: two values that differ in the bytes of a sensitive value only are shown alike.\<close>

definition same_public :: "header_name \<times> header_value \<Rightarrow> header_name \<times> header_value \<Rightarrow> bool" where
  "same_public p q \<longleftrightarrow> fst p = fst q \<and> hv_sensitive (snd p) = hv_sensitive (snd q) \<and>
     (\<not> hv_sensitive (snd p) \<longrightarrow> hv_bytes (snd p) = hv_bytes (snd q))"

lemma same_public_value: "same_public p q \<Longrightarrow> \<not> hv_sensitive (snd p) \<Longrightarrow> snd p = snd q"
  by (auto simp: same_public_def header_value.expand)

lemma same_public_shown:
  assumes "same_public p q"
  shows "shown_value H True (snd p) = shown_value H True (snd q)"
proof (cases "hv_sensitive (snd p)")
  case True
  with assms show ?thesis by (simp add: shown_value_def same_public_def)
next
  case False
  show ?thesis by (simp only: same_public_value [OF assms False])
qed

lemma same_public_hide:
  assumes "same_public p q"
  shows "hide_value H (snd p) = hide_value H (snd q)"
proof (cases "hv_sensitive (snd p)")
  case True
  with assms show ?thesis by (simp add: hide_value_def same_public_def)
next
  case False
  show ?thesis by (simp only: same_public_value [OF assms False])
qed

lemma dict_loop_public:
  "list_all2 same_public ps qs \<Longrightarrow>
   dict_multi_value_loop H True ps dict = dict_multi_value_loop H True qs dict"
proof (induction ps qs arbitrary: dict rule: list_all2_induct)
  case (Cons p ps q qs)
  then have f: "fst p = fst q" by (simp add: same_public_def)
  from same_public_shown [OF Cons.hyps(1), of H] have "shown_value H True (snd p) = shown_value H True (snd q)" .
  then show ?case using Cons.IH f
    by (cases p; cases q; cases "shown_value H True (snd q)") auto
qed simp

lemma hide_map_public:
  "list_all2 same_public ps qs \<Longrightarrow>
   map (\<lambda>(k, v). map_res (Pair k) (hide_value H v)) ps = map (\<lambda>(k, v). map_res (Pair k) (hide_value H v)) qs \<and>
   map (\<lambda>(k, v). hide_value H v) ps = map (\<lambda>(k, v). hide_value H v) qs"
proof (induction ps qs rule: list_all2_induct)
  case (Cons p ps q qs)
  with same_public_hide [OF Cons.hyps(1), of H] show ?case
    by (auto simp: same_public_def split: prod.splits)
qed simp

end
