(* ===== verification/Header_Properties.thy ===== *)
theory Header_Properties
  imports Header_Views Header_Ref
begin

section \<open>Properties of header maps\<close>

text \<open>
  The Python header map as a multimap: the abstract state is the function from a name to the
  list of its values (\<open>hm_get_all\<close>), and every operation is specified by what it does to that
  function. The theorems hold for every implementation of the \<open>http\<close> crate's interface; the
  examples run on \<open>flat_ops\<close>.
\<close>

subsection \<open>Mutations refine a multimap\<close>

datatype header_op =
    OpSet header_name header_value
  | OpDel string
  | OpInsert header_name header_value bool
  | OpAppend header_name header_value bool
  | OpPop string
  | OpPopAll string
  | OpSetDefault header_name header_value
  | OpClear

definition exec_op :: "'m http_ops \<Rightarrow> header_op \<Rightarrow> 'm header_map \<Rightarrow> unit pyres \<times> 'm header_map" where
  "exec_op H hop h =
     (case hop of
        OpSet k v \<Rightarrow> setitem H k v h
      | OpDel s \<Rightarrow> delitem H s h
      | OpInsert k v b \<Rightarrow> apfst (map_res (\<lambda>_. ())) (header_insert H k v b h)
      | OpAppend k v b \<Rightarrow> apfst (map_res (\<lambda>_. ())) (append H k v b h)
      | OpPop s \<Rightarrow> apfst (map_res (\<lambda>_. ())) (pop H s (None :: unit option) h)
      | OpPopAll s \<Rightarrow> apfst (map_res (\<lambda>_. ())) (popall H s (None :: unit option) h)
      | OpSetDefault k v \<Rightarrow> apfst (map_res (\<lambda>_. ())) (setdefault H k v h)
      | OpClear \<Rightarrow> clear H h)"

definition spec_op ::
    "'m http_ops \<Rightarrow> header_op \<Rightarrow> (header_name \<Rightarrow> header_value list) \<Rightarrow> header_name \<Rightarrow> header_value list" where
  "spec_op H hop f =
     (case hop of
        OpSet k v \<Rightarrow> f(k := [v])
      | OpDel s \<Rightarrow> (case name_of H s of None \<Rightarrow> f | Some k \<Rightarrow> f(k := []))
      | OpInsert k v b \<Rightarrow> f(k := [set_sensitive b v])
      | OpAppend k v b \<Rightarrow> f(k := f k @ [set_sensitive b v])
      | OpPop s \<Rightarrow> (case name_of H s of None \<Rightarrow> f | Some k \<Rightarrow> f(k := tl (f k)))
      | OpPopAll s \<Rightarrow> (case name_of H s of None \<Rightarrow> f | Some k \<Rightarrow> f(k := []))
      | OpSetDefault k v \<Rightarrow> if f k = [] then f(k := [v]) else f
      | OpClear \<Rightarrow> (\<lambda>_. []))"

fun exec_ops :: "'m http_ops \<Rightarrow> header_op list \<Rightarrow> 'm header_map \<Rightarrow> unit pyres \<times> 'm header_map" where
  "exec_ops H [] h = (Inr (), h)"
| "exec_ops H (hop # hops) h =
     (case exec_op H hop h of (Inl e, h') \<Rightarrow> (Inl e, h') | (Inr _, h') \<Rightarrow> exec_ops H hops h')"

context http_headers begin

lemma entry_cases:
  obtains (fail) e m1 where "hm_try_entry H m k = (Inl e, m1)"
  | (occupied) m1 where "hm_try_entry H m k = (Inr True, m1)" "hm_get_all H m1 = hm_get_all H m"
      "hm_get_all H m k \<noteq> []"
  | (vacant) m1 where "hm_try_entry H m k = (Inr False, m1)" "hm_get_all H m1 = hm_get_all H m"
      "hm_get_all H m k = []"
proof -
  obtain t m1 where te: "hm_try_entry H m k = (t, m1)" by fastforce
  show thesis
  proof (cases t)
    case (Inr occ)
    with te entry_law [of m k occ m1] occupied vacant show thesis by (cases occ) auto
  qed (use te fail in auto)
qed

lemma setitem_ok:
  assumes "live h m" and "setitem H k v h = (Inr u, h')"
  shows "\<exists>m'. live h' m' \<and> hm_get_all H m' = (hm_get_all H m)(k := [v])"
proof -
  obtain r m' where t: "hm_try_insert H m k v = (r, m')" by fastforce
  show ?thesis
  proof (cases r)
    case (Inr old)
    from assms t Inr have "h' = h\<lparr>inner := Some m'\<rparr>" by (simp add: setitem_def header_simps insert_pair_def)
    with insert_law [OF t [unfolded Inr]] assms(1) show ?thesis by (intro exI [of _ m']) simp
  qed (use assms t in \<open>auto simp: setitem_def header_simps insert_pair_def\<close>)
qed

lemma append_ok:
  assumes "live h m" and "append H k v b h = (Inr u, h')"
  shows "\<exists>m'. live h' m' \<and> hm_get_all H m' = (hm_get_all H m)(k := hm_get_all H m k @ [set_sensitive b v]) \<and>
    u = (hm_get_all H m k \<noteq> [])"
proof -
  obtain r m' where t: "hm_try_append H m k (set_sensitive b v) = (r, m')" by fastforce
  show ?thesis
  proof (cases r)
    case (Inr old)
    from assms t Inr have "h' = h\<lparr>inner := Some m'\<rparr>" "u = old"
      by (simp_all add: append_def header_simps)
    with append_law [OF t [unfolded Inr]] assms(1) show ?thesis by (intro exI [of _ m']) simp
  qed (use assms t in \<open>auto simp: append_def header_simps\<close>)
qed

lemma insert_ok:
  assumes "live h m" and "header_insert H k v b h = (Inr old, h')"
  shows "\<exists>m'. live h' m' \<and> hm_get_all H m' = (hm_get_all H m)(k := [set_sensitive b v]) \<and>
    old = hm_get_all H m k"
proof (cases rule: entry_cases [of m k])
  case (fail e m1)
  with assms show ?thesis by (simp add: header_insert_def header_simps)
next
  case (occupied m1)
  obtain vs m2 where i: "hm_insert_mult H m1 k (set_sensitive b v) = (vs, m2)" by fastforce
  from insert_mult_law [OF _ i] occupied i assms show ?thesis
    by (auto simp: header_insert_def header_simps)
next
  case (vacant m1)
  obtain r m2 where i: "hm_vacant_insert H m1 k (set_sensitive b v) = (r, m2)" by fastforce
  show ?thesis
  proof (cases r)
    case (Inr u)
    with vacant_law [OF _ i [unfolded Inr]] vacant i assms show ?thesis
      by (auto simp: header_insert_def header_simps)
  qed (use vacant i assms in \<open>auto simp: header_insert_def header_simps\<close>)
qed

lemma setdefault_ok:
  assumes "live h m" and "setdefault H k v h = (Inr out, h')"
  shows "\<exists>m'. live h' m' \<and> out = hd (hm_get_all H m k @ [v]) \<and>
    hm_get_all H m' = (if hm_get_all H m k = [] then (hm_get_all H m)(k := [v]) else hm_get_all H m)"
proof (cases rule: entry_cases [of m k])
  case (fail e m1)
  with assms show ?thesis by (simp add: setdefault_def header_simps)
next
  case (occupied m1)
  with assms show ?thesis
    by (auto simp: setdefault_def header_simps get_law split: list.splits)
next
  case (vacant m1)
  obtain r m2 where i: "hm_vacant_insert H m1 k v = (r, m2)" by fastforce
  show ?thesis
  proof (cases r)
    case (Inr u)
    with vacant_law [OF _ i [unfolded Inr]] vacant i assms show ?thesis
      by (auto simp: setdefault_def header_simps)
  qed (use vacant i assms in \<open>auto simp: setdefault_def header_simps\<close>)
qed

lemma delitem_ok:
  assumes "live h m" and "delitem H s h = (Inr u, h')"
  shows "\<exists>m' k. live h' m' \<and> name_of H s = Some k \<and> hm_get_all H m k \<noteq> [] \<and>
    hm_get_all H m' = (hm_get_all H m)(k := [])"
proof -
  from assms obtain k where k: "parse_name H s = Inr k" by (cases "parse_name H s") (auto simp: delitem_def)
  show ?thesis
  proof (cases rule: entry_cases [of m k])
    case (occupied m1)
    obtain vs m2 where i: "hm_remove_entry_mult H m1 k = (vs, m2)" by fastforce
    from remove_law [OF _ i] occupied i assms k show ?thesis
      by (auto simp: delitem_def header_simps name_of_def)
  qed (use assms k in \<open>auto simp: delitem_def header_simps\<close>)
qed

lemma popall_ok:
  assumes "live h m" and "popall H s (None :: 'o option) h = (Inr out, h')"
  shows "\<exists>m' k. live h' m' \<and> name_of H s = Some k \<and> hm_get_all H m k \<noteq> [] \<and>
    hm_get_all H m' = (hm_get_all H m)(k := []) \<and>
    Inr out = map_res PyStrList (collect_res (map (inner_str H) (hm_get_all H m k)))"
proof -
  from assms obtain k where k: "parse_name H s = Inr k"
    by (cases "parse_name H s") (auto simp: popall_def pop_arg_res_def)
  show ?thesis
  proof (cases rule: entry_cases [of m k])
    case (occupied m1)
    obtain vs m2 where i: "hm_remove_entry_mult H m1 k = (vs, m2)" by fastforce
    from remove_law [OF _ i] occupied i assms k show ?thesis
      by (auto simp: popall_def header_simps name_of_def)
  qed (use assms k in \<open>auto simp: popall_def header_simps pop_arg_res_def\<close>)
qed

lemma pop_ok:
  assumes "live h m" and "parse_name H s = Inr k" and "pop H s dflt h = (r, h')"
    and "\<forall>e. r \<noteq> Inl (runtime_error e)"
  shows "\<exists>m'. live h' m' \<and>
    (case hm_get_all H m k of
       [] \<Rightarrow> r = pop_arg_res dflt (name_str k) \<and> hm_get_all H m' = hm_get_all H m
     | first # rest \<Rightarrow>
         r = map_res PyStr (inner_str H first) \<and> hm_get_all H m' = (hm_get_all H m)(k := rest))"
proof -
  obtain r1 m' where p: "pop_inner H k dflt m = (r1, m')" by fastforce
  with assms have "r1 = r" "h' = h\<lparr>inner := Some m'\<rparr>" by (auto simp: pop_def header_simps)
  with pop_inner_spec [OF p] assms(1,4) show ?thesis by (intro exI [of _ m']) auto
qed

lemma exec_op_ok:
  assumes "live h m" and "exec_op H hop h = (Inr u, h')"
  shows "\<exists>m'. live h' m' \<and> hm_get_all H m' = spec_op H hop (hm_get_all H m)"
proof (cases hop)
  case (OpSet k v)
  with assms setitem_ok show ?thesis by (auto simp: exec_op_def spec_op_def)
next
  case (OpDel s)
  with assms delitem_ok [OF assms(1), of s] show ?thesis by (fastforce simp: exec_op_def spec_op_def)
next
  case (OpInsert k v b)
  with assms obtain old where "header_insert H k v b h = (Inr old, h')"
    by (cases "header_insert H k v b h"; cases "fst (header_insert H k v b h)") (auto simp: exec_op_def)
  from insert_ok [OF assms(1) this] OpInsert show ?thesis by (auto simp: spec_op_def)
next
  case (OpAppend k v b)
  with assms obtain old where "append H k v b h = (Inr old, h')"
    by (cases "append H k v b h"; cases "fst (append H k v b h)") (auto simp: exec_op_def)
  from append_ok [OF assms(1) this] OpAppend show ?thesis by (auto simp: spec_op_def)
next
  case (OpPop s)
  with assms obtain out where p: "pop H s (None :: unit option) h = (Inr out, h')"
    by (cases "pop H s (None :: unit option) h"; cases "fst (pop H s (None :: unit option) h)") (auto simp: exec_op_def)
  then obtain k where k: "parse_name H s = Inr k"
    by (cases "parse_name H s") (auto simp: pop_def pop_arg_res_def)
  from pop_ok [OF assms(1) k p] OpPop k show ?thesis
    by (cases "hm_get_all H m k") (auto simp: spec_op_def name_of_def pop_arg_res_def)
next
  case (OpPopAll s)
  with assms obtain out where p: "popall H s (None :: unit option) h = (Inr out, h')"
    by (cases "popall H s (None :: unit option) h"; cases "fst (popall H s (None :: unit option) h)") (auto simp: exec_op_def)
  from popall_ok [OF assms(1) p] OpPopAll show ?thesis by (auto simp: spec_op_def)
next
  case (OpSetDefault k v)
  with assms obtain out where "setdefault H k v h = (Inr out, h')"
    by (cases "setdefault H k v h"; cases "fst (setdefault H k v h)") (auto simp: exec_op_def)
  from setdefault_ok [OF assms(1) this] OpSetDefault show ?thesis by (auto simp: spec_op_def)
next
  case OpClear
  with assms show ?thesis
    by (auto simp: exec_op_def spec_op_def clear_def header_simps clear_law fun_eq_iff)
qed

lemma exec_ops_ok:
  "live h m \<Longrightarrow> exec_ops H hops h = (Inr u, h') \<Longrightarrow>
   \<exists>m'. live h' m' \<and> hm_get_all H m' = fold (spec_op H) hops (hm_get_all H m)"
proof (induction hops arbitrary: h m)
  case (Cons hop hops)
  obtain r h1 where e: "exec_op H hop h = (r, h1)" by fastforce
  with Cons.prems obtain u1 where r: "r = Inr u1" by (cases r) auto
  from exec_op_ok [OF Cons.prems(1) e [unfolded r]] obtain m1 where
    "live h1 m1" "hm_get_all H m1 = spec_op H hop (hm_get_all H m)" by blast
  with Cons.IH [of h1 m1] Cons.prems e r show ?case by auto
qed auto

end

text \<open>
  C5. Refinement: a sequence of successful mutations through the Python object (item
  assignment and deletion, \<open>insert\<close>, \<open>append\<close>, \<open>pop\<close>, \<open>popall\<close>, \<open>setdefault\<close>, \<open>clear\<close>)
  leaves exactly the values that the same sequence leaves in the abstract multimap, for every
  name, in order.
\<close>

theorem header_ops_refine_multimap:
  assumes "http_headers H" and "live h m" and "exec_ops H hops h = (Inr u, h')"
  shows "\<exists>m'. live h' m' \<and> hm_get_all H m' = fold (spec_op H) hops (hm_get_all H m)"
  using http_headers.exec_ops_ok [OF assms] .

definition hn :: "string \<Rightarrow> header_name" where
  "hn s = HeaderName s"

definition hv :: "bytes \<Rightarrow> header_value" where
  "hv b = HeaderValue b False"

definition hops0 :: "header_op list" where
  "hops0 = [OpAppend (hn ''a'') (hv [65]) False, OpAppend (hn ''a'') (hv [66]) True,
            OpSet (hn ''b'') (hv [67]), OpSetDefault (hn ''b'') (hv [68])]"

lemma exec_hops0:
  "exec_ops flat_ops hops0 (header_map_from []) =
     (Inr (), header_map_from [(hn ''a'', hv [65]), (hn ''a'', HeaderValue [66] True), (hn ''b'', hv [67])])"
  by (simp add: hops0_def exec_op_def append_def setitem_def setdefault_def mut_map_live
      header_map_from_def live_def safe_lock_def mut_map_def insert_pair_def flat_ops_def flat_try_append_def
      flat_try_insert_def flat_try_entry_def MAX_SIZE_def hn_def hv_def set_sensitive_def flat_without_def)

theorem header_ops_refine_multimap_witness:
  "\<exists>m'. live (snd (exec_ops flat_ops hops0 (header_map_from []))) m' \<and>
    hm_get_all flat_ops m' (hn ''a'') = [hv [65], HeaderValue [66] True] \<and>
    hm_get_all flat_ops m' (hn ''b'') = [hv [67]]"
proof -
  from header_ops_refine_multimap [OF http_headers_flat _ exec_hops0, of "[]"] obtain m' where
    "live (snd (exec_ops flat_ops hops0 (header_map_from []))) m'"
    "hm_get_all flat_ops m' = fold (spec_op flat_ops) hops0 (hm_get_all flat_ops [])"
    by (auto simp: exec_hops0)
  then show ?thesis
    by (intro exI [of _ m']) (simp add: hops0_def spec_op_def hn_def hv_def set_sensitive_def flat_ops_def)
qed

text \<open>
  \<open>pop(key)\<close> returns the first value of the key and leaves the others in order; a
  missing key gives the default, or a \<open>KeyError\<close> with the key, and changes nothing. A value
  that is no visible ASCII is removed although the call then raises: the conversion comes last.
\<close>

theorem pop_first_value:
  assumes "http_headers H" and "live h m" and "parse_name H s = Inr k" and "pop H s dflt h = (r, h')"
    and "\<forall>e. r \<noteq> Inl (runtime_error e)"
  shows "\<exists>m'. live h' m' \<and>
    (case hm_get_all H m k of
       [] \<Rightarrow> r = (case dflt of Some d \<Rightarrow> Inr (PyAnyObj d) | None \<Rightarrow> Inl (key_error (name_str k))) \<and>
         hm_get_all H m' = hm_get_all H m
     | first # rest \<Rightarrow>
         r = map_res PyStr (inner_str H first) \<and> hm_get_all H m' = (hm_get_all H m)(k := rest))"
  using http_headers.pop_ok [OF assms] unfolding pop_arg_res_def .

lemma parse_a: "parse_name flat_ops ''a'' = Inr (hn ''a'')"
  by (simp add: flat_ops_def flat_parse_name_def is_tchar_def to_lower_def is_upper_def less_eq_char_def hn_def)

lemma pop_example:
  "pop flat_ops ''a'' (None :: unit option) (header_map_from [(hn ''a'', hv [200]), (hn ''a'', hv [66])]) =
     (Inl (value_error ''failed to convert header to a str''), header_map_from [(hn ''a'', hv [66])])"
  unfolding pop_def parse_a
  by (simp add: pop_inner_def mut_map_def safe_lock_def header_map_from_def append_pair_def inner_str_def
      flat_ops_def flat_try_append_def flat_try_entry_def MAX_SIZE_def flat_to_str_def hv_def flat_without_def)

theorem pop_first_value_witness:
  "\<exists>m'. live (header_map_from [(hn ''a'', hv [66])]) m' \<and> hm_get_all flat_ops m' (hn ''a'') = [hv [66]]"
  using pop_first_value [OF http_headers_flat _ parse_a pop_example, of "[(hn ''a'', hv [200]), (hn ''a'', hv [66])]"]
  by (auto simp: flat_ops_def)

text \<open>
  \<open>update(other, **kwargs)\<close>, when it succeeds, has extracted every pair of the argument
  and of the keywords, and leaves for each name the last value given for it (names that were
  not given keep their values); \<open>extend(other)\<close> appends all of them instead.
\<close>

theorem update_extend_spec:
  assumes "http_headers H" and "live h m"
    and "update H X other kwargs h = (Inr u, h1)" and "header_extend H X other2 h = (Inr u', h2)"
  shows "\<exists>ps qs m1 m2.
    good_prefix (case other of None \<Rightarrow> [] | Some c \<Rightarrow> pairs_of X c ''header'') = (ps, None) \<and>
    good_prefix (map (extract_kv X) (case kwargs of None \<Rightarrow> [] | Some kw \<Rightarrow> kw)) = (qs, None) \<and>
    live h1 m1 \<and> (\<forall>k. hm_get_all H m1 k =
      (if values_for k (ps @ qs) = [] then hm_get_all H m k else [last (values_for k (ps @ qs))])) \<and>
    live h2 m2 \<and> (\<exists>rs. good_prefix (pairs_of X other2 ''header'') = (rs, None) \<and>
      (\<forall>k. hm_get_all H m2 k = hm_get_all H m k @ values_for k rs))"
proof -
  let ?os = "case other of None \<Rightarrow> [] | Some c \<Rightarrow> pairs_of X c ''header''"
  let ?ks = "map (extract_kv X) (case kwargs of None \<Rightarrow> [] | Some kw \<Rightarrow> kw)"
  obtain r1 m0 where w1: "try_for_each (on_res (insert_pair H)) ?os m = (r1, m0)" by fastforce
  obtain r2 m1 where w2: "try_for_each (on_res (insert_pair H)) ?ks m0 = (r2, m1)" by fastforce
  obtain r3 m2 where w3: "try_for_each (on_res (append_pair H)) (pairs_of X other2 ''header'') m = (r3, m2)"
    by fastforce
  from assms(2,3) w1 w2 have "r1 = Inr () \<and> r2 = Inr () \<and> h1 = h\<lparr>inner := Some m1\<rparr>"
    by (cases r1; cases r2)
      (auto simp: update_def header_simps for_each_pairs_of split: option.splits)
  then have r: "r1 = Inr ()" "r2 = Inr ()" and h1: "h1 = h\<lparr>inner := Some m1\<rparr>" by auto
  from assms(2,4) w3 have r3: "r3 = Inr u'" and h2: "h2 = h\<lparr>inner := Some m2\<rparr>"
    by (auto simp: header_extend_def extend_inner_def header_simps for_each_pairs_of)
  from try_for_each_res_ok [OF w1 [unfolded r]] obtain ps where
    ps: "good_prefix ?os = (ps, None)" "try_for_each (insert_pair H) ps m = (Inr (), m0)" by blast
  from try_for_each_res_ok [OF w2 [unfolded r]] obtain qs where
    qs: "good_prefix ?ks = (qs, None)" "try_for_each (insert_pair H) qs m0 = (Inr (), m1)" by blast
  from try_for_each_res_ok [OF w3 [unfolded r3]] obtain rs where
    rs: "good_prefix (pairs_of X other2 ''header'') = (rs, None)"
    "try_for_each (append_pair H) rs m = (Inr u', m2)" by blast
  have pq: "try_for_each (insert_pair H) (ps @ qs) m = (Inr (), m1)"
    using ps qs by (simp add: try_for_each_append)
  show ?thesis
    using ps(1) qs(1) rs(1) h1 h2 assms(2) http_headers.insert_pairs [OF assms(1) pq]
      http_headers.append_pairs [OF assms(1) rs(2)]
    by (intro exI [of _ ps] exI [of _ qs] exI [of _ m1] exI [of _ m2]) auto
qed

definition pair_ext :: "(header_name \<times> header_value, header_name, header_value) extractor" where
  "pair_ext = \<lparr>ext_pair = (\<lambda>p. Inr (p, p)), ext_key = (\<lambda>p. Inr (fst p)), ext_value = (\<lambda>p. Inr (snd p)),
     show_obj = (\<lambda>p. name_str (fst p))\<rparr>"

theorem update_extend_spec_witness:
  "\<exists>m1 m2. live (snd (update flat_ops pair_ext (Some (PTuple [(hn ''a'', hv [1]), (hn ''a'', hv [2])])) None
      (header_map_from [(hn ''a'', hv [0])]))) m1 \<and>
    hm_get_all flat_ops m1 (hn ''a'') = [hv [2]] \<and>
    live (snd (header_extend flat_ops pair_ext (PTuple [(hn ''a'', hv [1])]) (header_map_from [(hn ''a'', hv [0])]))) m2 \<and>
    hm_get_all flat_ops m2 (hn ''a'') = [hv [0], hv [1]]"
proof -
  let ?h = "header_map_from [(hn ''a'', hv [0])]"
  have u: "update flat_ops pair_ext (Some (PTuple [(hn ''a'', hv [1]), (hn ''a'', hv [2])])) None ?h =
      (Inr (), header_map_from [(hn ''a'', hv [2])])"
    by (simp add: update_def mut_map_def safe_lock_def header_map_from_def for_each_def on_pair_def kv_def
        extract_kv_def pair_ext_def insert_pair_def flat_ops_def flat_try_insert_def MAX_SIZE_def flat_without_def)
  have e: "header_extend flat_ops pair_ext (PTuple [(hn ''a'', hv [1])]) ?h =
      (Inr (), header_map_from [(hn ''a'', hv [0]), (hn ''a'', hv [1])])"
    by (simp add: header_extend_def extend_inner_def mut_map_def safe_lock_def header_map_from_def for_each_def
        on_pair_def kv_def extract_kv_def pair_ext_def append_pair_def flat_ops_def flat_try_append_def
        MAX_SIZE_def)
  from update_extend_spec [OF http_headers_flat _ u e, of "[(hn ''a'', hv [0])]"] u e show ?thesis
    by (auto simp: pairs_of_def kv_def extract_kv_def pair_ext_def flat_ops_def)
qed

subsection \<open>Iteration\<close>

text \<open>
  C9. A \<open>for\<close> loop over \<open>items()\<close> of a map that is not changed meanwhile ends and yields
  every pair exactly once (as many as \<open>len\<close>), with the values of one name in the order of
  \<open>getall\<close>.
\<close>

theorem items_iteration_complete:
  assumes "http_headers H" and "live h m" and "valid_keys H m"
  shows "\<exists>it ps. items_iter_new H h = Inr it \<and> for_items H h it [] = Some (Inr ps) \<and>
    mset ps = mset (hm_iter H m) \<and> header_len H h = Inr (length ps) \<and>
    (\<forall>k. values_for k ps = hm_get_all H m k)"
proof -
  have keys: "\<forall>k \<in> set (hm_keys H m). hm_get_all H m k \<noteq> []"
    by (simp add: http_headers.keys_set [OF assms(1)])
  let ?ps = "items_from H m (hm_keys H m)"
  have new: "items_iter_new H h = Inr \<lparr>it_keys = hm_keys H m, cur_values = []\<rparr>"
    using assms(2) by (simp add: items_iter_new_def keys_once_deque_def header_simps)
  have loop: "for_items H h \<lparr>it_keys = hm_keys H m, cur_values = []\<rparr> [] = Some (Inr ?ps)"
    using for_items_ok [OF assms(2), of "hm_keys H m" H "[]"] keys assms(3)
    by (simp add: valid_keys_def list_all_iff)
  have ms: "mset ?ps = mset (hm_iter H m)"
    by (simp add: http_headers.iter_mset [OF assms(1)] items_from_def)
  then have "length ?ps = length (hm_iter H m)" by (metis size_mset)
  then have len: "header_len H h = Inr (length ?ps)"
    using assms(2) by (simp add: header_len_def header_simps http_headers.len_law [OF assms(1)])
  have vals: "values_for k (items_from H m ks) = (if k \<in> set ks then hm_get_all H m k else [])"
    if "distinct ks" for k ks
    using that by (induction ks) (auto simp: items_from_def values_for_map_Pair)
  have "values_for k ?ps = hm_get_all H m k" for k
    using vals [OF http_headers.keys_distinct [OF assms(1), of m], of k]
      http_headers.keys_set [OF assms(1), of k m] by auto
  with new loop ms len show ?thesis by blast
qed

lemma live_flat: "live (header_map_from m) m"
  by simp

lemma valid_ab: "valid_keys flat_ops [(hn ''a'', hv [1]), (hn ''b'', hv [2]), (hn ''a'', hv [3])]"
  by (simp add: valid_keys_def flat_ops_def hn_def flat_parse_name_def is_tchar_def to_lower_def
      is_upper_def less_eq_char_def)

theorem items_iteration_complete_witness:
  "\<exists>it ps. items_iter_new flat_ops (header_map_from [(hn ''a'', hv [1]), (hn ''b'', hv [2]), (hn ''a'', hv [3])]) = Inr it \<and>
    for_items flat_ops (header_map_from [(hn ''a'', hv [1]), (hn ''b'', hv [2]), (hn ''a'', hv [3])]) it [] = Some (Inr ps) \<and>
    values_for (hn ''a'') ps = [hv [1], hv [3]]"
  using items_iteration_complete [OF http_headers_flat live_flat valid_ab]
  by (fastforce simp: flat_ops_def hn_def)

text \<open>
  If a name is deleted while the items are iterated and before the iterator comes to it,
  the assertion of \<open>__next__\<close> fails: a Rust panic reaches Python instead of an exception
  or the end of the iteration.
\<close>

theorem items_iteration_panics:
  assumes "http_headers H" and "live h m" and "delitem H s h = (Inr u, h')"
    and "parse_name H s = Inr k"
  shows "fst (items_next H h' \<lparr>it_keys = k # ks, cur_values = []\<rparr>) =
    Inl (panic ''Should have at least one value for a header key'')"
proof -
  from http_headers.delitem_ok [OF assms(1-3)] assms(4) obtain m' where
    "live h' m'" "hm_get_all H m' k = []" by (auto simp: name_of_def)
  from items_next_gone [OF this(1) http_headers.parse_idem [OF assms(1,4)] this(2)] show ?thesis by simp
qed

lemma delitem_a:
  "delitem flat_ops ''a'' (header_map_from [(hn ''b'', hv [2]), (hn ''a'', hv [1])]) =
     (Inr (), header_map_from [(hn ''b'', hv [2])])"
  unfolding delitem_def parse_a
  by (simp add: mut_map_def safe_lock_def header_map_from_def flat_ops_def flat_try_entry_def MAX_SIZE_def
      flat_without_def hn_def)

theorem items_iteration_panics_witness:
  "fst (items_next flat_ops (header_map_from [(hn ''b'', hv [2])]) \<lparr>it_keys = [hn ''a''], cur_values = []\<rparr>) =
    Inl (panic ''Should have at least one value for a header key'')"
  using items_iteration_panics [OF http_headers_flat live_flat delitem_a parse_a] .

subsection \<open>Dictionaries and what is shown\<close>

text \<open>
  \<open>dict_multi_value()\<close> maps each name to all of its values, in order: a string for one
  value, a list for several.
\<close>

theorem dict_multi_value_spec:
  assumes "http_headers H" and "live h m" and "\<forall>(k, v) \<in> set (hm_iter H m). \<exists>s. inner_str H v = Inr s"
  shows "\<exists>d. dict_multi_value H h = Inr d \<and>
    (\<forall>k. dict_strs (dict_get d (name_str k)) = map (\<lambda>v. projr (inner_str H v)) (hm_get_all H m k))"
proof -
  have sv: "shown_value H False v = inner_str H v" for v by (simp add: shown_value_def)
  from dict_multi_value_loop_ok [of "hm_iter H m" H False "[]"] assms(3) obtain d where
    d: "dict_multi_value_loop H False (hm_iter H m) [] = Inr d"
    and g: "\<forall>k. dict_strs (dict_get d k) =
      map (\<lambda>p. projr (inner_str H (snd p))) (filter (\<lambda>p. name_str (fst p) = k) (hm_iter H m))"
    by (auto simp: sv dict_strs_def)
  have "filter (\<lambda>p. name_str (fst p) = name_str k) ps = filter (\<lambda>p. fst p = k) ps"
    for k and ps :: "(header_name \<times> header_value) list"
    by (rule filter_cong) (auto simp: header_name.expand)
  then have "map (\<lambda>p. projr (inner_str H (snd p))) (filter (\<lambda>p. name_str (fst p) = name_str k) (hm_iter H m)) =
      map (\<lambda>v. projr (inner_str H v)) (hm_get_all H m k)" for k
    by (simp flip: http_headers.iter_key [OF assms(1)])
  with d g assms(2) show ?thesis
    by (simp add: dict_multi_value_def header_simps dict_multi_value_inner_def)
qed

theorem dict_multi_value_spec_witness:
  "\<exists>d. dict_multi_value flat_ops (header_map_from [(hn ''a'', hv []), (hn ''a'', hv [])]) = Inr d \<and>
    dict_strs (dict_get d ''a'') = [[], []]"
proof -
  let ?m = "[(hn ''a'', hv []), (hn ''a'', hv [])]"
  have "\<forall>(k, v) \<in> set (hm_iter flat_ops ?m). \<exists>s. inner_str flat_ops v = Inr s"
    by (simp add: flat_ops_def inner_str_def flat_to_str_def hv_def)
  from dict_multi_value_spec [OF http_headers_flat live_flat this] obtain d where
    "dict_multi_value flat_ops (header_map_from ?m) = Inr d"
    "dict_strs (dict_get d (name_str (hn ''a''))) =
      map (\<lambda>v. projr (inner_str flat_ops v)) (hm_get_all flat_ops ?m (hn ''a''))" by blast
  then show ?thesis
    by (intro exI [of _ d]) (simp add: flat_ops_def inner_str_def flat_to_str_def hv_def hn_def bytes_str_def)
qed

text \<open>
  C11. Confidentiality: the text of a header map, of its items view and of its values view
  (\<open>str\<close> and \<open>repr\<close>) does not depend on the bytes of the values marked as sensitive.
\<close>

theorem sensitive_values_not_shown:
  assumes "live h m" and "live h' m'" and "list_all2 same_public (hm_iter H m) (hm_iter H m')"
  shows "header_str H f h = header_str H f h' \<and> header_repr H f h = header_repr H f h' \<and>
    items_str H g h = items_str H g h' \<and> items_repr H g h = items_repr H g h' \<and>
    values_str H j h = values_str H j h' \<and> values_repr H j h = values_repr H j h'"
proof -
  have hs: "header_str H f h = header_str H f h'"
    by (simp add: header_str_def ref_map_live [OF assms(1)] ref_map_live [OF assms(2)]
        dict_multi_value_inner_def dict_loop_public [OF assms(3)])
  have i: "items_to_vec_sensitive H h = items_to_vec_sensitive H h'"
    and v: "values_to_vec_sensitive H h = values_to_vec_sensitive H h'"
    using hide_map_public [OF assms(3), of H] assms(1,2)
    by (simp_all add: items_to_vec_sensitive_def values_to_vec_sensitive_def header_simps)
  from hs i v show ?thesis
    by (simp add: header_repr_def items_repr_def items_str_def values_repr_def values_str_def)
qed

theorem sensitive_values_not_shown_witness:
  "header_str flat_ops (\<lambda>d. Inr (concat (map fst d))) (header_map_from [(hn ''a'', HeaderValue [83, 69] True)]) =
   header_str flat_ops (\<lambda>d. Inr (concat (map fst d))) (header_map_from [(hn ''a'', HeaderValue [84] True)])"
  using sensitive_values_not_shown [OF live_flat live_flat, of flat_ops
      "[(hn ''a'', HeaderValue [83, 69] True)]" "[(hn ''a'', HeaderValue [84] True)]" "\<lambda>d. Inr (concat (map fst d))"]
  by (simp add: flat_ops_def same_public_def)

subsection \<open>Comparison, consumption\<close>

text \<open>
  Comparing two header map objects with \<open>==\<close> compares the values of each name, when
  they are different objects. Compared with itself the object locks the mutex it already
  holds: the call does not return.
\<close>

theorem header_eq_spec:
  assumes "http_headers H" and "live (st a) m" and "live (st b) m'"
  shows "header_eq H py_eq st a (MapObject b) =
    (if a = b then None
     else Some (Inr (\<forall>k. map hv_bytes (hm_get_all H m k) = map hv_bytes (hm_get_all H m' k))))"
proof -
  have "safe_lock (st a) = Inr (Some m)" using assms(2) by (simp add: safe_lock_def live_def)
  with assms show ?thesis by (simp add: header_eq_def header_simps http_headers.eq_law)
qed

theorem header_eq_spec_witness:
  "header_eq flat_ops (\<lambda>_ (_ :: unit). Inr True) (\<lambda>_. header_map_from []) 0 (MapObject 0) = None"
  using header_eq_spec [OF http_headers_flat, where st = "\<lambda>_. header_map_from []" and a = 0 and b = 0
      and m = "[]" and m' = "[]" and py_eq = "\<lambda>_ (_ :: unit). Inr True"]
  by simp

text \<open>
  A header map can be consumed once: \<open>try_take_inner\<close> yields the headers, and from then
  on it and every reading and writing access through \<open>ref_map\<close> and \<open>mut_map\<close> raise the
  same error and change nothing.
\<close>

theorem header_map_consumed_once:
  assumes "live h m" and "try_take_inner h = (r, h')"
  shows "r = Inr m \<and> try_take_inner h' = (Inl consumed_error, h') \<and>
    ref_map f h' = Inl consumed_error \<and> mut_map g h' = (Inl consumed_error, h') \<and>
    getitem H s h' = Inl consumed_error \<and> items_iter_new H h' = Inl consumed_error \<and>
    setitem H k v h' = (Inl consumed_error, h') \<and> header_extend H X kvs h' = (Inl consumed_error, h')"
proof -
  from take_live [OF assms(1)] assms(2) have r: "r = Inr m" by simp
  from take_spends [OF assms(1)] assms(2) have s: "spent h'" by simp
  show ?thesis
    unfolding r getitem_def items_iter_new_def keys_once_deque_def setitem_def header_extend_def
      ref_map_spent [OF s] mut_map_spent [OF s] take_spent [OF s] by simp
qed

theorem header_map_consumed_once_witness:
  "getitem flat_ops ''a'' ((header_map_from [(hn ''a'', hv [1])])\<lparr>inner := None\<rparr>) = Inl consumed_error"
  using header_map_consumed_once [OF live_flat take_live [OF live_flat], where m = "[(hn ''a'', hv [1])]"] by blast

text \<open>
  C39. The comparisons of the keys view (elements are strings) and the items view (pairs of a string
  and bytes), and of any other linearly ordered elements: equality is that of the multisets of elements,
  and no comparison depends on the iteration order; \<open><\<close> is the order of the sorted elements, where a proper
  prefix is less and else the first difference decides; \<open><=\<close> is \<open><\<close> or \<open>==\<close>, \<open>>\<close> and \<open>>=\<close> are
  the converses; exactly one of \<open><\<close>, \<open>==\<close>, \<open>>\<close> holds, \<open><\<close> and \<open><=\<close> are transitive; and an operand that
  cannot be converted is unequal and otherwise incomparable.
\<close>

theorem view_comparison_laws:
  fixes xs ys zs :: "('b :: linorder) list"
  shows "(richcmp xs (Inr ys) Eq \<longleftrightarrow> mset xs = mset ys) \<and>
    (mset xs = mset xs' \<and> mset ys = mset ys' \<longrightarrow> richcmp xs (Inr ys) op = richcmp xs' (Inr ys') op) \<and>
    (richcmp xs (Inr ys) Lt \<longleftrightarrow> (\<exists>b bs. sort ys = sort xs @ b # bs) \<or>
       (\<exists>p a as b bs. sort xs = p @ a # as \<and> sort ys = p @ b # bs \<and> a < b)) \<and>
    (richcmp xs (Inr ys) Le \<longleftrightarrow> richcmp xs (Inr ys) Lt \<or> mset xs = mset ys) \<and>
    (richcmp xs (Inr ys) Gt \<longleftrightarrow> richcmp ys (Inr xs) Lt) \<and>
    (richcmp xs (Inr ys) Ge \<longleftrightarrow> richcmp ys (Inr xs) Le) \<and>
    richcmp xs (Inr ys) Ne = (\<not> richcmp xs (Inr ys) Eq) \<and>
    richcmp xs (Inr ys) Lt = (\<not> richcmp xs (Inr ys) Eq \<and> \<not> richcmp xs (Inr ys) Gt) \<and>
    (richcmp xs (Inr ys) Lt \<and> richcmp ys (Inr zs) Lt \<longrightarrow> richcmp xs (Inr zs) Lt) \<and>
    (richcmp xs (Inr ys) Le \<and> richcmp ys (Inr zs) Le \<longrightarrow> richcmp xs (Inr zs) Le) \<and>
    richcmp xs (Inl e) op = (op = Ne)"
proof -
  have lin: "sort xs < sort ys \<longleftrightarrow> sort xs \<noteq> sort ys \<and> \<not> sort ys < sort xs"
    by (rule less_iff_not)
  have perm: "richcmp xs (Inr ys) op = richcmp xs' (Inr ys') op" if "mset xs = mset xs' \<and> mset ys = mset ys'"
    using iffD2 [OF sort_eq_iff conjunct1 [OF that]] iffD2 [OF sort_eq_iff conjunct2 [OF that]]
    by (simp only: richcmp_def sum.case Let_def)
  have le: "sort xs \<le> sort ys \<longleftrightarrow> sort xs < sort ys \<or> mset xs = mset ys"
    unfolding sort_eq_iff [symmetric] by (rule le_less)
  show ?thesis
    using lin perm le less_trans [of "sort xs" "sort ys" "sort zs"] order_trans [of "sort xs" "sort ys" "sort zs"]
    by (simp only: richcmp_simps sort_eq_iff [symmetric] list_less_iff [of "sort xs" "sort ys", symmetric]) blast
qed

text \<open>Items in another order are equal; of the keys \<open>a, c\<close> and \<open>b, a\<close> the second are less.\<close>

theorem view_comparison_laws_witness:
  "richcmp [(''b'', []), (''a'', [1 :: byte])] (Inr [(''a'', [1]), (''b'', [])]) Eq \<and>
   richcmp [''b'', ''a''] (Inr [''a'', ''c'']) Lt \<and> richcmp [''a'', ''c''] (Inr [''b'', ''a'']) Ge \<and>
   \<not> richcmp [''a'', ''c''] (Inr [''b'', ''a'']) Le"
proof -
  have s: "sort [''b'', ''a''] = [''a''] @ ''b'' # []" "sort [''a'', ''c''] = [''a''] @ ''c'' # []" "''b'' < ''c''"
    by (simp_all)
  have lt: "richcmp [''b'', ''a''] (Inr [''a'', ''c'']) Lt"
    using view_comparison_laws [of "[''b'', ''a'']" "[''a'', ''c'']"] s by blast
  have ne: "mset [''a'', ''c''] \<noteq> mset [''b'', ''a'']" by simp
  have "richcmp [''a'', ''c''] (Inr [''b'', ''a'']) Ge"
    using view_comparison_laws [of "[''a'', ''c'']" "[''b'', ''a'']"]
      view_comparison_laws [of "[''b'', ''a'']" "[''a'', ''c'']"] lt by blast
  moreover have "\<not> richcmp [''a'', ''c''] (Inr [''b'', ''a'']) Le"
    using view_comparison_laws [of "[''a'', ''c'']" "[''b'', ''a'']"] lt ne by blast
  moreover have "mset [(''b'', []), (''a'', [1 :: byte])] = mset [(''a'', [1]), (''b'', [])]" by simp
  then have "richcmp [(''b'', []), (''a'', [1 :: byte])] (Inr [(''a'', [1]), (''b'', [])]) Eq"
    using view_comparison_laws [of "[(''b'', []), (''a'', [1 :: byte])]" "[(''a'', [1]), (''b'', [])]"] by blast
  ultimately show ?thesis using lt by blast
qed

text \<open>
  The order is not inclusion, as it is for the sets Python's views are: of the keys \<open>b\<close> and \<open>a, b\<close> the first are
  included in the second, but not less or equal; they are greater. Nor does equality forget how often an
  element is there.
\<close>

theorem view_order_is_not_inclusion:
  "(\<exists>ks ls :: string list. set ks \<subset> set ls \<and> \<not> richcmp ks (Inr ls) Le \<and> richcmp ks (Inr ls) Gt) \<and>
   (\<exists>ks ls :: string list. set ks = set ls \<and> richcmp ks (Inr ls) Ne)"
proof
  have "set [''b''] \<subset> set [''a'', ''b''] \<and> \<not> richcmp [''b''] (Inr [''a'', ''b'']) Le \<and> richcmp [''b''] (Inr [''a'', ''b'']) Gt"
    by (auto simp: richcmp_simps)
  then show "\<exists>ks ls :: string list. set ks \<subset> set ls \<and> \<not> richcmp ks (Inr ls) Le \<and> richcmp ks (Inr ls) Gt" by blast
  have "set [''a'', ''a''] = set [''a''] \<and> richcmp [''a'', ''a''] (Inr [''a'']) Ne"
    by (simp add: richcmp_simps)
  then show "\<exists>ks ls :: string list. set ks = set ls \<and> richcmp ks (Inr ls) Ne" by blast
qed

end
