(* ===== verification/Request_Headers.thy ===== *)
theory Request_Headers
  imports Header_Map
begin

section \<open>The headers of a request under construction\<close>

text \<open>
  Models \<open>RequestBuilderHeaders\<close> of \<open>src/request/internal/request_builder_headers.rs\<close>: the
  default headers of the client and those set on the builder, merged into the headers of the
  built request at the end. \<open>HeaderMap::insert\<close> panics where \<open>try_insert\<close> fails.
\<close>

record 'm builder_headers =
  default_headers :: "'m option"
  set_headers :: "'m option"

definition builder_headers_new :: "'m option \<Rightarrow> 'm builder_headers" where
  "builder_headers_new dflt = \<lparr>default_headers = dflt, set_headers = None\<rparr>"

definition drain_into_headers :: "'m http_ops \<Rightarrow> 'm \<Rightarrow> 'm builder_headers \<Rightarrow> 'm \<times> 'm builder_headers" where
  "drain_into_headers H hs b =
     (let hs1 = (case default_headers b of Some dflt \<Rightarrow> hm_extend H hs dflt | None \<Rightarrow> hs);
          hs2 = (case set_headers b of Some h \<Rightarrow> hm_extend H hs1 h | None \<Rightarrow> hs1)
      in (hs2, \<lparr>default_headers = None, set_headers = None\<rparr>))"

definition remove_header :: "'m http_ops \<Rightarrow> header_name \<Rightarrow> 'm \<Rightarrow> unit pyres \<times> 'm" where
  "remove_header H key hs =
     (case hm_try_entry H hs key of
        (Inl e, hs1) \<Rightarrow> (Inl (value_error e), hs1)
      | (Inr True, hs1) \<Rightarrow> (Inr (), snd (hm_remove_entry_mult H hs1 key))
      | (Inr False, hs1) \<Rightarrow> (Inr (), hs1))"

text \<open>The defaults of the names in a list are removed, up to the first error.\<close>

definition remove_defaults ::
    "'m http_ops \<Rightarrow> header_name list \<Rightarrow> 'm builder_headers \<Rightarrow> unit pyres \<times> 'm builder_headers" where
  "remove_defaults H ks b =
     (case default_headers b of
        None \<Rightarrow> (Inr (), b)
      | Some defaults \<Rightarrow>
          (case try_for_each (remove_header H) ks defaults of
             (r, defaults') \<Rightarrow> (r, b\<lparr>default_headers := Some defaults'\<rparr>)))"

definition builder_header ::
    "'m http_ops \<Rightarrow> header_name \<Rightarrow> header_value \<Rightarrow> 'm builder_headers \<Rightarrow> unit pyres \<times> 'm builder_headers" where
  "builder_header H key value b =
     (case remove_defaults H [key] b of
        (Inl e, b1) \<Rightarrow> (Inl e, b1)
      | (Inr _, b1) \<Rightarrow>
          (case set_headers b1 of
             Some hs \<Rightarrow>
               (case hm_try_append H hs key value of
                  (Inl e, hs') \<Rightarrow> (Inl (runtime_error e), b1\<lparr>set_headers := Some hs'\<rparr>)
                | (Inr _, hs') \<Rightarrow> (Inr (), b1\<lparr>set_headers := Some hs'\<rparr>))
           | None \<Rightarrow>
               (case hm_try_insert H (hm_new H) key value of
                  (Inl e, _) \<Rightarrow> (Inl (panic ''size overflows MAX_SIZE''), b1)
                | (Inr _, hs') \<Rightarrow> (Inr (), b1\<lparr>set_headers := Some hs'\<rparr>))))"

definition builder_headers_set ::
    "'m http_ops \<Rightarrow> 'm \<Rightarrow> 'm builder_headers \<Rightarrow> unit pyres \<times> 'm builder_headers" where
  "builder_headers_set H hs b =
     (case remove_defaults H (hm_keys H hs) b of
        (Inl e, b1) \<Rightarrow> (Inl e, b1)
      | (Inr _, b1) \<Rightarrow>
          (Inr (), b1\<lparr>set_headers := Some (case set_headers b1 of
              Some existing \<Rightarrow> hm_extend H existing hs | None \<Rightarrow> hs)\<rparr>))"

subsection \<open>Lemmas\<close>

definition opt_values :: "'m http_ops \<Rightarrow> 'm option \<Rightarrow> header_name \<Rightarrow> header_value list" where
  "opt_values H mo k = (case mo of None \<Rightarrow> [] | Some m \<Rightarrow> hm_get_all H m k)"

lemma opt_values_simps [simp]:
  "opt_values H None k = []" "opt_values H (Some m) k = hm_get_all H m k"
  by (simp_all add: opt_values_def)

context http_headers begin

lemma remove_header_ok:
  assumes "remove_header H key hs = (Inr u, hs')"
  shows "hm_get_all H hs' k = (if k = key then [] else hm_get_all H hs k)"
proof -
  obtain t hs1 where te: "hm_try_entry H hs key = (t, hs1)" by fastforce
  with assms obtain occ where t: "t = Inr occ" by (cases t) (auto simp: remove_header_def)
  from entry_law [OF te [unfolded t]] have e: "hm_get_all H hs1 = hm_get_all H hs"
    "occ = (hm_get_all H hs key \<noteq> [])" by auto
  show ?thesis
  proof (cases occ)
    case True
    obtain vs hs2 where rm: "hm_remove_entry_mult H hs1 key = (vs, hs2)" by fastforce
    from remove_law [OF _ rm] e True have "hm_get_all H hs2 = (hm_get_all H hs)(key := [])" by simp
    with assms te t True rm show ?thesis by (simp add: remove_header_def)
  next
    case False
    with assms te t e show ?thesis by (auto simp: remove_header_def)
  qed
qed

lemma remove_headers_ok:
  "try_for_each (remove_header H) ks hs = (Inr u, hs') \<Longrightarrow>
   hm_get_all H hs' k = (if k \<in> set ks then [] else hm_get_all H hs k)"
proof (induction ks arbitrary: hs)
  case (Cons key ks)
  obtain r hs1 where a: "remove_header H key hs = (r, hs1)" by fastforce
  with Cons.prems obtain u1 where r: "r = Inr u1" by (cases r) auto
  from remove_header_ok [OF a [unfolded r]] Cons.IH [of hs1] Cons.prems a r show ?case by auto
qed simp

lemma remove_defaults_ok:
  assumes "remove_defaults H ks b = (Inr u, b')"
  shows "opt_values H (default_headers b') k = (if k \<in> set ks then [] else opt_values H (default_headers b) k)"
    and "set_headers b' = set_headers b"
proof -
  have "opt_values H (default_headers b') k = (if k \<in> set ks then [] else opt_values H (default_headers b) k) \<and>
    set_headers b' = set_headers b"
  proof (cases "default_headers b")
    case (Some defaults)
    obtain r d' where t: "try_for_each (remove_header H) ks defaults = (r, d')" by fastforce
    with assms Some have "r = Inr u" "b' = b\<lparr>default_headers := Some d'\<rparr>" by (auto simp: remove_defaults_def)
    with remove_headers_ok [of ks defaults u d' k] t Some show ?thesis by simp
  qed (use assms in \<open>auto simp: remove_defaults_def\<close>)
  then show "opt_values H (default_headers b') k = (if k \<in> set ks then [] else opt_values H (default_headers b) k)"
    and "set_headers b' = set_headers b" by auto
qed

lemma builder_header_ok:
  assumes "builder_header H key v b = (Inr u, b')"
  shows "opt_values H (default_headers b') k = (if k = key then [] else opt_values H (default_headers b) k) \<and>
    opt_values H (set_headers b') k = (if k = key then opt_values H (set_headers b) k @ [v] else opt_values H (set_headers b) k)"
proof -
  obtain r b1 where d: "remove_defaults H [key] b = (r, b1)" by fastforce
  with assms obtain u1 where r: "r = Inr u1" by (cases r) (auto simp: builder_header_def)
  note ok = remove_defaults_ok(1) [OF d [unfolded r], of k] remove_defaults_ok(2) [OF d [unfolded r]]
  show ?thesis
  proof (cases "set_headers b1")
    case (Some hs)
    obtain q hs' where a: "hm_try_append H hs key v = (q, hs')" by fastforce
    with assms d r Some obtain x where q: "q = Inr x" by (cases q) (auto simp: builder_header_def)
    from append_law [OF a [unfolded q]] assms d r Some a q ok show ?thesis
      by (auto simp: builder_header_def)
  next
    case None
    obtain q hs' where a: "hm_try_insert H (hm_new H) key v = (q, hs')" by fastforce
    with assms d r None obtain x where q: "q = Inr x" by (cases q) (auto simp: builder_header_def)
    from insert_law [OF a [unfolded q]] assms d r None a q ok show ?thesis
      by (auto simp: builder_header_def get_all_new)
  qed
qed

lemma builder_headers_set_ok:
  assumes "builder_headers_set H hs b = (Inr u, b')"
  shows "opt_values H (default_headers b') k =
      (if hm_get_all H hs k \<noteq> [] then [] else opt_values H (default_headers b) k) \<and>
    opt_values H (set_headers b') k =
      (if hm_get_all H hs k \<noteq> [] then hm_get_all H hs k else opt_values H (set_headers b) k)"
proof -
  obtain r b1 where d: "remove_defaults H (hm_keys H hs) b = (r, b1)" by fastforce
  with assms obtain u1 where r: "r = Inr u1" by (cases r) (auto simp: builder_headers_set_def)
  note ok = remove_defaults_ok(1) [OF d [unfolded r], of k] remove_defaults_ok(2) [OF d [unfolded r]]
  from assms d r have "b' = b1\<lparr>set_headers := Some (case set_headers b1 of
      Some existing \<Rightarrow> hm_extend H existing hs | None \<Rightarrow> hs)\<rparr>" by (simp add: builder_headers_set_def)
  with ok show ?thesis by (simp add: keys_set extend_law split: option.split)
qed

lemma drain_ok:
  "hm_get_all H (fst (drain_into_headers H hs b)) k =
     (if opt_values H (set_headers b) k \<noteq> [] then opt_values H (set_headers b) k
      else if opt_values H (default_headers b) k \<noteq> [] then opt_values H (default_headers b) k
      else hm_get_all H hs k)"
  by (simp add: drain_into_headers_def Let_def extend_law split: option.split)

end

subsection \<open>Sequences of calls\<close>

datatype 'm headers_call = CallHeader header_name header_value | CallHeaders 'm

fun headers_calls ::
    "'m http_ops \<Rightarrow> 'm headers_call list \<Rightarrow> 'm builder_headers \<Rightarrow> unit pyres \<times> 'm builder_headers" where
  "headers_calls H [] b = (Inr (), b)"
| "headers_calls H (c # cs) b =
     (case (case c of CallHeader k v \<Rightarrow> builder_header H k v b | CallHeaders m \<Rightarrow> builder_headers_set H m b) of
        (Inl e, b') \<Rightarrow> (Inl e, b')
      | (Inr _, b') \<Rightarrow> headers_calls H cs b')"

text \<open>What the calls ask for, name by name.\<close>

fun asked :: "'m http_ops \<Rightarrow> header_name \<Rightarrow> 'm headers_call list \<Rightarrow> header_value list \<Rightarrow> header_value list" where
  "asked H k [] vs = vs"
| "asked H k (CallHeader k' v # cs) vs = asked H k cs (if k' = k then vs @ [v] else vs)"
| "asked H k (CallHeaders m # cs) vs = asked H k cs (if hm_get_all H m k \<noteq> [] then hm_get_all H m k else vs)"

lemma asked_nonempty: "vs \<noteq> [] \<Longrightarrow> asked H k cs vs \<noteq> []"
  by (induction H k cs vs rule: asked.induct) auto

context http_headers begin

lemma headers_calls_ok:
  "headers_calls H cs b = (Inr u, b') \<Longrightarrow>
   opt_values H (set_headers b') k = asked H k cs (opt_values H (set_headers b) k) \<and>
   (opt_values H (set_headers b') k = [] \<longrightarrow>
     opt_values H (default_headers b') k = opt_values H (default_headers b) k)"
proof (induction cs arbitrary: b)
  case (Cons c cs)
  show ?case
  proof (cases c)
    case (CallHeader key v)
    obtain r b1 where a: "builder_header H key v b = (r, b1)" by fastforce
    with Cons.prems CallHeader obtain u1 where r: "r = Inr u1" by (cases r) auto
    from builder_header_ok [OF a [unfolded r], of k] Cons.IH [of b1] Cons.prems CallHeader a r
      asked_nonempty [of _ H k cs] show ?thesis by (auto split: if_splits)
  next
    case (CallHeaders m)
    obtain r b1 where a: "builder_headers_set H m b = (r, b1)" by fastforce
    with Cons.prems CallHeaders obtain u1 where r: "r = Inr u1" by (cases r) auto
    from builder_headers_set_ok [OF a [unfolded r], of k] Cons.IH [of b1] Cons.prems CallHeaders a r
      asked_nonempty [of _ H k cs] show ?thesis by (auto split: if_splits)
  qed
qed simp

end

end
