(* ===== verification/Body_Stream.thy ===== *)
theory Body_Stream
  imports Exceptions
begin

section \<open>Request bodies streamed from Python\<close>

text \<open>
  Models \<open>BodyStream\<close> of \<open>src/internal/body_stream.rs\<close>: a Python iterable or asynchronous
  iterable behind the \<open>Stream\<close> interface the HTTP client polls. At most one element is being
  awaited (\<open>cur_waiter\<close>). The Python side is the environment \<open>E\<close>: \<open>next\<close>, \<open>anext\<close> and their
  iterators, the coroutine waiter of \<open>src/internal/asyncio_coro.rs\<close>, the context that is
  current, and the state \<open>'w\<close> of the interpreter they change. The sentinel that marks the end is
  recognised by \<open>is_sentinel\<close>.
\<close>

record ('w, 'o, 'tl, 'co) stream_env =
  is_sync_iter :: "'o \<Rightarrow> bool pyres"
  is_async_iter :: "'o \<Rightarrow> bool pyres"
  call_iter :: "'o \<Rightarrow> 'w \<Rightarrow> 'o pyres \<times> 'w"
  call_aiter :: "'o \<Rightarrow> 'w \<Rightarrow> 'o pyres \<times> 'w"
  call_next :: "'o \<Rightarrow> 'w \<Rightarrow> 'o pyres \<times> 'w"
  call_anext :: "'o \<Rightarrow> 'w \<Rightarrow> 'o pyres \<times> 'w"
  call_copy :: "'o \<Rightarrow> 'w \<Rightarrow> 'o pyres \<times> 'w"
  waiter_new :: "'o \<Rightarrow> 'tl \<Rightarrow> 'w \<Rightarrow> 'co pyres \<times> 'w"
  waiter_poll :: "'co \<Rightarrow> 'w \<Rightarrow> 'o pyres option \<times> 'co \<times> 'w"
  task_local_current :: "'w \<Rightarrow> 'tl pyres \<times> 'w"
  is_sentinel :: "'o \<Rightarrow> bool"
  extract_bytes :: "'o \<Rightarrow> bytes pyres"

datatype 'co stream_waiter = AsyncWaiter 'co | SyncWaiter "bytes option pyres option"

record ('o, 'tl, 'co) body_stream =
  bs_stream :: "'o option"
  py_iter :: "'o option"
  bs_task_local :: "'tl option"
  cur_waiter :: "'co stream_waiter option"
  bs_is_async :: bool

subsection \<open>Creation\<close>

definition get_py_iter :: "('w, 'o, 'tl, 'co) stream_env \<Rightarrow> 'o \<Rightarrow> bool \<Rightarrow> 'w \<Rightarrow> 'o pyres \<times> 'w" where
  "get_py_iter E stream is_async w =
     (case (if is_async then call_aiter E stream w else call_iter E stream w) of
        (Inr it, w') \<Rightarrow> (Inr it, w')
      | (Inl e, w') \<Rightarrow>
          (if \<not> (is_async_iter E stream = Inr True \<or> is_sync_iter E stream = Inr True)
           then (Inl (PyErr PyTypeError ''Expected an iterable or async iterable'' NoDetails), w')
           else (Inl e, w')))"

definition body_stream_new ::
    "('w, 'o, 'tl, 'co) stream_env \<Rightarrow> 'o \<Rightarrow> 'w \<Rightarrow> ('o, 'tl, 'co) body_stream pyres \<times> 'w" where
  "body_stream_new E stream w =
     (case is_sync_iter E stream of
        Inl e \<Rightarrow> (Inl e, w)
      | Inr sync \<Rightarrow>
          (case get_py_iter E stream (\<not> sync) w of
             (Inl e, w') \<Rightarrow> (Inl e, w')
           | (Inr it, w') \<Rightarrow>
               (Inr \<lparr>bs_stream = Some stream, py_iter = Some it, bs_task_local = None, cur_waiter = None,
                     bs_is_async = \<not> sync\<rparr>, w')))"

definition get_stream :: "('o, 'tl, 'co) body_stream \<Rightarrow> 'o pyres" where
  "get_stream bs = ok_or (runtime_error ''Expected stream'') (bs_stream bs)"

definition stream_try_clone ::
    "('w, 'o, 'tl, 'co) stream_env \<Rightarrow> ('o, 'tl, 'co) body_stream \<Rightarrow> 'w \<Rightarrow>
     ('o, 'tl, 'co) body_stream pyres \<times> 'w" where
  "stream_try_clone E bs w =
     (case bs_stream bs of
        None \<Rightarrow> (Inl (runtime_error ''Expected stream''), w)
      | Some stream \<Rightarrow>
          (case call_copy E stream w of
             (Inl e, w1) \<Rightarrow> (Inl e, w1)
           | (Inr new_stream, w1) \<Rightarrow>
               (case get_py_iter E new_stream (bs_is_async bs) w1 of
                  (Inl e, w2) \<Rightarrow> (Inl e, w2)
                | (Inr it, w2) \<Rightarrow>
                    (Inr \<lparr>bs_stream = Some new_stream, py_iter = Some it, bs_task_local = None,
                          cur_waiter = None, bs_is_async = bs_is_async bs\<rparr>, w2))))"

definition stream_set_task_local ::
    "('w \<Rightarrow> 'tl pyres \<times> 'w) \<Rightarrow> ('o, 'tl, 'co) body_stream \<Rightarrow> 'w \<Rightarrow>
     unit pyres \<times> ('o, 'tl, 'co) body_stream \<times> 'w" where
  "stream_set_task_local get_or_current bs w =
     (if bs_is_async bs \<and> bs_task_local bs = None then
        (case get_or_current w of
           (Inl e, w') \<Rightarrow> (Inl e, bs, w')
         | (Inr tloc, w') \<Rightarrow> (Inr (), bs\<lparr>bs_task_local := Some tloc\<rparr>, w'))
      else (Inr (), bs, w))"

subsection \<open>Polling\<close>

definition bytes_extractor :: "('w, 'o, 'tl, 'co) stream_env \<Rightarrow> 'o pyres \<Rightarrow> bytes option pyres" where
  "bytes_extractor E res =
     and_then res (\<lambda>ob. if is_sentinel E ob then Inr None else map_res Some (extract_bytes E ob))"

definition py_next ::
    "('w, 'o, 'tl, 'co) stream_env \<Rightarrow> ('o, 'tl, 'co) body_stream \<Rightarrow> 'w \<Rightarrow> 'co stream_waiter pyres \<times> 'w" where
  "py_next E bs w =
     (case py_iter bs of
        None \<Rightarrow> (Inl (runtime_error ''Expected iterator''), w)
      | Some it \<Rightarrow>
        if bs_is_async bs then
          (case (case bs_task_local bs of Some tloc \<Rightarrow> (Inr tloc, w) | None \<Rightarrow> task_local_current E w) of
             (Inl e, w1) \<Rightarrow> (Inl e, w1)
           | (Inr tloc, w1) \<Rightarrow>
               (case call_anext E it w1 of
                  (Inl e, w2) \<Rightarrow> (Inl e, w2)
                | (Inr coro, w2) \<Rightarrow>
                    (case waiter_new E coro tloc w2 of
                       (Inl e, w3) \<Rightarrow> (Inl e, w3)
                     | (Inr waiter, w3) \<Rightarrow> (Inr (AsyncWaiter waiter), w3))))
        else
          (case call_next E it w of (res, w1) \<Rightarrow> (Inr (SyncWaiter (Some (bytes_extractor E res))), w1)))"

text \<open>\<open>Poll<Option<PyResult<Bytes>>>\<close>.\<close>

datatype poll = Pending | Ready "bytes pyres option"

definition poll_waiter ::
    "('w, 'o, 'tl, 'co) stream_env \<Rightarrow> 'co stream_waiter \<Rightarrow> 'w \<Rightarrow>
     bytes option pyres option \<times> 'co stream_waiter \<times> 'w" where
  "poll_waiter E waiter w =
     (case waiter of
        AsyncWaiter co \<Rightarrow>
          (case waiter_poll E co w of
             (r, co', w') \<Rightarrow> (map_option (bytes_extractor E) r, AsyncWaiter co', w'))
      | SyncWaiter v \<Rightarrow>
          (Some (and_then (ok_or (runtime_error ''Unexpected missing stream value'') v) id), SyncWaiter None, w))"

definition poll_next ::
    "('w, 'o, 'tl, 'co) stream_env \<Rightarrow> ('o, 'tl, 'co) body_stream \<Rightarrow> 'w \<Rightarrow>
     poll \<times> ('o, 'tl, 'co) body_stream \<times> 'w" where
  "poll_next E bs w =
     (case (case cur_waiter bs of Some waiter \<Rightarrow> (Inr waiter, w) | None \<Rightarrow> py_next E bs w) of
        (Inl e, w1) \<Rightarrow> (Ready (Some (Inl e)), bs, w1)
      | (Inr waiter, w1) \<Rightarrow>
          (case poll_waiter E waiter w1 of
             (None, waiter', w2) \<Rightarrow> (Pending, bs\<lparr>cur_waiter := Some waiter'\<rparr>, w2)
           | (Some res, _, w2) \<Rightarrow>
               (Ready (case res of
                         Inr (Some b) \<Rightarrow> Some (Inr b)
                       | Inr None \<Rightarrow> None
                       | Inl e \<Rightarrow> Some (Inl e)),
                bs\<lparr>cur_waiter := None\<rparr>, w2)))"

datatype ('o, 'tl, 'co) reqwest_body = FromBytes bytes | WrapStream "('o, 'tl, 'co) body_stream"

definition stream_into_reqwest ::
    "bool \<Rightarrow> ('o, 'tl, 'co) body_stream \<Rightarrow> ('o, 'tl, 'co) reqwest_body pyres" where
  "stream_into_reqwest is_blocking bs =
     (if is_blocking \<and> bs_is_async bs
      then Inl (value_error ''Cannot use async iterator in a blocking context'')
      else Inr (WrapStream bs))"

subsection \<open>Lemmas: synchronous streams\<close>

definition ready_of :: "bytes option pyres \<Rightarrow> poll" where
  "ready_of res = Ready (case res of Inr (Some b) \<Rightarrow> Some (Inr b) | Inr None \<Rightarrow> None | Inl e \<Rightarrow> Some (Inl e))"

lemma poll_next_sync:
  assumes "\<not> bs_is_async bs" and "py_iter bs = Some it" and "cur_waiter bs = None"
    and "call_next E it w = (res, w')"
  shows "poll_next E bs w = (ready_of (bytes_extractor E res), bs, w')"
proof -
  have "bs\<lparr>cur_waiter := None\<rparr> = bs" using assms(3) by (cases bs) simp
  moreover have "and_then (Inr x) id = x" for x :: "bytes option pyres" by simp
  ultimately show ?thesis
    using assms by (simp add: poll_next_def py_next_def poll_waiter_def ready_of_def)
qed

text \<open>The client polls until it gets the end of the stream or an error.\<close>

partial_function (option) pull_all ::
    "('w, 'o, 'tl, 'co) stream_env \<Rightarrow> ('o, 'tl, 'co) body_stream \<Rightarrow> 'w \<Rightarrow> bytes list \<Rightarrow>
     (bytes list pyres \<times> 'w) option" where
  "pull_all E bs w acc =
     (case poll_next E bs w of
        (r, bs', w') \<Rightarrow>
          (case r of
             Pending \<Rightarrow> pull_all E bs' w' acc
           | Ready v \<Rightarrow>
               (case v of
                  None \<Rightarrow> Some (Inr acc, w')
                | Some res \<Rightarrow>
                    (case res of Inl e \<Rightarrow> Some (Inl e, w') | Inr b \<Rightarrow> pull_all E bs' w' (acc @ [b])))))"

text \<open>\<open>yields E it w xs w'\<close>: called again and again, \<open>next\<close> gives \<open>xs\<close> and then the sentinel.\<close>

inductive yields ::
    "('w, 'o, 'tl, 'co) stream_env \<Rightarrow> 'o \<Rightarrow> 'w \<Rightarrow> bytes list \<Rightarrow> 'w \<Rightarrow> bool" for E it where
  yields_end: "call_next E it w = (Inr ob, w') \<Longrightarrow> is_sentinel E ob \<Longrightarrow> yields E it w [] w'"
| yields_item: "call_next E it w = (Inr ob, w1) \<Longrightarrow> \<not> is_sentinel E ob \<Longrightarrow> extract_bytes E ob = Inr b \<Longrightarrow>
    yields E it w1 xs w' \<Longrightarrow> yields E it w (b # xs) w'"

lemma pull_all_sync:
  assumes "yields E it w xs w'" and "\<not> bs_is_async bs" and "py_iter bs = Some it" and "cur_waiter bs = None"
  shows "pull_all E bs w acc = Some (Inr (acc @ xs), w')"
  using assms
proof (induction arbitrary: acc rule: yields.induct)
  case (yields_end w ob w')
  then show ?case
    by (simp add: pull_all.simps poll_next_sync [of bs it E w "Inr ob" w'] bytes_extractor_def ready_of_def)
next
  case (yields_item w ob w1 b xs w')
  then show ?case
    by (simp add: pull_all.simps [of E bs w] poll_next_sync [of bs it E w "Inr ob" w1] bytes_extractor_def
        ready_of_def)
qed

subsection \<open>Lemmas: asynchronous streams\<close>

text \<open>
  While an element is awaited, a poll only polls its waiter: the iterator is not asked for
  another one.
\<close>

lemma poll_next_waiting:
  assumes "cur_waiter bs = Some (AsyncWaiter co)" and "waiter_poll E co w = (r, co', w')"
  shows "poll_next E bs w =
    (case r of
       None \<Rightarrow> (Pending, bs\<lparr>cur_waiter := Some (AsyncWaiter co')\<rparr>, w')
     | Some res \<Rightarrow> (ready_of (bytes_extractor E res), bs\<lparr>cur_waiter := None\<rparr>, w'))"
  using assms by (simp add: poll_next_def poll_waiter_def ready_of_def split: option.split)

text \<open>A waiter that is pending for some polls and then done.\<close>

inductive resolves ::
    "('w, 'o, 'tl, 'co) stream_env \<Rightarrow> 'co \<Rightarrow> 'w \<Rightarrow> nat \<Rightarrow> 'o pyres \<Rightarrow> 'w \<Rightarrow> bool" for E where
  resolves_done: "waiter_poll E co w = (Some res, co', w') \<Longrightarrow> resolves E co w 0 res w'"
| resolves_pending: "waiter_poll E co w = (None, co', w1) \<Longrightarrow> resolves E co' w1 n res w' \<Longrightarrow>
    resolves E co w (Suc n) res w'"

fun polls ::
    "('w, 'o, 'tl, 'co) stream_env \<Rightarrow> nat \<Rightarrow> ('o, 'tl, 'co) body_stream \<Rightarrow> 'w \<Rightarrow>
     poll list \<times> ('o, 'tl, 'co) body_stream \<times> 'w" where
  "polls E 0 bs w = ([], bs, w)"
| "polls E (Suc n) bs w =
     (case poll_next E bs w of
        (r, bs1, w1) \<Rightarrow> (case polls E n bs1 w1 of (rs, bs2, w2) \<Rightarrow> (r # rs, bs2, w2)))"

lemma polls_waiting:
  assumes "resolves E co w n res w'" and "cur_waiter bs = Some (AsyncWaiter co)"
  shows "polls E (Suc n) bs w =
    (replicate n Pending @ [ready_of (bytes_extractor E res)], bs\<lparr>cur_waiter := None\<rparr>, w')"
  using assms
proof (induction arbitrary: bs rule: resolves.induct)
  case (resolves_done co w res co' w')
  then show ?case by (simp add: poll_next_waiting)
next
  case (resolves_pending co w co' w1 n res w')
  have "polls E (Suc n) (bs\<lparr>cur_waiter := Some (AsyncWaiter co')\<rparr>) w1 =
      (replicate n Pending @ [ready_of (bytes_extractor E res)], bs\<lparr>cur_waiter := None\<rparr>, w')"
    using resolves_pending.IH [of "bs\<lparr>cur_waiter := Some (AsyncWaiter co')\<rparr>"] by simp
  with resolves_pending show ?case
    by (simp add: poll_next_waiting [OF resolves_pending.prems resolves_pending.hyps(1)])
qed

end
