(* ===== verification/Take_Once.thy ===== *)
theory Take_Once
  imports Header_Map
begin

section \<open>Objects that are consumed once\<close>

text \<open>
  Header maps, request bodies, requests, responses, body readers and builders are Rust
  \<open>Option\<close>s behind a Python object: an operation takes the content out, and whoever comes
  later gets an error. The locale \<open>take_once\<close> is that contract: \<open>content\<close> is what is
  still there, \<open>take\<close> the consuming operation, \<open>gone\<close> the error afterwards. Every
  component that has such an operation interprets it.
\<close>

fun takes :: "('s \<Rightarrow> 'a pyres \<times> 's) \<Rightarrow> nat \<Rightarrow> 's \<Rightarrow> 'a pyres list \<times> 's" where
  "takes tk 0 s = ([], s)"
| "takes tk (Suc n) s =
     (case tk s of (r, s') \<Rightarrow> (case takes tk n s' of (rs, s'') \<Rightarrow> (r # rs, s'')))"

locale take_once =
  fixes content :: "'s \<Rightarrow> 'a option"
    and take_it :: "'s \<Rightarrow> 'a pyres \<times> 's"
    and gone :: "'s \<Rightarrow> py_err"
  assumes take_some: "content s = Some a \<Longrightarrow> fst (take_it s) = Inr a \<and> content (snd (take_it s)) = None"
    and take_none: "content s = None \<Longrightarrow> take_it s = (Inl (gone s), s)"
begin

lemma takes_gone: "content s = None \<Longrightarrow> takes take_it n s = (replicate n (Inl (gone s)), s)"
  by (induction n) (simp_all add: take_none)

text \<open>Of any number of attempts the first one gets the content and all others fail.\<close>

lemma takes_content:
  assumes "content s = Some a"
  shows "fst (takes take_it (Suc n) s) = Inr a # replicate n (Inl (gone (snd (take_it s))))"
proof -
  obtain r s' where t: "take_it s = (r, s')" by fastforce
  with take_some [OF assms] have "r = Inr a" "content s' = None" by auto
  with t takes_gone [of s' n] show ?thesis by simp
qed

lemma take_fails_iff: "(\<exists>e. fst (take_it s) = Inl e) \<longleftrightarrow> content s = None"
proof (cases "content s")
  case (Some a)
  with take_some [OF Some] show ?thesis by auto
qed (simp add: take_none)

end

definition header_content :: "'m header_map \<Rightarrow> 'm option" where
  "header_content h = (if poisoned h then None else inner h)"

definition header_gone :: "'m header_map \<Rightarrow> py_err" where
  "header_gone h = (if poisoned h then runtime_error ''HeaderMap mutex poisoned'' else consumed_error)"

interpretation headers: take_once header_content try_take_inner header_gone
  by unfold_locales
    (auto simp: header_content_def header_gone_def try_take_inner_def safe_lock_def split: if_splits)

text \<open>\<open>Option::take\<close> with the error of \<open>ok_or_else\<close>, the form all others have.\<close>

definition take_or :: "py_err \<Rightarrow> 'a option \<Rightarrow> 'a pyres \<times> 'a option" where
  "take_or e x = (ok_or e x, None)"

interpretation options: take_once "\<lambda>x :: 'a option. x" "take_or e" "\<lambda>_. e" for e
  by unfold_locales (auto simp: take_or_def)

end
