(* ===== verification/Request_Body.thy ===== *)
theory Request_Body
  imports Body_Stream Take_Once
begin

section \<open>Request bodies\<close>

text \<open>
  Models \<open>RequestBody\<close> of \<open>src/request/request_body.rs\<close>: a mutex around bytes or a stream,
  emptied when the body is handed on or sent.
\<close>

type_synonym ('o, 'tl, 'co) stream = "('o, 'tl, 'co) body_stream"

datatype ('o, 'tl, 'co) inner_body = BodyBytes bytes | BodyStreamed "('o, 'tl, 'co) stream"

record ('o, 'tl, 'co) request_body =
  rb_inner :: "('o, 'tl, 'co) inner_body option"
  rb_poisoned :: bool

definition request_body_new :: "('o, 'tl, 'co) inner_body \<Rightarrow> ('o, 'tl, 'co) request_body" where
  "request_body_new b = \<lparr>rb_inner = Some b, rb_poisoned = False\<rparr>"

definition from_text :: "string \<Rightarrow> ('o, 'tl, 'co) request_body" where
  "from_text s = request_body_new (BodyBytes (str_bytes s))"

definition from_bytes :: "bytes \<Rightarrow> ('o, 'tl, 'co) request_body" where
  "from_bytes b = request_body_new (BodyBytes b)"

definition from_stream ::
    "('w, 'o, 'tl, 'co) stream_env \<Rightarrow> 'o \<Rightarrow> 'w \<Rightarrow> ('o, 'tl, 'co) request_body pyres \<times> 'w" where
  "from_stream E stream w =
     (case body_stream_new E stream w of
        (Inl e, w') \<Rightarrow> (Inl e, w')
      | (Inr bs, w') \<Rightarrow> (Inr (request_body_new (BodyStreamed bs)), w'))"

definition body_consumed_error :: py_err where
  "body_consumed_error = runtime_error ''Request body already consumed''"

definition body_poisoned_error :: py_err where
  "body_poisoned_error = runtime_error ''RequestBody mutex poisoned''"

definition body_lock :: "('o, 'tl, 'co) request_body \<Rightarrow> ('o, 'tl, 'co) inner_body option pyres" where
  "body_lock rb = (if rb_poisoned rb then Inl body_poisoned_error else Inr (rb_inner rb))"

definition copy_bytes :: "('o, 'tl, 'co) request_body \<Rightarrow> bytes option pyres" where
  "copy_bytes rb =
     (case body_lock rb of
        Inl e \<Rightarrow> Inl e
      | Inr (Some (BodyBytes b)) \<Rightarrow> Inr (Some b)
      | Inr (Some (BodyStreamed _)) \<Rightarrow> Inr None
      | Inr None \<Rightarrow> Inl body_consumed_error)"

definition body_get_stream :: "('o, 'tl, 'co) request_body \<Rightarrow> 'o option pyres" where
  "body_get_stream rb =
     (case body_lock rb of
        Inl e \<Rightarrow> Inl e
      | Inr (Some (BodyBytes _)) \<Rightarrow> Inr None
      | Inr (Some (BodyStreamed bs)) \<Rightarrow> map_res Some (get_stream bs)
      | Inr None \<Rightarrow> Inl body_consumed_error)"

definition body_repr :: "('o \<Rightarrow> string pyres) \<Rightarrow> ('o, 'tl, 'co) request_body \<Rightarrow> string pyres" where
  "body_repr py_repr rb =
     (case body_lock rb of
        Inl e \<Rightarrow> Inl e
      | Inr (Some (BodyBytes b)) \<Rightarrow> Inr (''RequestBody(len='' @ show_nat (length b) @ '')'')
      | Inr (Some (BodyStreamed bs)) \<Rightarrow>
          and_then (get_stream bs) (\<lambda>ob. map_res (\<lambda>r. ''RequestBody(stream='' @ r @ '')'') (py_repr ob))
      | Inr None \<Rightarrow> Inr ''RequestBody(<already consumed>)'')"

definition body_try_clone ::
    "('w, 'o, 'tl, 'co) stream_env \<Rightarrow> ('o, 'tl, 'co) request_body \<Rightarrow> 'w \<Rightarrow>
     ('o, 'tl, 'co) request_body pyres \<times> 'w" where
  "body_try_clone E rb w =
     (case body_lock rb of
        Inl e \<Rightarrow> (Inl e, w)
      | Inr (Some (BodyBytes b)) \<Rightarrow> (Inr (request_body_new (BodyBytes b)), w)
      | Inr (Some (BodyStreamed bs)) \<Rightarrow>
          (case stream_try_clone E bs w of
             (Inl e, w') \<Rightarrow> (Inl e, w')
           | (Inr bs', w') \<Rightarrow> (Inr (request_body_new (BodyStreamed bs')), w'))
      | Inr None \<Rightarrow> (Inl body_consumed_error, w))"

definition body_take_inner ::
    "('o, 'tl, 'co) request_body \<Rightarrow> ('o, 'tl, 'co) request_body pyres \<times> ('o, 'tl, 'co) request_body" where
  "body_take_inner rb =
     (case body_lock rb of
        Inl e \<Rightarrow> (Inl e, rb)
      | Inr b \<Rightarrow> (map_res request_body_new (ok_or body_consumed_error b), rb\<lparr>rb_inner := None\<rparr>))"

definition body_set_task_local ::
    "('w \<Rightarrow> 'tl pyres \<times> 'w) \<Rightarrow> ('o, 'tl, 'co) request_body \<Rightarrow> 'w \<Rightarrow>
     unit pyres \<times> ('o, 'tl, 'co) request_body \<times> 'w" where
  "body_set_task_local get_or_current rb w =
     (case body_lock rb of
        Inl e \<Rightarrow> (Inl e, rb, w)
      | Inr (Some (BodyBytes _)) \<Rightarrow> (Inr (), rb, w)
      | Inr (Some (BodyStreamed bs)) \<Rightarrow>
          (case stream_set_task_local get_or_current bs w of
             (r, bs', w') \<Rightarrow> (r, rb\<lparr>rb_inner := Some (BodyStreamed bs')\<rparr>, w'))
      | Inr None \<Rightarrow> (Inl body_consumed_error, rb, w))"

definition body_into_reqwest ::
    "bool \<Rightarrow> ('o, 'tl, 'co) request_body \<Rightarrow>
     ('o, 'tl, 'co) reqwest_body pyres \<times> ('o, 'tl, 'co) request_body" where
  "body_into_reqwest is_blocking rb =
     (case body_lock rb of
        Inl e \<Rightarrow> (Inl e, rb)
      | Inr b \<Rightarrow>
          ((case b of
              Some (BodyBytes bytes) \<Rightarrow> Inr (FromBytes bytes)
            | Some (BodyStreamed bs) \<Rightarrow> stream_into_reqwest is_blocking bs
            | None \<Rightarrow> Inl body_consumed_error),
           rb\<lparr>rb_inner := None\<rparr>))"

subsection \<open>A body is consumed once\<close>

definition body_content :: "('o, 'tl, 'co) request_body \<Rightarrow> ('o, 'tl, 'co) request_body option" where
  "body_content rb = (if rb_poisoned rb then None else map_option request_body_new (rb_inner rb))"

definition body_gone :: "('o, 'tl, 'co) request_body \<Rightarrow> py_err" where
  "body_gone rb = (if rb_poisoned rb then body_poisoned_error else body_consumed_error)"

interpretation bodies: take_once body_content body_take_inner body_gone
  by unfold_locales
    (auto simp: body_content_def body_gone_def body_take_inner_def body_lock_def split: if_splits)

lemma body_into_reqwest_consumes:
  "body_into_reqwest blk rb = (r, rb') \<Longrightarrow> body_content rb' = None"
  by (auto simp: body_into_reqwest_def body_lock_def body_content_def split: if_splits)

lemma body_gone_ops:
  assumes "body_content rb = None"
  shows "copy_bytes rb = Inl (body_gone rb)" "body_get_stream rb = Inl (body_gone rb)"
    "body_try_clone E rb w = (Inl (body_gone rb), w)"
    "body_set_task_local g rb w = (Inl (body_gone rb), rb, w)"
    "body_into_reqwest blk rb = (Inl (body_gone rb), rb)"
  using assms
  by (auto simp: body_content_def body_gone_def copy_bytes_def body_get_stream_def body_try_clone_def
      body_set_task_local_def body_into_reqwest_def body_lock_def split: if_splits)

end
