(* ===== verification/Builders.thy ===== *)
theory Builders
  imports Request_Body
begin

section \<open>Builders that wrap a value of \<open>reqwest\<close>\<close>

text \<open>
  Models the multipart builders (\<open>src/multipart/form_builder.rs\<close>,
  \<open>src/multipart/part_builder.rs\<close>), the proxy builder (\<open>src/proxy/proxy_builder.rs\<close>) and
  the JSON handler (\<open>src/internal/json.rs\<close>). The builders hold an optional value of the crate;
  every setter takes it out, runs a function on it and puts the result back (\<open>apply\<close>), and
  \<open>build\<close> takes it for good. What the crate does with the value are parameters.
\<close>

subsection \<open>Taking the value, changing it, putting it back\<close>

text \<open>When the function fails, the value is gone: it was taken and is not put back.\<close>

definition apply_opt :: "py_err \<Rightarrow> ('a \<Rightarrow> 'a pyres) \<Rightarrow> 'a option \<Rightarrow> unit pyres \<times> 'a option" where
  "apply_opt built change slot =
     (case slot of
        None \<Rightarrow> (Inl built, None)
      | Some builder \<Rightarrow>
          (case change builder of Inl e \<Rightarrow> (Inl e, None) | Inr b \<Rightarrow> (Inr (), Some b)))"

lemma apply_opt_simps [taken_simps]:
  "apply_opt e f None = (Inl e, None)"
  "f b = Inr b' \<Longrightarrow> apply_opt e f (Some b) = (Inr (), Some b')"
  "f b = Inl e' \<Longrightarrow> apply_opt e f (Some b) = (Inl e', None)"
  by (simp_all add: apply_opt_def)

subsection \<open>Parts\<close>

record ('part, 'm, 'b) part_ops =
  part_text :: "string \<Rightarrow> 'part"
  part_bytes :: "bytes \<Rightarrow> 'part"
  part_stream :: "'b \<Rightarrow> 'part"
  part_stream_with_length :: "'b \<Rightarrow> nat \<Rightarrow> 'part"
  part_mime_str :: "string \<Rightarrow> 'part \<Rightarrow> string + 'part"
  part_file_name :: "string \<Rightarrow> 'part \<Rightarrow> 'part"
  part_headers :: "'m \<Rightarrow> 'part \<Rightarrow> 'part"

record 'part part_builder =
  pb_inner :: "'part option"
  pb_is_async :: bool

definition part_consumed :: py_err where
  "part_consumed = runtime_error ''Part was already consumed''"

definition part_builder_new :: "'part \<Rightarrow> bool \<Rightarrow> 'part part_builder" where
  "part_builder_new part is_async = \<lparr>pb_inner = Some part, pb_is_async = is_async\<rparr>"

definition part_from_text :: "('part, 'm, 'b) part_ops \<Rightarrow> string \<Rightarrow> 'part part_builder" where
  "part_from_text P value = part_builder_new (part_text P value) False"

definition part_from_bytes :: "('part, 'm, 'b) part_ops \<Rightarrow> bytes \<Rightarrow> 'part part_builder" where
  "part_from_bytes P value = part_builder_new (part_bytes P value) False"

text \<open>
  A stream is bound to the current context at once: \<open>once\<close> is \<open>OnceTaskLocal::get_or_current\<close>
  of a new cell.
\<close>

definition part_from_stream_by ::
    "(('o, 'tl, 'co) reqwest_body \<Rightarrow> 'part) \<Rightarrow> ('w, 'o, 'tl, 'co) stream_env \<Rightarrow> ('w \<Rightarrow> 'tl pyres \<times> 'w) \<Rightarrow>
     'o \<Rightarrow> 'w \<Rightarrow> 'part part_builder pyres \<times> 'w" where
  "part_from_stream_by mk E once stream w =
     (case body_stream_new E stream w of
        (Inl e, w1) \<Rightarrow> (Inl e, w1)
      | (Inr bs, w1) \<Rightarrow>
          (case stream_set_task_local once bs w1 of
             (Inl e, _, w2) \<Rightarrow> (Inl e, w2)
           | (Inr _, bs', w2) \<Rightarrow>
               (map_res (\<lambda>b. part_builder_new (mk b) (bs_is_async bs')) (stream_into_reqwest False bs'), w2)))"

definition part_from_stream ::
    "('part, 'm, ('o, 'tl, 'co) reqwest_body) part_ops \<Rightarrow> ('w, 'o, 'tl, 'co) stream_env \<Rightarrow>
     ('w \<Rightarrow> 'tl pyres \<times> 'w) \<Rightarrow> 'o \<Rightarrow> 'w \<Rightarrow> 'part part_builder pyres \<times> 'w" where
  "part_from_stream P E once stream w = part_from_stream_by (part_stream P) E once stream w"

definition part_from_stream_with_length ::
    "('part, 'm, ('o, 'tl, 'co) reqwest_body) part_ops \<Rightarrow> ('w, 'o, 'tl, 'co) stream_env \<Rightarrow>
     ('w \<Rightarrow> 'tl pyres \<times> 'w) \<Rightarrow> 'o \<Rightarrow> nat \<Rightarrow> 'w \<Rightarrow> 'part part_builder pyres \<times> 'w" where
  "part_from_stream_with_length P E once stream len w =
     part_from_stream_by (\<lambda>b. part_stream_with_length P b len) E once stream w"

text \<open>\<open>load_file\<close> reads the file on the runtime.\<close>

definition part_from_file ::
    "('path \<Rightarrow> 'w \<Rightarrow> 'part pyres \<times> 'w) \<Rightarrow> 'path \<Rightarrow> 'w \<Rightarrow> 'part part_builder pyres \<times> 'w" where
  "part_from_file load_file path w =
     (case load_file path w of (r, w') \<Rightarrow> (map_res (\<lambda>part. part_builder_new part False) r, w'))"

definition part_apply :: "('part \<Rightarrow> 'part pyres) \<Rightarrow> 'part part_builder \<Rightarrow> unit pyres \<times> 'part part_builder" where
  "part_apply f pb = (case apply_opt part_consumed f (pb_inner pb) of (r, i) \<Rightarrow> (r, pb\<lparr>pb_inner := i\<rparr>))"

definition part_mime :: "('part, 'm, 'b) part_ops \<Rightarrow> string \<Rightarrow> 'part part_builder \<Rightarrow> unit pyres \<times> 'part part_builder" where
  "part_mime P mime pb = part_apply (\<lambda>b. map_err value_error (part_mime_str P mime b)) pb"

definition part_set_file_name :: "('part, 'm, 'b) part_ops \<Rightarrow> string \<Rightarrow> 'part part_builder \<Rightarrow> unit pyres \<times> 'part part_builder" where
  "part_set_file_name P filename pb = part_apply (\<lambda>b. Inr (part_file_name P filename b)) pb"

definition part_set_headers :: "('part, 'm, 'b) part_ops \<Rightarrow> 'm header_map \<Rightarrow> 'part part_builder \<Rightarrow> unit pyres \<times> 'part part_builder" where
  "part_set_headers P hs pb = part_apply (\<lambda>b. map_res (\<lambda>m. part_headers P m b) (fst (try_take_inner hs))) pb"

definition part_build :: "'part part_builder \<Rightarrow> 'part pyres \<times> 'part part_builder" where
  "part_build pb = (case take_or part_consumed (pb_inner pb) of (r, i) \<Rightarrow> (r, pb\<lparr>pb_inner := i\<rparr>))"

subsection \<open>Forms\<close>

record ('form, 'part) form_ops =
  form_new :: 'form
  form_boundary :: "'form \<Rightarrow> string"
  form_text :: "string \<Rightarrow> string \<Rightarrow> 'form \<Rightarrow> 'form"
  form_part :: "string \<Rightarrow> 'part \<Rightarrow> 'form \<Rightarrow> 'form"
  form_encode_path_segment :: "'form \<Rightarrow> 'form"
  form_encode_attr_chars :: "'form \<Rightarrow> 'form"
  form_encode_noop :: "'form \<Rightarrow> 'form"

record 'form form_builder =
  fb_inner :: "'form option"
  fb_is_async :: bool

definition form_built :: py_err where
  "form_built = runtime_error ''Form was already built''"

definition form_builder_new :: "('form, 'part) form_ops \<Rightarrow> 'form form_builder" where
  "form_builder_new F = \<lparr>fb_inner = Some (form_new F), fb_is_async = False\<rparr>"

definition boundary :: "('form, 'part) form_ops \<Rightarrow> 'form form_builder \<Rightarrow> string pyres" where
  "boundary F fb = map_res (form_boundary F) (ok_or form_built (fb_inner fb))"

definition form_apply :: "('form \<Rightarrow> 'form pyres) \<Rightarrow> 'form form_builder \<Rightarrow> unit pyres \<times> 'form form_builder" where
  "form_apply f fb = (case apply_opt form_built f (fb_inner fb) of (r, i) \<Rightarrow> (r, fb\<lparr>fb_inner := i\<rparr>))"

definition form_add_text :: "('form, 'part) form_ops \<Rightarrow> string \<Rightarrow> string \<Rightarrow> 'form form_builder \<Rightarrow> unit pyres \<times> 'form form_builder" where
  "form_add_text F name value fb = form_apply (\<lambda>b. Inr (form_text F name value b)) fb"

definition form_file ::
    "('form, 'part) form_ops \<Rightarrow> ('path \<Rightarrow> 'w \<Rightarrow> 'part pyres \<times> 'w) \<Rightarrow> string \<Rightarrow> 'path \<Rightarrow>
     'form form_builder \<Rightarrow> 'w \<Rightarrow> unit pyres \<times> 'form form_builder \<times> 'w" where
  "form_file F load_file name path fb w =
     (case load_file path w of
        (Inl e, w') \<Rightarrow> (Inl e, fb, w')
      | (Inr part, w') \<Rightarrow>
          (case form_apply (\<lambda>b. Inr (form_part F name part b)) fb of (r, fb') \<Rightarrow> (r, fb', w')))"

definition form_add_part ::
    "('form, 'part) form_ops \<Rightarrow> string \<Rightarrow> 'part part_builder \<Rightarrow> 'form form_builder \<Rightarrow>
     unit pyres \<times> 'part part_builder \<times> 'form form_builder" where
  "form_add_part F name pb fb =
     (let fb1 = (if \<not> fb_is_async fb then fb\<lparr>fb_is_async := pb_is_async pb\<rparr> else fb)
      in case part_build pb of
           (Inl e, pb') \<Rightarrow> (Inl e, pb', fb1)
         | (Inr part, pb') \<Rightarrow>
             (case form_apply (\<lambda>b. Inr (form_part F name part b)) fb1 of (r, fb2) \<Rightarrow> (r, pb', fb2)))"

definition percent_encode_path_segment :: "('form, 'part) form_ops \<Rightarrow> 'form form_builder \<Rightarrow> unit pyres \<times> 'form form_builder" where
  "percent_encode_path_segment F fb = form_apply (\<lambda>b. Inr (form_encode_path_segment F b)) fb"

definition percent_encode_attr_chars :: "('form, 'part) form_ops \<Rightarrow> 'form form_builder \<Rightarrow> unit pyres \<times> 'form form_builder" where
  "percent_encode_attr_chars F fb = form_apply (\<lambda>b. Inr (form_encode_attr_chars F b)) fb"

definition percent_encode_noop :: "('form, 'part) form_ops \<Rightarrow> 'form form_builder \<Rightarrow> unit pyres \<times> 'form form_builder" where
  "percent_encode_noop F fb = form_apply (\<lambda>b. Inr (form_encode_noop F b)) fb"

definition form_build :: "'form form_builder \<Rightarrow> 'form pyres \<times> 'form form_builder" where
  "form_build fb = (case take_or form_built (fb_inner fb) of (r, i) \<Rightarrow> (r, fb\<lparr>fb_inner := i\<rparr>))"

subsection \<open>Proxies\<close>

record ('px, 'u, 'm) proxy_ops =
  proxy_http :: "'u \<Rightarrow> string + 'px"
  proxy_https :: "'u \<Rightarrow> string + 'px"
  proxy_all :: "'u \<Rightarrow> string + 'px"
  proxy_basic_auth :: "string \<Rightarrow> string \<Rightarrow> 'px \<Rightarrow> 'px"
  proxy_custom_http_auth :: "header_value \<Rightarrow> 'px \<Rightarrow> 'px"
  proxy_headers :: "'m \<Rightarrow> 'px \<Rightarrow> 'px"
  proxy_no_proxy :: "string option \<Rightarrow> 'px \<Rightarrow> 'px"

definition proxy_built :: py_err where
  "proxy_built = runtime_error ''Proxy was already built''"

definition proxy_from :: "('u \<Rightarrow> string + 'px) \<Rightarrow> 'u \<Rightarrow> 'px option pyres" where
  "proxy_from mk url = map_res Some (map_err (\<lambda>e. value_error (''Invalid proxy: '' @ e)) (mk url))"

definition proxy_from_http :: "('px, 'u, 'm) proxy_ops \<Rightarrow> 'u \<Rightarrow> 'px option pyres" where
  "proxy_from_http X url = proxy_from (proxy_http X) url"

definition proxy_from_https :: "('px, 'u, 'm) proxy_ops \<Rightarrow> 'u \<Rightarrow> 'px option pyres" where
  "proxy_from_https X url = proxy_from (proxy_https X) url"

definition proxy_from_all :: "('px, 'u, 'm) proxy_ops \<Rightarrow> 'u \<Rightarrow> 'px option pyres" where
  "proxy_from_all X url = proxy_from (proxy_all X) url"

text \<open>
  The callback of a custom proxy: the Python function is called with the URL; an error of it,
  or of the conversion of its result, becomes a panic that carries the exception.
\<close>

definition handle_custom_proxy ::
    "('u \<Rightarrow> 'o pyres) \<Rightarrow> ('o \<Rightarrow> 'u option pyres) \<Rightarrow> 'u \<Rightarrow> 'u option pyres" where
  "handle_custom_proxy call ext url = and_then (call url) ext"

datatype 'a outcome = Returned 'a | Panicked panic_payload

definition custom_proxy_callback ::
    "(py_err \<Rightarrow> std_error) \<Rightarrow> ('u \<Rightarrow> 'o pyres) \<Rightarrow> ('o \<Rightarrow> 'u option pyres) \<Rightarrow> 'u \<Rightarrow> 'u option outcome" where
  "custom_proxy_callback as_error call ext url =
     (case handle_custom_proxy call ext url of
        Inr res \<Rightarrow> Returned res
      | Inl err \<Rightarrow> Panicked (PanicPyErr (as_error err)))"

definition proxy_apply :: "('px \<Rightarrow> 'px pyres) \<Rightarrow> 'px option \<Rightarrow> unit pyres \<times> 'px option" where
  "proxy_apply f pb = apply_opt proxy_built f pb"

definition proxy_set_basic_auth :: "('px, 'u, 'm) proxy_ops \<Rightarrow> string \<Rightarrow> string \<Rightarrow> 'px option \<Rightarrow> unit pyres \<times> 'px option" where
  "proxy_set_basic_auth X username password pb = proxy_apply (\<lambda>b. Inr (proxy_basic_auth X username password b)) pb"

definition proxy_set_custom_http_auth :: "('px, 'u, 'm) proxy_ops \<Rightarrow> header_value \<Rightarrow> 'px option \<Rightarrow> unit pyres \<times> 'px option" where
  "proxy_set_custom_http_auth X v pb = proxy_apply (\<lambda>b. Inr (proxy_custom_http_auth X v b)) pb"

definition proxy_set_headers :: "('px, 'u, 'm) proxy_ops \<Rightarrow> 'm header_map \<Rightarrow> 'px option \<Rightarrow> unit pyres \<times> 'px option" where
  "proxy_set_headers X hs pb = proxy_apply (\<lambda>b. map_res (\<lambda>m. proxy_headers X m b) (fst (try_take_inner hs))) pb"

definition proxy_set_no_proxy :: "('px, 'u, 'm) proxy_ops \<Rightarrow> string option \<Rightarrow> 'px option \<Rightarrow> unit pyres \<times> 'px option" where
  "proxy_set_no_proxy X l pb = proxy_apply (\<lambda>b. Inr (proxy_no_proxy X l b)) pb"

definition proxy_build :: "'px option \<Rightarrow> 'px pyres \<times> 'px option" where
  "proxy_build pb = take_or proxy_built pb"

subsection \<open>The JSON handler\<close>

record 'f json_handler =
  dumps :: "'f option"
  loads :: "'f option"

definition json_clone_ref :: "'f json_handler \<Rightarrow> 'f json_handler" where
  "json_clone_ref j = \<lparr>dumps = dumps j, loads = loads j\<rparr>"

definition set_loads :: "'f option \<Rightarrow> 'f json_handler \<Rightarrow> 'f json_handler" where
  "set_loads f j = j\<lparr>loads := f\<rparr>"

definition set_dumps :: "'f option \<Rightarrow> 'f json_handler \<Rightarrow> 'f json_handler" where
  "set_dumps f j = j\<lparr>dumps := f\<rparr>"

definition has_loads :: "'f json_handler \<Rightarrow> bool" where
  "has_loads j = (loads j \<noteq> None)"

definition has_dumps :: "'f json_handler \<Rightarrow> bool" where
  "has_dumps j = (dumps j \<noteq> None)"

definition call_loads :: "('f \<Rightarrow> 'ctx \<Rightarrow> 'w \<Rightarrow> 'o pyres \<times> 'w) \<Rightarrow> 'f json_handler \<Rightarrow> 'ctx \<Rightarrow> 'w \<Rightarrow> 'o pyres \<times> 'w" where
  "call_loads call j ctx w =
     (case loads j of None \<Rightarrow> (Inl (runtime_error ''Expected loads callback''), w) | Some f \<Rightarrow> call f ctx w)"

definition call_dumps ::
    "('f \<Rightarrow> 'ctx \<Rightarrow> 'w \<Rightarrow> 'o pyres \<times> 'w) \<Rightarrow> ('o \<Rightarrow> bytes pyres) \<Rightarrow> 'f json_handler \<Rightarrow> 'ctx \<Rightarrow> 'w \<Rightarrow> bytes pyres \<times> 'w" where
  "call_dumps call ext j ctx w =
     (case dumps j of
        None \<Rightarrow> (Inl (runtime_error ''Expected loads callback''), w)
      | Some f \<Rightarrow> (case call f ctx w of (r, w') \<Rightarrow> (and_then r ext, w')))"

subsection \<open>Builders are consumed once\<close>

interpretation parts: take_once pb_inner part_build "\<lambda>_. part_consumed"
  by unfold_locales (auto simp: part_build_def take_or_def)

interpretation forms: take_once fb_inner form_build "\<lambda>_. form_built"
  by unfold_locales (auto simp: form_build_def take_or_def)

interpretation proxies: take_once "\<lambda>pb :: 'px option. pb" proxy_build "\<lambda>_. proxy_built"
  by unfold_locales (auto simp: proxy_build_def take_or_def)

end
