(* ===== verification/Middleware.thy ===== *)
theory Middleware
  imports Exceptions
begin

section \<open>Middleware chains\<close>

text \<open>
  Models \<open>NextInner\<close>, \<open>Next\<close> and \<open>SyncNext\<close> of \<open>src/middleware/next.rs\<close>. A middleware is a
  Python callable that gets the request and the rest of the chain as an object whose \<open>run\<close> it
  may call, any number of times. What a call does is a parameter (\<open>call_mw\<close>): it is given
  \<open>run\<close> of the next element, and passes the state \<open>'w\<close> of the interpreter along. An
  asynchronous middleware returns a coroutine, which is awaited (\<open>await_coro\<close>). The vector of a chain is
  shared with the client through an \<open>Arc\<close>, unless a middleware was added to the chain.
\<close>

subsection \<open>The chain\<close>

text \<open>
  An \<open>Arc\<close> is the address of its allocation together with what is stored there: cloning it gives the same
  address, and \<open>Arc::new\<close> takes a new one, which is an argument of the operations that allocate.
\<close>

datatype 'a arc = Arc (arc_addr: nat) (arc_val: 'a)

record 'mw next_inner =
  middlewares :: "'mw list arc option"
  current :: nat
  override_middlewares :: "'mw list option"

definition next_inner_new :: "'mw list arc \<Rightarrow> 'mw next_inner pyres" where
  "next_inner_new mws =
     (if arc_val mws = [] then Inl (runtime_error ''Expected at least one middleware'')
      else Inr \<lparr>middlewares = Some mws, current = 0, override_middlewares = None\<rparr>)"

text \<open>\<open>slice::get\<close>.\<close>

definition nth_opt :: "'a list \<Rightarrow> nat \<Rightarrow> 'a option" where
  "nth_opt xs i = (if i < length xs then Some (xs ! i) else None)"

definition current_middleware :: "'mw next_inner \<Rightarrow> 'mw option pyres" where
  "current_middleware n =
     (case override_middlewares n of
        Some ov \<Rightarrow> Inr (nth_opt ov (current n))
      | None \<Rightarrow> map_res (\<lambda>mws. nth_opt (arc_val mws) (current n)) (ok_or (runtime_error ''Expected middlewares'') (middlewares n)))"

definition create_next :: "'mw next_inner \<Rightarrow> 'mw next_inner" where
  "create_next n =
     \<lparr>middlewares = middlewares n, current = current n + 1, override_middlewares = override_middlewares n\<rparr>"

definition add_middleware :: "'mw \<Rightarrow> 'mw next_inner \<Rightarrow> unit pyres \<times> 'mw next_inner" where
  "add_middleware mw n =
     (let step1 =
        (case middlewares n of
           Some orig \<Rightarrow>
             if override_middlewares n \<noteq> None
             then (Inl (panic ''assertion failed: self.override_middlewares.is_none()''), n\<lparr>middlewares := None\<rparr>)
             else (Inr (), n\<lparr>middlewares := None, override_middlewares := Some (arc_val orig)\<rparr>)
         | None \<Rightarrow> (Inr (), n))
      in case step1 of
           (Inl e, n1) \<Rightarrow> (Inl e, n1)
         | (Inr _, n1) \<Rightarrow>
             (case override_middlewares n1 of
                None \<Rightarrow> (Inl (runtime_error ''Expected override_middlewares''), n1)
              | Some ov \<Rightarrow> (Inr (), n1\<lparr>override_middlewares := Some (ov @ [mw])\<rparr>)))"

definition next_clone_ref :: "'mw next_inner \<Rightarrow> 'mw next_inner" where
  "next_clone_ref n =
     \<lparr>middlewares = middlewares n, current = current n, override_middlewares = override_middlewares n\<rparr>"

text \<open>The list a chain walks along.\<close>

definition chain_list :: "'mw next_inner \<Rightarrow> 'mw list option" where
  "chain_list n = (case override_middlewares n of Some ov \<Rightarrow> Some ov | None \<Rightarrow> map_option arc_val (middlewares n))"

lemma current_middleware_chain:
  "current_middleware n =
     (case chain_list n of None \<Rightarrow> Inl (runtime_error ''Expected middlewares'')
      | Some ms \<Rightarrow> Inr (nth_opt ms (current n)))"
  by (cases "middlewares n") (simp_all add: current_middleware_def chain_list_def split: option.split)

lemma create_next_simps [simp]:
  "chain_list (create_next n) = chain_list n" "current (create_next n) = Suc (current n)"
  by (simp_all add: create_next_def chain_list_def split: option.split)

subsection \<open>Running the chain\<close>

type_synonym ('w, 'a) eff = "'w \<Rightarrow> 'a pyres \<times> 'w"
type_synonym ('w, 'req, 'obj) handler = "'req \<Rightarrow> ('w, 'obj) eff"

definition bind_eff :: "('w, 'a) eff \<Rightarrow> ('a \<Rightarrow> ('w, 'b) eff) \<Rightarrow> ('w, 'b) eff" where
  "bind_eff m f w = (case m w of (Inl e, w') \<Rightarrow> (Inl e, w') | (Inr a, w') \<Rightarrow> f a w')"

text \<open>
  The environment of a chain: \<open>call_mw\<close> calls a middleware; \<open>await_coro\<close> runs the coroutine
  an asynchronous one returns; \<open>take_resp\<close> casts the object it gives to a response and takes
  the content (\<open>cast_into_exact\<close>, \<open>try_borrow_mut\<close>, \<open>take_inner\<close>); \<open>wrap_resp\<close> makes a
  response object (\<open>Response::new_py\<close>); \<open>spawn\<close> executes the request.
\<close>

record ('w, 'mw, 'req, 'obj, 'coro, 'resp) chain_env =
  call_mw :: "'mw \<Rightarrow> 'req \<Rightarrow> ('w, 'req, 'obj) handler \<Rightarrow> ('w, 'coro) eff"
  await_coro :: "'coro \<Rightarrow> ('w, 'obj) eff"
  take_resp :: "'obj \<Rightarrow> ('w, 'resp) eff"
  wrap_resp :: "'resp \<Rightarrow> ('w, 'obj) eff"
  spawn :: "'req \<Rightarrow> ('w, 'resp) eff"

function next_run_inner ::
    "('w, 'mw, 'req, 'obj, 'coro, 'resp) chain_env \<Rightarrow> 'mw next_inner \<Rightarrow> 'req \<Rightarrow> ('w, 'resp) eff" where
  "next_run_inner E n request w =
     (case current_middleware n of
        Inl e \<Rightarrow> (Inl e, w)
      | Inr None \<Rightarrow> spawn E request w
      | Inr (Some mw) \<Rightarrow>
          bind_eff
            (bind_eff
              (call_mw E mw request
                (\<lambda>req w'. bind_eff (next_run_inner E (create_next n) req) (wrap_resp E) w'))
              (await_coro E))
            (take_resp E) w)"
  by pat_completeness auto
termination
  by (relation "measure (\<lambda>(E, n, request, w). length (the (chain_list n)) - current n)")
    (auto simp: current_middleware_chain nth_opt_def split: option.splits if_splits)

declare next_run_inner.simps [simp del]

text \<open>\<open>SyncNext\<close>: a middleware returns the response object itself; nothing is awaited.\<close>

function sync_run_inner ::
    "('w, 'mw, 'req, 'obj, 'obj, 'resp) chain_env \<Rightarrow> 'mw next_inner \<Rightarrow> 'req \<Rightarrow> ('w, 'resp) eff" where
  "sync_run_inner E n request w =
     (case current_middleware n of
        Inl e \<Rightarrow> (Inl e, w)
      | Inr None \<Rightarrow> spawn E request w
      | Inr (Some mw) \<Rightarrow>
          bind_eff
            (call_mw E mw request
              (\<lambda>req w'. bind_eff (sync_run_inner E (create_next n) req) (wrap_resp E) w'))
            (take_resp E) w)"
  by pat_completeness auto
termination
  by (relation "measure (\<lambda>(E, n, request, w). length (the (chain_list n)) - current n)")
    (auto simp: current_middleware_chain nth_opt_def split: option.splits if_splits)

declare sync_run_inner.simps [simp del]

subsection \<open>The onion\<close>

text \<open>One layer: the middleware around what comes after it.\<close>

definition layer ::
    "('w, 'mw, 'req, 'obj, 'coro, 'resp) chain_env \<Rightarrow> 'mw \<Rightarrow> ('req \<Rightarrow> ('w, 'resp) eff) \<Rightarrow> 'req \<Rightarrow> ('w, 'resp) eff" where
  "layer E mw rest request =
     bind_eff
       (bind_eff
         (call_mw E mw request (\<lambda>req w'. bind_eff (rest req) (wrap_resp E) w'))
         (await_coro E))
       (take_resp E)"

lemma bind_eff_return: "bind_eff m (\<lambda>a w. (Inr a, w)) = m"
  by (auto simp: fun_eq_iff bind_eff_def split: prod.splits sum.splits)

lemma drop_nth_opt:
  "drop i xs = (case nth_opt xs i of None \<Rightarrow> [] | Some x \<Rightarrow> x # drop (Suc i) xs)"
  by (simp add: nth_opt_def Cons_nth_drop_Suc)

lemma next_run_inner_onion:
  "chain_list n = Some ms \<Longrightarrow>
   next_run_inner E n = foldr (layer E) (drop (current n) ms) (spawn E)"
proof (induction "length ms - current n" arbitrary: n)
  case 0
  then have "nth_opt ms (current n) = None" by (simp add: nth_opt_def)
  with 0 show ?case
    by (auto simp: fun_eq_iff next_run_inner.simps [of E n] current_middleware_chain)
next
  case (Suc k)
  then have "current n < length ms" by simp
  then have nth: "nth_opt ms (current n) = Some (ms ! current n)" by (simp add: nth_opt_def)
  have "k = length ms - current (create_next n)" using Suc.hyps(2) by simp
  from Suc.hyps(1) [OF this] Suc.prems
  have rest: "next_run_inner E (create_next n) = foldr (layer E) (drop (Suc (current n)) ms) (spawn E)"
    by simp
  have "next_run_inner E n request w =
      layer E (ms ! current n) (foldr (layer E) (drop (Suc (current n)) ms) (spawn E)) request w" for request w
    using Suc.prems nth
    by (simp add: next_run_inner.simps [of E n] current_middleware_chain layer_def rest)
  then show ?case using nth by (simp add: fun_eq_iff drop_nth_opt [of "current n" ms])
qed

text \<open>The synchronous chain is the asynchronous one with nothing to await.\<close>

lemma sync_run_inner_next:
  "await_coro E = (\<lambda>a w. (Inr a, w)) \<Longrightarrow> chain_list n = Some ms \<Longrightarrow>
   sync_run_inner E n = next_run_inner E n"
proof (induction "length ms - current n" arbitrary: n)
  case 0
  then have "nth_opt ms (current n) = None" by (simp add: nth_opt_def)
  with 0 show ?case
    by (auto simp: fun_eq_iff next_run_inner.simps [of E n] sync_run_inner.simps [of E n] current_middleware_chain)
next
  case (Suc k)
  have "k = length ms - current (create_next n)" using Suc.hyps(2) by simp
  from Suc.hyps(1) [OF this] Suc.prems have "sync_run_inner E (create_next n) = next_run_inner E (create_next n)"
    by simp
  with Suc.prems(2) show ?case
    by (intro ext) (simp add: next_run_inner.simps [of E n] sync_run_inner.simps [of E n]
        current_middleware_chain Suc.prems(1) bind_eff_return split: option.split)
qed

lemma add_middleware_chain:
  assumes "chain_list n = Some ms" and "middlewares n = None \<or> override_middlewares n = None"
  shows "\<exists>n'. add_middleware mw n = (Inr (), n') \<and> chain_list n' = Some (ms @ [mw]) \<and>
    current n' = current n \<and> middlewares n' = None"
  using assms
  by (cases "middlewares n"; cases "override_middlewares n") (auto simp: add_middleware_def chain_list_def)

end
