(* ===== verification/Request.thy ===== *)
theory Request
  imports Request_Body Middleware Body_Reader
begin

section \<open>Requests\<close>

text \<open>
  Models \<open>Request\<close> of \<open>src/request/request.rs\<close>. The headers and the body of a request are Rust
  values until Python asks for them; then they move into Python objects that the request and
  Python share, so what Python does to them later is what is sent. The heap holds the shared
  objects: header maps, bodies and requests by address, and the state \<open>'w\<close> of the interpreter.
  \<open>reqwest::Request\<close> is the crate's: its accessors are the record \<open>reqwest_ops\<close>, with the
  locale \<open>reqwest_request\<close> for what they document. Borrow flags of PyO3 cells are not modelled.
\<close>

subsection \<open>The interface of \<open>reqwest::Request\<close>\<close>

record ('rq, 'm, 'b, 'me, 'u) reqwest_ops =
  rq_method :: "'rq \<Rightarrow> 'me"
  rq_set_method :: "'me \<Rightarrow> 'rq \<Rightarrow> 'rq"
  rq_url :: "'rq \<Rightarrow> 'u"
  rq_set_url :: "'u \<Rightarrow> 'rq \<Rightarrow> 'rq"
  rq_headers :: "'rq \<Rightarrow> 'm"
  rq_set_headers :: "'m \<Rightarrow> 'rq \<Rightarrow> 'rq"
  rq_body :: "'rq \<Rightarrow> 'b option"
  rq_set_body :: "'b option \<Rightarrow> 'rq \<Rightarrow> 'rq"
  rq_timeout :: "'rq \<Rightarrow> nat option"
  rq_set_timeout :: "nat option \<Rightarrow> 'rq \<Rightarrow> 'rq"
  rq_try_clone :: "'rq \<Rightarrow> 'rq option"

text \<open>A \<open>Duration\<close> is its number of nanoseconds.\<close>

locale reqwest_request =
  fixes R :: "('rq, 'm, 'b, 'me, 'u) reqwest_ops"
  assumes method_set: "rq_method R (rq_set_method R me r) = me"
      "rq_method R (rq_set_url R u r) = rq_method R r" "rq_method R (rq_set_headers R m r) = rq_method R r"
      "rq_method R (rq_set_body R b r) = rq_method R r" "rq_method R (rq_set_timeout R t r) = rq_method R r"
    and url_set: "rq_url R (rq_set_url R u r) = u"
      "rq_url R (rq_set_method R me r) = rq_url R r" "rq_url R (rq_set_headers R m r) = rq_url R r"
      "rq_url R (rq_set_body R b r) = rq_url R r" "rq_url R (rq_set_timeout R t r) = rq_url R r"
    and headers_set: "rq_headers R (rq_set_headers R m r) = m"
      "rq_headers R (rq_set_method R me r) = rq_headers R r" "rq_headers R (rq_set_url R u r) = rq_headers R r"
      "rq_headers R (rq_set_body R b r) = rq_headers R r" "rq_headers R (rq_set_timeout R t r) = rq_headers R r"
    and body_set: "rq_body R (rq_set_body R b r) = b"
      "rq_body R (rq_set_method R me r) = rq_body R r" "rq_body R (rq_set_url R u r) = rq_body R r"
      "rq_body R (rq_set_headers R m r) = rq_body R r" "rq_body R (rq_set_timeout R t r) = rq_body R r"
    and timeout_set: "rq_timeout R (rq_set_timeout R t r) = t"
    and clone_same: "rq_try_clone R r = Some r' \<Longrightarrow> rq_method R r' = rq_method R r \<and> rq_url R r' = rq_url R r \<and>
      rq_headers R r' = rq_headers R r \<and> rq_timeout R r' = rq_timeout R r"

subsection \<open>State\<close>

record ('rq, 'sp, 'x, 'j) request_data =
  spawner :: 'sp
  reqwest :: 'rq
  rd_extensions :: "'x option"
  rd_body_consume_config :: body_consume_config
  rd_json_handler :: "'j option"
  rd_error_for_status :: bool
  rd_connection_verbose :: bool

datatype 'm req_headers = ReqHeaders "'m header_map" | ReqPyHeaders nat

datatype ('o, 'tl, 'co) req_body = ReqBody "('o, 'tl, 'co) request_body" | ReqPyBody nat

record ('rq, 'sp, 'x, 'j, 'm, 'o, 'tl, 'co, 'mw) request_inner =
  request :: "('rq, 'sp, 'x, 'j) request_data"
  ri_body :: "('o, 'tl, 'co) req_body option"
  ri_headers :: "'m req_headers option"
  middlewares_next :: "'mw next_inner option"
  lazy_task_local :: "'tl option"

record ('w, 'rq, 'sp, 'x, 'j, 'm, 'o, 'tl, 'co, 'mw) heap =
  hmaps :: "nat \<Rightarrow> 'm header_map"
  hnext :: nat
  rbodies :: "nat \<Rightarrow> ('o, 'tl, 'co) request_body"
  bnext :: nat
  requests :: "nat \<Rightarrow> ('rq, 'sp, 'x, 'j, 'm, 'o, 'tl, 'co, 'mw) request_inner option"
  interp :: 'w

definition new_hmap :: "'m header_map \<Rightarrow> ('w, 'rq, 'sp, 'x, 'j, 'm, 'o, 'tl, 'co, 'mw) heap \<Rightarrow>
    nat \<times> ('w, 'rq, 'sp, 'x, 'j, 'm, 'o, 'tl, 'co, 'mw) heap" where
  "new_hmap h hp = (hnext hp, hp\<lparr>hmaps := (hmaps hp)(hnext hp := h), hnext := hnext hp + 1\<rparr>)"

definition new_body :: "('o, 'tl, 'co) request_body \<Rightarrow> ('w, 'rq, 'sp, 'x, 'j, 'm, 'o, 'tl, 'co, 'mw) heap \<Rightarrow>
    nat \<times> ('w, 'rq, 'sp, 'x, 'j, 'm, 'o, 'tl, 'co, 'mw) heap" where
  "new_body b hp = (bnext hp, hp\<lparr>rbodies := (rbodies hp)(bnext hp := b), bnext := bnext hp + 1\<rparr>)"

definition put_request :: "nat \<Rightarrow> ('rq, 'sp, 'x, 'j, 'm, 'o, 'tl, 'co, 'mw) request_inner option \<Rightarrow>
    ('w, 'rq, 'sp, 'x, 'j, 'm, 'o, 'tl, 'co, 'mw) heap \<Rightarrow> ('w, 'rq, 'sp, 'x, 'j, 'm, 'o, 'tl, 'co, 'mw) heap" where
  "put_request a r hp = hp\<lparr>requests := (requests hp)(a := r)\<rparr>"

definition sent_error :: py_err where
  "sent_error = runtime_error ''Request was already sent''"

definition request_ref_inner ::
    "nat \<Rightarrow> ('w, 'rq, 'sp, 'x, 'j, 'm, 'o, 'tl, 'co, 'mw) heap \<Rightarrow>
     ('rq, 'sp, 'x, 'j, 'm, 'o, 'tl, 'co, 'mw) request_inner pyres" where
  "request_ref_inner a hp = ok_or sent_error (requests hp a)"

definition request_take_inner ::
    "nat \<Rightarrow> ('w, 'rq, 'sp, 'x, 'j, 'm, 'o, 'tl, 'co, 'mw) heap \<Rightarrow>
     ('rq, 'sp, 'x, 'j, 'm, 'o, 'tl, 'co, 'mw) request_inner pyres \<times>
     ('w, 'rq, 'sp, 'x, 'j, 'm, 'o, 'tl, 'co, 'mw) heap" where
  "request_take_inner a hp = (ok_or sent_error (requests hp a), put_request a None hp)"

definition request_new ::
    "('rq, 'sp, 'x, 'j) request_data \<Rightarrow> ('o, 'tl, 'co) request_body option \<Rightarrow> 'mw next_inner option \<Rightarrow>
     ('rq, 'sp, 'x, 'j, 'm, 'o, 'tl, 'co, 'mw) request_inner" where
  "request_new rd b nexts =
     \<lparr>request = rd, ri_body = map_option ReqBody b, ri_headers = None, middlewares_next = nexts,
      lazy_task_local = None\<rparr>"

subsection \<open>Attributes\<close>

definition get_method ::
    "('rq, 'm, 'b, 'me, 'u) reqwest_ops \<Rightarrow> nat \<Rightarrow> ('w, 'rq, 'sp, 'x, 'j, 'm, 'o, 'tl, 'co, 'mw) heap \<Rightarrow> 'me pyres" where
  "get_method R a hp = map_res (\<lambda>i. rq_method R (reqwest (request i))) (request_ref_inner a hp)"

definition get_url ::
    "('rq, 'm, 'b, 'me, 'u) reqwest_ops \<Rightarrow> nat \<Rightarrow> ('w, 'rq, 'sp, 'x, 'j, 'm, 'o, 'tl, 'co, 'mw) heap \<Rightarrow> 'u pyres" where
  "get_url R a hp = map_res (\<lambda>i. rq_url R (reqwest (request i))) (request_ref_inner a hp)"

definition upd_reqwest :: "('rq \<Rightarrow> 'rq) \<Rightarrow> ('rq, 'sp, 'x, 'j, 'm, 'o, 'tl, 'co, 'mw) request_inner \<Rightarrow>
    ('rq, 'sp, 'x, 'j, 'm, 'o, 'tl, 'co, 'mw) request_inner" where
  "upd_reqwest f i = i\<lparr>request := (request i)\<lparr>reqwest := f (reqwest (request i))\<rparr>\<rparr>"

definition set_method ::
    "('rq, 'm, 'b, 'me, 'u) reqwest_ops \<Rightarrow> 'me \<Rightarrow> nat \<Rightarrow> ('w, 'rq, 'sp, 'x, 'j, 'm, 'o, 'tl, 'co, 'mw) heap \<Rightarrow>
     unit pyres \<times> ('w, 'rq, 'sp, 'x, 'j, 'm, 'o, 'tl, 'co, 'mw) heap" where
  "set_method R value a hp =
     (case request_ref_inner a hp of
        Inl e \<Rightarrow> (Inl e, hp)
      | Inr i \<Rightarrow> (Inr (), put_request a (Some (upd_reqwest (rq_set_method R value) i)) hp))"

definition set_url ::
    "('rq, 'm, 'b, 'me, 'u) reqwest_ops \<Rightarrow> 'u \<Rightarrow> nat \<Rightarrow> ('w, 'rq, 'sp, 'x, 'j, 'm, 'o, 'tl, 'co, 'mw) heap \<Rightarrow>
     unit pyres \<times> ('w, 'rq, 'sp, 'x, 'j, 'm, 'o, 'tl, 'co, 'mw) heap" where
  "set_url R value a hp =
     (case request_ref_inner a hp of
        Inl e \<Rightarrow> (Inl e, hp)
      | Inr i \<Rightarrow> (Inr (), put_request a (Some (upd_reqwest (rq_set_url R value) i)) hp))"

text \<open>
  \<open>get_headers\<close>: the first access clones the headers of the underlying request into an
  object, a Rust map (of a copied request) is moved into one, and later accesses return it.
\<close>

definition get_headers ::
    "('rq, 'm, 'b, 'me, 'u) reqwest_ops \<Rightarrow> nat \<Rightarrow> ('w, 'rq, 'sp, 'x, 'j, 'm, 'o, 'tl, 'co, 'mw) heap \<Rightarrow>
     nat pyres \<times> ('w, 'rq, 'sp, 'x, 'j, 'm, 'o, 'tl, 'co, 'mw) heap" where
  "get_headers R a hp =
     (case request_ref_inner a hp of
        Inl e \<Rightarrow> (Inl e, hp)
      | Inr i \<Rightarrow>
          (case ri_headers i of
             None \<Rightarrow>
               (case new_hmap (header_map_from (rq_headers R (reqwest (request i)))) hp of
                  (n, hp1) \<Rightarrow> (Inr n, put_request a (Some (i\<lparr>ri_headers := Some (ReqPyHeaders n)\<rparr>)) hp1))
           | Some (ReqHeaders h) \<Rightarrow>
               (case try_take_inner h of
                  (Inl e, h') \<Rightarrow> (Inl e, put_request a (Some (i\<lparr>ri_headers := Some (ReqHeaders h')\<rparr>)) hp)
                | (Inr m, _) \<Rightarrow>
                    (case new_hmap (header_map_from m) hp of
                       (n, hp1) \<Rightarrow> (Inr n, put_request a (Some (i\<lparr>ri_headers := Some (ReqPyHeaders n)\<rparr>)) hp1)))
           | Some (ReqPyHeaders n) \<Rightarrow> (Inr n, hp)))"

definition set_headers_attr ::
    "'m header_map \<Rightarrow> nat \<Rightarrow> ('w, 'rq, 'sp, 'x, 'j, 'm, 'o, 'tl, 'co, 'mw) heap \<Rightarrow>
     unit pyres \<times> ('w, 'rq, 'sp, 'x, 'j, 'm, 'o, 'tl, 'co, 'mw) heap" where
  "set_headers_attr value a hp =
     (case request_ref_inner a hp of
        Inl e \<Rightarrow> (Inl e, hp)
      | Inr i \<Rightarrow>
          (case new_hmap value hp of
             (n, hp1) \<Rightarrow> (Inr (), put_request a (Some (i\<lparr>ri_headers := Some (ReqPyHeaders n)\<rparr>)) hp1)))"

definition get_body ::
    "nat \<Rightarrow> ('w, 'rq, 'sp, 'x, 'j, 'm, 'o, 'tl, 'co, 'mw) heap \<Rightarrow>
     nat option pyres \<times> ('w, 'rq, 'sp, 'x, 'j, 'm, 'o, 'tl, 'co, 'mw) heap" where
  "get_body a hp =
     (case request_ref_inner a hp of
        Inl e \<Rightarrow> (Inl e, hp)
      | Inr i \<Rightarrow>
          (case ri_body i of
             Some (ReqBody b) \<Rightarrow>
               (case body_take_inner b of
                  (Inl e, b') \<Rightarrow> (Inl e, put_request a (Some (i\<lparr>ri_body := Some (ReqBody b')\<rparr>)) hp)
                | (Inr b', _) \<Rightarrow>
                    (case new_body b' hp of
                       (n, hp1) \<Rightarrow> (Inr (Some n), put_request a (Some (i\<lparr>ri_body := Some (ReqPyBody n)\<rparr>)) hp1)))
           | Some (ReqPyBody n) \<Rightarrow> (Inr (Some n), hp)
           | None \<Rightarrow> (Inr None, hp)))"

definition set_body ::
    "nat option \<Rightarrow> nat \<Rightarrow> ('w, 'rq, 'sp, 'x, 'j, 'm, 'o, 'tl, 'co, 'mw) heap \<Rightarrow>
     unit pyres \<times> ('w, 'rq, 'sp, 'x, 'j, 'm, 'o, 'tl, 'co, 'mw) heap" where
  "set_body b a hp =
     (case request_ref_inner a hp of
        Inl e \<Rightarrow> (Inl e, hp)
      | Inr i \<Rightarrow> (Inr (), put_request a (Some (i\<lparr>ri_body := map_option ReqPyBody b\<rparr>)) hp))"

text \<open>\<open>new_dict\<close> makes an empty Python dictionary.\<close>

definition get_extensions ::
    "('w \<Rightarrow> 'x \<times> 'w) \<Rightarrow> nat \<Rightarrow> ('w, 'rq, 'sp, 'x, 'j, 'm, 'o, 'tl, 'co, 'mw) heap \<Rightarrow>
     'x pyres \<times> ('w, 'rq, 'sp, 'x, 'j, 'm, 'o, 'tl, 'co, 'mw) heap" where
  "get_extensions new_dict a hp =
     (case request_ref_inner a hp of
        Inl e \<Rightarrow> (Inl e, hp)
      | Inr i \<Rightarrow>
          (case rd_extensions (request i) of
             Some dict \<Rightarrow> (Inr dict, hp)
           | None \<Rightarrow>
               (case new_dict (interp hp) of
                  (dict, w) \<Rightarrow>
                    (Inr dict, put_request a (Some (i\<lparr>request := (request i)\<lparr>rd_extensions := Some dict\<rparr>\<rparr>))
                       (hp\<lparr>interp := w\<rparr>)))))"

definition set_extensions ::
    "'x \<Rightarrow> nat \<Rightarrow> ('w, 'rq, 'sp, 'x, 'j, 'm, 'o, 'tl, 'co, 'mw) heap \<Rightarrow>
     unit pyres \<times> ('w, 'rq, 'sp, 'x, 'j, 'm, 'o, 'tl, 'co, 'mw) heap" where
  "set_extensions value a hp =
     (case request_ref_inner a hp of
        Inl e \<Rightarrow> (Inl e, hp)
      | Inr i \<Rightarrow> (Inr (), put_request a (Some (i\<lparr>request := (request i)\<lparr>rd_extensions := Some value\<rparr>\<rparr>)) hp))"

definition get_read_buffer_limit ::
    "nat \<Rightarrow> ('w, 'rq, 'sp, 'x, 'j, 'm, 'o, 'tl, 'co, 'mw) heap \<Rightarrow> nat pyres" where
  "get_read_buffer_limit a hp =
     and_then (request_ref_inner a hp) (\<lambda>i.
       case rd_body_consume_config (request i) of
         Streamed conf \<Rightarrow> Inr (read_buffer_limit conf)
       | FullyConsumed \<Rightarrow> Inl (runtime_error ''Expected streamed request, found fully consumed request'')
       | NoBody \<Rightarrow> Inl (runtime_error ''Unexpected config''))"

subsection \<open>Sending\<close>

text \<open>
  \<open>OnceTaskLocal::get_or_current\<close>: the context that is current (\<open>cur\<close>) at the first call is
  kept in the cell.
\<close>

definition once_get_or_current ::
    "('w \<Rightarrow> 'tl pyres \<times> 'w) \<Rightarrow> 'w \<times> 'tl option \<Rightarrow> 'tl pyres \<times> 'w \<times> 'tl option" where
  "once_get_or_current cur s =
     (case snd s of
        Some t \<Rightarrow> (Inr t, s)
      | None \<Rightarrow>
          (case cur (fst s) of
             (Inl e, w) \<Rightarrow> (Inl e, w, None)
           | (Inr t, w) \<Rightarrow> (Inr t, w, Some t)))"

definition prepare_body ::
    "('w \<Rightarrow> 'tl pyres \<times> 'w) \<Rightarrow> bool \<Rightarrow> ('o, 'tl, 'co) req_body option \<Rightarrow> 'tl option \<Rightarrow>
     ('w, 'rq, 'sp, 'x, 'j, 'm, 'o, 'tl, 'co, 'mw) heap \<Rightarrow>
     ('o, 'tl, 'co) reqwest_body option pyres \<times> ('w, 'rq, 'sp, 'x, 'j, 'm, 'o, 'tl, 'co, 'mw) heap" where
  "prepare_body cur is_blocking bopt lazy hp =
     (case bopt of
        None \<Rightarrow> (Inr None, hp)
      | Some (ReqBody b) \<Rightarrow>
          (case body_set_task_local (once_get_or_current cur) b (interp hp, lazy) of
             (Inl e, _, (w, _)) \<Rightarrow> (Inl e, hp\<lparr>interp := w\<rparr>)
           | (Inr _, b1, (w, _)) \<Rightarrow>
               (map_res Some (fst (body_into_reqwest is_blocking b1)), hp\<lparr>interp := w\<rparr>))
      | Some (ReqPyBody n) \<Rightarrow>
          (case body_set_task_local (once_get_or_current cur) (rbodies hp n) (interp hp, lazy) of
             (Inl e, b1, (w, _)) \<Rightarrow> (Inl e, hp\<lparr>rbodies := (rbodies hp)(n := b1), interp := w\<rparr>)
           | (Inr _, b1, (w, _)) \<Rightarrow>
               (case body_into_reqwest is_blocking b1 of
                  (r, b2) \<Rightarrow> (map_res Some r, hp\<lparr>rbodies := (rbodies hp)(n := b2), interp := w\<rparr>))))"

definition prepare_headers ::
    "'m req_headers option \<Rightarrow> ('w, 'rq, 'sp, 'x, 'j, 'm, 'o, 'tl, 'co, 'mw) heap \<Rightarrow>
     'm option pyres \<times> ('w, 'rq, 'sp, 'x, 'j, 'm, 'o, 'tl, 'co, 'mw) heap" where
  "prepare_headers hopt hp =
     (case hopt of
        None \<Rightarrow> (Inr None, hp)
      | Some (ReqHeaders h) \<Rightarrow> (map_res Some (fst (try_take_inner h)), hp)
      | Some (ReqPyHeaders n) \<Rightarrow>
          (case try_take_inner (hmaps hp n) of
             (r, h) \<Rightarrow> (map_res Some r, hp\<lparr>hmaps := (hmaps hp)(n := h)\<rparr>)))"

definition prepare_spawn_request ::
    "('rq, 'm, ('o, 'tl, 'co) reqwest_body, 'me, 'u) reqwest_ops \<Rightarrow> ('w \<Rightarrow> 'tl pyres \<times> 'w) \<Rightarrow> bool \<Rightarrow> nat \<Rightarrow>
     ('w, 'rq, 'sp, 'x, 'j, 'm, 'o, 'tl, 'co, 'mw) heap \<Rightarrow>
     ('rq, 'sp, 'x, 'j) request_data pyres \<times> ('w, 'rq, 'sp, 'x, 'j, 'm, 'o, 'tl, 'co, 'mw) heap" where
  "prepare_spawn_request R cur is_blocking a hp =
     (case request_take_inner a hp of
        (Inl e, hp1) \<Rightarrow> (Inl e, hp1)
      | (Inr this, hp1) \<Rightarrow>
          (case prepare_body cur is_blocking (ri_body this) (lazy_task_local this) hp1 of
             (Inl e, hp2) \<Rightarrow> (Inl e, hp2)
           | (Inr bopt, hp2) \<Rightarrow>
               (let rq = reqwest (request this);
                    rq1 = (case bopt of None \<Rightarrow> rq | Some b \<Rightarrow> rq_set_body R (Some b) rq)
                in case prepare_headers (ri_headers this) hp2 of
                     (Inl e, hp3) \<Rightarrow> (Inl e, hp3)
                   | (Inr hopt, hp3) \<Rightarrow>
                       (Inr ((request this)\<lparr>reqwest :=
                          (case hopt of None \<Rightarrow> rq1 | Some m \<Rightarrow> rq_set_headers R m rq1)\<rparr>), hp3))))"

text \<open>\<open>send_rq\<close> is the spawner, which executes a prepared request.\<close>

definition spawn_request ::
    "('rq, 'm, ('o, 'tl, 'co) reqwest_body, 'me, 'u) reqwest_ops \<Rightarrow> ('w \<Rightarrow> 'tl pyres \<times> 'w) \<Rightarrow> bool \<Rightarrow>
     (('rq, 'sp, 'x, 'j) request_data \<Rightarrow> (('w, 'rq, 'sp, 'x, 'j, 'm, 'o, 'tl, 'co, 'mw) heap, 'resp) eff) \<Rightarrow>
     nat \<Rightarrow> (('w, 'rq, 'sp, 'x, 'j, 'm, 'o, 'tl, 'co, 'mw) heap, 'resp) eff" where
  "spawn_request R cur is_blocking send_rq a =
     bind_eff (prepare_spawn_request R cur is_blocking a) send_rq"

definition inner_set_task_local ::
    "('w \<Rightarrow> 'tl pyres \<times> 'w) \<Rightarrow> nat \<Rightarrow> ('rq, 'sp, 'x, 'j, 'm, 'o, 'tl, 'co, 'mw) request_inner \<Rightarrow>
     (('w, 'rq, 'sp, 'x, 'j, 'm, 'o, 'tl, 'co, 'mw) heap,
      ('rq, 'sp, 'x, 'j, 'm, 'o, 'tl, 'co, 'mw) request_inner) eff" where
  "inner_set_task_local cur a i hp =
     (case ri_body i of
        None \<Rightarrow> (Inr i, hp)
      | Some (ReqBody b) \<Rightarrow>
          (case body_set_task_local (once_get_or_current cur) b (interp hp, lazy_task_local i) of
             (r, b1, (w, lazy)) \<Rightarrow>
               (let i1 = i\<lparr>ri_body := Some (ReqBody b1), lazy_task_local := lazy\<rparr>
                in (map_res (\<lambda>_. i1) r, put_request a (Some i1) (hp\<lparr>interp := w\<rparr>))))
      | Some (ReqPyBody n) \<Rightarrow>
          (case body_set_task_local (once_get_or_current cur) (rbodies hp n) (interp hp, lazy_task_local i) of
             (r, b1, (w, lazy)) \<Rightarrow>
               (let i1 = i\<lparr>lazy_task_local := lazy\<rparr>
                in (map_res (\<lambda>_. i1) r,
                    put_request a (Some i1) (hp\<lparr>rbodies := (rbodies hp)(n := b1), interp := w\<rparr>)))))"

text \<open>
  The part of \<open>send_inner\<close> under the interpreter lock: the chain is taken out of the request;
  the asynchronous chain needs the context (\<open>needs_local\<close>).
\<close>

definition take_chain ::
    "('w \<Rightarrow> 'tl pyres \<times> 'w) \<Rightarrow> bool \<Rightarrow> nat \<Rightarrow>
     (('w, 'rq, 'sp, 'x, 'j, 'm, 'o, 'tl, 'co, 'mw) heap, 'mw next_inner option) eff" where
  "take_chain cur needs_local a hp =
     (case request_ref_inner a hp of
        Inl e \<Rightarrow> (Inl e, hp)
      | Inr i \<Rightarrow>
          bind_eff (inner_set_task_local cur a i) (\<lambda>i1 hp1.
            let i2 = i1\<lparr>middlewares_next := None\<rparr> in
            case middlewares_next i1 of
              None \<Rightarrow> (Inr None, put_request a (Some i2) hp1)
            | Some v \<Rightarrow>
                if needs_local then
                  (case once_get_or_current cur (interp hp1, lazy_task_local i2) of
                     (r, w, lazy) \<Rightarrow>
                       (map_res (\<lambda>_. Some v) r,
                        put_request a (Some (i2\<lparr>lazy_task_local := lazy\<rparr>)) (hp1\<lparr>interp := w\<rparr>)))
                else (Inr (Some v), put_request a (Some i2) hp1)) hp)"

definition send_inner ::
    "('rq, 'm, ('o, 'tl, 'co) reqwest_body, 'me, 'u) reqwest_ops \<Rightarrow> ('w \<Rightarrow> 'tl pyres \<times> 'w) \<Rightarrow>
     (('rq, 'sp, 'x, 'j) request_data \<Rightarrow> (('w, 'rq, 'sp, 'x, 'j, 'm, 'o, 'tl, 'co, 'mw) heap, 'resp) eff) \<Rightarrow>
     (('w, 'rq, 'sp, 'x, 'j, 'm, 'o, 'tl, 'co, 'mw) heap, 'mw, nat, 'obj, 'coro, 'resp) chain_env \<Rightarrow>
     ('resp \<Rightarrow> 'resp pyres) \<Rightarrow> nat \<Rightarrow> (('w, 'rq, 'sp, 'x, 'j, 'm, 'o, 'tl, 'co, 'mw) heap, 'resp) eff" where
  "send_inner R cur send_rq E check_error_for_status a =
     bind_eff (take_chain cur True a) (\<lambda>nexts.
       bind_eff
         (case nexts of
            Some nx \<Rightarrow> next_run_inner (E\<lparr>spawn := spawn_request R cur False send_rq\<rparr>) nx a
          | None \<Rightarrow> spawn_request R cur False send_rq a)
         (\<lambda>resp hp. (check_error_for_status resp, hp)))"

definition blocking_send_inner ::
    "('rq, 'm, ('o, 'tl, 'co) reqwest_body, 'me, 'u) reqwest_ops \<Rightarrow> ('w \<Rightarrow> 'tl pyres \<times> 'w) \<Rightarrow>
     (('rq, 'sp, 'x, 'j) request_data \<Rightarrow> (('w, 'rq, 'sp, 'x, 'j, 'm, 'o, 'tl, 'co, 'mw) heap, 'resp) eff) \<Rightarrow>
     (('w, 'rq, 'sp, 'x, 'j, 'm, 'o, 'tl, 'co, 'mw) heap, 'mw, nat, 'obj, 'obj, 'resp) chain_env \<Rightarrow>
     ('resp \<Rightarrow> 'resp pyres) \<Rightarrow> nat \<Rightarrow> (('w, 'rq, 'sp, 'x, 'j, 'm, 'o, 'tl, 'co, 'mw) heap, 'resp) eff" where
  "blocking_send_inner R cur send_rq E check_error_for_status a =
     bind_eff (take_chain cur False a) (\<lambda>nexts.
       bind_eff
         (case nexts of
            Some nx \<Rightarrow> sync_run_inner (E\<lparr>spawn := spawn_request R cur True send_rq\<rparr>) nx a
          | None \<Rightarrow> spawn_request R cur True send_rq a)
         (\<lambda>resp hp. (check_error_for_status resp, hp)))"

subsection \<open>Copying\<close>

text \<open>
  \<open>copy_dict\<close> copies an extensions dictionary. The copied request owns fresh Rust values;
  only the body given as an argument stays shared.
\<close>

definition request_data_try_clone ::
    "('rq, 'm, 'b, 'me, 'u) reqwest_ops \<Rightarrow> ('x \<Rightarrow> 'w \<Rightarrow> 'x pyres \<times> 'w) \<Rightarrow> ('sp \<Rightarrow> 'sp) \<Rightarrow>
     ('rq, 'sp, 'x, 'j) request_data \<Rightarrow> 'w \<Rightarrow> ('rq, 'sp, 'x, 'j) request_data pyres \<times> 'w" where
  "request_data_try_clone R copy_dict clone_spawner rd w =
     (case (case rd_extensions rd of
              None \<Rightarrow> (Inr None, w)
            | Some ext \<Rightarrow> (case copy_dict ext w of (r, w') \<Rightarrow> (map_res Some r, w'))) of
        (Inl e, w1) \<Rightarrow> (Inl e, w1)
      | (Inr ext, w1) \<Rightarrow>
          (map_res (\<lambda>rq. rd\<lparr>spawner := clone_spawner (spawner rd), reqwest := rq, rd_extensions := ext\<rparr>)
             (ok_or (runtime_error ''Failed to clone request'') (rq_try_clone R (reqwest rd))), w1))"

definition try_clone_body ::
    "('w, 'o, 'tl, 'co) stream_env \<Rightarrow> nat option \<Rightarrow> ('o, 'tl, 'co) req_body option \<Rightarrow>
     (('w, 'rq, 'sp, 'x, 'j, 'm, 'o, 'tl, 'co, 'mw) heap, ('o, 'tl, 'co) req_body option) eff" where
  "try_clone_body SE body bopt hp =
     (case body of
        Some n \<Rightarrow> (Inr (Some (ReqPyBody n)), hp)
      | None \<Rightarrow>
          (case bopt of
             None \<Rightarrow> (Inr None, hp)
           | Some (ReqBody b) \<Rightarrow>
               (case body_try_clone SE b (interp hp) of
                  (r, w) \<Rightarrow> (map_res (\<lambda>b'. Some (ReqBody b')) r, hp\<lparr>interp := w\<rparr>))
           | Some (ReqPyBody n) \<Rightarrow>
               (case body_try_clone SE (rbodies hp n) (interp hp) of
                  (r, w) \<Rightarrow> (map_res (\<lambda>b'. Some (ReqBody b')) r, hp\<lparr>interp := w\<rparr>))))"

definition try_clone_headers ::
    "'m req_headers option \<Rightarrow> ('w, 'rq, 'sp, 'x, 'j, 'm, 'o, 'tl, 'co, 'mw) heap \<Rightarrow>
     'm req_headers option pyres" where
  "try_clone_headers hopt hp =
     (case hopt of
        None \<Rightarrow> Inr None
      | Some (ReqHeaders h) \<Rightarrow> map_res (\<lambda>h'. Some (ReqHeaders h')) (try_clone h)
      | Some (ReqPyHeaders n) \<Rightarrow> map_res (\<lambda>h'. Some (ReqHeaders h')) (try_clone (hmaps hp n)))"

definition try_clone_inner ::
    "('rq, 'm, 'b, 'me, 'u) reqwest_ops \<Rightarrow> ('x \<Rightarrow> 'w \<Rightarrow> 'x pyres \<times> 'w) \<Rightarrow> ('sp \<Rightarrow> 'sp) \<Rightarrow>
     ('w, 'o, 'tl, 'co) stream_env \<Rightarrow> nat option \<Rightarrow> nat \<Rightarrow>
     (('w, 'rq, 'sp, 'x, 'j, 'm, 'o, 'tl, 'co, 'mw) heap,
      ('rq, 'sp, 'x, 'j, 'm, 'o, 'tl, 'co, 'mw) request_inner) eff" where
  "try_clone_inner R copy_dict clone_spawner SE body a hp =
     (case request_ref_inner a hp of
        Inl e \<Rightarrow> (Inl e, hp)
      | Inr i \<Rightarrow>
          (case request_data_try_clone R copy_dict clone_spawner (request i) (interp hp) of
             (Inl e, w) \<Rightarrow> (Inl e, hp\<lparr>interp := w\<rparr>)
           | (Inr rd, w) \<Rightarrow>
               (case try_clone_body SE body (ri_body i) (hp\<lparr>interp := w\<rparr>) of
                  (Inl e, hp2) \<Rightarrow> (Inl e, hp2)
                | (Inr b, hp2) \<Rightarrow>
                    (map_res (\<lambda>h. \<lparr>request = rd, ri_body = b, ri_headers = h,
                                   middlewares_next = map_option next_clone_ref (middlewares_next i),
                                   lazy_task_local = lazy_task_local i\<rparr>)
                       (try_clone_headers (ri_headers i) hp2), hp2))))"

subsection \<open>Lemmas\<close>

lemma heap_simps [simp]:
  "requests (put_request a r hp) = (requests hp)(a := r)" "hmaps (put_request a r hp) = hmaps hp"
  "rbodies (put_request a r hp) = rbodies hp" "interp (put_request a r hp) = interp hp"
  by (simp_all add: put_request_def)

lemma request_take_inner_simps:
  "requests hp a = None \<Longrightarrow> request_take_inner a hp = (Inl sent_error, hp)"
  "requests hp a = Some i \<Longrightarrow> request_take_inner a hp = (Inr i, put_request a None hp)"
  by (auto simp: request_take_inner_def put_request_def fun_upd_idem)

interpretation requests: take_once "\<lambda>hp. requests hp a" "request_take_inner a" "\<lambda>_. sent_error" for a
  by unfold_locales (auto simp: request_take_inner_simps)

lemma prepare_body_requests: "prepare_body cur blk b lazy hp = (r, hp') \<Longrightarrow> requests hp' = requests hp \<and> hmaps hp' = hmaps hp"
  by (auto simp: prepare_body_def split: option.splits req_body.splits prod.splits sum.splits)

lemma prepare_headers_requests: "prepare_headers h hp = (r, hp') \<Longrightarrow> requests hp' = requests hp \<and> rbodies hp' = rbodies hp"
  by (auto simp: prepare_headers_def split: option.splits req_headers.splits prod.splits)

text \<open>Whatever \<open>prepare_spawn_request\<close> returns, the request is spent and no other one is touched.\<close>

lemma prepare_spends: "requests (snd (prepare_spawn_request R cur blk a hp)) = (requests hp)(a := None)"
  by (auto simp: prepare_spawn_request_def Let_def request_take_inner_def
      dest!: prepare_body_requests prepare_headers_requests split: prod.split sum.split)

lemma prepare_gone: "requests hp a = None \<Longrightarrow> prepare_spawn_request R cur blk a hp = (Inl sent_error, hp)"
  by (simp add: prepare_spawn_request_def request_take_inner_simps)

text \<open>Before that, sending leaves the request where it is.\<close>

lemma inner_set_task_local_requests:
  assumes "requests hp a = Some i" and "inner_set_task_local cur a i hp = (r, hp')"
  shows "\<exists>i'. requests hp' = (requests hp)(a := Some i') \<and> middlewares_next i' = middlewares_next i \<and>
    (\<forall>j. r = Inr j \<longrightarrow> j = i')"
  using assms
  by (auto simp: inner_set_task_local_def Let_def put_request_def fun_upd_idem elim!: map_res_InrE
      split: option.splits req_body.splits prod.splits)

lemma take_chain_unchained:
  assumes "requests hp a = Some i" and "middlewares_next i = None"
  obtains i' hp1 e where "requests hp1 = (requests hp)(a := Some i')" "take_chain cur nl a hp = (Inl e, hp1)"
      "fst (inner_set_task_local cur a i hp) = Inl e"
  | i' hp1 where "requests hp1 = (requests hp)(a := Some i')" "take_chain cur nl a hp = (Inr None, hp1)"
proof -
  obtain r hp1 where t: "inner_set_task_local cur a i hp = (r, hp1)" by fastforce
  from inner_set_task_local_requests [OF assms(1) t] obtain i' where
    i': "requests hp1 = (requests hp)(a := Some i')" "middlewares_next i' = None" "\<forall>j. r = Inr j \<longrightarrow> j = i'"
    by (auto simp: assms(2))
  have run: "take_chain cur nl a hp =
      (case r of Inl e \<Rightarrow> (Inl e, hp1) | Inr j \<Rightarrow> (Inr None, put_request a (Some (j\<lparr>middlewares_next := None\<rparr>)) hp1))"
    using t i' assms(1) by (auto simp: take_chain_def request_ref_inner_def bind_eff_def split: sum.split)
  show thesis
  proof (cases r)
    case (Inl e)
    show thesis by (rule that(1) [OF i'(1)]) (simp_all add: run Inl t)
  next
    case (Inr j)
    show thesis
      by (rule that(2) [of "put_request a (Some (j\<lparr>middlewares_next := None\<rparr>)) hp1" "j\<lparr>middlewares_next := None\<rparr>"])
        (simp_all add: run Inr i')
  qed
qed

text \<open>
  What it means to send at most once: with every spawner \<open>send\<close> either fails and leaves the request
  in its object, or empties the object and then fails or executes one request, nothing else.
\<close>

definition sends_once ::
    "(py_err \<Rightarrow> bool) \<Rightarrow> ('resp \<Rightarrow> 'resp pyres) \<Rightarrow>
     ((('rq, 'sp, 'x, 'j) request_data \<Rightarrow> (('w, 'rq, 'sp, 'x, 'j, 'm, 'o, 'tl, 'co, 'mw) heap, 'resp) eff) \<Rightarrow>
      (('w, 'rq, 'sp, 'x, 'j, 'm, 'o, 'tl, 'co, 'mw) heap, 'resp) eff) \<Rightarrow> nat \<Rightarrow>
     ('w, 'rq, 'sp, 'x, 'j, 'm, 'o, 'tl, 'co, 'mw) heap \<Rightarrow> bool" where
  "sends_once may_stay chk send a hp \<longleftrightarrow>
     (\<exists>e i hp1. may_stay e \<and> requests hp1 = (requests hp)(a := Some i) \<and> (\<forall>send_rq. send send_rq hp = (Inl e, hp1))) \<or>
     (\<exists>res hp1. requests hp1 = (requests hp)(a := None) \<and>
        (\<forall>send_rq. send send_rq hp =
           (case res of Inl e \<Rightarrow> (Inl e, hp1) | Inr rd \<Rightarrow> bind_eff (send_rq rd) (\<lambda>resp hp2. (chk resp, hp2)) hp1)))"

lemma spawned_sends_once:
  assumes "requests hp1 = (requests hp)(a := Some i)"
    and "\<And>send_rq. send send_rq hp = bind_eff (spawn_request R cur blk send_rq a) (\<lambda>resp hp2. (chk resp, hp2)) hp1"
  shows "sends_once st chk send a hp"
proof -
  obtain res hp2 where p: "prepare_spawn_request R cur blk a hp1 = (res, hp2)" by fastforce
  with prepare_spends [of R cur blk a hp1] assms(1) have "requests hp2 = (requests hp)(a := None)" by simp
  moreover have "send send_rq hp = (case res of Inl e \<Rightarrow> (Inl e, hp2) | Inr rd \<Rightarrow>
      bind_eff (send_rq rd) (\<lambda>resp hp2. (chk resp, hp2)) hp2)" for send_rq
    using p by (cases res) (simp_all add: assms(2) spawn_request_def bind_eff_def)
  ultimately show ?thesis unfolding sends_once_def by blast
qed

lemma send_inner_once:
  assumes "requests hp a = Some i" and "middlewares_next i = None"
  shows "sends_once (\<lambda>e. fst (inner_set_task_local cur a i hp) = Inl e) chk
    (\<lambda>send_rq. send_inner R cur send_rq E chk a) a hp"
  using assms
proof (rule take_chain_unchained [where cur = cur and nl = True])
  fix i' hp1 e
  assume "requests hp1 = (requests hp)(a := Some i')" "take_chain cur True a hp = (Inl e, hp1)"
    "fst (inner_set_task_local cur a i hp) = Inl e"
  then show ?thesis by (auto simp: sends_once_def send_inner_def bind_eff_def)
next
  fix i' hp1
  assume r: "requests hp1 = (requests hp)(a := Some i')" and t: "take_chain cur True a hp = (Inr None, hp1)"
  show ?thesis by (rule spawned_sends_once [OF r]) (simp add: send_inner_def bind_eff_def [of "take_chain cur True a"] t)
qed

lemma blocking_send_inner_once:
  assumes "requests hp a = Some i" and "middlewares_next i = None"
  shows "sends_once (\<lambda>e. fst (inner_set_task_local cur a i hp) = Inl e) chk
    (\<lambda>send_rq. blocking_send_inner R cur send_rq E chk a) a hp"
  using assms
proof (rule take_chain_unchained [where cur = cur and nl = False])
  fix i' hp1 e
  assume "requests hp1 = (requests hp)(a := Some i')" "take_chain cur False a hp = (Inl e, hp1)"
    "fst (inner_set_task_local cur a i hp) = Inl e"
  then show ?thesis by (auto simp: sends_once_def blocking_send_inner_def bind_eff_def)
next
  fix i' hp1
  assume r: "requests hp1 = (requests hp)(a := Some i')" and t: "take_chain cur False a hp = (Inr None, hp1)"
  show ?thesis
    by (rule spawned_sends_once [OF r]) (simp add: blocking_send_inner_def bind_eff_def [of "take_chain cur False a"] t)
qed

lemma prepare_InrE:
  assumes "prepare_spawn_request R cur blk a hp = (Inr rd, hp3)"
  obtains this bopt hp2 hopt where "requests hp a = Some this"
    "prepare_body cur blk (ri_body this) (lazy_task_local this) (put_request a None hp) = (Inr bopt, hp2)"
    "prepare_headers (ri_headers this) hp2 = (Inr hopt, hp3)"
    "rd = (request this)\<lparr>reqwest :=
      (let rq1 = (case bopt of None \<Rightarrow> reqwest (request this) | Some b \<Rightarrow> rq_set_body R (Some b) (reqwest (request this)))
       in case hopt of None \<Rightarrow> rq1 | Some m \<Rightarrow> rq_set_headers R m rq1)\<rparr>"
  using assms
  by (auto simp: prepare_spawn_request_def Let_def request_take_inner_def split: prod.splits sum.splits option.splits)

subsection \<open>Lemmas: bodies\<close>

lemma body_set_task_local_ok:
  assumes "body_set_task_local g rb w = (Inr u, rb1, w1)"
  shows "body_content rb1 \<noteq> None" "\<not> rb_poisoned rb" "rb_poisoned rb1 = rb_poisoned rb"
    "rb_inner rb = Some (BodyBytes bs) \<Longrightarrow> rb_inner rb1 = Some (BodyBytes bs)"
  using assms
  by (auto simp: body_set_task_local_def body_lock_def body_content_def
      split: if_splits sum.splits option.splits inner_body.splits prod.splits)

lemma body_into_reqwest_ok:
  assumes "body_into_reqwest blk rb = (Inr b, rb')"
  shows "body_content rb' = None" "rb_poisoned rb' = rb_poisoned rb"
    "rb_inner rb = Some (BodyBytes bs) \<Longrightarrow> b = FromBytes bs"
  using assms body_into_reqwest_consumes [OF assms]
  by (auto simp: body_into_reqwest_def body_lock_def split: if_splits)

text \<open>Sending consumes a body object; sending it again fails.\<close>

lemma prepare_body_shared:
  assumes "prepare_body cur blk (Some (ReqPyBody n)) lazy hp = (Inr bopt, hp')"
  shows "body_content (rbodies hp' n) = None" "\<not> rb_poisoned (rbodies hp' n)" "bopt \<noteq> None"
    "rb_inner (rbodies hp n) = Some (BodyBytes bs) \<Longrightarrow> bopt = Some (FromBytes bs)"
proof -
  obtain r b1 w lz where t: "body_set_task_local (once_get_or_current cur) (rbodies hp n) (interp hp, lazy) = (r, b1, w, lz)"
    by (metis prod_cases4)
  with assms obtain u where r: "r = Inr u" by (cases r) (auto simp: prepare_body_def)
  obtain q b2 where into: "body_into_reqwest blk b1 = (q, b2)" by fastforce
  with assms t r obtain b where q: "q = Inr b" by (cases q) (auto simp: prepare_body_def)
  from assms t r into q have "bopt = Some b" "rbodies hp' n = b2" by (auto simp: prepare_body_def)
  with body_set_task_local_ok [OF t [unfolded r]] body_into_reqwest_ok [OF into [unfolded q]]
  show "body_content (rbodies hp' n) = None" "\<not> rb_poisoned (rbodies hp' n)" "bopt \<noteq> None"
    "rb_inner (rbodies hp n) = Some (BodyBytes bs) \<Longrightarrow> bopt = Some (FromBytes bs)" by auto
qed

lemma prepare_body_gone:
  assumes "body_content (rbodies hp n) = None"
  shows "fst (prepare_body cur blk (Some (ReqPyBody n)) lazy hp) = Inl (body_gone (rbodies hp n))"
  by (simp add: prepare_body_def body_gone_ops [OF assms])

lemma prepare_body_own:
  assumes "prepare_body cur blk (Some (ReqBody b)) lazy hp = (Inr bopt, hp')"
    and "rb_inner b = Some (BodyBytes bs)"
  shows "bopt = Some (FromBytes bs)"
proof -
  obtain r b1 w lz where t: "body_set_task_local (once_get_or_current cur) b (interp hp, lazy) = (r, b1, w, lz)"
    by (metis prod_cases4)
  with assms obtain u where r: "r = Inr u" by (cases r) (auto simp: prepare_body_def)
  from body_set_task_local_ok(4) [OF t [unfolded r] assms(2)] have "rb_inner b1 = Some (BodyBytes bs)" .
  with body_into_reqwest_ok(3) [of blk b1] assms(1) t r show ?thesis
    by (cases "body_into_reqwest blk b1"; cases "fst (body_into_reqwest blk b1)") (auto simp: prepare_body_def)
qed

lemma prepare_body_own_stream:
  assumes "prepare_body cur blk (Some (ReqBody (request_body_new (BodyStreamed s)))) lazy hp = (Inr bopt, hp')"
  shows "\<exists>tloc. bopt = Some (WrapStream (s\<lparr>bs_task_local := tloc\<rparr>))"
proof -
  have "s = s\<lparr>bs_task_local := bs_task_local s\<rparr>" by simp
  then have "\<exists>tloc. s = s\<lparr>bs_task_local := tloc\<rparr>" by blast
  with assms show ?thesis
    by (auto simp: prepare_body_def body_set_task_local_def body_lock_def request_body_new_def
        stream_set_task_local_def body_into_reqwest_def stream_into_reqwest_def
        elim!: map_res_InrE split: prod.splits sum.splits if_splits)
qed

text \<open>Without Python objects, what is prepared does not depend on the heap.\<close>

lemma prepare_body_own_cong:
  assumes "\<And>n. b \<noteq> Some (ReqPyBody n)" and "interp hp = interp hq"
  shows "fst (prepare_body cur blk b lazy hp) = fst (prepare_body cur blk b lazy hq)"
  using assms by (auto simp: prepare_body_def split: option.splits req_body.splits prod.splits sum.splits)

lemma prepare_headers_own_cong:
  assumes "\<And>n. h \<noteq> Some (ReqPyHeaders n)"
  shows "fst (prepare_headers h hp) = fst (prepare_headers h hq)"
  using assms by (auto simp: prepare_headers_def split: option.splits req_headers.splits)

subsection \<open>Lemmas: copies\<close>

lemma try_clone_content: "try_clone h = Inr h' \<longleftrightarrow> (\<exists>m. header_content h = Some m \<and> h' = header_map_from m)"
  by (auto simp: try_clone_def ref_map_def safe_lock_def header_content_def split: option.splits)

lemma try_clone_headers_Inr:
  "try_clone_headers hopt hp = Inr h \<Longrightarrow>
   h = (case hopt of
          None \<Rightarrow> None
        | Some (ReqHeaders h') \<Rightarrow> Some (ReqHeaders (header_map_from (the (header_content h'))))
        | Some (ReqPyHeaders n) \<Rightarrow> Some (ReqHeaders (header_map_from (the (header_content (hmaps hp n))))))"
  by (auto simp: try_clone_headers_def try_clone_content elim!: map_res_InrE split: option.splits req_headers.splits)

text \<open>What the body of a request holds, its own one or the Python object it refers to.\<close>

definition body_held ::
    "('w, 'rq, 'sp, 'x, 'j, 'm, 'o, 'tl, 'co, 'mw) heap \<Rightarrow> ('o, 'tl, 'co) req_body option \<Rightarrow>
     ('o, 'tl, 'co) inner_body option" where
  "body_held hp bopt =
     (case bopt of
        None \<Rightarrow> None
      | Some (ReqBody b) \<Rightarrow> rb_inner b
      | Some (ReqPyBody n) \<Rightarrow> rb_inner (rbodies hp n))"

lemma body_try_clone_Inr:
  assumes "body_try_clone SE b w = (Inr b', w')"
  shows "rb_inner b = Some (BodyBytes bs) \<Longrightarrow> b' = from_bytes bs"
    "rb_inner b = Some (BodyStreamed s) \<Longrightarrow>
      \<exists>s'. stream_try_clone SE s w = (Inr s', w') \<and> b' = request_body_new (BodyStreamed s')"
  using assms
  by (auto simp: body_try_clone_def body_lock_def from_bytes_def split: option.splits prod.splits sum.splits if_splits)

lemma try_clone_body_Inr:
  assumes "try_clone_body SE None bopt hp = (Inr b, hp')"
  shows "b \<noteq> Some (ReqPyBody n)" "hmaps hp' = hmaps hp" "bopt = None \<Longrightarrow> b = None"
    "body_held hp bopt = Some (BodyBytes bs) \<Longrightarrow> b = Some (ReqBody (from_bytes bs))"
    "body_held hp bopt = Some (BodyStreamed s) \<Longrightarrow>
      \<exists>s' w'. stream_try_clone SE s (interp hp) = (Inr s', w') \<and>
        b = Some (ReqBody (request_body_new (BodyStreamed s')))"
  using assms
  by (auto simp: try_clone_body_def body_held_def elim!: map_res_InrE dest: body_try_clone_Inr
      split: option.splits req_body.splits prod.splits)

lemma stream_try_clone_Inr:
  assumes "stream_try_clone SE s w = (Inr s', w')"
  obtains ob ob' w1 where "bs_stream s = Some ob" "call_copy SE ob w = (Inr ob', w1)"
    "bs_stream s' = Some ob'" "bs_is_async s' = bs_is_async s" "cur_waiter s' = None"
  using assms by (auto simp: stream_try_clone_def split: option.splits sum.splits prod.splits)

lemma copy_InrE:
  assumes "try_clone_inner R copy_dict clone_spawner SE None a hp = (Inr c, hp1)" and "requests hp a = Some i"
  obtains rd w hp2 where
    "request_data_try_clone R copy_dict clone_spawner (request i) (interp hp) = (Inr rd, w)" "request c = rd"
    "try_clone_body SE None (ri_body i) (hp\<lparr>interp := w\<rparr>) = (Inr (ri_body c), hp2)"
    "try_clone_headers (ri_headers i) hp2 = Inr (ri_headers c)"
  using assms
  by (auto simp: try_clone_inner_def request_ref_inner_def elim!: map_res_InrE split: prod.splits sum.splits)

lemma request_data_clone_headers:
  assumes "reqwest_request R" and "request_data_try_clone R copy_dict clone_spawner d w = (Inr rd, w')"
  shows "rq_headers R (reqwest rd) = rq_headers R (reqwest d)"
    and "rq_method R (reqwest rd) = rq_method R (reqwest d)" "rq_url R (reqwest rd) = rq_url R (reqwest d)"
  using assms(2) reqwest_request.clone_same [OF assms(1), of "reqwest d"]
  by (auto simp: request_data_try_clone_def elim!: map_res_InrE split: prod.splits sum.splits)

end
