(* ===== verification/Request_Builder.thy ===== *)
theory Request_Builder
  imports Request_Headers Builders Request
begin

section \<open>The request builder\<close>

text \<open>
  Models \<open>BaseRequestBuilder\<close> of \<open>src/request/request_builder.rs\<close> and the authorization
  headers of \<open>src/internal/utils.rs\<close>. The builder holds \<open>reqwest\<close>'s builder (\<open>'rb\<close>), which
  setters change through \<open>apply\<close>, and what is added when the request is built: headers, body,
  extensions, middlewares. The crate's builder is the record \<open>rb_ops\<close>; \<open>rb_build\<close> gives the
  request or an error.
\<close>

subsection \<open>Authorization headers\<close>

text \<open>\<open>b64\<close> is the base64 encoder, \<open>value_from\<close> is \<open>HeaderValue::from_maybe_shared\<close>.\<close>

definition basic_auth ::
    "(bytes \<Rightarrow> bytes) \<Rightarrow> (bytes \<Rightarrow> string + header_value) \<Rightarrow> string \<Rightarrow> string option \<Rightarrow> header_value pyres" where
  "basic_auth b64 value_from username password =
     map_res (set_sensitive True)
       (map_err value_error
         (value_from
           (str_bytes ''Basic '' @
            b64 (str_bytes (username @ '':'') @ (case password of Some p \<Rightarrow> str_bytes p | None \<Rightarrow> [])))))"

definition bearer_auth :: "'m http_ops \<Rightarrow> string \<Rightarrow> header_value pyres" where
  "bearer_auth H token = map_res (set_sensitive True) (map_err value_error (parse_value H (''Bearer '' @ token)))"

definition AUTHORIZATION :: header_name where
  "AUTHORIZATION = HeaderName ''authorization''"

definition CONTENT_TYPE :: header_name where
  "CONTENT_TYPE = HeaderName ''content-type''"

subsection \<open>State\<close>

record ('rb, 'rq, 'q, 'form) rb_ops =
  rb_build :: "'rb \<Rightarrow> std_error + 'rq"
  rb_query :: "(string \<times> 'q) list \<Rightarrow> 'rb \<Rightarrow> 'rb"
  rb_form :: "(string \<times> 'q) list \<Rightarrow> 'rb \<Rightarrow> 'rb"
  rb_timeout :: "nat \<Rightarrow> 'rb \<Rightarrow> 'rb"
  rb_multipart :: "'form \<Rightarrow> 'rb \<Rightarrow> 'rb"

datatype ('o, 'tl, 'co) builder_body = JsonBody "('o, 'tl, 'co) request_body" | AnyBody "('o, 'tl, 'co) request_body"

record ('rb, 'sp, 'm, 'o, 'tl, 'co, 'x, 'mw, 'f) request_builder =
  b_inner :: "'rb option"
  b_spawner :: "'sp option"
  b_headers :: "'m builder_headers"
  b_body :: "('o, 'tl, 'co) builder_body option"
  b_extensions :: "'x option"
  b_middlewares_next :: "'mw next_inner option"
  b_json_handler :: "'f json_handler option"
  b_error_for_status :: bool
  b_connection_verbose :: bool
  b_streamed_read_buffer_limit :: "nat option"
  b_is_blocking :: bool

definition request_builder_new ::
    "'rb \<Rightarrow> 'sp \<Rightarrow> 'mw next_inner option \<Rightarrow> 'f json_handler option \<Rightarrow> bool \<Rightarrow> 'm option \<Rightarrow> bool \<Rightarrow> bool \<Rightarrow>
     ('rb, 'sp, 'm, 'o, 'tl, 'co, 'x, 'mw, 'f) request_builder" where
  "request_builder_new rb sp nexts json errs dflts verbose blocking =
     \<lparr>b_inner = Some rb, b_spawner = Some sp, b_headers = builder_headers_new dflts, b_body = None,
      b_extensions = None, b_middlewares_next = nexts, b_json_handler = json, b_error_for_status = errs,
      b_connection_verbose = verbose, b_streamed_read_buffer_limit = None, b_is_blocking = blocking\<rparr>"

type_synonym ('rb, 'sp, 'm, 'o, 'tl, 'co, 'x, 'mw, 'f) setter =
  "('rb, 'sp, 'm, 'o, 'tl, 'co, 'x, 'mw, 'f) request_builder \<Rightarrow>
   unit pyres \<times> ('rb, 'sp, 'm, 'o, 'tl, 'co, 'x, 'mw, 'f) request_builder"

definition built_error :: py_err where
  "built_error = runtime_error ''Request was already built''"

definition check_inner :: "('rb, 'sp, 'm, 'o, 'tl, 'co, 'x, 'mw, 'f) request_builder \<Rightarrow> unit pyres" where
  "check_inner b = map_res (\<lambda>_. ()) (ok_or built_error (b_inner b))"

definition checked ::
    "(('rb, 'sp, 'm, 'o, 'tl, 'co, 'x, 'mw, 'f) request_builder \<Rightarrow>
      unit pyres \<times> ('rb, 'sp, 'm, 'o, 'tl, 'co, 'x, 'mw, 'f) request_builder) \<Rightarrow>
     ('rb, 'sp, 'm, 'o, 'tl, 'co, 'x, 'mw, 'f) setter" where
  "checked f b = (case check_inner b of Inl e \<Rightarrow> (Inl e, b) | Inr _ \<Rightarrow> f b)"

definition builder_apply ::
    "('rb \<Rightarrow> 'rb pyres) \<Rightarrow> ('rb, 'sp, 'm, 'o, 'tl, 'co, 'x, 'mw, 'f) setter" where
  "builder_apply f b = (case apply_opt built_error f (b_inner b) of (r, i) \<Rightarrow> (r, b\<lparr>b_inner := i\<rparr>))"

subsection \<open>Setters\<close>

definition set_error_for_status :: "bool \<Rightarrow> ('rb, 'sp, 'm, 'o, 'tl, 'co, 'x, 'mw, 'f) setter" where
  "set_error_for_status enable = checked (\<lambda>b. (Inr (), b\<lparr>b_error_for_status := enable\<rparr>))"

definition put_header :: "'m http_ops \<Rightarrow> header_name \<Rightarrow> header_value \<Rightarrow>
    ('rb, 'sp, 'm, 'o, 'tl, 'co, 'x, 'mw, 'f) setter" where
  "put_header H key value b =
     (case builder_header H key value (b_headers b) of (r, hs) \<Rightarrow> (r, b\<lparr>b_headers := hs\<rparr>))"

definition add_header :: "'m http_ops \<Rightarrow> header_name \<Rightarrow> header_value \<Rightarrow> bool \<Rightarrow>
    ('rb, 'sp, 'm, 'o, 'tl, 'co, 'x, 'mw, 'f) setter" where
  "add_header H key value sens =
     checked (put_header H key (if sens then set_sensitive True value else value))"

text \<open>The argument is a copy of the Python header map, which is consumed.\<close>

definition add_headers :: "'m http_ops \<Rightarrow> 'm header_map \<Rightarrow> ('rb, 'sp, 'm, 'o, 'tl, 'co, 'x, 'mw, 'f) setter" where
  "add_headers H hs =
     checked (\<lambda>b. case fst (try_take_inner hs) of
         Inl e \<Rightarrow> (Inl e, b)
       | Inr m \<Rightarrow> (case builder_headers_set H m (b_headers b) of (r, hs') \<Rightarrow> (r, b\<lparr>b_headers := hs'\<rparr>)))"

definition set_basic_auth ::
    "'m http_ops \<Rightarrow> (bytes \<Rightarrow> bytes) \<Rightarrow> (bytes \<Rightarrow> string + header_value) \<Rightarrow> string \<Rightarrow> string option \<Rightarrow>
     ('rb, 'sp, 'm, 'o, 'tl, 'co, 'x, 'mw, 'f) setter" where
  "set_basic_auth H b64 value_from username password =
     checked (\<lambda>b. case basic_auth b64 value_from username password of
         Inl e \<Rightarrow> (Inl e, b)
       | Inr v \<Rightarrow> put_header H AUTHORIZATION v b)"

definition set_bearer_auth :: "'m http_ops \<Rightarrow> string \<Rightarrow> ('rb, 'sp, 'm, 'o, 'tl, 'co, 'x, 'mw, 'f) setter" where
  "set_bearer_auth H token =
     checked (\<lambda>b. case bearer_auth H token of
         Inl e \<Rightarrow> (Inl e, b)
       | Inr v \<Rightarrow> put_header H AUTHORIZATION v b)"

definition body_bytes_set :: "bytes \<Rightarrow> ('rb, 'sp, 'm, 'o, 'tl, 'co, 'x, 'mw, 'f) setter" where
  "body_bytes_set body = checked (\<lambda>b. (Inr (), b\<lparr>b_body := Some (AnyBody (from_bytes body))\<rparr>))"

definition body_text_set :: "string \<Rightarrow> ('rb, 'sp, 'm, 'o, 'tl, 'co, 'x, 'mw, 'f) setter" where
  "body_text_set body = checked (\<lambda>b. (Inr (), b\<lparr>b_body := Some (AnyBody (from_text body))\<rparr>))"

text \<open>
  \<open>body_json\<close>: with a custom \<open>dumps\<close> the bytes it returns, else what serde makes of the value
  (\<open>to_json\<close>, which fails on objects it cannot convert or serialise).
\<close>

definition body_json_set ::
    "('f \<Rightarrow> 'ctx \<Rightarrow> 'w \<Rightarrow> 'ob pyres \<times> 'w) \<Rightarrow> ('ob \<Rightarrow> bytes pyres) \<Rightarrow> ('ctx \<Rightarrow> bytes pyres) \<Rightarrow> 'ctx \<Rightarrow>
     ('rb, 'sp, 'm, 'o, 'tl, 'co, 'x, 'mw, 'f) request_builder \<Rightarrow> 'w \<Rightarrow>
     unit pyres \<times> ('rb, 'sp, 'm, 'o, 'tl, 'co, 'x, 'mw, 'f) request_builder \<times> 'w" where
  "body_json_set call ext to_json data b w =
     (case check_inner b of
        Inl e \<Rightarrow> (Inl e, b, w)
      | Inr _ \<Rightarrow>
          (case (case b_json_handler b of
                   Some handler \<Rightarrow>
                     if has_dumps handler then call_dumps call ext handler data w else (to_json data, w)
                 | None \<Rightarrow> (to_json data, w)) of
             (Inl e, w') \<Rightarrow> (Inl e, b, w')
           | (Inr bs, w') \<Rightarrow> (Inr (), b\<lparr>b_body := Some (JsonBody (from_bytes bs))\<rparr>, w')))"

definition body_stream_set ::
    "('w, 'o, 'tl, 'co) stream_env \<Rightarrow> 'o \<Rightarrow>
     ('rb, 'sp, 'm, 'o, 'tl, 'co, 'x, 'mw, 'f) request_builder \<Rightarrow> 'w \<Rightarrow>
     unit pyres \<times> ('rb, 'sp, 'm, 'o, 'tl, 'co, 'x, 'mw, 'f) request_builder \<times> 'w" where
  "body_stream_set E stream b w =
     (case check_inner b of
        Inl e \<Rightarrow> (Inl e, b, w)
      | Inr _ \<Rightarrow>
          (case from_stream E stream w of
             (Inl e, w') \<Rightarrow> (Inl e, b, w')
           | (Inr rb, w') \<Rightarrow> (Inr (), b\<lparr>b_body := Some (AnyBody rb)\<rparr>, w')))"

definition add_query :: "('rb, 'rq, 'q, 'form) rb_ops \<Rightarrow> (string \<times> 'q) list pyres \<Rightarrow>
    ('rb, 'sp, 'm, 'o, 'tl, 'co, 'x, 'mw, 'f) setter" where
  "add_query B query b =
     (case query of Inl e \<Rightarrow> (Inl e, b) | Inr q \<Rightarrow> builder_apply (\<lambda>rb. Inr (rb_query B q rb)) b)"

definition set_timeout :: "('rb, 'rq, 'q, 'form) rb_ops \<Rightarrow> nat \<Rightarrow> ('rb, 'sp, 'm, 'o, 'tl, 'co, 'x, 'mw, 'f) setter" where
  "set_timeout B timeout = builder_apply (\<lambda>rb. Inr (rb_timeout B timeout rb))"

definition set_form :: "('rb, 'rq, 'q, 'form) rb_ops \<Rightarrow> (string \<times> 'q) list pyres \<Rightarrow>
    ('rb, 'sp, 'm, 'o, 'tl, 'co, 'x, 'mw, 'f) setter" where
  "set_form B form b =
     (case form of Inl e \<Rightarrow> (Inl e, b) | Inr q \<Rightarrow> builder_apply (\<lambda>rb. Inr (rb_form B q rb)) b)"

definition set_multipart ::
    "('rb, 'rq, 'q, 'form) rb_ops \<Rightarrow> 'form form_builder \<Rightarrow>
     ('rb, 'sp, 'm, 'o, 'tl, 'co, 'x, 'mw, 'f) request_builder \<Rightarrow>
     unit pyres \<times> 'form form_builder \<times> ('rb, 'sp, 'm, 'o, 'tl, 'co, 'x, 'mw, 'f) request_builder" where
  "set_multipart B multipart b =
     (if b_is_blocking b \<and> fb_is_async multipart
      then (Inl (from_msg BuilderError ''Can not use async multipart (stream) in a blocking request''), multipart, b)
      else
        (case form_build multipart of
           (Inl e, multipart') \<Rightarrow> (Inl e, multipart', b)
         | (Inr form, multipart') \<Rightarrow>
             (case builder_apply (\<lambda>rb. Inr (rb_multipart B form rb)) b of (r, b') \<Rightarrow> (r, multipart', b'))))"

definition set_extensions_builder ::
    "('x \<Rightarrow> 'w \<Rightarrow> 'x pyres \<times> 'w) \<Rightarrow> 'x \<Rightarrow> ('rb, 'sp, 'm, 'o, 'tl, 'co, 'x, 'mw, 'f) request_builder \<Rightarrow> 'w \<Rightarrow>
     unit pyres \<times> ('rb, 'sp, 'm, 'o, 'tl, 'co, 'x, 'mw, 'f) request_builder \<times> 'w" where
  "set_extensions_builder copy_dict ext b w =
     (case check_inner b of
        Inl e \<Rightarrow> (Inl e, b, w)
      | Inr _ \<Rightarrow>
          (case copy_dict ext w of
             (Inl e, w') \<Rightarrow> (Inl e, b, w')
           | (Inr d, w') \<Rightarrow> (Inr (), b\<lparr>b_extensions := Some d\<rparr>, w')))"

definition set_streamed_read_buffer_limit :: "nat \<Rightarrow> ('rb, 'sp, 'm, 'o, 'tl, 'co, 'x, 'mw, 'f) setter" where
  "set_streamed_read_buffer_limit value = checked (\<lambda>b. (Inr (), b\<lparr>b_streamed_read_buffer_limit := Some value\<rparr>))"

text \<open>\<open>ptr\<close> is the address of the vector a first middleware gets.\<close>

definition inner_with_middleware :: "nat \<Rightarrow> 'mw \<Rightarrow> ('rb, 'sp, 'm, 'o, 'tl, 'co, 'x, 'mw, 'f) setter" where
  "inner_with_middleware ptr mw b =
     (case b_middlewares_next b of
        Some nx \<Rightarrow> (case add_middleware mw nx of (r, nx') \<Rightarrow> (r, b\<lparr>b_middlewares_next := Some nx'\<rparr>))
      | None \<Rightarrow>
          (case next_inner_new (Arc ptr [mw]) of
             Inl e \<Rightarrow> (Inl e, b)
           | Inr nx \<Rightarrow> (Inr (), b\<lparr>b_middlewares_next := Some nx\<rparr>)))"

subsection \<open>Building\<close>

definition body_consume_config_of ::
    "bool \<Rightarrow> ('rb, 'sp, 'm, 'o, 'tl, 'co, 'x, 'mw, 'f) request_builder \<Rightarrow> body_consume_config" where
  "body_consume_config_of is_streamed b =
     (if is_streamed
      then Streamed \<lparr>read_buffer_limit =
        (case b_streamed_read_buffer_limit b of Some n \<Rightarrow> n | None \<Rightarrow> DEFAULT_READ_BUFFER_LIMIT)\<rparr>
      else FullyConsumed)"

text \<open>\<open>HeaderMap::insert\<close> of the JSON content type.\<close>

definition insert_json_type :: "'m http_ops \<Rightarrow> 'm \<Rightarrow> 'm pyres" where
  "insert_json_type H hs =
     (case parse_value H ''application/json'' of
        Inl e \<Rightarrow> Inl (value_error e)
      | Inr v \<Rightarrow>
          (case hm_try_insert H hs CONTENT_TYPE v of
             (Inl e, _) \<Rightarrow> Inl (panic ''size overflows MAX_SIZE'')
           | (Inr _, hs') \<Rightarrow> Inr hs'))"

definition inner_build ::
    "'m http_ops \<Rightarrow> ('rb, 'rq, 'q, 'form) rb_ops \<Rightarrow> ('rq, 'm, 'b, 'me, 'u) reqwest_ops \<Rightarrow> body_consume_config \<Rightarrow>
     ('rb, 'sp, 'm, 'o, 'tl, 'co, 'x, 'mw, 'f) request_builder \<Rightarrow>
     ('rq, 'sp, 'x, 'f json_handler, 'm, 'o, 'tl, 'co, 'mw) request_inner pyres \<times>
     ('rb, 'sp, 'm, 'o, 'tl, 'co, 'x, 'mw, 'f) request_builder" where
  "inner_build H B R consume_body b =
     (let b1 = b\<lparr>b_inner := None\<rparr> in
      case ok_or built_error (b_inner b) of
        Inl e \<Rightarrow> (Inl e, b1)
      | Inr rb \<Rightarrow>
        (case rb_build B rb of
           Inl e \<Rightarrow> (Inl (from_err BuilderError ''Failed to build request'' e), b1)
         | Inr rq \<Rightarrow>
           if rq_body R rq \<noteq> None \<and> b_body b1 \<noteq> None
           then (Inl (from_msg BuilderError ''Can not set body when multipart or form is used''), b1)
           else
             (case drain_into_headers H (rq_headers R rq) (b_headers b1) of
                (hs, bh) \<Rightarrow>
                  (let b2 = b1\<lparr>b_headers := bh, b_body := None\<rparr> in
                   case (case b_body b1 of Some (JsonBody _) \<Rightarrow> insert_json_type H hs | _ \<Rightarrow> Inr hs) of
                     Inl e \<Rightarrow> (Inl e, b2)
                   | Inr hs' \<Rightarrow>
                     (let b3 = b2\<lparr>b_spawner := None\<rparr> in
                      case ok_or built_error (b_spawner b2) of
                        Inl e \<Rightarrow> (Inl e, b3)
                      | Inr sp \<Rightarrow>
                        (Inr (request_new
                           \<lparr>spawner = sp, reqwest = rq_set_headers R hs' rq, rd_extensions = b_extensions b3,
                            rd_body_consume_config = consume_body, rd_json_handler = b_json_handler b3,
                            rd_error_for_status = b_error_for_status b3,
                            rd_connection_verbose = b_connection_verbose b3\<rparr>
                           (map_option (\<lambda>bb. case bb of JsonBody body \<Rightarrow> body | AnyBody body \<Rightarrow> body) (b_body b1))
                           (b_middlewares_next b3)),
                         b3\<lparr>b_extensions := None, b_json_handler := None, b_middlewares_next := None\<rparr>))))))"

definition build ::
    "'m http_ops \<Rightarrow> ('rb, 'rq, 'q, 'form) rb_ops \<Rightarrow> ('rq, 'm, 'b, 'me, 'u) reqwest_ops \<Rightarrow> bool \<Rightarrow>
     ('rb, 'sp, 'm, 'o, 'tl, 'co, 'x, 'mw, 'f) request_builder \<Rightarrow>
     ('rq, 'sp, 'x, 'f json_handler, 'm, 'o, 'tl, 'co, 'mw) request_inner pyres \<times>
     ('rb, 'sp, 'm, 'o, 'tl, 'co, 'x, 'mw, 'f) request_builder" where
  "build H B R is_streamed b = inner_build H B R (body_consume_config_of is_streamed b) b"

subsection \<open>Lemmas\<close>

text \<open>What a successful \<open>build\<close> went through, step by step.\<close>

lemma inner_build_InrE:
  assumes "inner_build H B R cfg b = (Inr i, b')"
  obtains rb rq sp hs bh hs' where
    "b_inner b = Some rb" "rb_build B rb = Inr rq" "rq_body R rq = None \<or> b_body b = None"
    "b_spawner b = Some sp" "drain_into_headers H (rq_headers R rq) (b_headers b) = (hs, bh)"
    "(case b_body b of Some (JsonBody _) \<Rightarrow> insert_json_type H hs | _ \<Rightarrow> Inr hs) = Inr hs'"
    "i = request_new
      \<lparr>spawner = sp, reqwest = rq_set_headers R hs' rq, rd_extensions = b_extensions b,
       rd_body_consume_config = cfg, rd_json_handler = b_json_handler b,
       rd_error_for_status = b_error_for_status b, rd_connection_verbose = b_connection_verbose b\<rparr>
      (map_option (\<lambda>bb. case bb of JsonBody body \<Rightarrow> body | AnyBody body \<Rightarrow> body) (b_body b)) (b_middlewares_next b)"
proof -
  from assms obtain rb where rb: "b_inner b = Some rb"
    by (cases "b_inner b") (auto simp: inner_build_def Let_def)
  with assms obtain rq where rq: "rb_build B rb = Inr rq"
    by (cases "rb_build B rb") (auto simp: inner_build_def Let_def)
  note u = inner_build_def Let_def rb rq
  from assms have nb: "rq_body R rq = None \<or> b_body b = None"
    by (cases "rq_body R rq \<noteq> None \<and> b_body b \<noteq> None") (auto simp: u)
  obtain hs bh where d: "drain_into_headers H (rq_headers R rq) (b_headers b) = (hs, bh)" by fastforce
  let ?ins = "case b_body b of Some (JsonBody _) \<Rightarrow> insert_json_type H hs | _ \<Rightarrow> Inr hs"
  from nb have c: "\<not> (rq_body R rq \<noteq> None \<and> b_body b \<noteq> None)" by auto
  from assms obtain hs' where hs': "?ins = Inr hs'"
    by (cases ?ins) (auto simp: u c d simp del: de_Morgan_conj not_None_eq)
  from assms obtain sp where sp: "b_spawner b = Some sp"
    by (cases "b_spawner b") (auto simp: u c d hs' simp del: de_Morgan_conj not_None_eq)
  from assms have "i = request_new
      \<lparr>spawner = sp, reqwest = rq_set_headers R hs' rq, rd_extensions = b_extensions b,
       rd_body_consume_config = cfg, rd_json_handler = b_json_handler b,
       rd_error_for_status = b_error_for_status b, rd_connection_verbose = b_connection_verbose b\<rparr>
      (map_option (\<lambda>bb. case bb of JsonBody body \<Rightarrow> body | AnyBody body \<Rightarrow> body) (b_body b)) (b_middlewares_next b)"
    by (auto simp: u c d hs' sp simp del: de_Morgan_conj not_None_eq)
  with rb rq nb sp d hs' show thesis using that by blast
qed

lemma inner_build_takes: "b_inner (snd (inner_build H B R cfg b)) = None"
  by (auto simp: inner_build_def Let_def split: sum.split prod.split option.split builder_body.split)

lemma built_checked: "b_inner b = None \<Longrightarrow> checked f b = (Inl built_error, b)"
  by (simp add: checked_def check_inner_def)

lemma built_apply: "b_inner b = None \<Longrightarrow> builder_apply f b = (Inl built_error, b)"
  by (cases b) (simp add: builder_apply_def apply_opt_def)

lemma built_build: "b_inner b = None \<Longrightarrow> inner_build H B R cfg b = (Inl built_error, b)"
  by (cases b) (simp add: inner_build_def)

end
