(* ===== verification/Request_Properties.thy ===== *)
theory Request_Properties
  imports Request_Builder Header_Ref
begin

section \<open>Properties of requests, their builders and middleware chains\<close>

text \<open>
  The headers and bodies a builder makes of its calls, the order of middlewares, what is sent for a
  request, for its copies and for objects it shares, that it is sent once, and streamed bodies.
\<close>

subsection \<open>A reference implementation of \<open>reqwest::Request\<close>\<close>

record ('m, 'b) plain_request =
  p_method :: string
  p_url :: string
  p_headers :: 'm
  p_body :: "'b option"
  p_timeout :: "nat option"

definition plain_ops :: "(('m, 'b) plain_request, 'm, 'b, string, string) reqwest_ops" where
  "plain_ops = \<lparr>
     rq_method = p_method, rq_set_method = (\<lambda>x r. r\<lparr>p_method := x\<rparr>),
     rq_url = p_url, rq_set_url = (\<lambda>x r. r\<lparr>p_url := x\<rparr>),
     rq_headers = p_headers, rq_set_headers = (\<lambda>x r. r\<lparr>p_headers := x\<rparr>),
     rq_body = p_body, rq_set_body = (\<lambda>x r. r\<lparr>p_body := x\<rparr>),
     rq_timeout = p_timeout, rq_set_timeout = (\<lambda>x r. r\<lparr>p_timeout := x\<rparr>),
     rq_try_clone = (\<lambda>r. if p_body r = None then Some r else None)\<rparr>"

interpretation plain: reqwest_request plain_ops
  by unfold_locales (auto simp: plain_ops_def split: if_splits)

lemma reqwest_request_plain: "reqwest_request plain_ops"
  by (rule plain.reqwest_request_axioms)

definition plain_rb :: "(('m, 'b) plain_request, ('m, 'b) plain_request, string, 'b) rb_ops" where
  "plain_rb = \<lparr>
     rb_build = Inr,
     rb_query = (\<lambda>_ r. r),
     rb_form = (\<lambda>_ r. r),
     rb_timeout = (\<lambda>t r. r\<lparr>p_timeout := Some t\<rparr>),
     rb_multipart = (\<lambda>f r. r\<lparr>p_body := Some f\<rparr>)\<rparr>"

subsection \<open>The headers that are sent\<close>

text \<open>
  C12. The headers of the built request, for any sequence of \<open>header\<close> and \<open>headers\<close> calls:
  a name that was set has exactly the values the calls ask for (\<open>header\<close> adds one, \<open>headers\<close>
  replaces), and none of the client's defaults; a name that was not set has the client's
  defaults; only a name that has neither keeps what multipart, form or the URL put there.
\<close>

theorem builder_headers_merge:
  assumes "http_headers H" and "headers_calls H cs (builder_headers_new dflt) = (Inr u, b)"
  shows "hm_get_all H (fst (drain_into_headers H base b)) k =
    (if asked H k cs [] \<noteq> [] then asked H k cs []
     else if opt_values H dflt k \<noteq> [] then opt_values H dflt k
     else hm_get_all H base k)"
proof -
  from http_headers.headers_calls_ok [OF assms, of k]
  have "opt_values H (set_headers b) k = asked H k cs []"
    and "opt_values H (set_headers b) k = [] \<longrightarrow> opt_values H (default_headers b) k = opt_values H dflt k"
    by (auto simp: builder_headers_new_def)
  then show ?thesis by (simp add: http_headers.drain_ok [OF assms(1)])
qed

definition nm :: "string \<Rightarrow> header_name" where
  "nm s = HeaderName s"

definition vl :: "bytes \<Rightarrow> header_value" where
  "vl b = HeaderValue b False"

lemma calls_example:
  "headers_calls flat_ops [CallHeader (nm ''a'') (vl [1]), CallHeader (nm ''a'') (vl [2])]
     (builder_headers_new (Some [(nm ''a'', vl [9]), (nm ''c'', vl [8])])) =
   (Inr (), \<lparr>default_headers = Some [(nm ''c'', vl [8])], set_headers = Some [(nm ''a'', vl [1]), (nm ''a'', vl [2])]\<rparr>)"
  by (simp add: builder_headers_new_def builder_header_def remove_defaults_def remove_header_def nm_def
      flat_ops_def flat_try_entry_def flat_try_append_def flat_try_insert_def flat_without_def MAX_SIZE_def)

theorem builder_headers_merge_witness:
  "hm_get_all flat_ops (fst (drain_into_headers flat_ops [(nm ''c'', vl [7]), (nm ''d'', vl [6])]
     \<lparr>default_headers = Some [(nm ''c'', vl [8])], set_headers = Some [(nm ''a'', vl [1]), (nm ''a'', vl [2])]\<rparr>))
     (nm ''a'') = [vl [1], vl [2]]"
  using builder_headers_merge [OF http_headers_flat calls_example, of "[(nm ''c'', vl [7]), (nm ''d'', vl [6])]" "nm ''a''"]
  by simp

text \<open>
  C16. What \<open>build\<close> makes of a builder: the headers merged as above, except that a JSON body
  replaces the content type, also one that was set explicitly; the body, the extensions and the
  middleware chain handed over; streaming exactly if it was asked for, with the limit that was
  set. A body beside a multipart or form body is refused.
\<close>

theorem build_request_spec:
  assumes "http_headers H" and "reqwest_request R"
    and "build H B R is_streamed b = (Inr i, b')"
  shows "\<exists>rb rq. b_inner b = Some rb \<and> rb_build B rb = Inr rq \<and> (b_body b \<noteq> None \<longrightarrow> rq_body R rq = None) \<and>
    (\<forall>k. hm_get_all H (rq_headers R (reqwest (request i))) k =
      (if (\<exists>jb. b_body b = Some (JsonBody jb)) \<and> k = CONTENT_TYPE
       then [projr (parse_value H ''application/json'')]
       else hm_get_all H (fst (drain_into_headers H (rq_headers R rq) (b_headers b))) k)) \<and>
    ri_body i = map_option (\<lambda>bb. case bb of JsonBody body \<Rightarrow> ReqBody body | AnyBody body \<Rightarrow> ReqBody body) (b_body b) \<and>
    middlewares_next i = b_middlewares_next b \<and> rd_extensions (request i) = b_extensions b \<and>
    (rd_body_consume_config (request i) = FullyConsumed \<longleftrightarrow> \<not> is_streamed) \<and>
    (\<forall>n. b_streamed_read_buffer_limit b = Some n \<longrightarrow> is_streamed \<longrightarrow>
      rd_body_consume_config (request i) = Streamed \<lparr>read_buffer_limit = n\<rparr>)"
proof -
  let ?json = "\<exists>jb. b_body b = Some (JsonBody jb)"
  from assms(3) [unfolded build_def] show ?thesis
  proof (rule inner_build_InrE)
    fix rb rq sp hs bh hs'
    assume rb: "b_inner b = Some rb" and rq: "rb_build B rb = Inr rq"
      and nb: "rq_body R rq = None \<or> b_body b = None"
      and d: "drain_into_headers H (rq_headers R rq) (b_headers b) = (hs, bh)"
      and hs': "(case b_body b of Some (JsonBody _) \<Rightarrow> insert_json_type H hs | _ \<Rightarrow> Inr hs) = Inr hs'"
      and i: "i = request_new
        \<lparr>spawner = sp, reqwest = rq_set_headers R hs' rq, rd_extensions = b_extensions b,
         rd_body_consume_config = body_consume_config_of is_streamed b, rd_json_handler = b_json_handler b,
         rd_error_for_status = b_error_for_status b, rd_connection_verbose = b_connection_verbose b\<rparr>
        (map_option (\<lambda>bb. case bb of JsonBody body \<Rightarrow> body | AnyBody body \<Rightarrow> body) (b_body b)) (b_middlewares_next b)"
    have type: "hm_get_all H hs' k =
      (if ?json \<and> k = CONTENT_TYPE then [projr (parse_value H ''application/json'')] else hm_get_all H hs k)" for k
    proof (cases ?json)
      case True
      with hs' have "insert_json_type H hs = Inr hs'" by auto
      then obtain v old where "parse_value H ''application/json'' = Inr v"
        and t: "hm_try_insert H hs CONTENT_TYPE v = (Inr old, hs')"
        by (auto simp: insert_json_type_def split: sum.splits prod.splits)
      with http_headers.insert_law [OF assms(1) t] True show ?thesis by simp
    next
      case False
      with hs' have "hs' = hs" by (auto split: option.splits builder_body.splits)
      with False show ?thesis by simp
    qed
    have body: "ri_body i = map_option (\<lambda>bb. case bb of JsonBody body \<Rightarrow> ReqBody body | AnyBody body \<Rightarrow> ReqBody body) (b_body b)"
      by (simp add: i request_new_def option.map_comp comp_def builder_body.case_distrib [of ReqBody])
    have hdr: "rq_headers R (reqwest (request i)) = hs'"
      by (simp add: i request_new_def reqwest_request.headers_set(1) [OF assms(2)])
    have "middlewares_next i = b_middlewares_next b" "rd_extensions (request i) = b_extensions b"
      "rd_body_consume_config (request i) = body_consume_config_of is_streamed b"
      by (simp_all add: i request_new_def)
    with rb rq nb type body hdr d show ?thesis
      by (intro exI [of _ rb] exI [of _ rq]) (auto simp: body_consume_config_of_def)
  qed
qed

definition post :: "(flat_map, nat) plain_request" where
  "post = \<lparr>p_method = ''POST'', p_url = ''http://h/'', p_headers = [], p_body = None, p_timeout = None\<rparr>"

definition json_builder ::
    "((flat_map, nat) plain_request, unit, flat_map, nat, nat, nat, nat, nat, nat) request_builder" where
  "json_builder = (request_builder_new post () None None False (Some [(nm ''c'', vl [8])]) False False)
     \<lparr>b_body := Some (JsonBody (from_bytes [123, 125])),
      b_headers := \<lparr>default_headers = None, set_headers = Some [(CONTENT_TYPE, vl [1])]\<rparr>\<rparr>"

lemma json_builder_builds: "\<exists>i b'. build flat_ops plain_rb plain_ops True json_builder = (Inr i, b')"
  by (simp add: build_def inner_build_def json_builder_def request_builder_new_def plain_rb_def plain_ops_def post_def
      drain_into_headers_def insert_json_type_def flat_ops_def flat_parse_value_def flat_try_insert_def
      flat_without_def MAX_SIZE_def str_bytes_def flat_get_all_def)

theorem build_request_spec_witness:
  "\<exists>i b'. build flat_ops plain_rb plain_ops True json_builder = (Inr i, b') \<and>
     hm_get_all flat_ops (rq_headers plain_ops (reqwest (request i))) CONTENT_TYPE =
       [HeaderValue (str_bytes ''application/json'') False]"
proof -
  from json_builder_builds obtain i b' where b: "build flat_ops plain_rb plain_ops True json_builder = (Inr i, b')"
    by blast
  moreover have "projr (parse_value flat_ops ''application/json'') = HeaderValue (str_bytes ''application/json'') False"
    by (simp add: flat_ops_def flat_parse_value_def str_bytes_def)
  ultimately show ?thesis
    using build_request_spec [OF http_headers_flat reqwest_request_plain b]
    by (auto simp: json_builder_def)
qed

subsection \<open>A builder builds once\<close>

text \<open>
  After a call of \<open>build\<close>, whether it succeeded or failed, the builder is spent: another
  \<open>build\<close> and every setter raises, and none of them changes the builder.
\<close>

theorem builder_builds_once:
  "let bb = snd (build H B R is_streamed b) in
    build H B R s2 bb = (Inl built_error, bb) \<and>
    set_error_for_status e bb = (Inl built_error, bb) \<and>
    add_header H k v sens bb = (Inl built_error, bb) \<and>
    add_headers H hs bb = (Inl built_error, bb) \<and>
    set_basic_auth H b64 vf user pw bb = (Inl built_error, bb) \<and>
    set_bearer_auth H token bb = (Inl built_error, bb) \<and>
    body_bytes_set bs bb = (Inl built_error, bb) \<and>
    body_text_set txt bb = (Inl built_error, bb) \<and>
    body_json_set call ext js data bb w = (Inl built_error, bb, w) \<and>
    body_stream_set SE ob bb w = (Inl built_error, bb, w) \<and>
    add_query B (Inr q) bb = (Inl built_error, bb) \<and>
    set_form B (Inr q) bb = (Inl built_error, bb) \<and>
    set_timeout B t bb = (Inl built_error, bb) \<and>
    set_extensions_builder cp ex bb w = (Inl built_error, bb, w) \<and>
    set_streamed_read_buffer_limit n bb = (Inl built_error, bb) \<and>
    fst (set_multipart B (form_builder_new F) bb) = Inl built_error"
proof -
  let ?b = "snd (build H B R is_streamed b)"
  have none: "b_inner ?b = None" by (simp add: build_def inner_build_takes)
  have again: "build H B R s2 ?b = (Inl built_error, ?b)"
    by (subst build_def) (rule built_build [OF none])
  from none have chk: "check_inner ?b = Inl built_error" by (simp add: check_inner_def)
  show ?thesis
    by (simp add: Let_def none chk again built_checked built_apply set_error_for_status_def add_header_def
        add_headers_def set_basic_auth_def set_bearer_auth_def body_bytes_set_def body_text_set_def
        body_json_set_def body_stream_set_def add_query_def set_form_def set_timeout_def
        set_extensions_builder_def set_streamed_read_buffer_limit_def set_multipart_def form_build_def
        form_builder_new_def take_or_def)
qed

subsection \<open>Middleware\<close>

fun with_middlewares ::
    "nat \<Rightarrow> 'mw list \<Rightarrow> ('rb, 'sp, 'm, 'o, 'tl, 'co, 'x, 'mw, 'f) request_builder \<Rightarrow>
     unit pyres \<times> ('rb, 'sp, 'm, 'o, 'tl, 'co, 'x, 'mw, 'f) request_builder" where
  "with_middlewares ptr [] b = (Inr (), b)"
| "with_middlewares ptr (mw # mws) b =
     (case inner_with_middleware ptr mw b of
        (Inl e, b') \<Rightarrow> (Inl e, b')
      | (Inr _, b') \<Rightarrow> with_middlewares ptr mws b')"

lemma with_middlewares_chain:
  "b_middlewares_next b = Some n \<Longrightarrow> chain_list n = Some ms \<Longrightarrow>
   middlewares n = None \<or> override_middlewares n = None \<Longrightarrow>
   \<exists>b' n'. with_middlewares ptr mws b = (Inr (), b') \<and> b_middlewares_next b' = Some n' \<and>
     chain_list n' = Some (ms @ mws) \<and> current n' = current n"
proof (induction mws arbitrary: b n ms)
  case (Cons mw mws)
  from add_middleware_chain [OF Cons.prems(2,3), of mw] obtain n1 where
    n1: "add_middleware mw n = (Inr (), n1)" "chain_list n1 = Some (ms @ [mw])"
      "current n1 = current n" "middlewares n1 = None" by blast
  from Cons.IH [of "b\<lparr>b_middlewares_next := Some n1\<rparr>" n1 "ms @ [mw]"] n1 Cons.prems(1)
  show ?case by (simp add: inner_with_middleware_def)
qed simp

text \<open>The chain of a client whose vector is at the address \<open>at\<close>.\<close>

definition client_chain :: "nat \<Rightarrow> 'mw list \<Rightarrow> 'mw next_inner option" where
  "client_chain at cms = (case next_inner_new (Arc at cms) of Inl _ \<Rightarrow> None | Inr n \<Rightarrow> Some n)"

lemma client_chain_list:
  "client_chain at cms = Some n \<Longrightarrow> chain_list n = Some cms \<and> current n = 0 \<and> override_middlewares n = None"
  by (auto simp: client_chain_def next_inner_new_def chain_list_def split: if_splits)

text \<open>
  C15. Running the chain of a request calls the middlewares of the client in their order, then
  those of the request in the order they were added, each around all that come after it, and
  the request itself in the middle; adding middlewares to a request does not fail.
\<close>

theorem middleware_order:
  assumes "b_middlewares_next b = map_option next_clone_ref (client_chain at cms)" and "cms @ rms \<noteq> []"
  shows "\<exists>b' n. with_middlewares ptr rms b = (Inr (), b') \<and> b_middlewares_next b' = Some n \<and>
    next_run_inner E n = foldr (layer E) (cms @ rms) (spawn E)"
proof (cases "client_chain at cms")
  case (Some n)
  from client_chain_list [OF Some] have "chain_list (next_clone_ref n) = Some cms"
    "override_middlewares (next_clone_ref n) = None" "current (next_clone_ref n) = 0"
    by (auto simp: next_clone_ref_def chain_list_def)
  with with_middlewares_chain [of b "next_clone_ref n" cms ptr rms] assms(1) Some obtain b' n' where
    "with_middlewares ptr rms b = (Inr (), b')" "b_middlewares_next b' = Some n'"
    "chain_list n' = Some (cms @ rms)" "current n' = 0" by auto
  with next_run_inner_onion [of n' "cms @ rms" E] show ?thesis by auto
next
  case None
  then have "cms = []" by (auto simp: client_chain_def next_inner_new_def split: if_splits)
  with assms(2) obtain mw mws where rms: "rms = mw # mws" by (cases rms) auto
  let ?n = "\<lparr>middlewares = Some (Arc ptr [mw]), current = 0, override_middlewares = None\<rparr>"
  let ?b = "b\<lparr>b_middlewares_next := Some ?n\<rparr>"
  have "inner_with_middleware ptr mw b = (Inr (), ?b)"
    using assms(1) None by (simp add: inner_with_middleware_def next_inner_new_def)
  moreover from with_middlewares_chain [of ?b ?n "[mw]" ptr mws] obtain b' n' where
    "with_middlewares ptr mws ?b = (Inr (), b')" "b_middlewares_next b' = Some n'"
    "chain_list n' = Some (mw # mws)" "current n' = 0" by (auto simp: chain_list_def)
  ultimately show ?thesis
    using next_run_inner_onion [of n' rms E] \<open>cms = []\<close> rms by (intro exI [of _ b'] exI [of _ n']) simp
qed

text \<open>Two middlewares that note their number before and after the rest of the chain.\<close>

definition noting :: "(nat list, nat, nat, nat, nat, nat) chain_env" where
  "noting = \<lparr>
     call_mw = (\<lambda>mw r nxt w. bind_eff (nxt r) (\<lambda>ob w'. (Inr ob, w' @ [mw])) (w @ [mw])),
     await_coro = (\<lambda>c w. (Inr c, w)),
     take_resp = (\<lambda>ob w. (Inr ob, w)),
     wrap_resp = (\<lambda>r w. (Inr r, w)),
     spawn = (\<lambda>r w. (Inr (200 + r), w @ [0]))\<rparr>"

theorem middleware_order_witness:
  "\<exists>b' n. with_middlewares 1 [2] (json_builder\<lparr>b_middlewares_next := map_option next_clone_ref (client_chain 0 [1])\<rparr>) = (Inr (), b') \<and>
     b_middlewares_next b' = Some n \<and> next_run_inner noting n 4 [] = (Inr 204, [1, 2, 0, 2, 1])"
  using middleware_order [of "json_builder\<lparr>b_middlewares_next := map_option next_clone_ref (client_chain 0 [1])\<rparr>" 0 "[1]" "[2]" 1 noting]
  by (auto simp: layer_def noting_def bind_eff_def)

subsection \<open>Requests\<close>

text \<open>What is left of a request object that was sent.\<close>

lemma sent_request_raises:
  assumes "requests hp a = None"
  shows "request_ref_inner a hp = Inl sent_error" "prepare_spawn_request R cur blk a hp = (Inl sent_error, hp)"
    "spawn_request R cur blk send_rq a hp = (Inl sent_error, hp)"
    "send_inner R cur send_rq E chk a hp = (Inl sent_error, hp)"
    "blocking_send_inner R cur send_rq E' chk a hp = (Inl sent_error, hp)"
    "try_clone_inner R cd cs SE b a hp = (Inl sent_error, hp)"
proof -
  show ref: "request_ref_inner a hp = Inl sent_error" by (simp add: request_ref_inner_def assms)
  show "prepare_spawn_request R cur blk a hp = (Inl sent_error, hp)" by (rule prepare_gone [OF assms])
  then show "spawn_request R cur blk send_rq a hp = (Inl sent_error, hp)" by (simp add: spawn_request_def bind_eff_def)
  show "send_inner R cur send_rq E chk a hp = (Inl sent_error, hp)"
    "blocking_send_inner R cur send_rq E' chk a hp = (Inl sent_error, hp)"
    by (simp_all add: send_inner_def blocking_send_inner_def take_chain_def bind_eff_def ref)
  show "try_clone_inner R cd cs SE b a hp = (Inl sent_error, hp)" by (simp add: try_clone_inner_def ref)
qed

lemma sent_request_attributes:
  assumes "requests hp a = None"
  shows "get_method R a hp = Inl sent_error \<and> set_method R me a hp = (Inl sent_error, hp) \<and>
    get_url R a hp = Inl sent_error \<and> set_url R u a hp = (Inl sent_error, hp) \<and>
    get_headers R a hp = (Inl sent_error, hp) \<and> set_headers_attr h a hp = (Inl sent_error, hp) \<and>
    get_body a hp = (Inl sent_error, hp) \<and> set_body b a hp = (Inl sent_error, hp) \<and>
    get_extensions nd a hp = (Inl sent_error, hp) \<and> set_extensions x a hp = (Inl sent_error, hp) \<and>
    get_read_buffer_limit a hp = Inl sent_error"
  using sent_request_raises(1) [OF assms]
  by (simp add: get_method_def set_method_def get_url_def set_url_def get_headers_def set_headers_attr_def
      get_body_def set_body_def get_extensions_def set_extensions_def get_read_buffer_limit_def)

text \<open>
  C18. A request is executed at most once. Preparing it for the spawner empties its object, also
  when the preparation fails, and no other object; every attribute of an emptied one, \<open>copy\<close> and
  sending it again raises, nothing is executed and nothing changes. For a request without
  middlewares \<open>send\<close> and the blocking \<open>send\<close> do one of two things, whatever spawner would execute
  it: if the body cannot take the context over (it was consumed by another request, or there is no
  running loop for an asynchronous stream) they raise that error, nothing is executed and the request
  stays in its object; otherwise the object is empty before the one request it held is executed, or
  nothing is executed because the preparation failed.
\<close>

theorem request_sent_once:
  "requests (snd (prepare_spawn_request R cur blk a hp)) = (requests hp)(a := None) \<and>
   (requests hp a = None \<longrightarrow>
     prepare_spawn_request R cur blk a hp = (Inl sent_error, hp) \<and>
     spawn_request R cur blk send_rq a hp = (Inl sent_error, hp) \<and>
     send_inner R cur send_rq E chk a hp = (Inl sent_error, hp) \<and>
     blocking_send_inner R cur send_rq E' chk a hp = (Inl sent_error, hp) \<and>
     try_clone_inner R cd cs SE b a hp = (Inl sent_error, hp) \<and>
     get_method R a hp = Inl sent_error \<and> set_method R me a hp = (Inl sent_error, hp) \<and>
     get_url R a hp = Inl sent_error \<and> set_url R u a hp = (Inl sent_error, hp) \<and>
     get_headers R a hp = (Inl sent_error, hp) \<and> set_headers_attr h a hp = (Inl sent_error, hp) \<and>
     get_body a hp = (Inl sent_error, hp) \<and> set_body b' a hp = (Inl sent_error, hp) \<and>
     get_extensions nd a hp = (Inl sent_error, hp) \<and> set_extensions x a hp = (Inl sent_error, hp) \<and>
     get_read_buffer_limit a hp = Inl sent_error) \<and>
   (\<forall>i. requests hp a = Some i \<longrightarrow> middlewares_next i = None \<longrightarrow>
     sends_once (\<lambda>e. fst (inner_set_task_local cur a i hp) = Inl e) chk
       (\<lambda>send_rq. send_inner R cur send_rq E chk a) a hp \<and>
     sends_once (\<lambda>e. fst (inner_set_task_local cur a i hp) = Inl e) chk
       (\<lambda>send_rq. blocking_send_inner R cur send_rq E' chk a) a hp)"
  by (intro conjI impI allI prepare_spends send_inner_once blocking_send_inner_once sent_request_raises)
    (simp_all add: sent_request_attributes)

lemma get_headers_shares:
  assumes "get_headers R a hp = (Inr n, hp1)"
  shows "\<exists>i. requests hp1 a = Some i \<and> ri_headers i = Some (ReqPyHeaders n)"
  using assms
  by (auto simp: get_headers_def request_ref_inner_def ok_or_def new_hmap_def put_request_def
      split: option.splits req_headers.splits sum.splits prod.splits)

lemma prepare_headers_shared:
  assumes "prepare_headers (Some (ReqPyHeaders n)) hp = (Inr hopt, hp')"
  shows "hopt = header_content (hmaps hp n)" "hopt \<noteq> None" "header_content (hmaps hp' n) = None"
  using assms headers.take_some [of "hmaps hp n"] headers.take_none [of "hmaps hp n"]
  by (cases "header_content (hmaps hp n)"; auto simp: prepare_headers_def split: prod.splits)+

text \<open>
  C13. The object \<open>request.headers\<close> gives is the one that is sent: every later access returns the
  same object, what it holds when the request is sent are the headers sent, whoever changed it,
  and afterwards the object is consumed.
\<close>

theorem headers_object_is_sent:
  assumes "reqwest_request R" and "get_headers R a hp = (Inr n, hp1)"
    and "header_content h = Some m"
    and "prepare_spawn_request R cur blk a (hp1\<lparr>hmaps := (hmaps hp1)(n := h)\<rparr>) = (Inr rd, hp3)"
  shows "get_headers R a (hp1\<lparr>hmaps := (hmaps hp1)(n := h)\<rparr>) = (Inr n, hp1\<lparr>hmaps := (hmaps hp1)(n := h)\<rparr>) \<and>
    rq_headers R (reqwest rd) = m \<and> header_content (hmaps hp3 n) = None"
proof -
  let ?hp = "hp1\<lparr>hmaps := (hmaps hp1)(n := h)\<rparr>"
  from get_headers_shares [OF assms(2)] obtain i where
    i: "requests ?hp a = Some i" "ri_headers i = Some (ReqPyHeaders n)" by auto
  then have "get_headers R a ?hp = (Inr n, ?hp)" by (simp add: get_headers_def request_ref_inner_def)
  moreover from assms(4) obtain this bopt hp2 hopt where this: "requests ?hp a = Some this"
    and b: "prepare_body cur blk (ri_body this) (lazy_task_local this) (put_request a None ?hp) = (Inr bopt, hp2)"
    and h: "prepare_headers (ri_headers this) hp2 = (Inr hopt, hp3)"
    and rd: "rd = (request this)\<lparr>reqwest :=
      (let rq1 = (case bopt of None \<Rightarrow> reqwest (request this) | Some b \<Rightarrow> rq_set_body R (Some b) (reqwest (request this)))
       in case hopt of None \<Rightarrow> rq1 | Some m \<Rightarrow> rq_set_headers R m rq1)\<rparr>" by (rule prepare_InrE)
  from this i have "ri_headers this = Some (ReqPyHeaders n)" by simp
  with h have "prepare_headers (Some (ReqPyHeaders n)) hp2 = (Inr hopt, hp3)" by simp
  note sent = prepare_headers_shared [OF this]
  from prepare_body_requests [OF b] have "hmaps hp2 n = h" by simp
  with sent assms(3) rd reqwest_request.headers_set(1) [OF assms(1)] 
  have "rq_headers R (reqwest rd) = m" "header_content (hmaps hp3 n) = None" by (simp_all add: Let_def)
  ultimately show ?thesis by simp
qed

definition get0 :: "(flat_map, (nat, nat, nat) reqwest_body) plain_request" where
  "get0 = \<lparr>p_method = ''GET'', p_url = ''http://h/'', p_headers = [(nm ''c'', vl [8])], p_body = None, p_timeout = None\<rparr>"

definition sample_inner ::
    "((flat_map, (nat, nat, nat) reqwest_body) plain_request, unit, nat, nat, flat_map, nat, nat, nat, nat) request_inner" where
  "sample_inner = request_new
     \<lparr>spawner = (), reqwest = get0, rd_extensions = None, rd_body_consume_config = FullyConsumed,
      rd_json_handler = None, rd_error_for_status = False, rd_connection_verbose = False\<rparr> None None"

text \<open>Requests 0 and 1 share body 0.\<close>

definition sample_heap ::
    "(unit, (flat_map, (nat, nat, nat) reqwest_body) plain_request, unit, nat, nat, flat_map, nat, nat, nat, nat) heap" where
  "sample_heap = \<lparr>hmaps = (\<lambda>_. header_map_from [(nm ''d'', vl [9])]), hnext = 1, rbodies = (\<lambda>_. from_bytes [1, 2]), bnext = 1,
     requests = (\<lambda>a. if a < 2 then Some (sample_inner\<lparr>ri_body := Some (ReqPyBody 0)\<rparr>) else None), interp = ()\<rparr>"

definition no_context :: "unit \<Rightarrow> nat pyres \<times> unit" where
  "no_context w = (Inr 0, w)"

lemmas sample_defs = sample_heap_def sample_inner_def get0_def no_context_def request_new_def
  prepare_spawn_request_def request_take_inner_def put_request_def prepare_body_def body_set_task_local_def
  body_lock_def from_bytes_def request_body_new_def body_into_reqwest_def prepare_headers_def
  try_take_inner_def safe_lock_def header_map_from_def plain_ops_def Let_def

lemma sample_get_headers: "\<exists>hp1. get_headers plain_ops 0 sample_heap = (Inr 1, hp1) \<and>
  (\<exists>rd hp3. prepare_spawn_request plain_ops no_context False 0
     (hp1\<lparr>hmaps := (hmaps hp1)(1 := header_map_from [(nm ''e'', vl [5])])\<rparr>) = (Inr rd, hp3))"
  by (simp add: get_headers_def request_ref_inner_def new_hmap_def sample_defs)

theorem headers_object_is_sent_witness:
  "\<exists>hp1 rd hp3. get_headers plain_ops 0 sample_heap = (Inr 1, hp1) \<and>
     prepare_spawn_request plain_ops no_context False 0
       (hp1\<lparr>hmaps := (hmaps hp1)(1 := header_map_from [(nm ''e'', vl [5])])\<rparr>) = (Inr rd, hp3) \<and>
     rq_headers plain_ops (reqwest rd) = [(nm ''e'', vl [5])]"
proof -
  from sample_get_headers obtain hp1 rd hp3 where g: "get_headers plain_ops 0 sample_heap = (Inr 1, hp1)"
    and p: "prepare_spawn_request plain_ops no_context False 0
       (hp1\<lparr>hmaps := (hmaps hp1)(1 := header_map_from [(nm ''e'', vl [5])])\<rparr>) = (Inr rd, hp3)" by blast
  from headers_object_is_sent [OF reqwest_request_plain g _ p, of "[(nm ''e'', vl [5])]"]
  have "rq_headers plain_ops (reqwest rd) = [(nm ''e'', vl [5])]"
    by (simp add: header_content_def header_map_from_def)
  with g p show ?thesis by blast
qed

text \<open>
  A body object that two requests share is sent with one of them: the first request takes the
  content, sending the second one then raises.
\<close>

theorem shared_body_sent_once:
  assumes "reqwest_request R" and "requests hp a = Some ia" and "requests hp b = Some ib" and "a \<noteq> b"
    and "ri_body ia = Some (ReqPyBody n)" and "ri_body ib = Some (ReqPyBody n)"
    and "rb_inner (rbodies hp n) = Some (BodyBytes bs)"
    and "prepare_spawn_request R cur blk a hp = (Inr rd, hp1)"
  shows "rq_body R (reqwest rd) = Some (FromBytes bs) \<and>
    fst (prepare_spawn_request R cur blk' b hp1) = Inl body_consumed_error"
proof -
  from assms(8) obtain this bopt hp2 hopt where this: "requests hp a = Some this"
    and body: "prepare_body cur blk (ri_body this) (lazy_task_local this) (put_request a None hp) = (Inr bopt, hp2)"
    and h: "prepare_headers (ri_headers this) hp2 = (Inr hopt, hp1)"
    and rd: "rd = (request this)\<lparr>reqwest :=
      (let rq1 = (case bopt of None \<Rightarrow> reqwest (request this) | Some b \<Rightarrow> rq_set_body R (Some b) (reqwest (request this)))
       in case hopt of None \<Rightarrow> rq1 | Some m \<Rightarrow> rq_set_headers R m rq1)\<rparr>" by (rule prepare_InrE)
  with assms(2,5) have "ri_body this = Some (ReqPyBody n)" by simp
  with body have "prepare_body cur blk (Some (ReqPyBody n)) (lazy_task_local this) (put_request a None hp) = (Inr bopt, hp2)"
    by simp
  note sent = prepare_body_shared [OF this]
  with assms(7) have bopt: "bopt = Some (FromBytes bs)" by simp
  from prepare_headers_requests [OF h] have same: "rbodies hp1 = rbodies hp2" by simp
  with sent have gone: "body_content (rbodies hp1 n) = None" "\<not> rb_poisoned (rbodies hp1 n)" by simp_all
  have "requests hp1 b = Some ib"
    using prepare_spends [of R cur blk a hp] assms(3,4,8) by simp
  moreover obtain r hp5 where r: "prepare_body cur blk' (Some (ReqPyBody n)) (lazy_task_local ib) (put_request b None hp1) = (r, hp5)"
    by fastforce
  with prepare_body_gone [of "put_request b None hp1" n cur blk' "lazy_task_local ib"] gone
  have "r = Inl body_consumed_error" by (simp add: body_gone_def)
  ultimately have "fst (prepare_spawn_request R cur blk' b hp1) = Inl body_consumed_error"
    using r assms(6) by (simp add: prepare_spawn_request_def request_take_inner_simps)
  moreover have "rq_body R (reqwest rd) = Some (FromBytes bs)"
    using reqwest_request.body_set [OF assms(1)] by (cases hopt) (simp_all add: rd bopt Let_def)
  ultimately show ?thesis by simp
qed

lemma sample_prepared: "\<exists>rd hp1. prepare_spawn_request plain_ops no_context False 0 sample_heap = (Inr rd, hp1)"
  by (simp add: sample_defs)

theorem shared_body_sent_once_witness:
  "\<exists>rd hp1. prepare_spawn_request plain_ops no_context False 0 sample_heap = (Inr rd, hp1) \<and>
     rq_body plain_ops (reqwest rd) = Some (FromBytes [1, 2]) \<and>
     fst (prepare_spawn_request plain_ops no_context False 1 hp1) = Inl body_consumed_error"
proof -
  from sample_prepared obtain rd hp1
    where p: "prepare_spawn_request plain_ops no_context False 0 sample_heap = (Inr rd, hp1)" by blast
  let ?i = "sample_inner\<lparr>ri_body := Some (ReqPyBody 0)\<rparr>"
  have r: "requests sample_heap 0 = Some ?i" "requests sample_heap 1 = Some ?i" "ri_body ?i = Some (ReqPyBody 0)"
    "rb_inner (rbodies sample_heap 0) = Some (BodyBytes [1, 2])"
    by (simp_all add: sample_heap_def from_bytes_def request_body_new_def)
  from shared_body_sent_once [OF reqwest_request_plain r(1,2) _ r(3,3,4) p, of False] p show ?thesis by auto
qed

text \<open>
  Request 0 takes the body that request 1 shares: it is spent, and sending request 1 raises and
  leaves it in its object.
\<close>

lemma sample_sent:
  "requests (snd (prepare_spawn_request plain_ops no_context False 0 sample_heap)) 1 =
     Some (sample_inner\<lparr>ri_body := Some (ReqPyBody 0)\<rparr>)"
  "fst (inner_set_task_local no_context 1 (sample_inner\<lparr>ri_body := Some (ReqPyBody 0)\<rparr>)
     (snd (prepare_spawn_request plain_ops no_context False 0 sample_heap))) = Inl e \<longleftrightarrow> e = body_consumed_error"
  by (auto simp: sample_defs inner_set_task_local_def)

theorem request_sent_once_witness:
  "let hp = snd (prepare_spawn_request plain_ops no_context False 0 sample_heap) in
    requests hp 0 = None \<and>
    (\<forall>send_rq E. send_inner plain_ops no_context send_rq (E :: (_, nat, nat, nat, nat, nat) chain_env) Inr 0 hp =
       (Inl sent_error, hp)) \<and>
    (\<forall>E. sends_once (\<lambda>e. e = body_consumed_error) Inr
       (\<lambda>send_rq. send_inner plain_ops no_context send_rq (E :: (_, nat, nat, nat, nat, nat) chain_env) Inr 1) 1 hp)"
proof -
  let ?hp = "snd (prepare_spawn_request plain_ops no_context False 0 sample_heap)"
  have none: "requests ?hp 0 = None"
    by (simp add: request_sent_once [THEN conjunct1])
  moreover have "send_inner plain_ops no_context send_rq (E :: (_, nat, nat, nat, nat, nat) chain_env) Inr 0 ?hp =
      (Inl sent_error, ?hp)" for send_rq E
    using request_sent_once [of plain_ops no_context False 0 ?hp] none by blast
  moreover have "sends_once (\<lambda>e. e = body_consumed_error) Inr
      (\<lambda>send_rq. send_inner plain_ops no_context send_rq (E :: (_, nat, nat, nat, nat, nat) chain_env) Inr 1) 1 ?hp" for E
  proof -
    have "middlewares_next (sample_inner\<lparr>ri_body := Some (ReqPyBody 0)\<rparr>) = None"
      by (simp add: sample_inner_def request_new_def)
    with request_sent_once [of plain_ops no_context False 1 ?hp] sample_sent(1)
    have "sends_once (\<lambda>e. fst (inner_set_task_local no_context 1 (sample_inner\<lparr>ri_body := Some (ReqPyBody 0)\<rparr>) ?hp) = Inl e) Inr
      (\<lambda>send_rq. send_inner plain_ops no_context send_rq (E :: (_, nat, nat, nat, nat, nat) chain_env) Inr 1) 1 ?hp" by blast
    then show ?thesis unfolding sample_sent(2) .
  qed
  ultimately show ?thesis unfolding Let_def by blast
qed

text \<open>
  The chain of middlewares is taken out of the request before the context is asked for. If there
  is no running loop the attempt fails, the request stays in its object, and sending it later goes
  to the server without any middleware.
\<close>

theorem failed_attempt_loses_chain:
  assumes "requests hp a = Some i" and "ri_body i = None" and "lazy_task_local i = None"
    and "middlewares_next i = Some chain" and "cur (interp hp) = (Inl e, w)"
  shows "send_inner R cur send_rq E chk a hp =
      (Inl e, put_request a (Some (i\<lparr>middlewares_next := None\<rparr>)) (hp\<lparr>interp := w\<rparr>)) \<and>
    send_inner R cur' send_rq' E' chk' a (put_request a (Some (i\<lparr>middlewares_next := None\<rparr>)) (hp\<lparr>interp := w\<rparr>)) =
      bind_eff (spawn_request R cur' False send_rq' a) (\<lambda>resp hp'. (chk' resp, hp'))
        (put_request a (Some (i\<lparr>middlewares_next := None\<rparr>)) (hp\<lparr>interp := w\<rparr>))"
proof -
  have same: "i\<lparr>middlewares_next := None, lazy_task_local := None\<rparr> = i\<lparr>middlewares_next := None\<rparr>"
    using assms(3) by (cases i) simp
  from assms show ?thesis
    by (simp add: same send_inner_def take_chain_def bind_eff_def request_ref_inner_def inner_set_task_local_def
        once_get_or_current_def put_request_def Let_def)
qed

text \<open>
  C14. A copy shares nothing with its original: what is sent for it does not depend on the header
  and body objects of the original or on anything else in the heap but the interpreter's
  context. Its method and URL are the original's. Its headers are those the original had when it was copied. So is its body, whether the
  original owns it or refers to a body object of Python: bytes are the same bytes, of a stream it
  sends the object that \<open>copy.copy\<close> made of the original's one, awaiting nothing, and without a
  body it sets none.
\<close>

theorem copies_are_independent:
  assumes "reqwest_request R" and "requests hp a = Some i"
    and "try_clone_inner R copy_dict clone_spawner SE None a hp = (Inr c, hp1)"
    and "requests hq x = Some c" and "requests hr x = Some c" and "interp hq = interp hr"
    and "prepare_spawn_request R cur blk x hq = (Inr rd, hq')"
  shows "fst (prepare_spawn_request R cur blk x hr) = Inr rd \<and>
    rq_method R (reqwest rd) = rq_method R (reqwest (request i)) \<and>
    rq_url R (reqwest rd) = rq_url R (reqwest (request i)) \<and>
    rq_headers R (reqwest rd) =
      (case ri_headers i of
         None \<Rightarrow> rq_headers R (reqwest (request i))
       | Some (ReqHeaders h) \<Rightarrow> the (header_content h)
       | Some (ReqPyHeaders n) \<Rightarrow> the (header_content (hmaps hp n))) \<and>
    (ri_body i = None \<longrightarrow> rq_body R (reqwest rd) = rq_body R (reqwest (request c))) \<and>
    (\<forall>bs. body_held hp (ri_body i) = Some (BodyBytes bs) \<longrightarrow> rq_body R (reqwest rd) = Some (FromBytes bs)) \<and>
    (\<forall>s. body_held hp (ri_body i) = Some (BodyStreamed s) \<longrightarrow>
       (\<exists>ob ob' w w' s'. bs_stream s = Some ob \<and> call_copy SE ob w = (Inr ob', w') \<and>
          rq_body R (reqwest rd) = Some (WrapStream s') \<and> bs_stream s' = Some ob' \<and>
          bs_is_async s' = bs_is_async s \<and> cur_waiter s' = None))"
proof -
  from copy_InrE [OF assms(3,2)] obtain rd0 w hp2 where
    rd0: "request_data_try_clone R copy_dict clone_spawner (request i) (interp hp) = (Inr rd0, w)" "request c = rd0"
    and body: "try_clone_body SE None (ri_body i) (hp\<lparr>interp := w\<rparr>) = (Inr (ri_body c), hp2)"
    and hdrs: "try_clone_headers (ri_headers i) hp2 = Inr (ri_headers c)" by blast
  note own = try_clone_body_Inr [OF body]
  note h = try_clone_headers_Inr [OF hdrs]
  from assms(7) obtain this bopt hq2 hopt where this: "requests hq x = Some this"
    and b: "prepare_body cur blk (ri_body this) (lazy_task_local this) (put_request x None hq) = (Inr bopt, hq2)"
    and ph: "prepare_headers (ri_headers this) hq2 = (Inr hopt, hq')"
    and rd: "rd = (request this)\<lparr>reqwest :=
      (let rq1 = (case bopt of None \<Rightarrow> reqwest (request this) | Some b \<Rightarrow> rq_set_body R (Some b) (reqwest (request this)))
       in case hopt of None \<Rightarrow> rq1 | Some m \<Rightarrow> rq_set_headers R m rq1)\<rparr>" by (rule prepare_InrE)
  from this assms(4) have c: "this = c" by simp
  note rd = rd [unfolded c]
  have not_shared: "ri_headers c \<noteq> Some (ReqPyHeaders n)" for n
    unfolding h by (simp split: option.split req_headers.split)
  have sent: "hopt = (case ri_headers i of None \<Rightarrow> None | Some (ReqHeaders h) \<Rightarrow> Some (the (header_content h))
      | Some (ReqPyHeaders n) \<Rightarrow> Some (the (header_content (hmaps hp n))))"
    using ph own(2) unfolding c h
    by (auto simp: prepare_headers_def try_take_inner_def safe_lock_def header_map_from_def
        split: option.splits req_headers.splits)
  have "rq_headers R (reqwest rd) =
      (case hopt of None \<Rightarrow> rq_headers R (reqwest (request i)) | Some m \<Rightarrow> m)"
    using request_data_clone_headers(1) [OF assms(1) rd0(1)] reqwest_request.headers_set [OF assms(1)] rd0(2)
    by (cases bopt; cases hopt) (simp_all add: rd c Let_def)
  with sent have headers: "rq_headers R (reqwest rd) = (case ri_headers i of
      None \<Rightarrow> rq_headers R (reqwest (request i)) | Some (ReqHeaders h) \<Rightarrow> the (header_content h)
    | Some (ReqPyHeaders n) \<Rightarrow> the (header_content (hmaps hp n)))"
    by (simp split: option.split req_headers.split)
  have same: "body_held (hp\<lparr>interp := w\<rparr>) (ri_body i) = body_held hp (ri_body i)"
    by (simp add: body_held_def split: option.split req_body.split)
  have set: "rq_body R (reqwest rd) = Some b" if "bopt = Some b" for b
    using reqwest_request.body_set [OF assms(1)] that by (cases hopt) (simp_all add: rd Let_def)
  have none: "rq_body R (reqwest rd) = rq_body R (reqwest (request c))" if "ri_body i = None"
    using own(3) [OF that] b c reqwest_request.body_set [OF assms(1)]
    by (cases hopt) (simp_all add: rd Let_def prepare_body_def)
  have bytes: "rq_body R (reqwest rd) = Some (FromBytes bs)"
    if "body_held hp (ri_body i) = Some (BodyBytes bs)" for bs
  proof -
    from own(4) [of bs] that have "ri_body c = Some (ReqBody (from_bytes bs))" by (simp add: same)
    with b c have "bopt = Some (FromBytes bs)"
      by (intro prepare_body_own [of cur blk "from_bytes bs" "lazy_task_local c"])
        (auto simp: from_bytes_def request_body_new_def)
    then show ?thesis by (rule set)
  qed
  have stream: "\<exists>ob ob' w w' s'. bs_stream s = Some ob \<and> call_copy SE ob w = (Inr ob', w') \<and>
      rq_body R (reqwest rd) = Some (WrapStream s') \<and> bs_stream s' = Some ob' \<and>
      bs_is_async s' = bs_is_async s \<and> cur_waiter s' = None"
    if st: "body_held hp (ri_body i) = Some (BodyStreamed s)" for s
  proof -
    from own(5) [of s] st obtain s' v where s': "stream_try_clone SE s w = (Inr s', v)"
      and c': "ri_body c = Some (ReqBody (request_body_new (BodyStreamed s')))" by (auto simp: same)
    from s' obtain ob ob' w1 where o: "bs_stream s = Some ob" "call_copy SE ob w = (Inr ob', w1)"
      "bs_stream s' = Some ob'" "bs_is_async s' = bs_is_async s" "cur_waiter s' = None"
      by (rule stream_try_clone_Inr)
    from b c c' obtain tloc where "bopt = Some (WrapStream (s'\<lparr>bs_task_local := tloc\<rparr>))"
      using prepare_body_own_stream by metis
    from set [OF this] o show ?thesis
      by (intro exI [of _ ob] exI [of _ ob'] exI [of _ w] exI [of _ w1] exI [of _ "s'\<lparr>bs_task_local := tloc\<rparr>"]) simp
  qed
  obtain r hr2 where r: "prepare_body cur blk (ri_body c) (lazy_task_local c) (put_request x None hr) = (r, hr2)"
    by fastforce
  with prepare_body_own_cong [of "ri_body c" "put_request x None hq" "put_request x None hr" cur blk "lazy_task_local c"]
    own(1) assms(6) b c have "r = Inr bopt" by simp
  moreover obtain q hr3 where "prepare_headers (ri_headers c) hr2 = (q, hr3)" by fastforce
  moreover from this prepare_headers_own_cong [of "ri_headers c" hq2 hr2] not_shared ph c have "q = Inr hopt" by simp
  ultimately have "fst (prepare_spawn_request R cur blk x hr) = Inr rd"
    using r assms(5) by (simp add: prepare_spawn_request_def request_take_inner_simps rd c Let_def)
  moreover have "rq_method R (reqwest rd) = rq_method R (reqwest (request i))"
    "rq_url R (reqwest rd) = rq_url R (reqwest (request i))"
    using request_data_clone_headers(2,3) [OF assms(1) rd0(1)] reqwest_request.method_set [OF assms(1)]
      reqwest_request.url_set [OF assms(1)] rd0(2)
    by (cases bopt; cases hopt; simp add: rd c Let_def)+
  ultimately show ?thesis using headers none bytes stream by (intro conjI allI impI)
qed

lemma sample_copy:
  "\<exists>c hp1 rd hq'. try_clone_inner plain_ops (\<lambda>x w. (Inr x, w)) id SE None 0 sample_heap = (Inr c, hp1) \<and>
     prepare_spawn_request plain_ops no_context False 7 (put_request 7 (Some c) hp1) = (Inr rd, hq')"
  by (simp add: try_clone_inner_def request_ref_inner_def request_data_try_clone_def try_clone_body_def
      body_try_clone_def try_clone_headers_def sample_defs)

definition no_streams :: "(unit, nat, nat, nat) stream_env" where
  "no_streams = \<lparr>is_sync_iter = (\<lambda>_. Inr False), is_async_iter = (\<lambda>_. Inr False),
     call_iter = (\<lambda>ob w. (Inr ob, w)), call_aiter = (\<lambda>ob w. (Inr ob, w)), call_next = (\<lambda>ob w. (Inr ob, w)),
     call_anext = (\<lambda>ob w. (Inr ob, w)), call_copy = (\<lambda>ob w. (Inr ob, w)),
     waiter_new = (\<lambda>ob tloc w. (Inr ob, w)), waiter_poll = (\<lambda>co w. (Some (Inr co), co, w)),
     task_local_current = no_context, is_sentinel = (\<lambda>_. True), extract_bytes = (\<lambda>_. Inr [])\<rparr>"

theorem copies_are_independent_witness:
  "\<exists>c hp1 rd hq'. try_clone_inner plain_ops (\<lambda>x w. (Inr x, w)) id no_streams None 0 sample_heap = (Inr c, hp1) \<and>
     prepare_spawn_request plain_ops no_context False 7 (put_request 7 (Some c) hp1) = (Inr rd, hq') \<and>
     rq_body plain_ops (reqwest rd) = Some (FromBytes [1, 2]) \<and>
     fst (prepare_spawn_request plain_ops no_context False 7
       (put_request 7 (Some c) sample_heap\<lparr>rbodies := \<lambda>_. from_bytes []\<rparr>)) = Inr rd"
proof -
  from sample_copy [of no_streams] obtain c hp1 rd hq' where
    c: "try_clone_inner plain_ops (\<lambda>x w. (Inr x, w)) id no_streams None 0 sample_heap = (Inr c, hp1)"
    and p: "prepare_spawn_request plain_ops no_context False 7 (put_request 7 (Some c) hp1) = (Inr rd, hq')" by blast
  have r: "requests sample_heap 0 = Some (sample_inner\<lparr>ri_body := Some (ReqPyBody 0)\<rparr>)"
    "body_held sample_heap (Some (ReqPyBody 0)) = Some (BodyBytes [1, 2])"
    by (simp_all add: sample_heap_def from_bytes_def request_body_new_def body_held_def)
  from copies_are_independent [OF reqwest_request_plain r(1) c _ _ _ p,
      of "put_request 7 (Some c) sample_heap\<lparr>rbodies := \<lambda>_. from_bytes []\<rparr>"] r(2) c p
  show ?thesis by (simp add: put_request_def)
qed

subsection \<open>Streamed bodies\<close>

text \<open>
  C17. A body given as an iterable reaches the client whole and in order: pulled until the end, the
  stream gives exactly the chunks the iterator yields, and the pulling ends.
\<close>

theorem sync_stream_in_order:
  assumes "is_sync_iter E ob = Inr True" and "call_iter E ob w = (Inr it, w1)" and "yields E it w1 xs w2"
  shows "\<exists>bs. body_stream_new E ob w = (Inr bs, w1) \<and> stream_into_reqwest blk bs = Inr (WrapStream bs) \<and>
    pull_all E bs w1 [] = Some (Inr xs, w2)"
  using pull_all_sync [OF assms(3)] assms(1,2)
  by (simp add: body_stream_new_def get_py_iter_def stream_into_reqwest_def)

text \<open>The interpreter's state is what the iterator still has; 0 is the sentinel.\<close>

definition counting :: "(nat list, nat, nat, nat) stream_env" where
  "counting = \<lparr>is_sync_iter = (\<lambda>ob. Inr (ob = 1)), is_async_iter = (\<lambda>ob. Inr (ob = 2)),
     call_iter = (\<lambda>ob w. (Inr ob, w)), call_aiter = (\<lambda>ob w. (Inr ob, w)),
     call_next = (\<lambda>ob w. (case w of [] \<Rightarrow> (Inr 0, []) | x # xs \<Rightarrow> (Inr x, xs))),
     call_anext = (\<lambda>ob w. (Inr 2, w)), call_copy = (\<lambda>ob w. (Inr ob, w)),
     waiter_new = (\<lambda>ob tloc w. (Inr ob, w)),
     waiter_poll = (\<lambda>co w. if co = 0 then (Some (Inr (hd w)), 0, tl w) else (None, co - 1, w)),
     task_local_current = (\<lambda>w. (Inr 0, w)), is_sentinel = (\<lambda>ob. ob = 0), extract_bytes = (\<lambda>ob. Inr [of_nat ob])\<rparr>"

theorem sync_stream_in_order_witness:
  "\<exists>bs. body_stream_new counting 1 [3, 4] = (Inr bs, [3, 4]) \<and> pull_all counting bs [3, 4] [] = Some (Inr [[3], [4]], [])"
proof -
  have "yields counting 1 [3, 4] [[3], [4]] []"
  proof -
    have "call_next counting 1 [3, 4] = (Inr 3, [4])" "call_next counting 1 [4] = (Inr 4, [])"
      "call_next counting 1 [] = (Inr 0, [])" by (simp_all add: counting_def)
    note steps = this
    show ?thesis
      by (rule yields_item [OF steps(1) _ _ yields_item [OF steps(2) _ _ yields_end [OF steps(3)]]])
        (simp_all add: counting_def)
  qed
  from sync_stream_in_order [OF _ _ this, of 1 "[3, 4]" False] show ?thesis by (auto simp: counting_def)
qed

text \<open>
  Of an asynchronous iterable one element is asked for at a time: while it is awaited every
  poll is pending and only polls the waiter, then the element (the end, an error) is delivered
  and the next poll asks for another one.
\<close>

theorem one_element_awaited:
  assumes "bs_is_async bs" and "py_iter bs = Some it" and "bs_task_local bs = Some tloc" and "cur_waiter bs = None"
    and "call_anext E it w = (Inr coro, w1)" and "waiter_new E coro tloc w1 = (Inr co, w2)"
    and "resolves E co w2 n res w3"
  shows "polls E (Suc n) bs w = (replicate n Pending @ [ready_of (bytes_extractor E res)], bs, w3)"
proof -
  let ?bs = "bs\<lparr>cur_waiter := Some (AsyncWaiter co)\<rparr>"
  have "poll_next E bs w = poll_next E ?bs w2"
    using assms(1-6) by (auto simp: poll_next_def py_next_def split: prod.splits option.splits)
  then have "polls E (Suc n) bs w = polls E (Suc n) ?bs w2" by simp
  also have "\<dots> = (replicate n Pending @ [ready_of (bytes_extractor E res)], ?bs\<lparr>cur_waiter := None\<rparr>, w3)"
    by (rule polls_waiting [OF assms(7)]) simp
  also have "?bs\<lparr>cur_waiter := None\<rparr> = bs" using assms(4) by (cases bs) simp
  finally show ?thesis .
qed

theorem one_element_awaited_witness:
  "polls counting 3 \<lparr>bs_stream = Some 2, py_iter = Some 2, bs_task_local = Some 0, cur_waiter = None, bs_is_async = True\<rparr> [9] =
     ([Pending, Pending, Ready (Some (Inr [9]))],
      \<lparr>bs_stream = Some 2, py_iter = Some 2, bs_task_local = Some 0, cur_waiter = None, bs_is_async = True\<rparr>, [])"
proof -
  let ?bs = "\<lparr>bs_stream = Some 2, py_iter = Some 2, bs_task_local = Some 0, cur_waiter = None, bs_is_async = True\<rparr> :: (nat, nat, nat) body_stream"
  have "resolves counting 2 [9] 2 (Inr 9) []"
    unfolding numeral_2_eq_2
    by (rule resolves_pending [where co' = 1], simp add: counting_def,
        rule resolves_pending [where co' = 0], simp add: counting_def,
        rule resolves_done [where co' = 0], simp add: counting_def)
  from one_element_awaited [OF _ _ _ _ _ _ this, of ?bs 2 0 "[9]" 2 "[9]"] show ?thesis
    by (simp add: counting_def ready_of_def bytes_extractor_def numeral_2_eq_2 numeral_3_eq_3)
qed

subsection \<open>Builders that lose their value\<close>

text \<open>
  A part whose \<open>mime\<close> call fails is gone: the call raises \<open>ValueError\<close> and every later use of
  the part says that it was consumed.
\<close>

theorem part_mime_failure_loses_part:
  assumes "pb_inner pb = Some part" and "part_mime_str P mime part = Inl e"
  shows "fst (part_mime P mime pb) = Inl (value_error e) \<and>
    (let pb' = snd (part_mime P mime pb) in
      part_build pb' = (Inl part_consumed, pb') \<and> part_set_file_name P f pb' = (Inl part_consumed, pb') \<and>
      part_mime P mime2 pb' = (Inl part_consumed, pb') \<and>
      fst (form_add_part F name pb' (form_builder_new F)) = Inl part_consumed)"
  using assms
  by (cases pb) (simp add: part_mime_def part_apply_def apply_opt_def part_build_def take_or_def part_set_file_name_def
      form_add_part_def Let_def)

definition text_parts :: "(string, nat, nat) part_ops" where
  "text_parts = \<lparr>part_text = id, part_bytes = (\<lambda>_. []), part_stream = (\<lambda>_. []), part_stream_with_length = (\<lambda>_ _. []),
     part_mime_str = (\<lambda>m p. if CHR ''/'' \<in> set m then Inr (m @ p) else Inl ''invalid MIME type''),
     part_file_name = (\<lambda>f p. p), part_headers = (\<lambda>h p. p)\<rparr>"

theorem part_mime_failure_loses_part_witness:
  "fst (part_build (snd (part_mime text_parts ''text'' (part_from_text text_parts ''v'')))) = Inl part_consumed"
proof -
  have "pb_inner (part_from_text text_parts ''v'') = Some ''v''"
    by (simp add: part_from_text_def part_builder_new_def text_parts_def)
  moreover have "part_mime_str text_parts ''text'' ''v'' = Inl ''invalid MIME type''"
    by (simp add: text_parts_def)
  ultimately have "let pb' = snd (part_mime text_parts ''text'' (part_from_text text_parts ''v'')) in
      part_build pb' = (Inl part_consumed, pb')"
    using part_mime_failure_loses_part [of "part_from_text text_parts ''v''" "''v''" text_parts "''text''"
        "''invalid MIME type''"]
    unfolding Let_def by blast
  then show ?thesis by (simp add: Let_def)
qed

end
