(* ===== verification/Response.thy ===== *)
theory Response
  imports Body_Init Builders
begin

section \<open>Responses\<close>

text \<open>
  Models \<open>BaseResponse\<close> of \<open>src/response/response.rs\<close> and \<open>BaseResponseBodyReader\<close> of
  \<open>src/response/response_body_reader.rs\<close>. Headers, extensions and body reader are Rust values
  until Python asks for them; then they are objects that response and Python share. The
  heap holds header maps and body readers by address, and the state \<open>'w\<close> of the interpreter. A
  response is the content of its object, \<open>None\<close> when it was consumed. Calls that wait for the
  body may not return: their result is \<open>None\<close> then. The mutex of a reader object is free
  whenever a call starts; borrow flags are not modelled.
\<close>

subsection \<open>State\<close>

datatype 'r resp_reader = Reader "'r body_reader" | PyReader nat

datatype 'm resp_headers = RespHeaders "'m header_map" | RespPyHeaders nat

text \<open>Of \<open>http::Extensions\<close> only the dictionary that may be in it matters.\<close>

datatype 'x resp_extensions = RespExtensions "'x option" | RespPyExtensions 'x

record ('r, 'm, 'st, 'x, 'f) resp_inner =
  resp_status :: 'st
  resp_version :: http_version
  headers_field :: "'m resp_headers"
  extensions_field :: "'x resp_extensions"
  body_reader_field :: "'r resp_reader option"
  resp_runtime :: runtime_handle
  resp_json_handler :: "'f json_handler option"
  resp_error_for_status :: bool

type_synonym ('r, 'm, 'st, 'x, 'f) response = "('r, 'm, 'st, 'x, 'f) resp_inner option"

record ('w, 'r, 'm) resp_heap =
  resp_hmaps :: "nat \<Rightarrow> 'm header_map"
  resp_hnext :: nat
  readers :: "nat \<Rightarrow> 'r body_reader"
  rnext :: nat
  resp_interp :: 'w

definition response_consumed :: py_err where
  "response_consumed = runtime_error ''Response already consumed''"

definition reader_closed :: py_err where
  "reader_closed = runtime_error ''Response body reader is closed''"

definition resp_ref_inner :: "('r, 'm, 'st, 'x, 'f) response \<Rightarrow> ('r, 'm, 'st, 'x, 'f) resp_inner pyres" where
  "resp_ref_inner r = ok_or response_consumed r"

definition resp_take_inner ::
    "('r, 'm, 'st, 'x, 'f) response \<Rightarrow> ('r, 'm, 'st, 'x, 'f) resp_inner pyres \<times> ('r, 'm, 'st, 'x, 'f) response" where
  "resp_take_inner r = take_or response_consumed r"

definition resp_mut ::
    "(('r, 'm, 'st, 'x, 'f) resp_inner \<Rightarrow> ('r, 'm, 'st, 'x, 'f) resp_inner) \<Rightarrow> ('r, 'm, 'st, 'x, 'f) response \<Rightarrow>
     unit pyres \<times> ('r, 'm, 'st, 'x, 'f) response" where
  "resp_mut f r = (map_res (\<lambda>_. ()) (resp_ref_inner r), map_option f r)"

interpretation responses: take_once "\<lambda>r :: ('r, 'm, 'st, 'x, 'f) response. r" resp_take_inner "\<lambda>_. response_consumed"
  by unfold_locales (auto simp: resp_take_inner_def take_or_def)

subsection \<open>Attributes\<close>

definition get_status :: "'st status_ops \<Rightarrow> ('r, 'm, 'st, 'x, 'f) response \<Rightarrow> 16 word pyres" where
  "get_status S r = map_res (\<lambda>i. as_u16 S (resp_status i)) (resp_ref_inner r)"

definition set_status :: "'st \<Rightarrow> ('r, 'm, 'st, 'x, 'f) response \<Rightarrow> unit pyres \<times> ('r, 'm, 'st, 'x, 'f) response" where
  "set_status st = resp_mut (\<lambda>i. i\<lparr>resp_status := st\<rparr>)"

definition get_version :: "('r, 'm, 'st, 'x, 'f) response \<Rightarrow> http_version pyres" where
  "get_version r = map_res resp_version (resp_ref_inner r)"

definition set_version :: "http_version \<Rightarrow> ('r, 'm, 'st, 'x, 'f) response \<Rightarrow> unit pyres \<times> ('r, 'm, 'st, 'x, 'f) response" where
  "set_version v = resp_mut (\<lambda>i. i\<lparr>resp_version := v\<rparr>)"

definition resp_get_headers ::
    "('r, 'm, 'st, 'x, 'f) response \<Rightarrow> ('w, 'r, 'm) resp_heap \<Rightarrow>
     nat pyres \<times> ('r, 'm, 'st, 'x, 'f) response \<times> ('w, 'r, 'm) resp_heap" where
  "resp_get_headers r hp =
     (case resp_ref_inner r of
        Inl e \<Rightarrow> (Inl e, r, hp)
      | Inr i \<Rightarrow>
          (case headers_field i of
             RespPyHeaders n \<Rightarrow> (Inr n, r, hp)
           | RespHeaders h \<Rightarrow>
               (case try_take_inner h of
                  (Inl e, h') \<Rightarrow> (Inl e, Some (i\<lparr>headers_field := RespHeaders h'\<rparr>), hp)
                | (Inr m, _) \<Rightarrow>
                    (let n = resp_hnext hp
                     in (Inr n, Some (i\<lparr>headers_field := RespPyHeaders n\<rparr>),
                         hp\<lparr>resp_hmaps := (resp_hmaps hp)(n := header_map_from m), resp_hnext := n + 1\<rparr>)))))"

definition resp_set_headers ::
    "'m header_map \<Rightarrow> ('r, 'm, 'st, 'x, 'f) response \<Rightarrow> unit pyres \<times> ('r, 'm, 'st, 'x, 'f) response" where
  "resp_set_headers h = resp_mut (\<lambda>i. i\<lparr>headers_field := RespHeaders h\<rparr>)"

definition resp_get_extensions ::
    "('w \<Rightarrow> 'x \<times> 'w) \<Rightarrow> ('r, 'm, 'st, 'x, 'f) response \<Rightarrow> ('w, 'r, 'm) resp_heap \<Rightarrow>
     'x pyres \<times> ('r, 'm, 'st, 'x, 'f) response \<times> ('w, 'r, 'm) resp_heap" where
  "resp_get_extensions new_dict r hp =
     (case resp_ref_inner r of
        Inl e \<Rightarrow> (Inl e, r, hp)
      | Inr i \<Rightarrow>
          (case extensions_field i of
             RespPyExtensions x \<Rightarrow> (Inr x, r, hp)
           | RespExtensions (Some x) \<Rightarrow> (Inr x, Some (i\<lparr>extensions_field := RespPyExtensions x\<rparr>), hp)
           | RespExtensions None \<Rightarrow>
               (case new_dict (resp_interp hp) of
                  (x, w) \<Rightarrow> (Inr x, Some (i\<lparr>extensions_field := RespPyExtensions x\<rparr>), hp\<lparr>resp_interp := w\<rparr>))))"

definition resp_set_extensions :: "'x \<Rightarrow> ('r, 'm, 'st, 'x, 'f) response \<Rightarrow> unit pyres \<times> ('r, 'm, 'st, 'x, 'f) response" where
  "resp_set_extensions x = resp_mut (\<lambda>i. i\<lparr>extensions_field := RespPyExtensions x\<rparr>)"

subsection \<open>Status errors\<close>

definition error_for_status :: "'st status_ops \<Rightarrow> ('r, 'm, 'st, 'x, 'f) response \<Rightarrow> unit pyres" where
  "error_for_status S r =
     and_then (resp_ref_inner r) (\<lambda>i.
       let err = (\<lambda>msg. Inl (PyErr StatusError msg (StatusDetails (unat (as_u16 S (resp_status i)))))) in
       if is_client_error S (resp_status i) then err ''HTTP status client error''
       else if is_server_error S (resp_status i) then err ''HTTP status server error''
       else Inr ())"

definition check_error_for_status ::
    "'st status_ops \<Rightarrow> ('r, 'm, 'st, 'x, 'f) response \<Rightarrow> ('r, 'm, 'st, 'x, 'f) response pyres" where
  "check_error_for_status S r =
     and_then (resp_ref_inner r) (\<lambda>i.
       if resp_error_for_status i then map_res (\<lambda>_. r) (error_for_status S r) else Inr r)"

subsection \<open>Reading headers\<close>

definition shown_headers :: "('r, 'm, 'st, 'x, 'f) resp_inner \<Rightarrow> ('w, 'r, 'm) resp_heap \<Rightarrow> 'm header_map" where
  "shown_headers i hp = (case headers_field i of RespHeaders h \<Rightarrow> h | RespPyHeaders n \<Rightarrow> resp_hmaps hp n)"

definition get_header_inner ::
    "'m http_ops \<Rightarrow> string \<Rightarrow> ('r, 'm, 'st, 'x, 'f) response \<Rightarrow> ('w, 'r, 'm) resp_heap \<Rightarrow> header_value option pyres" where
  "get_header_inner H key r hp = and_then (resp_ref_inner r) (\<lambda>i. get_one H key (shown_headers i hp))"

definition get_header_all_inner ::
    "'m http_ops \<Rightarrow> string \<Rightarrow> ('r, 'm, 'st, 'x, 'f) response \<Rightarrow> ('w, 'r, 'm) resp_heap \<Rightarrow> header_value list pyres" where
  "get_header_all_inner H key r hp = and_then (resp_ref_inner r) (\<lambda>i. get_all H key (shown_headers i hp))"

text \<open>
  What the body is decoded with: the \<open>mime\<close> crate, the \<open>encoding_rs\<close> crate and the JSON parser.
  A JSON error is its line, its column and its message.
\<close>

record json_err =
  je_line :: nat
  je_column :: nat
  je_msg :: string

record ('mi, 'en, 'v, 'o) decoders =
  parse_mime :: "string \<Rightarrow> std_error + 'mi"
  mime_param :: "'mi \<Rightarrow> string \<Rightarrow> string option"
  for_label :: "string \<Rightarrow> 'en option"
  utf_8 :: 'en
  decode :: "'en \<Rightarrow> bytes \<Rightarrow> string"
  from_slice :: "bytes \<Rightarrow> json_err + 'v"
  json_into_py :: "'v \<Rightarrow> 'o pyres"
  to_str_error :: "string \<Rightarrow> std_error"

definition content_type_mime_inner ::
    "'m http_ops \<Rightarrow> ('mi, 'en, 'v, 'o) decoders \<Rightarrow> ('r, 'm, 'st, 'x, 'f) response \<Rightarrow> ('w, 'r, 'm) resp_heap \<Rightarrow>
     'mi option pyres" where
  "content_type_mime_inner H D r hp =
     and_then (get_header_inner H ''content-type'' r hp) (\<lambda>v.
       case v of
         None \<Rightarrow> Inr None
       | Some content_type \<Rightarrow>
           and_then
             (map_err (\<lambda>e. from_err RequestError ''Invalid Content-Type header'' (to_str_error D e))
               (value_to_str H content_type)) (\<lambda>s.
           map_res Some
             (map_err (from_err RequestError ''Failed to parse Content-Type header as MIME'') (parse_mime D s))))"

subsection \<open>The body reader\<close>

definition get_body_reader_inner ::
    "('r, 'm, 'st, 'x, 'f) response \<Rightarrow> ('w, 'r, 'm) resp_heap \<Rightarrow>
     nat pyres \<times> ('r, 'm, 'st, 'x, 'f) response \<times> ('w, 'r, 'm) resp_heap" where
  "get_body_reader_inner r hp =
     (case resp_ref_inner r of
        Inl e \<Rightarrow> (Inl e, r, hp)
      | Inr i \<Rightarrow>
          (case body_reader_field i of
             None \<Rightarrow> (Inl reader_closed, r, hp)
           | Some (PyReader n) \<Rightarrow> (Inr n, r, hp)
           | Some (Reader br) \<Rightarrow>
               (let n = rnext hp
                in (Inr n, Some (i\<lparr>body_reader_field := Some (PyReader n)\<rparr>),
                    hp\<lparr>readers := (readers hp)(n := br), rnext := n + 1\<rparr>))))"

definition take_body_reader ::
    "('r, 'm, 'st, 'x, 'f) response \<Rightarrow> 'r resp_reader pyres \<times> ('r, 'm, 'st, 'x, 'f) response" where
  "take_body_reader r =
     (case resp_ref_inner r of
        Inl e \<Rightarrow> (Inl e, r)
      | Inr i \<Rightarrow> (ok_or reader_closed (body_reader_field i), Some (i\<lparr>body_reader_field := None\<rparr>)))"

text \<open>The operations of a reader object.\<close>

definition reader_bytes ::
    "'r recv_fun \<Rightarrow> cancel_handle \<Rightarrow> nat \<Rightarrow> ('w, 'r, 'm) resp_heap \<Rightarrow> (bytes pyres \<times> ('w, 'r, 'm) resp_heap) option" where
  "reader_bytes rcv c n hp =
     map_option (\<lambda>(res, br). (res, hp\<lparr>readers := (readers hp)(n := br)\<rparr>)) (read_all rcv c (readers hp n))"

definition reader_read ::
    "'r recv_fun \<Rightarrow> cancel_handle \<Rightarrow> nat \<Rightarrow> nat \<Rightarrow> ('w, 'r, 'm) resp_heap \<Rightarrow>
     (bytes option pyres \<times> ('w, 'r, 'm) resp_heap) option" where
  "reader_read rcv c amount n hp =
     map_option (\<lambda>(res, br). (res, hp\<lparr>readers := (readers hp)(n := br)\<rparr>)) (read rcv c amount (readers hp n))"

definition reader_read_chunk ::
    "'r recv_fun \<Rightarrow> cancel_handle \<Rightarrow> nat \<Rightarrow> ('w, 'r, 'm) resp_heap \<Rightarrow> bytes option pyres \<times> ('w, 'r, 'm) resp_heap" where
  "reader_read_chunk rcv c n hp =
     (case next_chunk rcv c (readers hp n) of (res, br) \<Rightarrow> (res, hp\<lparr>readers := (readers hp)(n := br)\<rparr>))"

definition reader_close :: "('r \<Rightarrow> 'r) \<Rightarrow> nat \<Rightarrow> ('w, 'r, 'm) resp_heap \<Rightarrow> ('w, 'r, 'm) resp_heap" where
  "reader_close rx_close n hp = hp\<lparr>readers := (readers hp)(n := close_reader rx_close (readers hp n))\<rparr>"

definition resp_reader_close ::
    "('r \<Rightarrow> 'r) \<Rightarrow> 'r resp_reader \<Rightarrow> ('w, 'r, 'm) resp_heap \<Rightarrow> 'r resp_reader \<times> ('w, 'r, 'm) resp_heap" where
  "resp_reader_close rx_close rr hp =
     (case rr of
        Reader br \<Rightarrow> (Reader (close_reader rx_close br), hp)
      | PyReader n \<Rightarrow> (rr, reader_close rx_close n hp))"

subsection \<open>Decoding the body\<close>

type_synonym ('w, 'r, 'm, 'st, 'x, 'f, 'a) resp_call =
  "('r, 'm, 'st, 'x, 'f) response \<Rightarrow> ('w, 'r, 'm) resp_heap \<Rightarrow>
   ('a pyres \<times> ('r, 'm, 'st, 'x, 'f) response \<times> ('w, 'r, 'm) resp_heap) option"

definition bytes_inner :: "'r recv_fun \<Rightarrow> cancel_handle \<Rightarrow> ('w, 'r, 'm, 'st, 'x, 'f, bytes) resp_call" where
  "bytes_inner rcv c r hp =
     (case resp_ref_inner r of
        Inl e \<Rightarrow> Some (Inl e, r, hp)
      | Inr i \<Rightarrow>
          (case body_reader_field i of
             None \<Rightarrow> Some (Inl reader_closed, r, hp)
           | Some (Reader br) \<Rightarrow>
               map_option (\<lambda>(res, br'). (res, Some (i\<lparr>body_reader_field := Some (Reader br')\<rparr>), hp)) (read_all rcv c br)
           | Some (PyReader n) \<Rightarrow> map_option (\<lambda>(res, hp'). (res, r, hp')) (reader_bytes rcv c n hp)))"

definition charset_of :: "('mi, 'en, 'v, 'o) decoders \<Rightarrow> 'mi option \<Rightarrow> 'en" where
  "charset_of D mime =
     (case Option.bind (Option.bind mime (\<lambda>m. mime_param D m ''charset'')) (for_label D) of
        Some enc \<Rightarrow> enc
      | None \<Rightarrow> utf_8 D)"

definition text_inner ::
    "'m http_ops \<Rightarrow> ('mi, 'en, 'v, 'o) decoders \<Rightarrow> 'r recv_fun \<Rightarrow> cancel_handle \<Rightarrow>
     ('w, 'r, 'm, 'st, 'x, 'f, string) resp_call" where
  "text_inner H D rcv c r hp =
     (case bytes_inner rcv c r hp of
        None \<Rightarrow> None
      | Some (Inl e, r', hp') \<Rightarrow> Some (Inl e, r', hp')
      | Some (Inr bs, r', hp') \<Rightarrow>
          Some (map_res (\<lambda>mime. decode D (charset_of D mime) bs) (content_type_mime_inner H D r' hp'), r', hp'))"

text \<open>\<open>str::split('\n')\<close>.\<close>

fun split_lines :: "string \<Rightarrow> string list" where
  "split_lines [] = [[]]"
| "split_lines (c # cs) =
     (if c = CHR 0x0A then [] # split_lines cs
      else (case split_lines cs of [] \<Rightarrow> [[c]] | l # ls \<Rightarrow> (c # l) # ls))"

definition json_error_pos :: "string \<Rightarrow> json_err \<Rightarrow> nat" where
  "json_error_pos content e =
     sum_list (map (\<lambda>(idx, s).
         if idx = je_line e - 1 then (if je_column e = length s then je_column e else je_column e - 1)
         else length s + 1)
       (List.enumerate 0 (take (je_line e) (split_lines content))))"

text \<open>The body is cached when \<open>json_error\<close> runs: the cancel handle is not looked at again.\<close>

definition json_error ::
    "'m http_ops \<Rightarrow> ('mi, 'en, 'v, 'o) decoders \<Rightarrow> 'r recv_fun \<Rightarrow> cancel_handle \<Rightarrow> json_err \<Rightarrow>
     ('w, 'r, 'm, 'st, 'x, 'f, py_err) resp_call" where
  "json_error H D rcv c e r hp =
     map_option (\<lambda>(res, r', hp').
         (map_res (\<lambda>text. PyErr JSONDecodeError (je_msg e) (JsonDetails (json_error_pos text e) text)) res, r', hp'))
       (text_inner H D rcv c r hp)"

definition json_inner ::
    "'m http_ops \<Rightarrow> ('mi, 'en, 'v, 'o) decoders \<Rightarrow> 'r recv_fun \<Rightarrow> cancel_handle \<Rightarrow>
     ('w, 'r, 'm, 'st, 'x, 'f, 'o) resp_call" where
  "json_inner H D rcv c r hp =
     (case bytes_inner rcv c r hp of
        None \<Rightarrow> None
      | Some (Inl e, r', hp') \<Rightarrow> Some (Inl e, r', hp')
      | Some (Inr bs, r', hp') \<Rightarrow>
          (case from_slice D bs of
             Inr v \<Rightarrow> Some (json_into_py D v, r', hp')
           | Inl e \<Rightarrow>
               map_option (\<lambda>(res, r'', hp''). (case res of Inl err \<Rightarrow> Inl err | Inr err \<Rightarrow> Inl err, r'', hp''))
                 (json_error H D rcv c e r' hp')))"

text \<open>
  \<open>json\<close>: a custom \<open>loads\<close> is called with the objects of the response instead. The asynchronous
  one returns a coroutine, which runs in the current context (\<open>cur\<close>, \<open>await_loads\<close>).
\<close>

definition async_json ::
    "'m http_ops \<Rightarrow> ('mi, 'en, 'v, 'o) decoders \<Rightarrow> 'r recv_fun \<Rightarrow> cancel_handle \<Rightarrow> ('w \<Rightarrow> 'x \<times> 'w) \<Rightarrow>
     ('w \<Rightarrow> 'tl pyres \<times> 'w) \<Rightarrow> ('f \<Rightarrow> nat \<times> nat \<times> 'x \<Rightarrow> 'w \<Rightarrow> 'co pyres \<times> 'w) \<Rightarrow>
     ('co \<Rightarrow> 'tl \<Rightarrow> cancel_handle \<Rightarrow> 'w \<Rightarrow> ('o pyres \<times> 'w) option) \<Rightarrow> ('w, 'r, 'm, 'st, 'x, 'f, 'o) resp_call" where
  "async_json H D rcv c new_dict cur call await_loads r hp =
     (case resp_ref_inner r of
        Inl e \<Rightarrow> Some (Inl e, r, hp)
      | Inr i \<Rightarrow>
          (case resp_json_handler i of
             Some h \<Rightarrow>
               if has_loads h then
                 (case cur (resp_interp hp) of
                    (Inl e, w) \<Rightarrow> Some (Inl e, r, hp\<lparr>resp_interp := w\<rparr>)
                  | (Inr tloc, w) \<Rightarrow>
                     (case get_body_reader_inner r (hp\<lparr>resp_interp := w\<rparr>) of
                        (Inl e, r1, hp1) \<Rightarrow> Some (Inl e, r1, hp1)
                      | (Inr br, r1, hp1) \<Rightarrow>
                         (case resp_get_headers r1 hp1 of
                            (Inl e, r2, hp2) \<Rightarrow> Some (Inl e, r2, hp2)
                          | (Inr hs, r2, hp2) \<Rightarrow>
                             (case resp_get_extensions new_dict r2 hp2 of
                                (Inl e, r3, hp3) \<Rightarrow> Some (Inl e, r3, hp3)
                              | (Inr x, r3, hp3) \<Rightarrow>
                                 (case call_loads call h (br, hs, x) (resp_interp hp3) of
                                    (Inl e, w') \<Rightarrow> Some (Inl e, r3, hp3\<lparr>resp_interp := w'\<rparr>)
                                  | (Inr co, w') \<Rightarrow>
                                      map_option (\<lambda>(res, w''). (res, r3, hp3\<lparr>resp_interp := w''\<rparr>))
                                        (await_loads co tloc c w'))))))
               else json_inner H D rcv c r hp
           | None \<Rightarrow> json_inner H D rcv c r hp))"


definition sync_json ::
    "'m http_ops \<Rightarrow> ('mi, 'en, 'v, 'o) decoders \<Rightarrow> 'r recv_fun \<Rightarrow> ('w \<Rightarrow> 'x \<times> 'w) \<Rightarrow>
     ('f \<Rightarrow> nat \<times> nat \<times> 'x \<Rightarrow> 'w \<Rightarrow> 'o pyres \<times> 'w) \<Rightarrow> ('w, 'r, 'm, 'st, 'x, 'f, 'o) resp_call" where
  "sync_json H D rcv new_dict call r hp =
     (case resp_ref_inner r of
        Inl e \<Rightarrow> Some (Inl e, r, hp)
      | Inr i \<Rightarrow>
          (case resp_json_handler i of
             Some h \<Rightarrow>
               if has_loads h then
                 Some (case resp_get_headers r hp of
                    (Inl e, r1, hp1) \<Rightarrow> (Inl e, r1, hp1)
                  | (Inr hs, r1, hp1) \<Rightarrow>
                      (case resp_get_extensions new_dict r1 hp1 of
                         (Inl e, r2, hp2) \<Rightarrow> (Inl e, r2, hp2)
                       | (Inr x, r2, hp2) \<Rightarrow>
                           (case get_body_reader_inner r2 hp2 of
                              (Inl e, r3, hp3) \<Rightarrow> (Inl e, r3, hp3)
                            | (Inr br, r3, hp3) \<Rightarrow>
                                (case call_loads call h (br, hs, x) (resp_interp hp3) of
                                   (res, w) \<Rightarrow> (res, r3, hp3\<lparr>resp_interp := w\<rparr>)))))
               else json_inner H D rcv None r hp
           | None \<Rightarrow> json_inner H D rcv None r hp))"

subsection \<open>Initialisation\<close>

definition resp_initialize ::
    "'m http_ops \<Rightarrow> patterns \<Rightarrow> chunk_fun \<Rightarrow> ('m, 'st, 'x option) http_parts \<times> frames \<Rightarrow> bool \<Rightarrow>
     body_consume_config \<Rightarrow> runtime_handle \<Rightarrow> 'f json_handler option \<Rightarrow> bool \<Rightarrow>
     ((chan, 'm, 'st, 'x, 'f) response pyres \<times> bool) option" where
  "resp_initialize H is_match next_data rsp request_permit read_config runtime json errs =
     map_option (\<lambda>(res, kept).
         (map_res (\<lambda>(br, head).
             Some \<lparr>resp_status = parts_status head, resp_version = parts_version head,
                   headers_field = RespHeaders (header_map_from (parts_headers head)),
                   extensions_field = RespExtensions (parts_extensions head),
                   body_reader_field = Some (Reader br), resp_runtime = runtime,
                   resp_json_handler = json, resp_error_for_status = errs\<rparr>) res, kept))
       (reader_initialize H is_match next_data rsp request_permit read_config runtime)"

end
