(* ===== verification/Stream_Request.thy ===== *)
theory Stream_Request
  imports Response
begin

section \<open>Streamed requests\<close>

text \<open>
  Models the context manager of \<open>src/request/stream_request.rs\<close>: entering sends the request and
  keeps the response object, leaving takes the body reader out of it and closes it. Response
  objects are addresses (\<open>objs\<close>). The synchronous and the asynchronous class do the same.
\<close>

type_synonym stream_request = "nat option"

record ('r, 'm, 'st, 'x, 'f) resp_objs =
  objs :: "nat \<Rightarrow> ('r, 'm, 'st, 'x, 'f) response"
  onext :: nat

definition stream_enter ::
    "('r, 'm, 'st, 'x, 'f) response pyres \<Rightarrow> stream_request \<Rightarrow> ('r, 'm, 'st, 'x, 'f) resp_objs \<Rightarrow>
     nat pyres \<times> stream_request \<times> ('r, 'm, 'st, 'x, 'f) resp_objs" where
  "stream_enter sent slf os =
     (case sent of
        Inl e \<Rightarrow> (Inl e, slf, os)
      | Inr resp \<Rightarrow>
          (let a = onext os
           in (Inr a, Some a, \<lparr>objs = (objs os)(a := resp), onext = a + 1\<rparr>)))"

definition not_entered :: py_err where
  "not_entered = runtime_error ''Must be used as a context manager''"

definition stream_exit ::
    "('r \<Rightarrow> 'r) \<Rightarrow> stream_request \<Rightarrow> ('r, 'm, 'st, 'x, 'f) resp_objs \<Rightarrow> ('w, 'r, 'm) resp_heap \<Rightarrow>
     unit pyres \<times> stream_request \<times> ('r, 'm, 'st, 'x, 'f) resp_objs \<times> ('w, 'r, 'm) resp_heap" where
  "stream_exit rx_close slf os hp =
     (case slf of
        None \<Rightarrow> (Inl not_entered, None, os, hp)
      | Some a \<Rightarrow>
          (case take_body_reader (objs os a) of
             (Inl e, r') \<Rightarrow> (Inl e, None, os\<lparr>objs := (objs os)(a := r')\<rparr>, hp)
           | (Inr rr, r') \<Rightarrow>
               (case resp_reader_close rx_close rr hp of
                  (_, hp') \<Rightarrow> (Inr (), None, os\<lparr>objs := (objs os)(a := r')\<rparr>, hp'))))"

text \<open>After leaving, the response has no body reader, and a reader object that was handed out is closed.\<close>

lemma stream_exit_closes:
  assumes "objs os a = Some i" and "body_reader_field i = Some (PyReader n)"
  shows "stream_exit rx_close (Some a) os hp =
    (Inr (), None, os\<lparr>objs := (objs os)(a := Some (i\<lparr>body_reader_field := None\<rparr>))\<rparr>, reader_close rx_close n hp)"
  using assms by (simp add: stream_exit_def take_body_reader_def resp_ref_inner_def resp_reader_close_def)

end
