(* ===== verification/Response_Builder.thy ===== *)
theory Response_Builder
  imports Response Request_Body
begin

section \<open>The response builder\<close>

text \<open>
  Models \<open>ResponseBuilder\<close> of \<open>src/response/response_builder.rs\<close>, with which a middleware or a test
  makes a response without a server. \<open>frames_of\<close> is what the bdy of the made \<open>reqwest::Response\<close>
  yields, \<open>status_ok\<close> the head a new \<open>http::Response\<close> has.
\<close>

record ('m, 'st, 'x, 'o, 'tl, 'co) response_builder =
  rsb_head :: "('m, 'st, 'x option) http_parts option"
  rsb_body :: "('o, 'tl, 'co) request_body option"
  rsb_extensions :: "'x option"

type_synonym ('m, 'st, 'x, 'o, 'tl, 'co) rsb_setter =
  "('m, 'st, 'x, 'o, 'tl, 'co) response_builder \<Rightarrow> unit pyres \<times> ('m, 'st, 'x, 'o, 'tl, 'co) response_builder"

definition response_built :: py_err where
  "response_built = runtime_error ''Response was already built''"

definition response_builder_new ::
    "('m, 'st, 'x option) http_parts \<Rightarrow> ('m, 'st, 'x, 'o, 'tl, 'co) response_builder" where
  "response_builder_new head0 = \<lparr>rsb_head = Some head0, rsb_body = None, rsb_extensions = None\<rparr>"

text \<open>\<open>mut_head\<close> and a change of the head, which may fail half-way.\<close>

definition mut_head ::
    "(('m, 'st, 'x option) http_parts \<Rightarrow> unit pyres \<times> ('m, 'st, 'x option) http_parts) \<Rightarrow>
     ('m, 'st, 'x, 'o, 'tl, 'co) rsb_setter" where
  "mut_head f b =
     (case rsb_head b of
        None \<Rightarrow> (Inl response_built, b)
      | Some head \<Rightarrow> (case f head of (r, head') \<Rightarrow> (r, b\<lparr>rsb_head := Some head'\<rparr>)))"

definition rsb_status :: "'st \<Rightarrow> ('m, 'st, 'x, 'o, 'tl, 'co) rsb_setter" where
  "rsb_status st = mut_head (\<lambda>h. (Inr (), h\<lparr>parts_status := st\<rparr>))"

definition rsb_version :: "http_version \<Rightarrow> ('m, 'st, 'x, 'o, 'tl, 'co) rsb_setter" where
  "rsb_version v = mut_head (\<lambda>h. (Inr (), h\<lparr>parts_version := v\<rparr>))"

definition rsb_header :: "'m http_ops \<Rightarrow> header_name \<Rightarrow> header_value \<Rightarrow> ('m, 'st, 'x, 'o, 'tl, 'co) rsb_setter" where
  "rsb_header H key value = mut_head (\<lambda>h.
     case hm_try_append H (parts_headers h) key value of
       (r, m) \<Rightarrow> (map_res (\<lambda>_. ()) (map_err value_error r), h\<lparr>parts_headers := m\<rparr>))"

definition rsb_headers :: "'m http_ops \<Rightarrow> 'm header_map \<Rightarrow> ('m, 'st, 'x, 'o, 'tl, 'co) rsb_setter" where
  "rsb_headers H hs = mut_head (\<lambda>h.
     case fst (try_take_inner hs) of
       Inl e \<Rightarrow> (Inl e, h)
     | Inr m \<Rightarrow> (Inr (), h\<lparr>parts_headers := hm_extend H (parts_headers h) m\<rparr>))"

definition rsb_set_extensions :: "'x \<Rightarrow> ('m, 'st, 'x, 'o, 'tl, 'co) rsb_setter" where
  "rsb_set_extensions x b = (Inr (), b\<lparr>rsb_extensions := Some x\<rparr>)"

definition rsb_body_bytes :: "bytes \<Rightarrow> ('m, 'st, 'x, 'o, 'tl, 'co) rsb_setter" where
  "rsb_body_bytes bdy b = (Inr (), b\<lparr>rsb_body := Some (from_bytes bdy)\<rparr>)"

definition rsb_body_text :: "string \<Rightarrow> ('m, 'st, 'x, 'o, 'tl, 'co) rsb_setter" where
  "rsb_body_text bdy b = (Inr (), b\<lparr>rsb_body := Some (from_text bdy)\<rparr>)"

text \<open>\<open>to_vec\<close> is the JSON text of the value.\<close>

definition rsb_body_json :: "'m http_ops \<Rightarrow> (string + bytes) \<Rightarrow> ('m, 'st, 'x, 'o, 'tl, 'co) rsb_setter" where
  "rsb_body_json H to_vec b =
     (case map_err value_error to_vec of
        Inl e \<Rightarrow> (Inl e, b)
      | Inr bs \<Rightarrow>
          (let b1 = b\<lparr>rsb_body := Some (from_bytes bs)\<rparr>
           in case rsb_head b1 of
                None \<Rightarrow> (Inl response_built, b1)
              | Some _ \<Rightarrow>
                  (case parse_value H ''application/json'' of
                     Inl e \<Rightarrow> (Inl (value_error e), b1)
                   | Inr v \<Rightarrow> rsb_header H (HeaderName ''content-type'') v b1)))"

definition rsb_body_stream ::
    "('w, 'o, 'tl, 'co) stream_env \<Rightarrow> 'o \<Rightarrow> ('m, 'st, 'x, 'o, 'tl, 'co) response_builder \<Rightarrow> 'w \<Rightarrow>
     unit pyres \<times> ('m, 'st, 'x, 'o, 'tl, 'co) response_builder \<times> 'w" where
  "rsb_body_stream E stream b w =
     (case from_stream E stream w of
        (Inl e, w') \<Rightarrow> (Inl e, b, w')
      | (Inr bdy, w') \<Rightarrow> (Inr (), b\<lparr>rsb_body := Some bdy\<rparr>, w'))"

text \<open>\<open>once\<close> is \<open>OnceTaskLocal::get_or_current\<close> of a new cell.\<close>

definition rsb_take_body ::
    "('w \<Rightarrow> 'tl pyres \<times> 'w) \<Rightarrow> bool \<Rightarrow> ('o, 'tl, 'co) request_body option \<Rightarrow> 'w \<Rightarrow>
     ('o, 'tl, 'co) reqwest_body pyres \<times> 'w" where
  "rsb_take_body once is_blocking bdy w =
     (case bdy of
        None \<Rightarrow> (Inr (FromBytes []), w)
      | Some b \<Rightarrow>
          (case body_set_task_local once b w of
             (Inl e, _, w') \<Rightarrow> (Inl e, w')
           | (Inr _, b', w') \<Rightarrow> (fst (body_into_reqwest is_blocking b'), w')))"

definition rsb_build_inner ::
    "('w \<Rightarrow> 'tl pyres \<times> 'w) \<Rightarrow> bool \<Rightarrow> ('m, 'st, 'x, 'o, 'tl, 'co) response_builder \<Rightarrow> 'w \<Rightarrow>
     (('m, 'st, 'x option) http_parts \<times> ('o, 'tl, 'co) reqwest_body) pyres \<times>
     ('m, 'st, 'x, 'o, 'tl, 'co) response_builder \<times> 'w" where
  "rsb_build_inner once is_blocking b w =
     (case rsb_take_body once is_blocking (rsb_body b) w of
        (Inl e, w') \<Rightarrow> (Inl e, b\<lparr>rsb_body := None\<rparr>, w')
      | (Inr bdy, w') \<Rightarrow>
          (case rsb_head b of
             None \<Rightarrow> (Inl response_built, b\<lparr>rsb_body := None\<rparr>, w')
           | Some head \<Rightarrow>
               (Inr (case rsb_extensions b of None \<Rightarrow> head | Some x \<Rightarrow> head\<lparr>parts_extensions := Some x\<rparr>, bdy),
                b\<lparr>rsb_head := None, rsb_body := None, rsb_extensions := None\<rparr>, w')))"

definition rsb_build ::
    "'m http_ops \<Rightarrow> patterns \<Rightarrow> chunk_fun \<Rightarrow> (('o, 'tl, 'co) reqwest_body \<Rightarrow> frames) \<Rightarrow> ('w \<Rightarrow> 'tl pyres \<times> 'w) \<Rightarrow>
     bool \<Rightarrow> runtime_handle pyres \<Rightarrow> ('m, 'st, 'x, 'o, 'tl, 'co) response_builder \<Rightarrow> 'w \<Rightarrow>
     ((chan, 'm, 'st, 'x, 'f) response pyres \<times> ('m, 'st, 'x, 'o, 'tl, 'co) response_builder \<times> 'w) option" where
  "rsb_build H is_match next_data frames_of once is_blocking global_handle b w =
     (case rsb_build_inner once is_blocking b w of
        (Inl e, b', w') \<Rightarrow> Some (Inl e, b', w')
      | (Inr (head, bdy), b', w') \<Rightarrow>
          (case global_handle of
             Inl e \<Rightarrow> Some (Inl e, b', w')
           | Inr rt \<Rightarrow>
               map_option (\<lambda>(res, _). (res, b', w'))
                 (resp_initialize H is_match next_data (head, frames_of bdy) False
                   (Streamed default_streamed_read_config) rt None False)))"

definition rsb_copy ::
    "('w, 'o, 'tl, 'co) stream_env \<Rightarrow> ('x \<Rightarrow> 'w \<Rightarrow> 'x pyres \<times> 'w) \<Rightarrow>
     ('m, 'st, 'x, 'o, 'tl, 'co) response_builder \<Rightarrow> 'w \<Rightarrow>
     ('m, 'st, 'x, 'o, 'tl, 'co) response_builder pyres \<times> 'w" where
  "rsb_copy E copy_dict b w =
     (case rsb_head b of
        None \<Rightarrow> (Inl response_built, w)
      | Some head \<Rightarrow>
          (case (case rsb_body b of
                   None \<Rightarrow> (Inr None, w)
                 | Some bd \<Rightarrow> (case body_try_clone E bd w of (r, w') \<Rightarrow> (map_res Some r, w'))) of
             (Inl e, w1) \<Rightarrow> (Inl e, w1)
           | (Inr bd', w1) \<Rightarrow>
               (case (case rsb_extensions b of
                        None \<Rightarrow> (Inr None, w1)
                      | Some x \<Rightarrow> (case copy_dict x w1 of (r, w') \<Rightarrow> (map_res Some r, w'))) of
                  (Inl e, w2) \<Rightarrow> (Inl e, w2)
                | (Inr x', w2) \<Rightarrow> (Inr \<lparr>rsb_head = Some head, rsb_body = bd', rsb_extensions = x'\<rparr>, w2))))"

subsection \<open>Lemmas\<close>

text \<open>What is built from bytes: they are the body of the response, with the head as it was set.\<close>

lemma rsb_build_inner_bytes:
  assumes "rsb_head b = Some head" and "rsb_body b = Some (from_bytes bs)"
  shows "rsb_build_inner once blk b w =
    (Inr (case rsb_extensions b of None \<Rightarrow> head | Some x \<Rightarrow> head\<lparr>parts_extensions := Some x\<rparr>, FromBytes bs),
     b\<lparr>rsb_head := None, rsb_body := None, rsb_extensions := None\<rparr>, w)"
  using assms
  by (simp add: rsb_build_inner_def rsb_take_body_def body_set_task_local_def body_lock_def from_bytes_def
      request_body_new_def body_into_reqwest_def)

text \<open>A builder that was used is empty: nothing can be built from it again.\<close>

lemma rsb_built_gone:
  "rsb_build_inner once blk b w = (Inr x, b', w') \<Longrightarrow>
   rsb_build_inner once blk' b' w'' = (Inl response_built, b', w'')"
  by (auto simp: rsb_build_inner_def rsb_take_body_def split: prod.splits sum.splits option.splits)

end
