(* ===== verification/Response_Properties.thy ===== *)
theory Response_Properties
  imports Stream_Request Response_Builder Header_Ref
begin

section \<open>Properties of responses\<close>

text \<open>
  Reading a response once and again, leaving its context, responses made by hand, what a response delivers of
  any frames, and where a JSON error is reported.
\<close>

subsection \<open>The body is read once and shared\<close>

lemma read_all_caches:
  assumes "read_all rcv c br = Some (Inr bs, br')"
  shows "read_all rcv c' br' = Some (Inr bs, br')"
  using assms
  by (auto simp: read_all_def split: option.splits if_splits sum.splits)

lemma bytes_inner_cached:
  assumes "bytes_inner rcv c r hp = Some (Inr bs, r', hp')"
  shows "bytes_inner rcv c' r' hp' = Some (Inr bs, r', hp')"
    and "\<exists>i. r' = Some i \<and> body_reader_field i \<noteq> None"
  using assms
  by (auto simp: bytes_inner_def resp_ref_inner_def reader_bytes_def ok_or_def read_all_caches
      split: option.splits resp_reader.splits)

text \<open>
  C19. Once \<open>bytes()\<close> of a response has returned, the body is kept: \<open>bytes()\<close> returns it again,
  whatever is cancelled, \<open>text()\<close> decodes it and \<open>json()\<close> parses it, none of them reads from the
  connection again or changes the response, and the reader object gives the same bytes.
\<close>

theorem body_is_kept:
  assumes "bytes_inner rcv c r hp = Some (Inr bs, r', hp')"
  shows "bytes_inner rcv c' r' hp' = Some (Inr bs, r', hp') \<and>
    text_inner H D rcv c' r' hp' =
      Some (map_res (\<lambda>mime. decode D (charset_of D mime) bs) (content_type_mime_inner H D r' hp'), r', hp') \<and>
    (\<exists>res. json_inner H D rcv c' r' hp' = Some (res, r', hp') \<and>
      (\<forall>v. from_slice D bs = Inr v \<longrightarrow> res = json_into_py D v)) \<and>
    (\<exists>n r2 hp2. get_body_reader_inner r' hp' = (Inr n, r2, hp2) \<and>
      reader_bytes rcv c' n hp2 = Some (Inr bs, hp2))"
proof -
  note cached = bytes_inner_cached(1) [OF assms]
  have decoded: "text_inner H D rcv c' r' hp' =
      Some (map_res (\<lambda>mime. decode D (charset_of D mime) bs) (content_type_mime_inner H D r' hp'), r', hp')"
    by (simp add: text_inner_def cached)
  from bytes_inner_cached(2) [OF assms] obtain i where i: "r' = Some i" "body_reader_field i \<noteq> None" by blast
  have "\<exists>n r2 hp2. get_body_reader_inner r' hp' = (Inr n, r2, hp2) \<and> reader_bytes rcv c' n hp2 = Some (Inr bs, hp2)"
  proof (cases "the (body_reader_field i)")
    case (Reader br)
    with i cached [of c'] obtain b where b: "read_all rcv c' br = Some (Inr bs, b)"
      and same: "i\<lparr>body_reader_field := Some (Reader b)\<rparr> = i"
      by (auto simp: bytes_inner_def resp_ref_inner_def)
    from arg_cong [OF same, of body_reader_field] i Reader have "b = br" by auto
    with i Reader b show ?thesis
      by (auto simp: get_body_reader_inner_def resp_ref_inner_def reader_bytes_def Let_def)
  next
    case (PyReader n)
    with i cached [of c'] show ?thesis
      by (auto simp: get_body_reader_inner_def resp_ref_inner_def bytes_inner_def)
  qed
  moreover have "\<exists>res. json_inner H D rcv c' r' hp' = Some (res, r', hp') \<and>
      (\<forall>v. from_slice D bs = Inr v \<longrightarrow> res = json_into_py D v)"
    by (cases "from_slice D bs") (simp_all add: json_inner_def cached json_error_def decoded)
  ultimately show ?thesis using cached decoded by simp
qed

text \<open>
  The example: a response of two frames, with decoders that accept every content type, take bytes
  for characters, and find an error in line 1, column 3 of every document.
\<close>

definition demo_head :: "(flat_map, 16 word, nat option) http_parts" where
  "demo_head = \<lparr>parts_status = 404, parts_version = HTTP_11,
     parts_headers = [(HeaderName ''content-type'', HeaderValue [120] False)], parts_extensions = None\<rparr>"

definition demo_frames :: frames where
  "demo_frames = [Inr (DataFrame [91, 49]), Inr (DataFrame [32])]"

definition demo_decoders :: "(nat, nat, nat, nat) decoders" where
  "demo_decoders = \<lparr>parse_mime = (\<lambda>_. Inr 0), mime_param = (\<lambda>_ _. None), for_label = (\<lambda>_. None), utf_8 = 8,
     decode = (\<lambda>_. bytes_str), from_slice = (\<lambda>_. Inl \<lparr>je_line = 1, je_column = 3, je_msg = ''EOF''\<rparr>),
     json_into_py = (\<lambda>v. Inr v), to_str_error = (\<lambda>s. StdError s AsOther None)\<rparr>"

definition demo_heap :: "(nat, chan, flat_map) resp_heap" where
  "demo_heap = \<lparr>resp_hmaps = (\<lambda>_. header_map_from []), resp_hnext = 0,
     readers = (\<lambda>_. \<lparr>body_receiver = None, pending_chunks = [], fully_consumed_body = None, content_length = None,
                    read_bytes = 0, br_runtime = 0\<rparr>), rnext = 0, resp_interp = 0\<rparr>"

definition demo_response :: "(chan, flat_map, 16 word, nat, nat) response" where
  "demo_response = Some \<lparr>resp_status = 404, resp_version = HTTP_11,
     headers_field = RespHeaders (header_map_from (parts_headers demo_head)), extensions_field = RespExtensions None,
     body_reader_field = Some (Reader \<lparr>body_receiver = None, pending_chunks = [[91, 49], [32]],
       fully_consumed_body = None, content_length = None, read_bytes = 0, br_runtime = 0\<rparr>),
     resp_runtime = 0, resp_json_handler = None, resp_error_for_status = True\<rparr>"

lemma demo_bytes: "\<exists>r'. bytes_inner (recv (\<lambda>_ _. False)) None demo_response demo_heap = Some (Inr [91, 49, 32], r', demo_heap)"
  by (simp add: bytes_inner_def demo_response_def resp_ref_inner_def read_all_def bytes_loop.simps read_next_def)

theorem body_is_kept_witness:
  "\<exists>r'. bytes_inner (recv (\<lambda>_ _. False)) None demo_response demo_heap = Some (Inr [91, 49, 32], r', demo_heap) \<and>
     bytes_inner (recv (\<lambda>_ _. False)) (Some 0) r' demo_heap = Some (Inr [91, 49, 32], r', demo_heap)"
proof -
  from demo_bytes obtain r' where
    b: "bytes_inner (recv (\<lambda>_ _. False)) None demo_response demo_heap = Some (Inr [91, 49, 32], r', demo_heap)" by blast
  from body_is_kept [OF b, of "Some 0" flat_ops demo_decoders] b show ?thesis by blast
qed

text \<open>
  Asking a response for its body reader does not change what is read: the same object is
  returned every time, \<open>bytes()\<close> of the object and of the response are the same call, and both
  give what the response would have given before.
\<close>

theorem reader_object_is_the_body:
  assumes "get_body_reader_inner r hp = (Inr n, r1, hp1)"
  shows "get_body_reader_inner r1 hp1 = (Inr n, r1, hp1) \<and>
    bytes_inner rcv c r1 hp1 = map_option (\<lambda>(res, hp'). (res, r1, hp')) (reader_bytes rcv c n hp1) \<and>
    map_option fst (bytes_inner rcv c r1 hp1) = map_option fst (bytes_inner rcv c r hp)"
  using assms
  by (auto simp: get_body_reader_inner_def resp_ref_inner_def ok_or_def bytes_inner_def reader_bytes_def Let_def
      option.map_comp comp_def case_prod_unfold split: option.splits resp_reader.splits)

theorem reader_object_is_the_body_witness:
  "\<exists>r1 hp1. get_body_reader_inner demo_response demo_heap = (Inr 0, r1, hp1) \<and>
     get_body_reader_inner r1 hp1 = (Inr 0, r1, hp1) \<and>
     map_option fst (bytes_inner (recv (\<lambda>_ _. False)) None r1 hp1) = Some (Inr [91, 49, 32])"
proof -
  have "\<exists>r1 hp1. get_body_reader_inner demo_response demo_heap = (Inr 0, r1, hp1)"
    by (simp add: get_body_reader_inner_def demo_response_def demo_heap_def resp_ref_inner_def Let_def)
  then obtain r1 hp1 where g: "get_body_reader_inner demo_response demo_heap = (Inr 0, r1, hp1)" by blast
  from reader_object_is_the_body [OF g, of "recv (\<lambda>_ _. False)" None] demo_bytes g show ?thesis by auto
qed

subsection \<open>From the frames to the response\<close>

lemma initialize_response:
  assumes "response_chunks next_data" and "no_errors fs" and "cfg \<noteq> NoBody"
    and "\<forall>n. content_length_of H (parts_headers head) = Some n \<longrightarrow> n \<le> isize_max"
  shows "\<exists>i kept r'. resp_initialize H is_match next_data (head, fs) pm cfg rt json errs = Some (Inr (Some i), kept) \<and>
    resp_status i = parts_status head \<and> headers_field i = RespHeaders (header_map_from (parts_headers head)) \<and>
    resp_error_for_status i = errs \<and>
    bytes_inner (recv is_match) None (Some i) hp = Some (Inr (body_bytes fs), r', hp)"
proof -
  from response_chunks.initialize_ok [OF assms(1,2), of H is_match head pm cfg rt] assms(3) obtain br where
    i: "reader_initialize H is_match next_data (head, fs) pm cfg rt = Some (Inr (br, head), pm \<and> body_receiver br \<noteq> None)"
    and f: "fresh_reader is_match (body_bytes fs) br"
    and l: "content_length br = content_length_of H (parts_headers head)" by auto
  from rx.read_all_ok [of br is_match] f l assms(4) obtain br' where
    "read_all (recv is_match) None br = Some (Inr (body_bytes fs), br')" by (auto simp: fresh_reader_def)
  with i show ?thesis by (auto simp: resp_initialize_def bytes_inner_def resp_ref_inner_def)
qed

text \<open>
  C22. A response whose body arrives without an error: its status, its headers and, from \<open>bytes()\<close>,
  exactly the bytes of the body, streamed or not; \<open>text()\<close> then decodes these bytes with the
  charset of the content type.
\<close>

theorem response_delivers_body:
  assumes "response_chunks next_data" and "no_errors fs" and "cfg \<noteq> NoBody"
    and "\<forall>n. content_length_of H (parts_headers head) = Some n \<longrightarrow> n \<le> isize_max"
  shows "\<exists>i kept r'. resp_initialize H is_match next_data (head, fs) pm cfg rt json errs = Some (Inr (Some i), kept) \<and>
    get_status S (Some i) = Inr (as_u16 S (parts_status head)) \<and>
    get_header_all_inner H key (Some i) hp = Inr (hm_get_all_str H (parts_headers head) key) \<and>
    bytes_inner (recv is_match) None (Some i) hp = Some (Inr (body_bytes fs), r', hp) \<and>
    text_inner H D (recv is_match) None (Some i) hp =
      Some (map_res (\<lambda>mime. decode D (charset_of D mime) (body_bytes fs)) (content_type_mime_inner H D r' hp), r', hp)"
  using initialize_response [OF assms, of is_match pm rt json errs hp]
  by (fastforce simp: get_status_def resp_ref_inner_def get_header_all_inner_def shown_headers_def get_all_def
      ref_map_def safe_lock_def header_map_from_def text_inner_def)

theorem response_delivers_body_witness:
  "\<exists>i kept. resp_initialize flat_ops (\<lambda>_ _. False) first_data (demo_head, demo_frames) True FullyConsumed 0 None True =
       Some (Inr (Some i), kept) \<and>
     get_status u16_status (Some i) = Inr 404 \<and>
     map_option fst (bytes_inner (recv (\<lambda>_ _. False)) None (Some i) demo_heap) = Some (Inr [91, 49, 32])"
proof -
  have n: "\<forall>n. content_length_of flat_ops (parts_headers demo_head) = Some n \<longrightarrow> n \<le> isize_max"
    by (simp add: content_length_of_def demo_head_def flat_ops_def flat_get_all_def CONTENT_LENGTH_def)
  have ne: "no_errors demo_frames" by (simp add: demo_frames_def)
  have "as_u16 u16_status (parts_status demo_head) = 404" by (simp add: u16_status_def demo_head_def)
  moreover have "body_bytes demo_frames = [91, 49, 32]" by (simp add: demo_frames_def)
  ultimately show ?thesis
    using response_delivers_body [OF data.response_chunks_axioms ne _ n, of FullyConsumed "\<lambda>_ _. False" True 0 None True
        u16_status "''x''" demo_heap demo_decoders] by auto
qed

subsection \<open>Status errors\<close>

text \<open>
  \<open>error_for_status\<close> raises exactly for the codes 400 to 599, with the code in the details; a
  response of a request with \<open>error_for_status\<close> set is handed out exactly if it does not raise.
\<close>

theorem error_for_status_spec:
  assumes "http_status S"
  shows "(error_for_status S (Some i) = Inr () \<longleftrightarrow>
      \<not> (400 \<le> unat (as_u16 S (resp_status i)) \<and> unat (as_u16 S (resp_status i)) < 600)) \<and>
    (\<forall>e. error_for_status S (Some i) = Inl e \<longrightarrow> exc_class e = StatusError \<and>
      exc_details e = StatusDetails (unat (as_u16 S (resp_status i))) \<and>
      (exc_message e = ''HTTP status client error'' \<longleftrightarrow> unat (as_u16 S (resp_status i)) < 500)) \<and>
    check_error_for_status S (Some i) =
      (if resp_error_for_status i then map_res (\<lambda>_. Some i) (error_for_status S (Some i)) else Inr (Some i)) \<and>
    error_for_status S None = Inl response_consumed"
  using http_status.client_range [OF assms, of "resp_status i"] http_status.server_range [OF assms, of "resp_status i"]
  by (auto simp: error_for_status_def check_error_for_status_def resp_ref_inner_def Let_def split: if_splits)

theorem error_for_status_spec_witness:
  "\<exists>i e. demo_response = Some i \<and> error_for_status u16_status (Some i) = Inl e \<and>
     exc_class e = StatusError \<and> exc_details e = StatusDetails 404 \<and>
     check_error_for_status u16_status (Some i) = Inl e"
proof -
  obtain i where i: "demo_response = Some i" "resp_status i = 404" "resp_error_for_status i"
    by (simp add: demo_response_def)
  then show ?thesis
    using error_for_status_spec [OF u16.http_status_axioms, of i]
    by (cases "error_for_status u16_status (Some i)") (auto simp: u16_status_def)
qed

subsection \<open>Where a JSON document is wrong\<close>

fun join_lines :: "string list \<Rightarrow> string" where
  "join_lines [] = []"
| "join_lines [l] = l"
| "join_lines (l # ls) = l @ CHR 0x0A # join_lines ls"

lemma split_lines_nonempty [simp]: "split_lines s \<noteq> []"
  by (cases s) (auto split: list.split)

lemma join_lines_Cons: "ls \<noteq> [] \<Longrightarrow> join_lines (l # ls) = l @ CHR 0x0A # join_lines ls"
  by (cases ls) auto

lemma join_split_lines: "join_lines (split_lines s) = s"
proof (induction s)
  case (Cons c cs)
  obtain l ls where ls: "split_lines cs = l # ls" by (cases "split_lines cs") auto
  with Cons show ?case by (cases ls) auto
qed simp

lemma join_lines_nth:
  "i < length ls \<Longrightarrow> \<exists>pre post. join_lines ls = pre @ ls ! i @ post \<and>
     length pre = sum_list (map (\<lambda>l. length l + 1) (take i ls))"
proof (induction ls arbitrary: i)
  case (Cons l ls)
  show ?case
  proof (cases i)
    case 0
    then show ?thesis by (cases ls) auto
  next
    case (Suc k)
    with Cons.prems Cons.IH [of k] obtain pre post where
      "join_lines ls = pre @ ls ! k @ post" "length pre = sum_list (map (\<lambda>l. length l + 1) (take k ls))" by auto
    moreover from Suc Cons.prems have "ls \<noteq> []" by auto
    ultimately have "join_lines (l # ls) = (l @ CHR 0x0A # pre) @ (l # ls) ! i @ post \<and>
        length (l @ CHR 0x0A # pre) = sum_list (map (\<lambda>l. length l + 1) (take i (l # ls)))"
      using Suc by (simp add: join_lines_Cons)
    then show ?thesis by blast
  qed
qed simp

lemma json_error_pos_offset:
  assumes "1 \<le> je_line e" and "je_line e \<le> length (split_lines s)"
  shows "json_error_pos s e =
    sum_list (map (\<lambda>s. length s + 1) (take (je_line e - 1) (split_lines s))) +
    (if je_column e = length (split_lines s ! (je_line e - 1)) then je_column e else je_column e - 1)"
proof -
  let ?k = "je_line e - 1" and ?ls = "split_lines s"
  let ?f = "\<lambda>(idx, l). if idx = ?k then (if je_column e = length l then je_column e else je_column e - 1) else length l + 1"
  have "take (je_line e) ?ls = take ?k ?ls @ [?ls ! ?k]"
    using assms take_Suc_conv_app_nth [of ?k ?ls] by (cases "je_line e") auto
  moreover have "map ?f (List.enumerate 0 (take ?k ?ls)) = map (\<lambda>l. length l + 1) (take ?k ?ls)"
    by (rule nth_equalityI) (auto simp: nth_enumerate_eq)
  ultimately show ?thesis
    using assms unfolding json_error_pos_def by (simp add: enumerate_append_eq)
qed

text \<open>
  C23. The position in a \<open>JSONDecodeError\<close>, for a line and a column (both from 1) inside the
  document: it is never past the end of the document. A column before the end of its line gives
  the byte at that line and column; the column of the last byte of a line gives the position
  behind it, which is right for an error at the end of the input and one too far for a wrong
  last character.
\<close>

theorem json_error_pos_spec:
  assumes "1 \<le> je_line e" and "je_line e \<le> length (split_lines s)"
    and "je_column e \<le> length (split_lines s ! (je_line e - 1))"
  shows "json_error_pos s e \<le> length s \<and>
    (1 \<le> je_column e \<longrightarrow> je_column e < length (split_lines s ! (je_line e - 1)) \<longrightarrow>
      json_error_pos s e < length s \<and> s ! json_error_pos s e = split_lines s ! (je_line e - 1) ! (je_column e - 1)) \<and>
    (1 \<le> je_column e \<longrightarrow> je_column e = length (split_lines s ! (je_line e - 1)) \<longrightarrow>
      s ! (json_error_pos s e - 1) = last (split_lines s ! (je_line e - 1)))"
proof -
  let ?l = "split_lines s ! (je_line e - 1)"
  from assms have "je_line e - 1 < length (split_lines s)" by simp
  from join_lines_nth [OF this] obtain pre post where s: "s = pre @ ?l @ post"
    and pre: "length pre = sum_list (map (\<lambda>l. length l + 1) (take (je_line e - 1) (split_lines s)))"
    by (auto simp: join_split_lines)
  have pos: "json_error_pos s e = length pre + (if je_column e = length ?l then je_column e else je_column e - 1)"
    unfolding pre by (rule json_error_pos_offset [OF assms(1,2)])
  have len: "length s = length pre + length ?l + length post" using arg_cong [OF s, of length] by simp
  have nth: "s ! (length pre + j) = ?l ! j" if "j < length ?l" for j
    using arg_cong [OF s, of "\<lambda>x. x ! (length pre + j)"] that by (simp add: nth_append)
  from assms(3) len have "json_error_pos s e \<le> length s" unfolding pos by (auto split: if_split)
  moreover have "json_error_pos s e < length s \<and> s ! json_error_pos s e = ?l ! (je_column e - 1)"
    if "1 \<le> je_column e" "je_column e < length ?l"
    using that nth [of "je_column e - 1"] len by (simp add: pos)
  moreover have "s ! (json_error_pos s e - 1) = last ?l" if "1 \<le> je_column e" "je_column e = length ?l"
    using that nth [of "length ?l - 1"] by (cases "?l = []") (simp_all add: pos last_conv_nth)
  ultimately show ?thesis by blast
qed

text \<open>In \<open>[1 x\<close> the parser stops at \<open>x\<close>, line 1 and column 4; the position given is 4, not 3.\<close>

theorem json_error_pos_spec_witness:
  "json_error_pos ''[1 x'' \<lparr>je_line = 1, je_column = 4, je_msg = ''expected , or ]''\<rparr> = 4 \<and>
   ''[1 x'' ! (json_error_pos ''[1 x'' \<lparr>je_line = 1, je_column = 4, je_msg = ''expected , or ]''\<rparr> - 1) = CHR ''x''"
  using json_error_pos_spec [of "\<lparr>je_line = 1, je_column = 4, je_msg = ''expected , or ]''\<rparr>" "''[1 x''"]
  by (simp add: json_error_pos_def)

subsection \<open>Leaving the context of a streamed request\<close>

lemma recv_closed:
  assumes "step is_match Cancelled s s'" and "queue s = []"
  shows "recv is_match s' = (Inr None, s')"
proof -
  from assms have "task s' = Leaving" "queue s' = []" by (auto elim: step_elim)
  moreover from this have "drive is_match s' = s'" by (subst drive.simps) simp
  ultimately show ?thesis by (simp add: recv_def)
qed

lemma bytes_loop_at_end:
  assumes "body_receiver br = Some rx" and "rcv rx = (Inr None, rx)"
  shows "bytes_loop rcv None br [] = Some (Inr (concat (pending_chunks br)), br\<lparr>pending_chunks := []\<rparr>)"
proof -
  have "read_next rcv None (br\<lparr>pending_chunks := []\<rparr>) = (Inr None, None, br\<lparr>pending_chunks := []\<rparr>)"
    using assms by (simp add: read_next_def)
  then show ?thesis
    by (subst bytes_loop_drain) (simp add: bytes_loop.simps [of rcv None "br\<lparr>pending_chunks := []\<rparr>"])
qed

text \<open>
  C20. Leaving the context closes the body: the response then raises, leaving again raises, and the
  background task is told to stop. A reader object that was kept does not know: once the task has
  stopped, its \<open>bytes()\<close> returns what had arrived as if it were the whole body.
\<close>

theorem exit_closes_body:
  assumes "objs os a = Some i" and "body_reader_field i = Some (PyReader n)"
    and "body_receiver (readers hp n) = Some ch" and "queue ch = []"
    and "fully_consumed_body (readers hp n) = None" and "read_bytes (readers hp n) = 0"
    and "content_length (readers hp n) = None"
    and "stream_exit receiver_close (Some a) os hp = (res, slf, os', hp1)"
    and "step is_match Cancelled (receiver_close ch) ch'"
  shows "res = Inr () \<and>
    bytes_inner rcv c (objs os' a) hp1 = Some (Inl reader_closed, objs os' a, hp1) \<and>
    fst (stream_exit receiver_close slf os' hp1) = Inl not_entered \<and>
    close_token (the (body_receiver (readers hp1 n))) \<and>
    map_option fst (reader_bytes (recv is_match) None n
      (hp1\<lparr>readers := (readers hp1)(n := (readers hp1 n)\<lparr>body_receiver := Some ch'\<rparr>)\<rparr>)) =
      Some (Inr (concat (pending_chunks (readers hp n))))"
proof -
  from stream_exit_closes [OF assms(1,2), of receiver_close hp] assms(8)
  have res: "res = Inr ()" "slf = None" "hp1 = reader_close receiver_close n hp"
    and gone: "objs os' a = Some (i\<lparr>body_reader_field := None\<rparr>)" by auto
  let ?br = "(readers hp1 n)\<lparr>body_receiver := Some ch'\<rparr>"
  have rd: "readers hp1 n = (readers hp n)\<lparr>body_receiver := Some (receiver_close ch)\<rparr>"
    using assms(3) by (simp add: res(3) reader_close_def close_reader_def)
  have "recv is_match ch' = (Inr None, ch')"
    by (rule recv_closed [OF assms(9)]) (simp add: receiver_close_def assms(4))
  from bytes_loop_at_end [of ?br ch' "recv is_match", OF _ this]
  have "bytes_loop (recv is_match) None ?br [] = Some (Inr (concat (pending_chunks (readers hp n))), ?br\<lparr>pending_chunks := []\<rparr>)"
    by (simp add: rd)
  then have "map_option fst (read_all (recv is_match) None ?br) = Some (Inr (concat (pending_chunks (readers hp n))))"
    using assms(5,6,7) by (simp add: read_all_def rd)
  then show ?thesis
    using res rd gone
    by (auto simp: bytes_inner_def resp_ref_inner_def stream_exit_def reader_bytes_def receiver_close_def)
qed

definition kept_reader :: "chan body_reader" where
  "kept_reader = \<lparr>body_receiver = Some (start [Inr (DataFrame [2])] True 1), pending_chunks = [[1]],
     fully_consumed_body = None, content_length = None, read_bytes = 0, br_runtime = 0\<rparr>"

definition kept_heap :: "(nat, chan, flat_map) resp_heap" where
  "kept_heap = demo_heap\<lparr>readers := \<lambda>_. kept_reader\<rparr>"

definition kept_objs :: "(chan, flat_map, 16 word, nat, nat) resp_objs" where
  "kept_objs = \<lparr>objs = (\<lambda>_. map_option (\<lambda>i. i\<lparr>body_reader_field := Some (PyReader 0)\<rparr>) demo_response), onext = 1\<rparr>"

theorem exit_closes_body_witness:
  "\<exists>res slf os' hp1 ch'. stream_exit receiver_close (Some 0) kept_objs kept_heap = (res, slf, os', hp1) \<and>
     step (\<lambda>_ _. False) Cancelled (receiver_close (start [Inr (DataFrame [2])] True 1)) ch' \<and>
     map_option fst (reader_bytes (recv (\<lambda>_ _. False)) None 0
       (hp1\<lparr>readers := (readers hp1)(0 := (readers hp1 0)\<lparr>body_receiver := Some ch'\<rparr>)\<rparr>)) = Some (Inr [1])"
proof -
  obtain res slf os' hp1 where e: "stream_exit receiver_close (Some 0) kept_objs kept_heap = (res, slf, os', hp1)"
    using prod_cases4 by blast
  obtain i where i: "objs kept_objs 0 = Some i" "body_reader_field i = Some (PyReader 0)"
    by (simp add: kept_objs_def demo_response_def)
  let ?ch = "start [Inr (DataFrame [2])] True 1"
  have s: "step (\<lambda>_ _. False) Cancelled (receiver_close ?ch) ((receiver_close ?ch)\<lparr>task := Leaving\<rparr>)"
    by (rule step.cancelled) (simp_all add: receiver_close_def)
  have k: "body_receiver (readers kept_heap 0) = Some ?ch" "queue ?ch = []"
    "fully_consumed_body (readers kept_heap 0) = None" "read_bytes (readers kept_heap 0) = 0"
    "content_length (readers kept_heap 0) = None" "concat (pending_chunks (readers kept_heap 0)) = [1]"
    by (simp_all add: kept_heap_def kept_reader_def start_def)
  from exit_closes_body [OF i k(1-5) e s] k(6) e s show ?thesis by metis
qed

subsection \<open>Responses made by hand\<close>

text \<open>
  C21. A response built from bytes gives them back: \<open>bytes()\<close> returns what \<open>body_bytes\<close> was given,
  status and headers are those that were set, and the builder cannot be built from again.
\<close>

theorem response_builder_roundtrip:
  assumes "response_chunks next_data"
    and "no_errors (frames_of (FromBytes bs))" and "body_bytes (frames_of (FromBytes bs)) = bs"
    and "rsb_head b = Some head"
    and "\<forall>n. content_length_of H (parts_headers head) = Some n \<longrightarrow> n \<le> isize_max"
  shows "\<exists>(i :: (chan, 'm, 'st, 'x, 'f) resp_inner) b' r'. rsb_build H is_match next_data frames_of once blk (Inr rt) (snd (rsb_body_bytes bs b)) w =
      Some (Inr (Some i), b', w) \<and>
    resp_status i = parts_status head \<and> headers_field i = RespHeaders (header_map_from (parts_headers head)) \<and>
    bytes_inner (recv is_match) None (Some i) hp = Some (Inr bs, r', hp) \<and>
    rsb_build H is_match next_data frames_of once blk' (Inr rt) b' w = Some (Inl response_built, b', w)"
proof -
  let ?b = "snd (rsb_body_bytes bs b)"
  let ?head = "case rsb_extensions b of None \<Rightarrow> head | Some x \<Rightarrow> head\<lparr>parts_extensions := Some x\<rparr>"
  let ?b' = "?b\<lparr>rsb_head := None, rsb_body := None, rsb_extensions := None\<rparr>"
  have inner: "rsb_build_inner once blk ?b w = (Inr (?head, FromBytes bs), ?b', w)"
    using rsb_build_inner_bytes [of ?b head bs once blk w] assms(4) by (simp add: rsb_body_bytes_def)
  have same: "parts_headers ?head = parts_headers head" "parts_status ?head = parts_status head"
    by (simp_all split: option.split)
  with assms(5) have "\<forall>n. content_length_of H (parts_headers ?head) = Some n \<longrightarrow> n \<le> isize_max" by simp
  from initialize_response [OF assms(1,2) _ this, of "Streamed default_streamed_read_config" is_match False rt "None :: 'f json_handler option" False hp]
    assms(3) same obtain i :: "(chan, 'm, 'st, 'x, 'f) resp_inner" and kept r' where
    i: "resp_initialize H is_match next_data (?head, frames_of (FromBytes bs)) False
        (Streamed default_streamed_read_config) rt None False = Some (Inr (Some i), kept)"
      "resp_status i = parts_status head" "headers_field i = RespHeaders (header_map_from (parts_headers head))"
      "bytes_inner (recv is_match) None (Some i) hp = Some (Inr bs, r', hp)" by auto
  note gone = rsb_built_gone [OF inner]
  show ?thesis
    by (intro exI [of _ i] exI [of _ ?b'] exI [of _ r'] conjI) (simp_all add: rsb_build_def inner i gone)
qed

definition one_frame :: "(nat, nat, nat) reqwest_body \<Rightarrow> frames" where
  "one_frame b = (case b of FromBytes bs \<Rightarrow> [Inr (DataFrame bs)] | WrapStream _ \<Rightarrow> [])"

theorem response_builder_roundtrip_witness:
  "\<exists>i b'. rsb_build flat_ops (\<lambda>_ _. False) first_data one_frame (\<lambda>w. (Inr 0, w)) True (Inr 0)
       (snd (rsb_body_bytes [1, 2] (response_builder_new demo_head))) () = Some (Inr (Some i), b', ()) \<and>
     map_option fst (bytes_inner (recv (\<lambda>_ _. False)) None (Some i) demo_heap) = Some (Inr [1, 2])"
proof -
  have n: "\<forall>n. content_length_of flat_ops (parts_headers demo_head) = Some n \<longrightarrow> n \<le> isize_max"
    by (simp add: content_length_of_def demo_head_def flat_ops_def flat_get_all_def CONTENT_LENGTH_def)
  have f: "no_errors (one_frame (FromBytes [1, 2]))" "body_bytes (one_frame (FromBytes [1, 2])) = [1, 2]"
    by (simp_all add: one_frame_def)
  have h: "rsb_head (response_builder_new demo_head) = Some demo_head" by (simp add: response_builder_new_def)
  from response_builder_roundtrip [where frames_of = one_frame, OF data.response_chunks_axioms f h n, of "\<lambda>_ _. False" "\<lambda>w. (Inr 0, w)" True 0 "()" demo_heap True]
  show ?thesis by fastforce
qed

end
