(* ===== verification/Client.thy ===== *)
theory Client
  imports Request_Builder Response
begin

section \<open>Clients, the limit on connections, and the execution of requests\<close>

text \<open>
  Models \<open>src/client/client.rs\<close>, \<open>src/client/internal/connection_limiter.rs\<close>,
  \<open>src/client/internal/spawner.rs\<close> and \<open>RuntimeHandle::spawn_handled\<close> of
  \<open>src/runtime/runtime.rs\<close>. Executing a request (\<open>reqwest::Client::execute\<close>), the clock and
  the semaphore are not the program's: what they answer is an argument. A \<open>Duration\<close> is its number
  of nanoseconds. The semaphore itself as a shared object is in \<open>Request_Pool\<close>.
\<close>

subsection \<open>Cancellation tokens\<close>

text \<open>
  A token is its path in the tree of child tokens; \<open>cs\<close> are the tokens \<open>cancel\<close> was called on. A
  token is cancelled with any of its ancestors.
\<close>

type_synonym token = "nat list"

definition is_cancelled :: "token list \<Rightarrow> token \<Rightarrow> bool" where
  "is_cancelled cs t = list_ex (\<lambda>c. take (length c) t = c) cs"

definition child_token :: "nat \<Rightarrow> token \<Rightarrow> token" where
  "child_token fresh t = t @ [fresh]"

lemma child_cancelled: "is_cancelled cs t \<Longrightarrow> is_cancelled cs (child_token n t)"
  by (auto simp: is_cancelled_def list_ex_iff child_token_def) (metis append_take_drop_id take_all_iff length_take
      linorder_not_le min.cobounded1 take_append append_self_conv diff_is_0_eq min_def nat_le_linear take0)

subsection \<open>The limit on connections\<close>

record limiter =
  lim_limit :: nat
  lim_timeout :: "nat option"

definition limiter_new :: "nat \<Rightarrow> nat option \<Rightarrow> limiter" where
  "limiter_new limit timeout = \<lparr>lim_limit = limit, lim_timeout = timeout\<rparr>"

definition limit_timeout :: "limiter \<Rightarrow> nat option \<Rightarrow> nat option" where
  "limit_timeout lim request_timeout =
     (case (lim_timeout lim, request_timeout) of
        (Some t1, Some t2) \<Rightarrow> Some (min t1 t2)
      | (Some t1, None) \<Rightarrow> Some t1
      | (None, Some t2) \<Rightarrow> Some t2
      | (None, None) \<Rightarrow> None)"

text \<open>
  What the semaphore does: it gives a permit after some time, turns out to be closed, or never
  answers. \<open>tokio::time::timeout\<close> looks at it before it looks at the clock.
\<close>

datatype acquire = AcquiredAfter nat | ClosedAfter nat string | NeverAcquired

definition acquire_time :: "acquire \<Rightarrow> nat option" where
  "acquire_time a = (case a of AcquiredAfter d \<Rightarrow> Some d | ClosedAfter d _ \<Rightarrow> Some d | NeverAcquired \<Rightarrow> None)"

definition acquire_result :: "acquire \<Rightarrow> unit pyres option" where
  "acquire_result a =
     (case a of
        AcquiredAfter _ \<Rightarrow> Some (Inr ())
      | ClosedAfter _ msg \<Rightarrow> Some (Inl (runtime_error (''Failed to acquire semaphore: '' @ msg)))
      | NeverAcquired \<Rightarrow> None)"

definition limit_connections :: "std_error \<Rightarrow> limiter \<Rightarrow> nat option \<Rightarrow> acquire \<Rightarrow> unit pyres option" where
  "limit_connections elapsed_error lim request_timeout a =
     (case limit_timeout lim request_timeout of
        None \<Rightarrow> acquire_result a
      | Some timeout \<Rightarrow>
          (case acquire_time a of
             Some d \<Rightarrow>
               if d \<le> timeout then acquire_result a
               else Some (Inl (from_err PoolTimeoutError ''Timeout acquiring semaphore'' elapsed_error))
           | None \<Rightarrow> Some (Inl (from_err PoolTimeoutError ''Timeout acquiring semaphore'' elapsed_error))))"

text \<open>\<open>elapsed\<close> is what the clock says has passed since before the permit was asked for.\<close>

definition spawner_limit_connections ::
    "('rq, 'm, 'b, 'me, 'u) reqwest_ops \<Rightarrow> std_error \<Rightarrow> limiter \<Rightarrow> acquire \<Rightarrow> nat \<Rightarrow> 'rq \<Rightarrow>
     (unit pyres \<times> 'rq) option" where
  "spawner_limit_connections R elapsed_error lim a elapsed rq =
     (case limit_connections elapsed_error lim (rq_timeout R rq) a of
        None \<Rightarrow> None
      | Some (Inl e) \<Rightarrow> Some (Inl e, rq)
      | Some (Inr _) \<Rightarrow>
          Some (case rq_timeout R rq of
             None \<Rightarrow> (Inr (), rq)
           | Some req_timeout \<Rightarrow>
               if elapsed \<ge> req_timeout
               then (Inl (from_msg PoolTimeoutError ''Timeout acquiring semaphore''), rq)
               else (Inr (), rq_set_timeout R (Some (req_timeout - elapsed)) rq)))"

subsection \<open>Executing a request\<close>

record 'cl spawner_data =
  sp_client :: 'cl
  sp_runtime :: runtime_handle
  sp_limiter :: "limiter option"
  sp_close :: token

definition spawner_new :: "'cl \<Rightarrow> runtime_handle \<Rightarrow> limiter option \<Rightarrow> token \<Rightarrow> 'cl spawner_data" where
  "spawner_new cl rt lim tok = \<lparr>sp_client = cl, sp_runtime = rt, sp_limiter = lim, sp_close = tok\<rparr>"

definition spawner_clone :: "nat \<Rightarrow> 'cl spawner_data \<Rightarrow> 'cl spawner_data" where
  "spawner_clone fresh sp = sp\<lparr>sp_close := child_token fresh (sp_close sp)\<rparr>"

definition insert_extensions :: "'x option \<Rightarrow> ('m, 'st, 'x option) http_parts \<Rightarrow> ('m, 'st, 'x option) http_parts" where
  "insert_extensions ext head = (case ext of Some x \<Rightarrow> head\<lparr>parts_extensions := Some x\<rparr> | None \<Rightarrow> head)"

text \<open>
  The future that is spawned. \<open>execute\<close> sends the request and gives the head and the frames of
  the body. The second result tells whether the permit of the limiter outlives the call.
\<close>

definition spawn_future ::
    "'m http_ops \<Rightarrow> ('rq, 'm, 'b, 'me, 'u) reqwest_ops \<Rightarrow> patterns \<Rightarrow> chunk_fun \<Rightarrow> ('me \<Rightarrow> bool) \<Rightarrow>
     ('cl \<Rightarrow> 'rq \<Rightarrow> std_error + (('m, 'st, 'x option) http_parts \<times> frames)) \<Rightarrow> std_error \<Rightarrow> acquire \<Rightarrow> nat \<Rightarrow>
     ('rq, 'cl spawner_data, 'x, 'f json_handler) request_data \<Rightarrow>
     ((chan, 'm, 'st, 'x, 'f) response pyres \<times> bool) option" where
  "spawn_future H R is_match next_data is_head execute elapsed_error a elapsed rd =
     (case (case sp_limiter (spawner rd) of
              None \<Rightarrow> Some (Inr (), reqwest rd)
            | Some lim \<Rightarrow> spawner_limit_connections R elapsed_error lim a elapsed (reqwest rd)) of
        None \<Rightarrow> None
      | Some (Inl e, _) \<Rightarrow> Some (Inl e, False)
      | Some (Inr _, rq) \<Rightarrow>
          (let read_config = (if is_head (rq_method R rq) then NoBody else rd_body_consume_config rd)
           in case execute (sp_client (spawner rd)) rq of
                Inl e \<Rightarrow> Some (Inl (map_send_error is_match e), False)
              | Inr (head, fs) \<Rightarrow>
                  map_option (\<lambda>(res, kept). (res, kept \<and> sp_limiter (spawner rd) \<noteq> None))
                    (resp_initialize H is_match next_data (insert_extensions (rd_extensions rd) head, fs) True
                      read_config (sp_runtime (spawner rd)) (rd_json_handler rd) (rd_error_for_status rd))))"

text \<open>
  How the spawned task ends: it finishes, panics, or its runtime is gone; or the caller cancels,
  or the client is closed, whichever \<open>select!\<close> sees first.
\<close>

datatype 'a task_end = TaskDone 'a | TaskPanicked panic_payload | RuntimeGone std_error

definition join_result :: "'a task_end \<Rightarrow> 'a pyres" where
  "join_result t =
     (case t of
        TaskDone a \<Rightarrow> Inr a
      | TaskPanicked payload \<Rightarrow> Inl (from_panic_payload RequestPanicError ''Request panicked'' payload)
      | RuntimeGone e \<Rightarrow> Inl (from_err ClientClosedError ''Runtime was closed'' e))"

datatype 'a spawned = Joined "'a task_end" | CancelSeen

definition spawn_handled :: "'a spawned \<Rightarrow> 'a pyres" where
  "spawn_handled s =
     (case s of Joined t \<Rightarrow> join_result t | CancelSeen \<Rightarrow> Inl (cancelled_error ''Request was cancelled''))"

text \<open>
  What \<open>spawn_handled\<close> has while it waits: the future is moved into the runtime (\<open>self.spawn(future)?\<close>), what stays
  is the \<open>JoinHandle\<close> of its task. When the waiting ends without the task having ended, that is dropped.
\<close>

datatype kept = TheFuture | TaskHandle

definition spawn_handled_keeps :: kept where
  "spawn_handled_keeps = TaskHandle"

definition spawn_handled_drops :: "'a spawned \<Rightarrow> kept option" where
  "spawn_handled_drops s = (case s of Joined _ \<Rightarrow> None | CancelSeen \<Rightarrow> Some spawn_handled_keeps)"

datatype 'a race = HandledFirst "'a spawned" | CloseFirst

definition spawn_reqwest_inner :: "'a pyres race \<Rightarrow> 'a pyres" where
  "spawn_reqwest_inner r =
     (case r of
        HandledFirst s \<Rightarrow> and_then (spawn_handled s) id
      | CloseFirst \<Rightarrow> Inl (from_msg ClientClosedError ''Client was closed''))"

text \<open>A branch of \<open>select!\<close> that loses is dropped, here the future of \<open>spawn_handled\<close> with what it has.\<close>

definition spawn_reqwest_drops :: "'a race \<Rightarrow> kept option" where
  "spawn_reqwest_drops r =
     (case r of HandledFirst s \<Rightarrow> spawn_handled_drops s | CloseFirst \<Rightarrow> Some spawn_handled_keeps)"

subsection \<open>Clients\<close>

record ('cl, 'u, 'mw, 'f, 'm) client =
  cl_client :: 'cl
  cl_base_url :: "'u option"
  cl_runtime :: runtime_handle
  cl_middlewares :: "'mw list arc option"
  cl_json_handler :: "'f json_handler option"
  cl_total_timeout :: "nat option"
  cl_limiter :: "limiter option"
  cl_error_for_status :: bool
  cl_default_headers :: "'m option"
  cl_connection_verbose :: bool
  cl_close :: token

text \<open>\<open>tok\<close> is the new token, \<open>ptr\<close> the address of the vector of middlewares.\<close>

definition base_client_new ::
    "'cl \<Rightarrow> runtime_handle \<Rightarrow> 'mw list option \<Rightarrow> 'f json_handler option \<Rightarrow> nat option \<Rightarrow> limiter option \<Rightarrow>
     bool \<Rightarrow> 'm option \<Rightarrow> 'u option \<Rightarrow> bool \<Rightarrow> token \<Rightarrow> nat \<Rightarrow> ('cl, 'u, 'mw, 'f, 'm) client" where
  "base_client_new cl rt mws json total_timeout lim errs dflts base verbose tok ptr =
     \<lparr>cl_client = cl, cl_base_url = base, cl_runtime = rt, cl_middlewares = map_option (Arc ptr) mws, cl_json_handler = json,
      cl_total_timeout = total_timeout, cl_limiter = lim, cl_error_for_status = errs,
      cl_default_headers = dflts, cl_connection_verbose = verbose, cl_close = tok\<rparr>"

definition init_middleware_next :: "('cl, 'u, 'mw, 'f, 'm) client \<Rightarrow> 'mw next_inner option pyres" where
  "init_middleware_next c =
     (case cl_middlewares c of
        None \<Rightarrow> Inr None
      | Some mws \<Rightarrow> map_res Some (next_inner_new mws))"

text \<open>
  The URL argument: \<open>extract_str\<close> takes a string out of a Python object, \<open>extract_url\<close> a URL,
  \<open>join\<close> is \<open>Url::join\<close>. \<open>mk\<close> is \<open>reqwest::Client::request\<close>.
\<close>

record ('ob, 'u) url_args =
  extract_str :: "'ob \<Rightarrow> string pyres"
  extract_url :: "'ob \<Rightarrow> 'u pyres"
  join_url :: "'u \<Rightarrow> string \<Rightarrow> 'u pyres"

definition request_url :: "('ob, 'u) url_args \<Rightarrow> 'u option \<Rightarrow> 'ob \<Rightarrow> 'u pyres" where
  "request_url U base ob =
     (case base of
        Some base_url \<Rightarrow> and_then (extract_str U ob) (join_url U base_url)
      | None \<Rightarrow> extract_url U ob)"

definition create_request_builder ::
    "('ob, 'u) url_args \<Rightarrow> ('rb, 'rq, 'q, 'form) rb_ops \<Rightarrow> ('cl \<Rightarrow> 'me \<Rightarrow> 'u \<Rightarrow> 'rb) \<Rightarrow> nat \<Rightarrow>
     ('cl, 'u, 'mw, 'f, 'm) client \<Rightarrow> 'me \<Rightarrow> 'ob \<Rightarrow> bool \<Rightarrow>
     ('rb, 'cl spawner_data, 'm, 'o, 'tl, 'co, 'x, 'mw, 'f) request_builder pyres" where
  "create_request_builder U B mk fresh c me ob is_blocking =
     and_then (request_url U (cl_base_url c) ob) (\<lambda>url.
     and_then (init_middleware_next c) (\<lambda>nexts.
       let b = request_builder_new (mk (cl_client c) me url)
             (spawner_new (cl_client c) (cl_runtime c) (cl_limiter c) (child_token fresh (cl_close c)))
             nexts (cl_json_handler c) (cl_error_for_status c) (cl_default_headers c) (cl_connection_verbose c)
             is_blocking
       in case cl_total_timeout c of
            None \<Rightarrow> Inr b
          | Some timeout \<Rightarrow> (case set_timeout B timeout b of (r, b') \<Rightarrow> map_res (\<lambda>_. b') r)))"

text \<open>\<open>Client\<close> makes builders of asynchronous requests, \<open>SyncClient\<close> of blocking ones.\<close>

definition client_request ::
    "('ob, 'u) url_args \<Rightarrow> ('rb, 'rq, 'q, 'form) rb_ops \<Rightarrow> ('cl \<Rightarrow> 'me \<Rightarrow> 'u \<Rightarrow> 'rb) \<Rightarrow> nat \<Rightarrow>
     ('cl, 'u, 'mw, 'f, 'm) client \<Rightarrow> 'me \<Rightarrow> 'ob \<Rightarrow>
     ('rb, 'cl spawner_data, 'm, 'o, 'tl, 'co, 'x, 'mw, 'f) request_builder pyres" where
  "client_request U B mk fresh c me ob = create_request_builder U B mk fresh c me ob False"

definition sync_client_request ::
    "('ob, 'u) url_args \<Rightarrow> ('rb, 'rq, 'q, 'form) rb_ops \<Rightarrow> ('cl \<Rightarrow> 'me \<Rightarrow> 'u \<Rightarrow> 'rb) \<Rightarrow> nat \<Rightarrow>
     ('cl, 'u, 'mw, 'f, 'm) client \<Rightarrow> 'me \<Rightarrow> 'ob \<Rightarrow>
     ('rb, 'cl spawner_data, 'm, 'o, 'tl, 'co, 'x, 'mw, 'f) request_builder pyres" where
  "sync_client_request U B mk fresh c me ob = create_request_builder U B mk fresh c me ob True"

text \<open>The methods of both classes that are named after HTTP methods; \<open>mth\<close> makes a method of its name.\<close>

datatype verb = Get | Post | Put | Patch | Delete | Head

definition verb_name :: "verb \<Rightarrow> string" where
  "verb_name v =
     (case v of
        Get \<Rightarrow> ''GET'' | Post \<Rightarrow> ''POST'' | Put \<Rightarrow> ''PUT'' | Patch \<Rightarrow> ''PATCH'' | Delete \<Rightarrow> ''DELETE'' | Head \<Rightarrow> ''HEAD'')"

definition client_verb ::
    "(string \<Rightarrow> 'me) \<Rightarrow> ('ob, 'u) url_args \<Rightarrow> ('rb, 'rq, 'q, 'form) rb_ops \<Rightarrow> ('cl \<Rightarrow> 'me \<Rightarrow> 'u \<Rightarrow> 'rb) \<Rightarrow> nat \<Rightarrow>
     ('cl, 'u, 'mw, 'f, 'm) client \<Rightarrow> verb \<Rightarrow> 'ob \<Rightarrow>
     ('rb, 'cl spawner_data, 'm, 'o, 'tl, 'co, 'x, 'mw, 'f) request_builder pyres" where
  "client_verb mth U B mk fresh c v url = client_request U B mk fresh c (mth (verb_name v)) url"

definition sync_client_verb ::
    "(string \<Rightarrow> 'me) \<Rightarrow> ('ob, 'u) url_args \<Rightarrow> ('rb, 'rq, 'q, 'form) rb_ops \<Rightarrow> ('cl \<Rightarrow> 'me \<Rightarrow> 'u \<Rightarrow> 'rb) \<Rightarrow> nat \<Rightarrow>
     ('cl, 'u, 'mw, 'f, 'm) client \<Rightarrow> verb \<Rightarrow> 'ob \<Rightarrow>
     ('rb, 'cl spawner_data, 'm, 'o, 'tl, 'co, 'x, 'mw, 'f) request_builder pyres" where
  "sync_client_verb mth U B mk fresh c v url = sync_client_request U B mk fresh c (mth (verb_name v)) url"

text \<open>
  \<open>close\<close> cancels the token; it does not wait for anything. That it flushes the log of a verbose
  client is output only. Leaving the context of a client closes it.
\<close>

definition client_close :: "('cl, 'u, 'mw, 'f, 'm) client \<Rightarrow> token list \<Rightarrow> token list" where
  "client_close c cs = cl_close c # cs"

subsection \<open>Lemmas\<close>

lemma limit_connections_ok:
  assumes "limit_connections err lim rt a = Some (Inr ())"
  shows "\<exists>d. a = AcquiredAfter d \<and> (\<forall>t. lim_timeout lim = Some t \<longrightarrow> d \<le> t) \<and> (\<forall>t. rt = Some t \<longrightarrow> d \<le> t)"
  using assms
  by (auto simp: limit_connections_def limit_timeout_def acquire_time_def acquire_result_def
      split: option.splits acquire.splits if_splits)

lemma spawner_limit_ok:
  assumes "spawner_limit_connections R err lim a elapsed rq = Some (Inr u, rq')"
  shows "limit_connections err lim (rq_timeout R rq) a = Some (Inr ())"
    and "rq' = (case rq_timeout R rq of None \<Rightarrow> rq | Some t \<Rightarrow> rq_set_timeout R (Some (t - elapsed)) rq)"
    and "rq_timeout R rq = Some t \<Longrightarrow> elapsed < t"
  using assms by (auto simp: spawner_limit_connections_def split: option.splits sum.splits if_splits)

lemma spawner_limit_error:
  assumes "spawner_limit_connections R err lim a elapsed rq = Some (Inl e, rq')"
  shows "rq' = rq" and "exc_class e = PoolTimeoutError \<or> (\<exists>d msg. a = ClosedAfter d msg)"
  using assms
  by (auto simp: spawner_limit_connections_def limit_connections_def acquire_result_def acquire_time_def
      from_err_def from_msg_def from_causes_def split: option.splits sum.splits if_splits acquire.splits)

lemma close_reaches_requests:
  "is_cancelled (client_close c cs) (child_token n (cl_close c))"
  "is_cancelled (client_close c cs) (child_token k (child_token n (cl_close c)))"
  by (simp_all add: is_cancelled_def client_close_def child_token_def)

end
