(* ===== verification/Request_Pool.thy ===== *)
theory Request_Pool
  imports Client
begin

section \<open>Concurrent requests of a client\<close>

text \<open>
  All requests of a client with \<open>max_connections\<close>, sharing the semaphore of
  \<open>src/client/internal/connection_limiter.rs\<close>, as a transition system. A request is a task of its
  own (\<open>spawn_handled\<close> of \<open>src/runtime/runtime.rs\<close>): it waits for a permit, executes, and then
  finishes or leaves the permit to the background reader of its body. The flag of \<open>Acquiring\<close> and
  \<open>Executing\<close> tells whether somebody waits for it. The waiting ends when the request is cancelled or its client
  closed (\<open>Abandon\<close> with what \<open>select!\<close> saw): then what \<open>spawn_reqwest_inner\<close> still has is dropped, and what that
  does is what Rust and \<open>tokio\<close> document (\<open>drop_kept\<close>): a dropped \<open>JoinHandle\<close> detaches the task, a dropped
  future is not run on and drops its permit. A response nobody waits for is dropped, its receiver with it.
\<close>

datatype flight = Idle | Acquiring bool | Executing bool | Reading chan | Finished

record pool =
  free :: nat
  flights :: "nat \<Rightarrow> flight"
  client_closed :: bool

definition pool_init :: "nat \<Rightarrow> pool" where
  "pool_init limit = \<lparr>free = limit, flights = (\<lambda>_. Idle), client_closed = False\<rparr>"

fun holds :: "flight \<Rightarrow> bool" where
  "holds (Executing _) = True"
| "holds (Reading c) = permit c"
| "holds _ = False"

datatype pool_event =
    Spawn | Acquire | PoolTimeout | Abandon "unit pyres race" | CloseClient | Complete | Stream frames nat | OnChan event

fun waited :: "flight \<Rightarrow> bool" where
  "waited (Acquiring b) = b"
| "waited (Executing b) = b"
| "waited _ = False"

fun set_waited :: "bool \<Rightarrow> flight \<Rightarrow> flight" where
  "set_waited b (Acquiring _) = Acquiring b"
| "set_waited b (Executing _) = Executing b"
| "set_waited b f = f"

fun drop_kept :: "kept \<Rightarrow> nat \<times> flight \<Rightarrow> nat \<times> flight" where
  "drop_kept TaskHandle (n, f) = (n, set_waited False f)"
| "drop_kept TheFuture (n, f) = (n + of_bool (holds f), Finished)"

text \<open>What becomes of one request, and of the number of free permits. Closing the client cancels a token only.\<close>

inductive flight_step :: "patterns \<Rightarrow> pool_event \<Rightarrow> nat \<times> flight \<Rightarrow> nat \<times> flight \<Rightarrow> bool" for is_match where
  fl_spawn: "flight_step is_match Spawn (n, Idle) (n, Acquiring True)"
| fl_acquire: "flight_step is_match Acquire (Suc n, Acquiring b) (n, Executing b)"
| fl_timeout: "flight_step is_match PoolTimeout (n, Acquiring b) (n, Finished)"
| fl_abandon: "waited f \<Longrightarrow> spawn_reqwest_drops r = Some k \<Longrightarrow>
    flight_step is_match (Abandon r) (n, f) (drop_kept k (n, f))"
| fl_close: "flight_step is_match CloseClient (n, f) (n, f)"
| fl_complete: "flight_step is_match Complete (n, Executing b) (Suc n, Finished)"
| fl_stream: "flight_step is_match (Stream fs lim) (n, Executing True) (n, Reading (start fs True lim))"
| fl_stream_dropped: "flight_step is_match (Stream fs lim) (n, Executing False)
    (n, Reading ((start fs True lim)\<lparr>rx_dropped := True\<rparr>))"
| fl_chan: "step is_match ev c c' \<Longrightarrow>
    flight_step is_match (OnChan ev) (n, Reading c) (n + of_bool (permit c \<and> \<not> permit c'), Reading c')"

inductive_cases flight_stepE: "flight_step is_match ev s s'"

text \<open>Steps of any of the requests; nobody sees the client closed before it was.\<close>

inductive pool_run :: "patterns \<Rightarrow> (nat \<times> pool_event) list \<Rightarrow> pool \<Rightarrow> pool \<Rightarrow> bool" for is_match where
  pool_Nil: "pool_run is_match [] p p"
| pool_Cons: "flight_step is_match ev (free p, flights p i) (n, f) \<Longrightarrow>
    (ev = Abandon CloseFirst \<Longrightarrow> client_closed p) \<Longrightarrow>
    pool_run is_match evs
      \<lparr>free = n, flights = (flights p)(i := f), client_closed = client_closed p \<or> ev = CloseClient\<rparr> q \<Longrightarrow>
    pool_run is_match ((i, ev) # evs) p q"

inductive_simps pool_run_Nil [simp]: "pool_run is_match [] p q"
inductive_simps pool_run_Cons: "pool_run is_match ((i, ev) # evs) p q"

lemma pool_run_append:
  "pool_run is_match evs p q \<Longrightarrow> pool_run is_match evs' q r \<Longrightarrow> pool_run is_match (evs @ evs') p r"
  by (induction rule: pool_run.induct) (auto intro: pool_Cons)

subsection \<open>Permits are conserved\<close>

text \<open>
  What the pool relies on of anything that holds a permit: it may give it back, and never takes one
  itself. Then a sequence of moves gives back one permit or none.
\<close>

locale permit_holder =
  fixes moves :: "'e \<Rightarrow> 's \<Rightarrow> 's \<Rightarrow> bool"
    and held :: "'s \<Rightarrow> bool"
  assumes never_taken: "moves ev s s' \<Longrightarrow> held s' \<Longrightarrow> held s"
begin

lemma given_back: "moves ev s s' \<Longrightarrow> of_bool (held s \<and> \<not> held s') + of_bool (held s') = (of_bool (held s) :: nat)"
  using never_taken by auto

lemma given_back_once:
  "moves ev s s1 \<Longrightarrow> (held s2 \<Longrightarrow> held s1) \<Longrightarrow>
   of_bool (held s \<and> \<not> held s1) + of_bool (held s1 \<and> \<not> held s2) = (of_bool (held s \<and> \<not> held s2) :: nat)"
  using never_taken by auto

end

interpretation reading: permit_holder "step is_match" permit for is_match
  by unfold_locales (erule step_elim, auto simp: after_poll_def after_send_def split: prod.splits)

text \<open>One request gives and takes exactly the permit it holds.\<close>

lemma waited_holds [simp]: "holds (set_waited b f) = holds f"
  by (cases f) simp_all

lemma drop_kept_permits: "drop_kept k (n, f) = (n', f') \<Longrightarrow> n + of_bool (holds f) = n' + of_bool (holds f')"
  by (cases k) auto

lemma flight_step_permits:
  assumes "flight_step is_match ev (n, f) (n', f')"
  shows "n + of_bool (holds f) = n' + of_bool (holds f')"
  using assms
proof cases
  case (fl_abandon r k)
  then show ?thesis by (intro drop_kept_permits) simp
next
  case (fl_chan ev c c')
  with reading.given_back [of is_match ev c c'] show ?thesis by auto
qed auto

definition holders :: "pool \<Rightarrow> nat set" where
  "holders p = {i. holds (flights p i)}"

lemma holders_upd:
  "holders \<lparr>free = n, flights = (flights p)(i := f), client_closed = cl\<rparr> =
     (if holds f then insert i (holders p) else holders p - {i})"
  by (auto simp: holders_def)

lemma card_holders_upd:
  assumes "finite (holders p)"
  shows "card (holders \<lparr>free = n, flights = (flights p)(i := f), client_closed = cl\<rparr>) + of_bool (holds (flights p i)) =
    card (holders p) + of_bool (holds f)"
proof -
  have "holds (flights p i) \<longleftrightarrow> i \<in> holders p" by (simp add: holders_def)
  with assms show ?thesis
    unfolding holders_upd by (auto simp: insert_absorb card_Suc_Diff1 simp del: card_Diff_insert)
qed

definition pool_inv :: "nat \<Rightarrow> pool \<Rightarrow> bool" where
  "pool_inv limit p \<longleftrightarrow> finite (holders p) \<and> free p + card (holders p) = limit"

lemma pool_inv_init: "pool_inv limit (pool_init limit)"
  by (simp add: pool_inv_def pool_init_def holders_def)

lemma pool_inv_step:
  assumes "flight_step is_match ev (free p, flights p i) (n, f)" and "pool_inv limit p"
  shows "pool_inv limit \<lparr>free = n, flights = (flights p)(i := f), client_closed = cl\<rparr>"
  using flight_step_permits [OF assms(1)] assms(2) card_holders_upd [of p n i f cl]
  by (auto simp: pool_inv_def holders_upd split: if_splits)

lemma pool_inv_run: "pool_run is_match evs p q \<Longrightarrow> pool_inv limit p \<Longrightarrow> pool_inv limit q"
  by (induction rule: pool_run.induct) (auto intro: pool_inv_step)

subsection \<open>Permits come back\<close>

text \<open>A run of the channel of a request as a run of the pool.\<close>

lemma pool_run_chan:
  "run is_match evs c c' \<Longrightarrow> flights p i = Reading c \<Longrightarrow>
   pool_run is_match (map (\<lambda>ev. (i, OnChan ev)) evs) p
     \<lparr>free = free p + of_bool (permit c \<and> \<not> permit c'), flights = (flights p)(i := Reading c'),
       client_closed = client_closed p\<rparr>"
proof (induction arbitrary: p rule: run.induct)
  case (run_Nil s)
  then have "(flights p)(i := Reading s) = flights p" by auto
  then show ?case by (cases p) simp
next
  case (run_Cons ev s s1 evs s2)
  let ?p = "\<lparr>free = free p + of_bool (permit s \<and> \<not> permit s1), flights = (flights p)(i := Reading s1),
    client_closed = client_closed p \<or> OnChan ev = CloseClient\<rparr>"
  have first: "flight_step is_match (OnChan ev) (free p, flights p i)
      (free p + of_bool (permit s \<and> \<not> permit s1), Reading s1)"
    using run_Cons.hyps(1) run_Cons.prems by (simp add: fl_chan)
  have rest: "pool_run is_match (map (\<lambda>ev. (i, OnChan ev)) evs) ?p
      \<lparr>free = free ?p + of_bool (permit s1 \<and> \<not> permit s2), flights = (flights ?p)(i := Reading s2),
        client_closed = client_closed ?p\<rparr>"
    by (rule run_Cons.IH) simp
  have "permit s2 \<Longrightarrow> permit s1"
    using run_Cons.hyps(2) by (induction rule: run.induct) (auto dest: reading.never_taken)
  note once = reading.given_back_once [OF run_Cons.hyps(1) this]
  from pool_Cons [OF first _ rest] show ?case
    by (simp only: pool.select_convs list.map add.assoc fun_upd_upd once pool_event.distinct simp_thms)
qed

subsection \<open>Abandoned requests\<close>

text \<open>The events of the callers, not of the tasks: ending a wait, closing the client, dropping a response.\<close>

definition gives_up :: "pool_event \<Rightarrow> bool" where
  "gives_up ev \<longleftrightarrow> ev \<in> insert CloseClient (range Abandon)"

definition caller_event :: "pool_event \<Rightarrow> bool" where
  "caller_event ev \<longleftrightarrow> gives_up ev \<or> ev = OnChan DropRx"

text \<open>The same pool if nobody had given up: every task is still waited for and the client is open.\<close>

definition attended :: "pool \<Rightarrow> pool" where
  "attended p = \<lparr>free = free p, flights = (\<lambda>i. set_waited True (flights p i)), client_closed = False\<rparr>"

lemma set_waited_twice [simp]: "set_waited b (set_waited b' f) = set_waited b f"
  by (cases f) simp_all

lemma attended_simps [simp]:
  "free (attended p) = free p" "flights (attended p) i = set_waited True (flights p i)" "\<not> client_closed (attended p)"
  by (simp_all add: attended_def)

lemma attended_upd:
  "attended \<lparr>free = n, flights = (flights p)(i := f), client_closed = cl\<rparr> =
     \<lparr>free = n, flights = (flights (attended p))(i := set_waited True f), client_closed = False\<rparr>"
  by (auto simp: attended_def)

lemma kept_is_handle: "spawn_reqwest_drops r = Some k \<Longrightarrow> k = TaskHandle"
  by (auto simp: spawn_reqwest_drops_def spawn_handled_drops_def spawn_handled_keeps_def
      split: race.splits spawned.splits)

lemma pool_run_one:
  assumes "flight_step is_match ev (free p, flights p i) (n, f)" and "\<not> gives_up ev"
  shows "pool_run is_match [(i, ev)] p \<lparr>free = n, flights = (flights p)(i := f), client_closed = client_closed p\<rparr>"
  using assms by (auto simp: pool_run_Cons gives_up_def intro!: exI)

text \<open>A response that nobody waits for is one whose receiver drops it at once.\<close>

lemma stream_then_drop:
  assumes "flights p i = Executing True"
  shows "pool_run is_match [(i, Stream fs lim), (i, OnChan DropRx)] p
    \<lparr>free = free p, flights = (flights p)(i := Reading ((start fs True lim)\<lparr>rx_dropped := True\<rparr>)),
      client_closed = client_closed p\<rparr>"
proof -
  let ?c = "start fs True lim"
  have same: "?c\<lparr>rx_dropped := True, queue := []\<rparr> = ?c\<lparr>rx_dropped := True\<rparr>" by (simp add: start_def)
  let ?p = "\<lparr>free = free p, flights = (flights p)(i := Reading ?c), client_closed = client_closed p\<rparr>"
  have "flight_step is_match (Stream fs lim) (free p, flights p i) (free p, Reading ?c)"
    using assms by (simp add: fl_stream)
  from pool_run_one [OF this] have "pool_run is_match [(i, Stream fs lim)] p ?p" by (simp add: gives_up_def image_iff)
  moreover have "step is_match DropRx ?c (?c\<lparr>rx_dropped := True\<rparr>)"
    using rx_drop [of ?c is_match] by (simp only: same) (simp add: start_def)
  from fl_chan [OF this, of "free p"]
  have "flight_step is_match (OnChan DropRx) (free ?p, flights ?p i) (free p, Reading (?c\<lparr>rx_dropped := True\<rparr>))"
    by simp
  from pool_run_one [OF this] have "pool_run is_match [(i, OnChan DropRx)] ?p
      \<lparr>free = free p, flights = (flights p)(i := Reading (?c\<lparr>rx_dropped := True\<rparr>)), client_closed = client_closed p\<rparr>"
    by (simp add: gives_up_def image_iff)
  ultimately show ?thesis using pool_run_append by fastforce
qed

lemma set_waited_step:
  assumes "flight_step is_match ev (m, g) (n, f)" and "\<not> gives_up ev" and "\<And>fs lim. ev = Stream fs lim \<Longrightarrow> waited g"
  shows "flight_step is_match ev (m, set_waited True g) (n, set_waited True f)"
  using assms(1)
proof cases
  case (fl_chan e c c')
  then show ?thesis by (simp add: flight_step.fl_chan)
qed (use assms in \<open>auto simp: gives_up_def intro: flight_step.intros\<close>)

text \<open>Every step is, in the pool where nobody gave up, the same step, or none if it is a caller giving up.\<close>

lemma attended_step:
  assumes "flight_step is_match ev (free p, flights p i) (n, f)"
  shows "\<exists>evs. pool_run is_match (map (Pair i) evs) (attended p)
      (attended \<lparr>free = n, flights = (flights p)(i := f), client_closed = cl\<rparr>) \<and>
    (\<forall>e\<in>set evs. \<not> gives_up e) \<and> filter (\<lambda>e. \<not> caller_event e) evs = filter (\<lambda>e. \<not> caller_event e) [ev]"
proof (cases "gives_up ev")
  case True
  have "n = free p \<and> set_waited True f = set_waited True (flights p i)"
    using assms
  proof cases
    case (fl_abandon r k)
    have "k = TaskHandle" by (rule kept_is_handle [OF fl_abandon(4)])
    with fl_abandon(2) show ?thesis by simp
  qed (use True in \<open>auto simp: gives_up_def\<close>)
  then have "attended \<lparr>free = n, flights = (flights p)(i := f), client_closed = cl\<rparr> = attended p"
    by (auto simp: attended_upd) (auto simp: attended_def)
  with True show ?thesis by (intro exI [of _ "[]"]) (simp add: caller_event_def)
next
  case False
  show ?thesis
  proof (cases "\<exists>fs lim. ev = Stream fs lim \<and> \<not> waited (flights p i)")
    case True
    then obtain fs lim where "ev = Stream fs lim" and "\<not> waited (flights p i)" by blast
    moreover from assms this have g: "flights p i = Executing False" "n = free p"
      "f = Reading ((start fs True lim)\<lparr>rx_dropped := True\<rparr>)" by (auto elim: flight_stepE)
    ultimately show ?thesis
      using stream_then_drop [of "attended p" i is_match fs lim]
      by (intro exI [of _ "[Stream fs lim, OnChan DropRx]"]) (auto simp: attended_upd caller_event_def gives_up_def)
  next
    case False
    then have "flight_step is_match ev (free p, set_waited True (flights p i)) (n, set_waited True f)"
      using assms \<open>\<not> gives_up ev\<close> by (intro set_waited_step) auto
    with pool_run_one [of is_match ev "attended p" i n "set_waited True f"] \<open>\<not> gives_up ev\<close> show ?thesis
      by (intro exI [of _ "[ev]"]) (simp add: attended_upd)
  qed
qed

lemma attended_run:
  "pool_run is_match evs p q \<Longrightarrow> \<exists>evs'. pool_run is_match evs' (attended p) (attended q) \<and>
     (\<forall>e\<in>set evs'. \<not> gives_up (snd e)) \<and>
     filter (\<lambda>e. \<not> caller_event (snd e)) evs' = filter (\<lambda>e. \<not> caller_event (snd e)) evs"
proof (induction rule: pool_run.induct)
  case (pool_Cons ev p i n f evs q)
  let ?p = "\<lparr>free = n, flights = (flights p)(i := f), client_closed = client_closed p \<or> ev = CloseClient\<rparr>"
  from attended_step [OF pool_Cons.hyps(1)] obtain es where
    es: "pool_run is_match (map (Pair i) es) (attended p) (attended ?p)" "\<forall>e\<in>set es. \<not> gives_up e"
      "filter (\<lambda>e. \<not> caller_event e) es = filter (\<lambda>e. \<not> caller_event e) [ev]" by blast
  from pool_Cons.IH obtain evs' where
    r: "pool_run is_match evs' (attended ?p) (attended q)" "\<forall>e\<in>set evs'. \<not> gives_up (snd e)"
      "filter (\<lambda>e. \<not> caller_event (snd e)) evs' = filter (\<lambda>e. \<not> caller_event (snd e)) evs" by blast
  have "filter (\<lambda>e. \<not> caller_event (snd e)) (map (Pair i) es) = map (Pair i) (filter (\<lambda>e. \<not> caller_event e) es)"
    by (simp add: filter_map comp_def)
  with es r pool_run_append [OF es(1) r(1)] show ?case
    by (intro exI [of _ "map (Pair i) es @ evs'"]) auto
qed (auto intro: exI [of _ "[]"])

text \<open>What a task can do when somebody waits for it, it can do when nobody does.\<close>

lemma unattended_step:
  assumes "flight_step is_match ev (n, set_waited True f) (n', f')" and "ev \<in> {Acquire, PoolTimeout, Complete} \<union> range (case_prod Stream)"
  shows "\<exists>f''. flight_step is_match ev (n, f) (n', f'')"
  using assms
  by (cases f; elim flight_stepE) (auto intro: flight_step.intros split: if_splits, (metis (full_types) flight_step.intros)+)

text \<open>Who gives up was cancelled or had seen the client closed, which it was.\<close>

lemma giving_up:
  "pool_run is_match evs p q \<Longrightarrow> (i, Abandon r) \<in> set evs \<Longrightarrow>
     spawn_reqwest_drops r \<noteq> None \<and> (r = CloseFirst \<longrightarrow> client_closed p \<or> (\<exists>j. (j, CloseClient) \<in> set evs))"
proof (induction rule: pool_run.induct)
  case (pool_Cons ev p j n f evs q)
  then show ?case by (auto elim!: flight_stepE)
qed simp

lemma drops_result:
  "spawn_reqwest_drops r \<noteq> None \<Longrightarrow> spawn_reqwest_inner r =
     Inl (if r = CloseFirst then from_msg ClientClosedError ''Client was closed''
          else cancelled_error ''Request was cancelled'')"
  by (auto simp: spawn_reqwest_drops_def spawn_handled_drops_def spawn_reqwest_inner_def spawn_handled_def
      split: race.splits spawned.splits)

end
