(* ===== verification/Client_Properties.thy ===== *)
theory Client_Properties
  imports Request_Pool Request_Properties Response_Properties
begin

section \<open>Properties of clients and of the limit on connections\<close>

text \<open>
  Permits of a client's requests are conserved and come back when a streamed response is closed;
  the time a request waits for its permit counts against its timeout; what the task of a request
  makes of the answer of the server; what closing a client reaches, and what it does not stop.
\<close>

subsection \<open>The limit on connections\<close>

lemma pool_inv_reachable: "pool_run is_match evs (pool_init limit) p \<Longrightarrow> pool_inv limit p"
  by (erule pool_inv_run) (rule pool_inv_init)

text \<open>A waiting request and no free permit: somebody holds one, and can go on.\<close>

lemma holder_can_step:
  assumes "holds f" and "\<And>c. f = Reading c \<Longrightarrow> permit c \<Longrightarrow> task c \<noteq> Exited"
  shows "\<exists>ev n' f'. ev \<in> insert Complete (range OnChan) \<and> flight_step is_match ev (n, f) (n', f')"
proof (cases f)
  case (Executing b)
  then have "flight_step is_match Complete (n, f) (Suc n, Finished)" by (simp add: fl_complete)
  then show ?thesis by blast
next
  case (Reading c)
  with assms have "task c \<noteq> Exited" by simp
  with task_progress [of c is_match] obtain ev c' where "step is_match ev c c'" by blast
  with Reading have "flight_step is_match (OnChan ev) (n, f) (n + of_bool (permit c \<and> \<not> permit c'), Reading c')"
    by (simp add: fl_chan)
  then show ?thesis by blast
qed (use assms(1) in simp_all)

text \<open>A task that has ended has given its permit back.\<close>

definition exited_free :: "flight \<Rightarrow> bool" where
  "exited_free f \<longleftrightarrow> (\<forall>c. f = Reading c \<longrightarrow> (permit c \<longleftrightarrow> task c \<noteq> Exited))"

lemma drop_kept_waited: "drop_kept k (n, f) = (n', f') \<Longrightarrow> waited f \<Longrightarrow> f' \<noteq> Reading c"
  by (cases k; cases f) auto

lemma exited_free_step: "flight_step is_match ev (n, f) (n', f') \<Longrightarrow> exited_free f \<Longrightarrow> exited_free f'"
proof (erule flight_stepE, simp_all add: exited_free_def start_def)
  show "\<forall>c. f' = Reading c \<longrightarrow> permit c \<longleftrightarrow> task c \<noteq> Exited"
    if "(n', f') = drop_kept k (n, g)" "waited g" for g k
    using drop_kept_waited [OF that(1) [symmetric] that(2)] by blast
next
  fix ev c c'
  assume "step is_match ev c c'" and "permit c \<longleftrightarrow> task c \<noteq> Exited"
  then show "permit c' \<longleftrightarrow> task c' \<noteq> Exited"
    using permit_run [of is_match "[ev]" c c' True] by (auto simp: run_Cons_iff)
qed

lemma exited_free_run:
  "pool_run is_match evs p q \<Longrightarrow> \<forall>i. exited_free (flights p i) \<Longrightarrow> exited_free (flights q i)"
proof (induction arbitrary: i rule: pool_run.induct)
  case (pool_Cons ev p j n f evs q)
  then show ?case using exited_free_step [OF pool_Cons.hyps(1)] by auto
qed simp

lemma exited_free_reachable: "pool_run is_match evs (pool_init limit) p \<Longrightarrow> exited_free (flights p i)"
  by (erule exited_free_run) (simp add: pool_init_def exited_free_def)

text \<open>
  C24. The permits of a client with \<open>max_connections = limit\<close>, on every interleaving of its requests,
  of their cancellations and of the background readers of their bodies: the free permits and the
  requests that hold one always add up to \<open>limit\<close>, so never more than \<open>limit\<close> requests are on
  the network and no permit is lost; and while a request waits, a permit is free or a holder can
  make a step of its own.
\<close>

theorem limiter_conserves_permits:
  assumes "pool_run is_match evs (pool_init limit) p"
  shows "finite (holders p) \<and> free p + card (holders p) = limit \<and>
    (limit > 0 \<longrightarrow> free p > 0 \<or> (\<exists>j ev n f. holds (flights p j) \<and> ev \<in> insert Complete (range OnChan) \<and>
      flight_step is_match ev (free p, flights p j) (n, f)))"
proof (intro conjI impI)
  from pool_inv_reachable [OF assms] show "finite (holders p)" and total: "free p + card (holders p) = limit"
    by (simp_all add: pool_inv_def)
  assume "limit > 0"
  show "free p > 0 \<or> (\<exists>j ev n f. holds (flights p j) \<and> ev \<in> insert Complete (range OnChan) \<and>
      flight_step is_match ev (free p, flights p j) (n, f))"
  proof (cases "free p > 0")
    case False
    with total \<open>limit > 0\<close> have "holders p \<noteq> {}" by auto
    then obtain j where "holds (flights p j)" by (auto simp: holders_def)
    with holder_can_step [OF this] exited_free_reachable [OF assms, of j] show ?thesis
      by (metis exited_free_def)
  qed simp
qed

definition two_waiting :: pool where
  "two_waiting = \<lparr>free = 0, flights = (\<lambda>_. Idle)(0 := Executing True, 1 := Acquiring True), client_closed = False\<rparr>"

lemma two_waiting_run:
  "pool_run (\<lambda>_ _. False) [(0, Spawn), (1, Spawn), (0, Acquire)] (pool_init 1) two_waiting"
  by (auto simp: pool_run_Cons two_waiting_def pool_init_def fun_eq_iff
      intro!: exI flight_step.intros pool_Cons pool_Nil)

theorem limiter_conserves_permits_witness: "card (holders two_waiting) = 1"
  using limiter_conserves_permits [OF two_waiting_run] by (simp add: two_waiting_def)

text \<open>
  Closing a streamed response gives its permit to a request that waits: on every reachable state
  the background reader of the closed response can end by steps of its own, without the network
  and without the reader of the response, and the waiting request can then start.
\<close>

theorem closing_unblocks_waiting:
  assumes "pool_run is_match evs (pool_init limit) p"
    and "flights p j = Reading c" and "permit c" and "close_token c" and "flights p i = Acquiring b"
  shows "\<exists>evs' q. pool_run is_match evs' p q \<and> fst ` set evs' \<subseteq> {i, j} \<and>
    snd ` set evs' \<subseteq> {OnChan Cancelled, OnChan Release, Acquire} \<and> flights q i = Executing b"
proof -
  from exited_free_reachable [OF assms(1), of j] assms(2,3) have "task c \<noteq> Exited"
    by (simp add: exited_free_def)
  from close_releases [OF assms(4) this, of is_match] obtain ces c' where
    c': "run is_match ces c c'" "set ces \<subseteq> {Cancelled, Release}" "\<not> permit c'" by blast
  let ?evs = "map (\<lambda>ev. (j, OnChan ev)) ces"
  let ?p1 = "\<lparr>free = free p + of_bool (permit c \<and> \<not> permit c'), flights = (flights p)(j := Reading c'),
    client_closed = client_closed p\<rparr>"
  from assms(2,5) have "i \<noteq> j" by auto
  then have "flight_step is_match Acquire (free ?p1, flights ?p1 i) (free p, Executing b)"
    using assms(3,5) c'(3) by (simp add: fl_acquire)
  from pool_run_one [OF this]
  have "pool_run is_match [(i, Acquire)] ?p1
      \<lparr>free = free p, flights = (flights ?p1)(i := Executing b), client_closed = client_closed p\<rparr>"
    by (simp add: gives_up_def image_iff)
  with pool_run_chan [OF c'(1) assms(2)]
  have "pool_run is_match (?evs @ [(i, Acquire)]) p
      \<lparr>free = free p, flights = (flights ?p1)(i := Executing b), client_closed = client_closed p\<rparr>"
    by (rule pool_run_append)
  moreover have "fst ` set (?evs @ [(i, Acquire)]) \<subseteq> {i, j}" by auto
  moreover have "snd ` set (?evs @ [(i, Acquire)]) \<subseteq> {OnChan Cancelled, OnChan Release, Acquire}"
    using c'(2) by auto
  moreover have "flights \<lparr>free = free p, flights = (flights ?p1)(i := Executing b), client_closed = client_closed p\<rparr> i = Executing b" by simp
  ultimately show ?thesis by blast
qed

definition one_reading :: "chan \<Rightarrow> pool" where
  "one_reading c = \<lparr>free = 0, flights = (\<lambda>_. Idle)(0 := Reading c, 1 := Acquiring True), client_closed = False\<rparr>"

lemma one_reading_run:
  assumes "step is_match ev (start [] True 1) c" and "permit c"
  shows "pool_run is_match [(0, Spawn), (0, Acquire), (1, Spawn), (0, Stream [] 1), (0, OnChan ev)]
     (pool_init 1) (one_reading c)"
proof -
  have "pool_run is_match [(0, Spawn), (0, Acquire), (1, Spawn), (0, Stream [] 1)] (pool_init 1) (one_reading (start [] True 1))"
    by (auto simp: pool_run_Cons one_reading_def pool_init_def fun_eq_iff intro!: exI flight_step.intros)
  moreover from assms have "run is_match [ev] (start [] True 1) c" by (simp add: run_Cons_iff)
  from pool_run_chan [OF this, of "one_reading (start [] True 1)" 0] assms(2)
  have "pool_run is_match [(0, OnChan ev)] (one_reading (start [] True 1)) (one_reading c)"
    by (simp add: one_reading_def fun_upd_twist)
  ultimately show ?thesis using pool_run_append by fastforce
qed

lemma one_closed: "step is_match Close (start [] True 1) ((start [] True 1)\<lparr>close_token := True\<rparr>)"
  by (rule rx_close) (simp add: start_def)

theorem closing_unblocks_waiting_witness:
  "\<exists>evs q. pool_run (\<lambda>_ _. False) evs (one_reading ((start [] True 1)\<lparr>close_token := True\<rparr>)) q \<and>
     flights q 1 = Executing True"
proof -
  let ?c = "(start [] True 1)\<lparr>close_token := True\<rparr>"
  have p: "permit ?c" by (simp add: start_def)
  from closing_unblocks_waiting [OF one_reading_run [OF one_closed p], of 0 ?c 1 True, where is_match = "\<lambda>_ _. False"] p
  show ?thesis by (auto simp: one_reading_def)
qed


text \<open>
  Request 0 is cancelled while it executes, then the client is closed while request 1 waits for the
  permit: request 0 completes, and request 1 is sent.
\<close>

definition given_up_events :: "(nat \<times> pool_event) list" where
  "given_up_events = [(0, Spawn), (1, Spawn), (0, Acquire), (0, Abandon (HandledFirst CancelSeen)), (0, CloseClient),
     (1, Abandon CloseFirst), (0, Complete), (1, Acquire)]"

definition given_up :: pool where
  "given_up = \<lparr>free = 0, flights = (\<lambda>_. Idle)(0 := Finished, 1 := Executing False), client_closed = True\<rparr>"

lemma detached:
  "flight_step is_match (Abandon (HandledFirst CancelSeen)) (n, Executing True) (n, Executing False)"
  "flight_step is_match (Abandon CloseFirst) (n, Acquiring True) (n, Acquiring False)"
proof -
  have "spawn_reqwest_drops (HandledFirst CancelSeen) = Some TaskHandle" "spawn_reqwest_drops CloseFirst = Some TaskHandle"
    by (simp_all add: spawn_reqwest_drops_def spawn_handled_drops_def spawn_handled_keeps_def)
  from fl_abandon [OF _ this(1), of "Executing True"] fl_abandon [OF _ this(2), of "Acquiring True"]
  show "flight_step is_match (Abandon (HandledFirst CancelSeen)) (n, Executing True) (n, Executing False)"
    "flight_step is_match (Abandon CloseFirst) (n, Acquiring True) (n, Acquiring False)" by simp_all
qed

lemma given_up_run: "pool_run (\<lambda>_ _. False) given_up_events (pool_init 1) given_up"
  by (auto simp: pool_run_Cons given_up_events_def given_up_def pool_init_def fun_eq_iff
      intro!: exI fl_spawn fl_acquire detached fl_close fl_complete)


subsection \<open>Timeouts\<close>

text \<open>
  C25. The wait for a permit counts against the timeout of the request: if the permit comes, the wait
  was not longer than the pool timeout or the timeout of the request, and the request goes out with
  what is left of its timeout, never zero, and otherwise unchanged; else it fails with
  \<open>PoolTimeoutError\<close> and is unchanged. With any of the two timeouts the wait ends.
\<close>

theorem pool_timeout_budget:
  assumes "reqwest_request R"
  shows "(lim_timeout lim \<noteq> None \<or> rq_timeout R rq \<noteq> None \<longrightarrow>
      spawner_limit_connections R err lim a elapsed rq \<noteq> None) \<and>
    (\<forall>rq'. spawner_limit_connections R err lim a elapsed rq = Some (Inr (), rq') \<longrightarrow>
      (\<exists>d. a = AcquiredAfter d \<and> (\<forall>t. lim_timeout lim = Some t \<longrightarrow> d \<le> t) \<and> (\<forall>t. rq_timeout R rq = Some t \<longrightarrow> d \<le> t)) \<and>
      (\<forall>t. rq_timeout R rq = Some t \<longrightarrow> (\<exists>left. rq_timeout R rq' = Some left \<and> left > 0 \<and> elapsed + left = t)) \<and>
      (rq_timeout R rq = None \<longrightarrow> rq' = rq) \<and>
      rq_method R rq' = rq_method R rq \<and> rq_url R rq' = rq_url R rq \<and> rq_headers R rq' = rq_headers R rq \<and>
      rq_body R rq' = rq_body R rq) \<and>
    (\<forall>e rq'. spawner_limit_connections R err lim a elapsed rq = Some (Inl e, rq') \<longrightarrow>
      rq' = rq \<and> (exc_class e = PoolTimeoutError \<or> (\<exists>d msg. a = ClosedAfter d msg)))"
proof (intro conjI allI impI)
  show "spawner_limit_connections R err lim a elapsed rq \<noteq> None"
    if "lim_timeout lim \<noteq> None \<or> rq_timeout R rq \<noteq> None"
    using that
    by (auto simp: spawner_limit_connections_def limit_connections_def limit_timeout_def acquire_result_def
        acquire_time_def split: option.split acquire.split sum.split)
next
  fix rq' t
  assume ok: "spawner_limit_connections R err lim a elapsed rq = Some (Inr (), rq')"
  note sets = reqwest_request.timeout_set [OF assms] reqwest_request.method_set [OF assms]
    reqwest_request.url_set [OF assms] reqwest_request.headers_set [OF assms] reqwest_request.body_set [OF assms]
  from spawner_limit_ok(1) [OF ok] show "\<exists>d. a = AcquiredAfter d \<and> (\<forall>t. lim_timeout lim = Some t \<longrightarrow> d \<le> t) \<and>
      (\<forall>t. rq_timeout R rq = Some t \<longrightarrow> d \<le> t)" by (rule limit_connections_ok)
  show "rq_timeout R rq = Some t \<Longrightarrow> \<exists>left. rq_timeout R rq' = Some left \<and> left > 0 \<and> elapsed + left = t"
    using spawner_limit_ok(2,3) [OF ok] sets(1) by auto
  show "rq_timeout R rq = None \<Longrightarrow> rq' = rq"
    "rq_method R rq' = rq_method R rq" "rq_url R rq' = rq_url R rq"
    "rq_headers R rq' = rq_headers R rq" "rq_body R rq' = rq_body R rq"
    using spawner_limit_ok(2) [OF ok] sets by (simp_all split: option.split)
next
  fix e rq'
  assume "spawner_limit_connections R err lim a elapsed rq = Some (Inl e, rq')"
  from spawner_limit_error [OF this] show "rq' = rq"
    and "exc_class e = PoolTimeoutError \<or> (\<exists>d msg. a = ClosedAfter d msg)" .
qed

definition timed_request :: "(flat_map, bytes) plain_request" where
  "timed_request = \<lparr>p_method = ''HEAD'', p_url = ''u'', p_headers = [], p_body = None, p_timeout = Some 10\<rparr>"

definition five_limiter :: limiter where
  "five_limiter = limiter_new 1 (Some 5)"

definition timed_out :: std_error where
  "timed_out = StdError ''deadline has elapsed'' AsOther None"

theorem pool_timeout_budget_witness:
  "\<exists>rq'. spawner_limit_connections plain_ops timed_out five_limiter (AcquiredAfter 3) 4 timed_request = Some (Inr (), rq') \<and>
     rq_timeout plain_ops rq' = Some 6"
proof -
  have "\<exists>rq'. spawner_limit_connections plain_ops timed_out five_limiter (AcquiredAfter 3) 4 timed_request = Some (Inr (), rq')"
    by (simp add: spawner_limit_connections_def limit_connections_def limit_timeout_def acquire_time_def
        acquire_result_def five_limiter_def limiter_new_def timed_request_def plain_ops_def)
  moreover have "rq_timeout plain_ops timed_request = Some 10" by (simp add: timed_request_def plain_ops_def)
  ultimately show ?thesis
    using pool_timeout_budget [OF reqwest_request_plain, of five_limiter timed_request timed_out "AcquiredAfter 3" 4] by auto
qed

subsection \<open>The task of a request\<close>

lemma granted_future:
  assumes "sp_limiter (spawner rd) = Some lim"
    and "spawner_limit_connections R err lim a elapsed (reqwest rd) = Some (Inr (), rq)"
    and "execute (sp_client (spawner rd)) rq = Inr (head, fs)"
  shows "spawn_future H R is_match next_data is_head execute err a elapsed rd =
    resp_initialize H is_match next_data (insert_extensions (rd_extensions rd) head, fs) True
      (if is_head (rq_method R rq) then NoBody else rd_body_consume_config rd)
      (sp_runtime (spawner rd)) (rd_json_handler rd) (rd_error_for_status rd)"
  using assms by (simp add: spawn_future_def Let_def option.map_id0 case_prod_beta)

text \<open>
  C26. What the task of a request makes of the answer: the response has the status of the answer, the
  extensions of the request, and as its body the bytes that arrive, or nothing for a HEAD request
  whatever the server sends; the permit stays with the response exactly if a background reader
  has been started for the rest of the body. If executing fails the error is mapped and the permit is free.
\<close>

theorem spawned_request_result:
  assumes "response_chunks next_data" and "sp_limiter (spawner rd) = Some lim"
    and "spawner_limit_connections R err lim a elapsed (reqwest rd) = Some (Inr (), rq)"
  shows "(\<forall>e. execute (sp_client (spawner rd)) rq = Inl e \<longrightarrow>
      spawn_future H R is_match next_data is_head execute err a elapsed rd = Some (Inl (map_send_error is_match e), False)) \<and>
    (\<forall>head fs. execute (sp_client (spawner rd)) rq = Inr (head, fs) \<and> no_errors fs \<longrightarrow>
      (\<exists>i br. spawn_future H R is_match next_data is_head execute err a elapsed rd =
          Some (Inr (Some i), body_receiver br \<noteq> None) \<and>
        body_reader_field i = Some (Reader br) \<and> resp_status i = parts_status head \<and>
        extensions_field i =
          RespExtensions (case rd_extensions rd of Some x \<Rightarrow> Some x | None \<Rightarrow> parts_extensions head) \<and>
        fresh_reader is_match
          (if is_head (rq_method R rq) \<or> rd_body_consume_config rd = NoBody then [] else body_bytes fs) br \<and>
        (is_head (rq_method R rq) \<longrightarrow> body_receiver br = None)))"
proof (intro conjI allI impI)
  fix e
  assume "execute (sp_client (spawner rd)) rq = Inl e"
  with assms(2,3) show "spawn_future H R is_match next_data is_head execute err a elapsed rd =
      Some (Inl (map_send_error is_match e), False)"
    by (simp add: spawn_future_def Let_def)
next
  fix head fs
  assume ex: "execute (sp_client (spawner rd)) rq = Inr (head, fs) \<and> no_errors fs"
  let ?cfg = "if is_head (rq_method R rq) then NoBody else rd_body_consume_config rd"
  let ?head = "insert_extensions (rd_extensions rd) head"
  from response_chunks.initialize_ok [OF assms(1), of fs H is_match ?head True ?cfg "sp_runtime (spawner rd)"] ex
  obtain br where br: "reader_initialize H is_match next_data (?head, fs) True ?cfg (sp_runtime (spawner rd)) =
      Some (Inr (br, ?head), body_receiver br \<noteq> None)"
    and fresh: "fresh_reader is_match (if ?cfg = NoBody then [] else body_bytes fs) br"
    and rx: "body_receiver br \<noteq> None \<longleftrightarrow>
      (\<exists>c. ?cfg = Streamed c \<and> length (concat (pending_chunks br)) \<ge> read_buffer_limit c)" by auto
  have "parts_extensions ?head = (case rd_extensions rd of Some x \<Rightarrow> Some x | None \<Rightarrow> parts_extensions head)"
    "parts_status ?head = parts_status head"
    by (simp_all add: insert_extensions_def split: option.split)
  with granted_future [OF assms(2,3), of execute head fs] ex br fresh rx show "\<exists>i br.
      spawn_future H R is_match next_data is_head execute err a elapsed rd =
        Some (Inr (Some i), body_receiver br \<noteq> None) \<and>
      body_reader_field i = Some (Reader br) \<and> resp_status i = parts_status head \<and>
      extensions_field i =
        RespExtensions (case rd_extensions rd of Some x \<Rightarrow> Some x | None \<Rightarrow> parts_extensions head) \<and>
      fresh_reader is_match
        (if is_head (rq_method R rq) \<or> rd_body_consume_config rd = NoBody then [] else body_bytes fs) br \<and>
      (is_head (rq_method R rq) \<longrightarrow> body_receiver br = None)"
    by (auto simp: resp_initialize_def split: if_splits)
qed

definition head_data :: "((flat_map, bytes) plain_request, unit spawner_data, nat, nat json_handler) request_data" where
  "head_data = \<lparr>spawner = spawner_new () 0 (Some five_limiter) [], reqwest = timed_request, rd_extensions = Some 7,
     rd_body_consume_config = FullyConsumed, rd_json_handler = None, rd_error_for_status = True,
     rd_connection_verbose = False\<rparr>"

definition demo_execute :: "unit \<Rightarrow> (flat_map, bytes) plain_request \<Rightarrow>
    std_error + ((flat_map, 16 word, nat option) http_parts \<times> frames)" where
  "demo_execute _ _ = Inr (demo_head, demo_frames)"

theorem spawned_request_result_witness:
  "\<exists>i br. spawn_future flat_ops plain_ops (\<lambda>_ _. False) first_data (\<lambda>me. me = ''HEAD'') demo_execute timed_out
       (AcquiredAfter 3) 4 head_data = Some (Inr (Some i), False) \<and>
     body_reader_field i = Some (Reader br) \<and> resp_status i = 404 \<and> extensions_field i = RespExtensions (Some 7) \<and>
     fresh_reader (\<lambda>_ _. False) [] br"
proof -
  have "\<exists>rq'. spawner_limit_connections plain_ops timed_out five_limiter (AcquiredAfter 3) 4 timed_request = Some (Inr (), rq') \<and>
      rq_method plain_ops rq' = ''HEAD''"
    by (simp add: spawner_limit_connections_def limit_connections_def limit_timeout_def acquire_time_def
        acquire_result_def five_limiter_def limiter_new_def timed_request_def plain_ops_def)
  then obtain rq' where rq: "spawner_limit_connections plain_ops timed_out five_limiter (AcquiredAfter 3) 4
      (reqwest head_data) = Some (Inr (), rq')" "rq_method plain_ops rq' = ''HEAD''"
    by (auto simp: head_data_def)
  have "sp_limiter (spawner head_data) = Some five_limiter" by (simp add: head_data_def spawner_new_def)
  from spawned_request_result [OF data.response_chunks_axioms this rq(1), of demo_execute flat_ops "\<lambda>_ _. False" "\<lambda>me. me = ''HEAD''"]
  have "\<forall>head fs. demo_execute (sp_client (spawner head_data)) rq' = Inr (head, fs) \<and> no_errors fs \<longrightarrow> (\<exists>i br.
      spawn_future flat_ops plain_ops (\<lambda>_ _. False) first_data (\<lambda>me. me = ''HEAD'') demo_execute timed_out
       (AcquiredAfter 3) 4 head_data = Some (Inr (Some i), body_receiver br \<noteq> None) \<and>
     body_reader_field i = Some (Reader br) \<and> resp_status i = parts_status head \<and>
     extensions_field i = RespExtensions (Some 7) \<and> fresh_reader (\<lambda>_ _. False) [] br \<and> body_receiver br = None)"
    by (simp add: rq(2) head_data_def)
  moreover have "demo_execute (sp_client (spawner head_data)) rq' = Inr (demo_head, demo_frames) \<and> no_errors demo_frames"
    by (simp add: demo_execute_def demo_frames_def)
  ultimately obtain i br where
    "spawn_future flat_ops plain_ops (\<lambda>_ _. False) first_data (\<lambda>me. me = ''HEAD'') demo_execute timed_out
       (AcquiredAfter 3) 4 head_data = Some (Inr (Some i), body_receiver br \<noteq> None)"
    "body_reader_field i = Some (Reader br)" "resp_status i = parts_status demo_head"
    "extensions_field i = RespExtensions (Some 7)" "fresh_reader (\<lambda>_ _. False) [] br" "body_receiver br = None" by blast
  then show ?thesis by (auto simp: demo_head_def)
qed

subsection \<open>Request builders of a client\<close>

lemma create_request_builder_InrE:
  assumes "create_request_builder U B mk fresh c me ob blocking = Inr b"
  obtains url nexts where "request_url U (cl_base_url c) ob = Inr url" "init_middleware_next c = Inr nexts"
    "b = (request_builder_new (mk (cl_client c) me url)
        (spawner_new (cl_client c) (cl_runtime c) (cl_limiter c) (child_token fresh (cl_close c)))
        nexts (cl_json_handler c) (cl_error_for_status c) (cl_default_headers c) (cl_connection_verbose c) blocking)
      \<lparr>b_inner := Some (case cl_total_timeout c of None \<Rightarrow> mk (cl_client c) me url
                         | Some t \<Rightarrow> rb_timeout B t (mk (cl_client c) me url))\<rparr>"
  using assms
  by (auto simp: create_request_builder_def Let_def set_timeout_def builder_apply_def apply_opt_def
      request_builder_new_def and_then_Inr_iff split: sum.splits option.splits prod.splits)


definition demo_client :: "(nat, string, nat, nat, flat_map) client" where
  "demo_client = \<lparr>cl_client = 0, cl_base_url = None, cl_runtime = 0, cl_middlewares = Some (Arc 5 [8, 9]),
     cl_json_handler = None, cl_total_timeout = Some 5, cl_limiter = None, cl_error_for_status = True,
     cl_default_headers = None, cl_connection_verbose = False, cl_close = [3]\<rparr>"

definition demo_urls :: "(string, string) url_args" where
  "demo_urls = \<lparr>extract_str = Inr, extract_url = Inr, join_url = (\<lambda>u s. Inr (u @ s))\<rparr>"

definition demo_mk :: "nat \<Rightarrow> string \<Rightarrow> string \<Rightarrow> (flat_map, bytes) plain_request" where
  "demo_mk _ me url = \<lparr>p_method = me, p_url = url, p_headers = [], p_body = None, p_timeout = None\<rparr>"

lemma demo_created:
  "\<exists>b :: ((flat_map, bytes) plain_request, nat spawner_data, flat_map, nat, nat, nat, nat, nat, nat) request_builder.
     create_request_builder demo_urls plain_rb demo_mk 4 demo_client ''GET'' ''u'' True = Inr b"
  by (simp add: create_request_builder_def request_url_def demo_client_def demo_urls_def
      init_middleware_next_def next_inner_new_def set_timeout_def builder_apply_def apply_opt_def request_builder_new_def)


end
