(* ===== verification/Client_Builder.thy ===== *)
theory Client_Builder
  imports Client
begin

section \<open>The client builder\<close>

text \<open>
  Models \<open>BaseClientBuilder\<close>, \<open>ClientBuilder\<close> and \<open>SyncClientBuilder\<close> of
  \<open>src/client/client_builder.rs\<close>. The builder holds \<open>reqwest\<close>'s builder (\<open>'cb\<close>), to which
  options are handed at once, and settings of its own, which are used when the client is built. An
  option of the crate's builder is a value of \<open>client_opt\<close>; the crate's builder is the record
  \<open>cb_ops\<close>. \<open>'z\<close> is the type of the crate's objects (proxies, cookie providers, certificates,
  identities, addresses). A \<open>Duration\<close> is its number of nanoseconds.
\<close>

subsection \<open>Options of the crate's builder\<close>

datatype tls_version = TLS_1_0 | TLS_1_1 | TLS_1_2 | TLS_1_3

datatype flag_opt =
    DefaultCookieStore | Gzip | Brotli | Zstd | Deflate | Referer | ConnectionVerbose
  | Http1AllowObsoleteMultilineHeaders | Http1IgnoreInvalidHeaders | Http1AllowSpacesAfterHeaderName
  | Http2AdaptiveWindow | Http2KeepAliveWhileIdle | TcpNodelay | DangerAcceptInvalidCerts | TlsSni | HttpsOnly

datatype duration_opt =
    ReadTimeout | ConnectTimeout | PoolIdleTimeout | Http2KeepAliveInterval | Http2KeepAliveTimeout
  | TcpKeepalive | TcpKeepaliveInterval | TcpUserTimeout

datatype u32_opt =
    Http2InitialStreamWindowSize | Http2InitialConnectionWindowSize | Http2MaxFrameSize
  | Http2MaxHeaderListSize | TcpKeepaliveRetries

datatype object_opt = CookieProvider | Proxy | RootCertificate | AddCrl | Identity

datatype 'z client_opt =
    UserAgent string | Flag flag_opt bool | Span duration_opt "nat option" | U32 u32_opt "32 word option"
  | Object object_opt 'z | NoProxy | PoolMaxIdlePerHost nat | Http09Responses | LocalAddress "'z option"
  | Interface string | MinTlsVersion tls_version | MaxTlsVersion tls_version | Resolve string 'z
  | TlsBackendRustls | Http1Only | Http2PriorKnowledge | RedirectLimited nat | RedirectNone
  | Http1TitleCaseHeaders

record ('cb, 'z, 'cl) cb_ops =
  cb_new :: 'cb
  cb_set :: "'z client_opt \<Rightarrow> 'cb \<Rightarrow> 'cb"
  cb_build :: "'cb \<Rightarrow> std_error + 'cl"

text \<open>Parsers of the crates and of the standard library; they fail with a message.\<close>

record 'z crate_parsers =
  ip_from_str :: "string \<Rightarrow> string + 'z"
  cert_from_der :: "bytes \<Rightarrow> string + 'z"
  cert_from_pem :: "bytes \<Rightarrow> string + 'z"
  crl_from_pem :: "bytes \<Rightarrow> string + 'z"
  identity_from_pem :: "bytes \<Rightarrow> string + 'z"
  socket_addr :: "'z \<Rightarrow> 16 word \<Rightarrow> 'z"

subsection \<open>State\<close>

record ('cb, 'mw, 'f, 'm, 'u) client_builder =
  cb_inner :: "'cb option"
  cb_middlewares :: "'mw list option"
  cb_json_handler :: "'f json_handler option"
  cb_max_connections :: "nat option"
  cb_total_timeout :: "nat option"
  cb_pool_timeout :: "nat option"
  cb_follow_redirects :: bool
  cb_max_redirects :: "nat option"
  cb_http1_lower_case_headers :: bool
  cb_error_for_status :: bool
  cb_default_headers :: "'m option"
  cb_runtime_multithreaded :: "bool option"
  cb_base_url :: "'u option"
  cb_connection_verbose :: bool
  cb_http1 :: bool
  cb_http2 :: bool

definition DEFAULT_UA :: string where
  "DEFAULT_UA = ''python-pyreqwest/1.0.0''"

definition client_builder_new :: "('cb, 'z, 'cl) cb_ops \<Rightarrow> ('cb, 'mw, 'f, 'm, 'u) client_builder" where
  "client_builder_new C =
     \<lparr>cb_inner = Some (cb_set C (UserAgent DEFAULT_UA) (cb_new C)), cb_middlewares = None,
      cb_json_handler = None, cb_max_connections = None, cb_total_timeout = None, cb_pool_timeout = None,
      cb_follow_redirects = True, cb_max_redirects = None, cb_http1_lower_case_headers = False,
      cb_error_for_status = False, cb_default_headers = None, cb_runtime_multithreaded = None,
      cb_base_url = None, cb_connection_verbose = False, cb_http1 = True, cb_http2 = False\<rparr>"

type_synonym ('cb, 'mw, 'f, 'm, 'u) cb_setter =
  "('cb, 'mw, 'f, 'm, 'u) client_builder \<Rightarrow> unit pyres \<times> ('cb, 'mw, 'f, 'm, 'u) client_builder"

definition client_built :: py_err where
  "client_built = runtime_error ''Client was already built''"

definition cb_check_inner :: "('cb, 'mw, 'f, 'm, 'u) client_builder \<Rightarrow> unit pyres" where
  "cb_check_inner b = map_res (\<lambda>_. ()) (ok_or client_built (cb_inner b))"

definition cb_apply :: "('cb \<Rightarrow> 'cb pyres) \<Rightarrow> ('cb, 'mw, 'f, 'm, 'u) cb_setter" where
  "cb_apply f b = (case apply_opt client_built f (cb_inner b) of (r, i) \<Rightarrow> (r, b\<lparr>cb_inner := i\<rparr>))"

definition cb_checked ::
    "(('cb, 'mw, 'f, 'm, 'u) client_builder \<Rightarrow> ('cb, 'mw, 'f, 'm, 'u) client_builder) \<Rightarrow>
     ('cb, 'mw, 'f, 'm, 'u) cb_setter" where
  "cb_checked f b = (case cb_check_inner b of Inl e \<Rightarrow> (Inl e, b) | Inr _ \<Rightarrow> (Inr (), f b))"

subsection \<open>Settings of the builder itself\<close>

text \<open>\<open>url_str\<close> is \<open>Url::as_str\<close>.\<close>

definition quoted :: "string \<Rightarrow> string" where
  "quoted s = [CHR 0x27] @ s @ [CHR 0x27]"

definition cb_set_base_url :: "('u \<Rightarrow> string) \<Rightarrow> 'u \<Rightarrow> ('cb, 'mw, 'f, 'm, 'u) cb_setter" where
  "cb_set_base_url url_str url b =
     (if url_str url = [] \<or> last (url_str url) \<noteq> CHR ''/''
      then (Inl (value_error (''base_url must end with a trailing slash '' @ quoted ''/'')), b)
      else cb_checked (\<lambda>b. b\<lparr>cb_base_url := Some url\<rparr>) b)"

definition cb_set_runtime_multithreaded :: "bool \<Rightarrow> ('cb, 'mw, 'f, 'm, 'u) cb_setter" where
  "cb_set_runtime_multithreaded enable = cb_checked (\<lambda>b. b\<lparr>cb_runtime_multithreaded := Some enable\<rparr>)"

definition cb_set_max_connections :: "nat option \<Rightarrow> ('cb, 'mw, 'f, 'm, 'u) cb_setter" where
  "cb_set_max_connections limit b =
     (if limit = Some 0 then (Inl (value_error ''max_connections must be greater than 0''), b)
      else cb_checked (\<lambda>b. b\<lparr>cb_max_connections := limit\<rparr>) b)"

definition cb_set_error_for_status :: "bool \<Rightarrow> ('cb, 'mw, 'f, 'm, 'u) cb_setter" where
  "cb_set_error_for_status enable = cb_checked (\<lambda>b. b\<lparr>cb_error_for_status := enable\<rparr>)"

text \<open>The argument is a copy of the Python header map, which is consumed.\<close>

definition cb_set_default_headers :: "'m http_ops \<Rightarrow> 'm header_map \<Rightarrow> ('cb, 'mw, 'f, 'm, 'u) cb_setter" where
  "cb_set_default_headers H hs b =
     (case cb_check_inner b of
        Inl e \<Rightarrow> (Inl e, b)
      | Inr _ \<Rightarrow>
          (case fst (try_take_inner hs) of
             Inl e \<Rightarrow> (Inl e, b)
           | Inr m \<Rightarrow>
               (Inr (), b\<lparr>cb_default_headers :=
                  Some (case cb_default_headers b of Some dflt \<Rightarrow> hm_extend H dflt m | None \<Rightarrow> m)\<rparr>)))"

definition cb_set_follow_redirects :: "bool \<Rightarrow> ('cb, 'mw, 'f, 'm, 'u) cb_setter" where
  "cb_set_follow_redirects enable = cb_checked (\<lambda>b. b\<lparr>cb_follow_redirects := enable\<rparr>)"

definition cb_set_max_redirects :: "nat \<Rightarrow> ('cb, 'mw, 'f, 'm, 'u) cb_setter" where
  "cb_set_max_redirects n = cb_checked (\<lambda>b. b\<lparr>cb_max_redirects := Some n\<rparr>)"

definition cb_set_timeout :: "nat \<Rightarrow> ('cb, 'mw, 'f, 'm, 'u) cb_setter" where
  "cb_set_timeout timeout = cb_checked (\<lambda>b. b\<lparr>cb_total_timeout := Some timeout\<rparr>)"

definition cb_set_pool_timeout :: "nat \<Rightarrow> ('cb, 'mw, 'f, 'm, 'u) cb_setter" where
  "cb_set_pool_timeout timeout = cb_checked (\<lambda>b. b\<lparr>cb_pool_timeout := Some timeout\<rparr>)"

definition cb_set_http1_lower_case_headers :: "('cb, 'mw, 'f, 'm, 'u) cb_setter" where
  "cb_set_http1_lower_case_headers = cb_checked (\<lambda>b. b\<lparr>cb_http1_lower_case_headers := True\<rparr>)"

text \<open>The choice of the protocol does not look whether the client was built already.\<close>

definition cb_set_http1_only :: "('cb, 'mw, 'f, 'm, 'u) cb_setter" where
  "cb_set_http1_only b = (Inr (), b\<lparr>cb_http1 := True, cb_http2 := False\<rparr>)"

definition cb_set_http2 :: "bool \<Rightarrow> ('cb, 'mw, 'f, 'm, 'u) cb_setter" where
  "cb_set_http2 enable b = (Inr (), b\<lparr>cb_http2 := enable\<rparr>)"

definition cb_set_http2_prior_knowledge :: "('cb, 'mw, 'f, 'm, 'u) cb_setter" where
  "cb_set_http2_prior_knowledge b = (Inr (), b\<lparr>cb_http1 := False, cb_http2 := True\<rparr>)"

subsection \<open>Options handed to the crate's builder\<close>

definition cb_opt :: "('cb, 'z, 'cl) cb_ops \<Rightarrow> 'z client_opt \<Rightarrow> ('cb, 'mw, 'f, 'm, 'u) cb_setter" where
  "cb_opt C opt = cb_apply (\<lambda>c. Inr (cb_set C opt c))"

text \<open>Options with an argument that has to be parsed first.\<close>

definition cb_parsed ::
    "('cb, 'z, 'cl) cb_ops \<Rightarrow> ('z \<Rightarrow> 'z client_opt) \<Rightarrow> string + 'z \<Rightarrow> ('cb, 'mw, 'f, 'm, 'u) cb_setter" where
  "cb_parsed C mk res = cb_apply (\<lambda>c. map_res (\<lambda>x. cb_set C (mk x) c) (map_err value_error res))"

definition cb_user_agent :: "('cb, 'z, 'cl) cb_ops \<Rightarrow> string \<Rightarrow> ('cb, 'mw, 'f, 'm, 'u) cb_setter" where
  "cb_user_agent C v = cb_opt C (UserAgent v)"

definition cb_default_cookie_store :: "('cb, 'z, 'cl) cb_ops \<Rightarrow> bool \<Rightarrow> ('cb, 'mw, 'f, 'm, 'u) cb_setter" where
  "cb_default_cookie_store C enable = cb_opt C (Flag DefaultCookieStore enable)"

definition cb_cookie_provider :: "('cb, 'z, 'cl) cb_ops \<Rightarrow> 'z \<Rightarrow> ('cb, 'mw, 'f, 'm, 'u) cb_setter" where
  "cb_cookie_provider C provider = cb_opt C (Object CookieProvider provider)"

definition cb_gzip :: "('cb, 'z, 'cl) cb_ops \<Rightarrow> bool \<Rightarrow> ('cb, 'mw, 'f, 'm, 'u) cb_setter" where
  "cb_gzip C enable = cb_opt C (Flag Gzip enable)"

definition cb_brotli :: "('cb, 'z, 'cl) cb_ops \<Rightarrow> bool \<Rightarrow> ('cb, 'mw, 'f, 'm, 'u) cb_setter" where
  "cb_brotli C enable = cb_opt C (Flag Brotli enable)"

definition cb_zstd :: "('cb, 'z, 'cl) cb_ops \<Rightarrow> bool \<Rightarrow> ('cb, 'mw, 'f, 'm, 'u) cb_setter" where
  "cb_zstd C enable = cb_opt C (Flag Zstd enable)"

definition cb_deflate :: "('cb, 'z, 'cl) cb_ops \<Rightarrow> bool \<Rightarrow> ('cb, 'mw, 'f, 'm, 'u) cb_setter" where
  "cb_deflate C enable = cb_opt C (Flag Deflate enable)"

definition cb_referer :: "('cb, 'z, 'cl) cb_ops \<Rightarrow> bool \<Rightarrow> ('cb, 'mw, 'f, 'm, 'u) cb_setter" where
  "cb_referer C enable = cb_opt C (Flag Referer enable)"

text \<open>The proxy builder is built, and so consumed, before the client builder is looked at.\<close>

definition cb_proxy ::
    "('cb, 'z, 'cl) cb_ops \<Rightarrow> 'z option \<Rightarrow> ('cb, 'mw, 'f, 'm, 'u) client_builder \<Rightarrow>
     unit pyres \<times> 'z option \<times> ('cb, 'mw, 'f, 'm, 'u) client_builder" where
  "cb_proxy C pb b =
     (case proxy_build pb of
        (Inl e, pb') \<Rightarrow> (Inl e, pb', b)
      | (Inr px, pb') \<Rightarrow> (case cb_opt C (Object Proxy px) b of (r, b') \<Rightarrow> (r, pb', b')))"

definition cb_no_proxy :: "('cb, 'z, 'cl) cb_ops \<Rightarrow> ('cb, 'mw, 'f, 'm, 'u) cb_setter" where
  "cb_no_proxy C = cb_opt C NoProxy"

definition cb_read_timeout :: "('cb, 'z, 'cl) cb_ops \<Rightarrow> nat \<Rightarrow> ('cb, 'mw, 'f, 'm, 'u) cb_setter" where
  "cb_read_timeout C timeout = cb_opt C (Span ReadTimeout (Some timeout))"

definition cb_connect_timeout :: "('cb, 'z, 'cl) cb_ops \<Rightarrow> nat \<Rightarrow> ('cb, 'mw, 'f, 'm, 'u) cb_setter" where
  "cb_connect_timeout C timeout = cb_opt C (Span ConnectTimeout (Some timeout))"

definition cb_pool_idle_timeout :: "('cb, 'z, 'cl) cb_ops \<Rightarrow> nat option \<Rightarrow> ('cb, 'mw, 'f, 'm, 'u) cb_setter" where
  "cb_pool_idle_timeout C timeout = cb_opt C (Span PoolIdleTimeout timeout)"

definition cb_pool_max_idle_per_host :: "('cb, 'z, 'cl) cb_ops \<Rightarrow> nat \<Rightarrow> ('cb, 'mw, 'f, 'm, 'u) cb_setter" where
  "cb_pool_max_idle_per_host C max_idle = cb_opt C (PoolMaxIdlePerHost max_idle)"

text \<open>The flag is set before it is known whether the client was built already.\<close>

definition cb_set_connection_verbose :: "('cb, 'z, 'cl) cb_ops \<Rightarrow> bool \<Rightarrow> ('cb, 'mw, 'f, 'm, 'u) cb_setter" where
  "cb_set_connection_verbose C enable b =
     cb_opt C (Flag ConnectionVerbose enable) (b\<lparr>cb_connection_verbose := enable\<rparr>)"

definition cb_http1_allow_obsolete_multiline_headers_in_responses :: "('cb, 'z, 'cl) cb_ops \<Rightarrow> bool \<Rightarrow> ('cb, 'mw, 'f, 'm, 'u) cb_setter" where
  "cb_http1_allow_obsolete_multiline_headers_in_responses C v = 
     cb_opt C (Flag Http1AllowObsoleteMultilineHeaders v)"

definition cb_http1_ignore_invalid_headers_in_responses :: "('cb, 'z, 'cl) cb_ops \<Rightarrow> bool \<Rightarrow> ('cb, 'mw, 'f, 'm, 'u) cb_setter" where
  "cb_http1_ignore_invalid_headers_in_responses C v = 
     cb_opt C (Flag Http1IgnoreInvalidHeaders v)"

definition cb_http1_allow_spaces_after_header_name_in_responses :: "('cb, 'z, 'cl) cb_ops \<Rightarrow> bool \<Rightarrow> ('cb, 'mw, 'f, 'm, 'u) cb_setter" where
  "cb_http1_allow_spaces_after_header_name_in_responses C v = 
     cb_opt C (Flag Http1AllowSpacesAfterHeaderName v)"

definition cb_http2_initial_stream_window_size :: "('cb, 'z, 'cl) cb_ops \<Rightarrow> 32 word option \<Rightarrow> ('cb, 'mw, 'f, 'm, 'u) cb_setter" where
  "cb_http2_initial_stream_window_size C v = 
     cb_opt C (U32 Http2InitialStreamWindowSize v)"

definition cb_http2_initial_connection_window_size :: "('cb, 'z, 'cl) cb_ops \<Rightarrow> 32 word option \<Rightarrow> ('cb, 'mw, 'f, 'm, 'u) cb_setter" where
  "cb_http2_initial_connection_window_size C v = 
     cb_opt C (U32 Http2InitialConnectionWindowSize v)"

definition cb_http2_adaptive_window :: "('cb, 'z, 'cl) cb_ops \<Rightarrow> bool \<Rightarrow> ('cb, 'mw, 'f, 'm, 'u) cb_setter" where
  "cb_http2_adaptive_window C enabled = cb_opt C (Flag Http2AdaptiveWindow enabled)"

definition cb_http2_max_frame_size :: "('cb, 'z, 'cl) cb_ops \<Rightarrow> 32 word option \<Rightarrow> ('cb, 'mw, 'f, 'm, 'u) cb_setter" where
  "cb_http2_max_frame_size C v = cb_opt C (U32 Http2MaxFrameSize v)"

definition cb_http2_max_header_list_size :: "('cb, 'z, 'cl) cb_ops \<Rightarrow> 32 word \<Rightarrow> ('cb, 'mw, 'f, 'm, 'u) cb_setter" where
  "cb_http2_max_header_list_size C v = cb_opt C (U32 Http2MaxHeaderListSize (Some v))"

definition cb_http2_keep_alive_interval :: "('cb, 'z, 'cl) cb_ops \<Rightarrow> nat option \<Rightarrow> ('cb, 'mw, 'f, 'm, 'u) cb_setter" where
  "cb_http2_keep_alive_interval C v = cb_opt C (Span Http2KeepAliveInterval v)"

definition cb_http2_keep_alive_timeout :: "('cb, 'z, 'cl) cb_ops \<Rightarrow> nat \<Rightarrow> ('cb, 'mw, 'f, 'm, 'u) cb_setter" where
  "cb_http2_keep_alive_timeout C timeout = cb_opt C (Span Http2KeepAliveTimeout (Some timeout))"

definition cb_http2_keep_alive_while_idle :: "('cb, 'z, 'cl) cb_ops \<Rightarrow> bool \<Rightarrow> ('cb, 'mw, 'f, 'm, 'u) cb_setter" where
  "cb_http2_keep_alive_while_idle C enabled = cb_opt C (Flag Http2KeepAliveWhileIdle enabled)"

definition cb_http09_responses :: "('cb, 'z, 'cl) cb_ops \<Rightarrow> ('cb, 'mw, 'f, 'm, 'u) cb_setter" where
  "cb_http09_responses C = cb_opt C Http09Responses"

definition cb_tcp_nodelay :: "('cb, 'z, 'cl) cb_ops \<Rightarrow> bool \<Rightarrow> ('cb, 'mw, 'f, 'm, 'u) cb_setter" where
  "cb_tcp_nodelay C enabled = cb_opt C (Flag TcpNodelay enabled)"

definition cb_local_address ::
    "('cb, 'z, 'cl) cb_ops \<Rightarrow> 'z crate_parsers \<Rightarrow> string option \<Rightarrow> ('cb, 'mw, 'f, 'm, 'u) cb_setter" where
  "cb_local_address C P addr =
     cb_apply (\<lambda>c.
       case addr of
         None \<Rightarrow> Inr (cb_set C (LocalAddress None) c)
       | Some v \<Rightarrow> map_res (\<lambda>ip. cb_set C (LocalAddress (Some ip)) c) (map_err value_error (ip_from_str P v)))"

text \<open>On Linux and macOS; other platforms raise. \<open>tcp_user_timeout\<close> is Linux only.\<close>

definition cb_interface :: "('cb, 'z, 'cl) cb_ops \<Rightarrow> string \<Rightarrow> ('cb, 'mw, 'f, 'm, 'u) cb_setter" where
  "cb_interface C v = cb_opt C (Interface v)"

definition cb_tcp_keepalive :: "('cb, 'z, 'cl) cb_ops \<Rightarrow> nat option \<Rightarrow> ('cb, 'mw, 'f, 'm, 'u) cb_setter" where
  "cb_tcp_keepalive C duration = cb_opt C (Span TcpKeepalive duration)"

definition cb_tcp_keepalive_interval :: "('cb, 'z, 'cl) cb_ops \<Rightarrow> nat option \<Rightarrow> ('cb, 'mw, 'f, 'm, 'u) cb_setter" where
  "cb_tcp_keepalive_interval C interval = cb_opt C (Span TcpKeepaliveInterval interval)"

definition cb_tcp_keepalive_retries :: "('cb, 'z, 'cl) cb_ops \<Rightarrow> 32 word option \<Rightarrow> ('cb, 'mw, 'f, 'm, 'u) cb_setter" where
  "cb_tcp_keepalive_retries C n = cb_opt C (U32 TcpKeepaliveRetries n)"

definition cb_tcp_user_timeout :: "('cb, 'z, 'cl) cb_ops \<Rightarrow> nat option \<Rightarrow> ('cb, 'mw, 'f, 'm, 'u) cb_setter" where
  "cb_tcp_user_timeout C timeout = cb_opt C (Span TcpUserTimeout timeout)"

definition cb_add_root_certificate_der ::
    "('cb, 'z, 'cl) cb_ops \<Rightarrow> 'z crate_parsers \<Rightarrow> bytes \<Rightarrow> ('cb, 'mw, 'f, 'm, 'u) cb_setter" where
  "cb_add_root_certificate_der C P bs = cb_parsed C (Object RootCertificate) (cert_from_der P bs)"

definition cb_add_root_certificate_pem ::
    "('cb, 'z, 'cl) cb_ops \<Rightarrow> 'z crate_parsers \<Rightarrow> bytes \<Rightarrow> ('cb, 'mw, 'f, 'm, 'u) cb_setter" where
  "cb_add_root_certificate_pem C P bs = cb_parsed C (Object RootCertificate) (cert_from_pem P bs)"

definition cb_add_crl_pem ::
    "('cb, 'z, 'cl) cb_ops \<Rightarrow> 'z crate_parsers \<Rightarrow> bytes \<Rightarrow> ('cb, 'mw, 'f, 'm, 'u) cb_setter" where
  "cb_add_crl_pem C P bs = cb_parsed C (Object AddCrl) (crl_from_pem P bs)"

definition cb_identity_pem ::
    "('cb, 'z, 'cl) cb_ops \<Rightarrow> 'z crate_parsers \<Rightarrow> bytes \<Rightarrow> ('cb, 'mw, 'f, 'm, 'u) cb_setter" where
  "cb_identity_pem C P bs = cb_parsed C (Object Identity) (identity_from_pem P bs)"

definition cb_danger_accept_invalid_certs :: "('cb, 'z, 'cl) cb_ops \<Rightarrow> bool \<Rightarrow> ('cb, 'mw, 'f, 'm, 'u) cb_setter" where
  "cb_danger_accept_invalid_certs C enable = cb_opt C (Flag DangerAcceptInvalidCerts enable)"

definition cb_tls_sni :: "('cb, 'z, 'cl) cb_ops \<Rightarrow> bool \<Rightarrow> ('cb, 'mw, 'f, 'm, 'u) cb_setter" where
  "cb_tls_sni C enable = cb_opt C (Flag TlsSni enable)"

definition parse_tls_version :: "string \<Rightarrow> tls_version pyres" where
  "parse_tls_version v =
     (if v = ''TLSv1.0'' then Inr TLS_1_0 else if v = ''TLSv1.1'' then Inr TLS_1_1
      else if v = ''TLSv1.2'' then Inr TLS_1_2 else if v = ''TLSv1.3'' then Inr TLS_1_3
      else Inl (value_error
        (''Invalid TLS version. Use '' @ quoted ''TLSv1.0'' @ '', '' @ quoted ''TLSv1.1'' @ '', '' @
         quoted ''TLSv1.2'' @ '', or '' @ quoted ''TLSv1.3'')))"

definition cb_min_tls_version :: "('cb, 'z, 'cl) cb_ops \<Rightarrow> string \<Rightarrow> ('cb, 'mw, 'f, 'm, 'u) cb_setter" where
  "cb_min_tls_version C v = cb_apply (\<lambda>c. map_res (\<lambda>t. cb_set C (MinTlsVersion t) c) (parse_tls_version v))"

definition cb_max_tls_version :: "('cb, 'z, 'cl) cb_ops \<Rightarrow> string \<Rightarrow> ('cb, 'mw, 'f, 'm, 'u) cb_setter" where
  "cb_max_tls_version C v = cb_apply (\<lambda>c. map_res (\<lambda>t. cb_set C (MaxTlsVersion t) c) (parse_tls_version v))"

definition cb_https_only :: "('cb, 'z, 'cl) cb_ops \<Rightarrow> bool \<Rightarrow> ('cb, 'mw, 'f, 'm, 'u) cb_setter" where
  "cb_https_only C enable = cb_opt C (Flag HttpsOnly enable)"

definition cb_resolve ::
    "('cb, 'z, 'cl) cb_ops \<Rightarrow> 'z crate_parsers \<Rightarrow> string \<Rightarrow> string \<Rightarrow> 16 word \<Rightarrow> ('cb, 'mw, 'f, 'm, 'u) cb_setter" where
  "cb_resolve C P domain ip port = cb_parsed C (\<lambda>a. Resolve domain (socket_addr P a port)) (ip_from_str P ip)"

subsection \<open>Middlewares and JSON handler\<close>

text \<open>\<open>is_async\<close> is \<open>is_async_callable\<close>, which may raise.\<close>

definition cb_inner_with_middleware :: "'mw \<Rightarrow> ('cb, 'mw, 'f, 'm, 'u) cb_setter" where
  "cb_inner_with_middleware mw =
     cb_checked (\<lambda>b. b\<lparr>cb_middlewares := Some ((case cb_middlewares b of Some mws \<Rightarrow> mws | None \<Rightarrow> []) @ [mw])\<rparr>)"

definition cb_with_middleware :: "('mw \<Rightarrow> bool pyres) \<Rightarrow> 'mw \<Rightarrow> ('cb, 'mw, 'f, 'm, 'u) cb_setter" where
  "cb_with_middleware is_async mw b =
     (case is_async mw of
        Inl e \<Rightarrow> (Inl e, b)
      | Inr async \<Rightarrow>
          if \<not> async then (Inl (value_error ''Middleware must be an async function''), b)
          else cb_inner_with_middleware mw b)"

definition sync_cb_with_middleware :: "('mw \<Rightarrow> bool pyres) \<Rightarrow> 'mw \<Rightarrow> ('cb, 'mw, 'f, 'm, 'u) cb_setter" where
  "sync_cb_with_middleware is_async mw b =
     (case is_async mw of
        Inl e \<Rightarrow> (Inl e, b)
      | Inr async \<Rightarrow>
          if async then (Inl (value_error ''Middleware must be a sync function''), b)
          else cb_inner_with_middleware mw b)"

text \<open>The keyword arguments are a map; \<open>loads\<close> is set before \<open>dumps\<close> is looked at.\<close>

definition cb_inner_json_handler ::
    "('f \<Rightarrow> bool pyres) \<Rightarrow> (string \<Rightarrow> 'f option) \<Rightarrow> ('cb, 'mw, 'f, 'm, 'u) cb_setter" where
  "cb_inner_json_handler is_async kwargs b =
     (case cb_check_inner b of
        Inl e \<Rightarrow> (Inl e, b)
      | Inr _ \<Rightarrow>
          (let j0 = (case cb_json_handler b of Some j \<Rightarrow> j | None \<Rightarrow> \<lparr>dumps = None, loads = None\<rparr>);
               j1 = (case kwargs ''loads'' of Some cb \<Rightarrow> set_loads (Some cb) j0 | None \<Rightarrow> j0);
               b1 = b\<lparr>cb_json_handler := Some j1\<rparr>
           in case kwargs ''dumps'' of
                None \<Rightarrow> (Inr (), b1)
              | Some cb \<Rightarrow>
                  (case is_async cb of
                     Inl e \<Rightarrow> (Inl e, b1)
                   | Inr async \<Rightarrow>
                       if async then (Inl (value_error ''dumps must be a sync function''), b1)
                       else (Inr (), b1\<lparr>cb_json_handler := Some (set_dumps (Some cb) j1)\<rparr>))))"

definition cb_json_handler_kwargs ::
    "('f \<Rightarrow> bool pyres) \<Rightarrow> (string \<Rightarrow> 'f option) option \<Rightarrow> ('cb, 'mw, 'f, 'm, 'u) cb_setter" where
  "cb_json_handler_kwargs is_async kwargs b =
     (case kwargs of
        None \<Rightarrow> (Inr (), b)
      | Some kw \<Rightarrow>
          (case (case kw ''loads'' of None \<Rightarrow> Inr True | Some cb \<Rightarrow> is_async cb) of
             Inl e \<Rightarrow> (Inl e, b)
           | Inr async \<Rightarrow>
               if \<not> async then (Inl (value_error ''loads must be an async function''), b)
               else cb_inner_json_handler is_async kw b))"

definition sync_cb_json_handler_kwargs ::
    "('f \<Rightarrow> bool pyres) \<Rightarrow> (string \<Rightarrow> 'f option) option \<Rightarrow> ('cb, 'mw, 'f, 'm, 'u) cb_setter" where
  "sync_cb_json_handler_kwargs is_async kwargs b =
     (case kwargs of
        None \<Rightarrow> (Inr (), b)
      | Some kw \<Rightarrow>
          (case (case kw ''loads'' of None \<Rightarrow> Inr False | Some cb \<Rightarrow> is_async cb) of
             Inl e \<Rightarrow> (Inl e, b)
           | Inr async \<Rightarrow>
               if async then (Inl (value_error ''loads must be a sync function''), b)
               else cb_inner_json_handler is_async kw b))"

subsection \<open>Building the client\<close>

text \<open>
  What the builder's own settings mean for the crate's builder, in the order the code hands them
  over. \<open>None\<close>: neither protocol is enabled.
\<close>

definition protocol_opts :: "('cb, 'mw, 'f, 'm, 'u) client_builder \<Rightarrow> 'z client_opt list option" where
  "protocol_opts b =
     (if cb_http1 b \<and> cb_http2 b then Some []
      else if cb_http1 b \<and> \<not> cb_http2 b then Some [Http1Only]
      else if \<not> cb_http1 b \<and> cb_http2 b then Some [Http2PriorKnowledge]
      else None)"

definition redirect_opts :: "('cb, 'mw, 'f, 'm, 'u) client_builder \<Rightarrow> 'z client_opt list" where
  "redirect_opts b =
     (if cb_follow_redirects b
      then (case cb_max_redirects b of Some n \<Rightarrow> [RedirectLimited n] | None \<Rightarrow> [])
      else [RedirectNone])"

definition header_case_opts :: "('cb, 'mw, 'f, 'm, 'u) client_builder \<Rightarrow> 'z client_opt list" where
  "header_case_opts b = (if \<not> cb_http1_lower_case_headers b then [Http1TitleCaseHeaders] else [])"

definition set_opts :: "('cb, 'z, 'cl) cb_ops \<Rightarrow> 'z client_opt list \<Rightarrow> 'cb \<Rightarrow> 'cb" where
  "set_opts C opts c = fold (cb_set C) opts c"

text \<open>
  \<open>handle\<close> is \<open>RuntimeHandle::global_handle\<close>, \<open>verbose\<close> what \<open>init_verbose_logging\<close>
  answers, \<open>tok\<close> the token of the new client, \<open>ptr\<close> the address of its vector of middlewares.
\<close>

definition build_client_base ::
    "('cb, 'z, 'cl) cb_ops \<Rightarrow> (bool option \<Rightarrow> runtime_handle pyres) \<Rightarrow> unit pyres \<Rightarrow> token \<Rightarrow> nat \<Rightarrow>
     ('cb, 'mw, 'f, 'm, 'u) client_builder \<Rightarrow>
     ('cl, 'u, 'mw, 'f, 'm) client pyres \<times> ('cb, 'mw, 'f, 'm, 'u) client_builder" where
  "build_client_base C handle verbose tok ptr b =
     (case handle (cb_runtime_multithreaded b) of
        Inl e \<Rightarrow> (Inl e, b)
      | Inr runtime \<Rightarrow>
          (case take_or client_built (cb_inner b) of
             (Inl e, i) \<Rightarrow> (Inl e, b\<lparr>cb_inner := i\<rparr>)
           | (Inr c0, i) \<Rightarrow>
               (let b1 = b\<lparr>cb_inner := i\<rparr>; c1 = cb_set C TlsBackendRustls c0 in
                case protocol_opts b of
                  None \<Rightarrow> (Inl (from_msg BuilderError ''At least one of http1 or http2 must be enabled''), b1)
                | Some popts \<Rightarrow>
                    (let c2 = set_opts C (popts @ redirect_opts b @ header_case_opts b) c1 in
                     case (if cb_connection_verbose b then verbose else Inr ()) of
                       Inl e \<Rightarrow> (Inl e, b1)
                     | Inr _ \<Rightarrow>
                         (case cb_build C c2 of
                            Inl e \<Rightarrow> (Inl (from_err BuilderError ''builder error'' e), b1)
                          | Inr cl \<Rightarrow>
                              (Inr (base_client_new cl runtime (cb_middlewares b) (cb_json_handler b) (cb_total_timeout b)
                                 (map_option (\<lambda>n. limiter_new n (cb_pool_timeout b)) (cb_max_connections b))
                                 (cb_error_for_status b) (cb_default_headers b) (cb_base_url b)
                                 (cb_connection_verbose b) tok ptr),
                               b1\<lparr>cb_middlewares := None, cb_json_handler := None, cb_default_headers := None,
                                  cb_base_url := None\<rparr>))))))"

end
