(* ===== verification/Client_Builder_Properties.thy ===== *)
theory Client_Builder_Properties
  imports Client_Builder Request_Properties
begin

section \<open>Properties of the client builder\<close>

text \<open>
  What a client is built with, for any sequence of calls on its builder; when building fails and
  what is left of the builder then.
\<close>

subsection \<open>Sequences of calls\<close>

text \<open>Every method that hands an option to the crate's builder is a \<open>CrateOption\<close>.\<close>

datatype ('z, 'mw, 'm, 'u) client_call =
    SetBaseUrl 'u | SetMultithreaded bool | SetMaxConnections "nat option" | SetErrorForStatus bool
  | SetDefaultHeaders "'m header_map" | SetFollowRedirects bool | SetMaxRedirects nat | SetTimeout nat
  | SetPoolTimeout nat | SetVerbose bool | SetLowerCaseHeaders | SetHttp1Only | SetHttp2 bool
  | SetHttp2PriorKnowledge | AddMiddleware 'mw | CrateOption "'z client_opt"

fun call_setter ::
    "('cb, 'z, 'cl) cb_ops \<Rightarrow> 'm http_ops \<Rightarrow> ('u \<Rightarrow> string) \<Rightarrow> ('z, 'mw, 'm, 'u) client_call \<Rightarrow>
     ('cb, 'mw, 'f, 'm, 'u) cb_setter" where
  "call_setter C H us (SetBaseUrl u) = cb_set_base_url us u"
| "call_setter C H us (SetMultithreaded e) = cb_set_runtime_multithreaded e"
| "call_setter C H us (SetMaxConnections n) = cb_set_max_connections n"
| "call_setter C H us (SetErrorForStatus e) = cb_set_error_for_status e"
| "call_setter C H us (SetDefaultHeaders hs) = cb_set_default_headers H hs"
| "call_setter C H us (SetFollowRedirects e) = cb_set_follow_redirects e"
| "call_setter C H us (SetMaxRedirects n) = cb_set_max_redirects n"
| "call_setter C H us (SetTimeout t) = cb_set_timeout t"
| "call_setter C H us (SetPoolTimeout t) = cb_set_pool_timeout t"
| "call_setter C H us (SetVerbose e) = cb_set_connection_verbose C e"
| "call_setter C H us SetLowerCaseHeaders = cb_set_http1_lower_case_headers"
| "call_setter C H us SetHttp1Only = cb_set_http1_only"
| "call_setter C H us (SetHttp2 e) = cb_set_http2 e"
| "call_setter C H us SetHttp2PriorKnowledge = cb_set_http2_prior_knowledge"
| "call_setter C H us (AddMiddleware mw) = cb_inner_with_middleware mw"
| "call_setter C H us (CrateOption opt) = cb_opt C opt"

text \<open>The calls one after the other, until one raises.\<close>

fun client_calls ::
    "('cb, 'z, 'cl) cb_ops \<Rightarrow> 'm http_ops \<Rightarrow> ('u \<Rightarrow> string) \<Rightarrow> ('z, 'mw, 'm, 'u) client_call list \<Rightarrow>
     ('cb, 'mw, 'f, 'm, 'u) cb_setter" where
  "client_calls C H us [] b = (Inr (), b)"
| "client_calls C H us (c # cs) b =
     (case call_setter C H us c b of (Inl e, b') \<Rightarrow> (Inl e, b') | (Inr _, b') \<Rightarrow> client_calls C H us cs b')"

lemma cb_checked_Inr:
  "cb_checked f b = (Inr u, b') \<longleftrightarrow> cb_inner b \<noteq> None \<and> b' = f b"
  by (auto simp: cb_checked_def cb_check_inner_def ok_or_def split: option.splits)

lemma cb_opt_Inr:
  "cb_opt C opt b = (Inr u, b') \<longleftrightarrow> (\<exists>c. cb_inner b = Some c \<and> b' = b\<lparr>cb_inner := Some (cb_set C opt c)\<rparr>)"
  by (auto simp: cb_opt_def cb_apply_def apply_opt_def split: option.splits)

lemma cb_default_headers_Inr:
  "cb_set_default_headers H hs b = (Inr u, b') \<longleftrightarrow> cb_inner b \<noteq> None \<and>
     (\<exists>m. fst (try_take_inner hs) = Inr m \<and> b' = b\<lparr>cb_default_headers :=
        Some (case cb_default_headers b of Some dflt \<Rightarrow> hm_extend H dflt m | None \<Rightarrow> m)\<rparr>)"
  by (auto simp: cb_set_default_headers_def cb_check_inner_def ok_or_def split: option.splits sum.splits)

lemmas setter_Inr = cb_checked_Inr cb_opt_Inr cb_default_headers_Inr cb_set_base_url_def
  cb_set_runtime_multithreaded_def cb_set_max_connections_def cb_set_error_for_status_def
  cb_set_follow_redirects_def cb_set_max_redirects_def cb_set_timeout_def cb_set_pool_timeout_def
  cb_set_connection_verbose_def cb_set_http1_lower_case_headers_def cb_set_http1_only_def cb_set_http2_def
  cb_set_http2_prior_knowledge_def cb_inner_with_middleware_def

lemma client_calls_Cons_Inr:
  "client_calls C H us (c # cs) b = (Inr u, b') \<longleftrightarrow>
     (\<exists>b1. call_setter C H us c b = (Inr (), b1) \<and> client_calls C H us cs b1 = (Inr (), b'))"
  by (auto split: prod.splits sum.splits)

text \<open>A field that each call changes by \<open>change\<close> holds the fold of the calls.\<close>

lemma client_calls_fold:
  assumes "\<And>c b b'. call_setter C H us c b = (Inr (), b') \<Longrightarrow> get b' = change c (get b)"
  shows "client_calls C H us cs b = (Inr (), b') \<Longrightarrow> get b' = fold change cs (get b)"
proof (induction cs arbitrary: b)
  case (Cons c cs)
  from Cons.prems obtain b1 where b1: "call_setter C H us c b = (Inr (), b1)"
    and rest: "client_calls C H us cs b1 = (Inr (), b')" unfolding client_calls_Cons_Inr by blast
  from Cons.IH [OF rest] assms [OF b1] show ?case by simp
qed simp

text \<open>The value the last call that sets a field has given it.\<close>

definition last_set :: "('c \<Rightarrow> 'a option) \<Rightarrow> 'c list \<Rightarrow> 'a \<Rightarrow> 'a" where
  "last_set f cs d = last (d # List.map_filter f cs)"

lemma fold_last_set: "fold (\<lambda>c v. case f c of Some x \<Rightarrow> x | None \<Rightarrow> v) cs d = last_set f cs d"
  by (induction cs arbitrary: d) (auto simp: last_set_def map_filter_simps split: option.split)

lemma client_calls_last:
  assumes "\<And>c b b'. call_setter C H us c b = (Inr (), b') \<Longrightarrow> get b' = (case f c of Some x \<Rightarrow> x | None \<Rightarrow> get b)"
    and "client_calls C H us cs b = (Inr (), b')"
  shows "get b' = last_set f cs (get b)"
  using client_calls_fold [where change = "\<lambda>c v. case f c of Some x \<Rightarrow> x | None \<Rightarrow> v", OF assms]
  by (simp add: fold_last_set)

fun base_url_of :: "('z, 'mw, 'm, 'u) client_call \<Rightarrow> 'u option option" where
  "base_url_of (SetBaseUrl u) = Some (Some u)"
| "base_url_of _ = None"

fun max_connections_of :: "('z, 'mw, 'm, 'u) client_call \<Rightarrow> nat option option" where
  "max_connections_of (SetMaxConnections n) = Some n"
| "max_connections_of _ = None"

fun error_for_status_of :: "('z, 'mw, 'm, 'u) client_call \<Rightarrow> bool option" where
  "error_for_status_of (SetErrorForStatus e) = Some e"
| "error_for_status_of _ = None"

fun timeout_of :: "('z, 'mw, 'm, 'u) client_call \<Rightarrow> nat option option" where
  "timeout_of (SetTimeout t) = Some (Some t)"
| "timeout_of _ = None"

fun pool_timeout_of :: "('z, 'mw, 'm, 'u) client_call \<Rightarrow> nat option option" where
  "pool_timeout_of (SetPoolTimeout t) = Some (Some t)"
| "pool_timeout_of _ = None"

fun follow_redirects_of :: "('z, 'mw, 'm, 'u) client_call \<Rightarrow> bool option" where
  "follow_redirects_of (SetFollowRedirects e) = Some e"
| "follow_redirects_of _ = None"

fun max_redirects_of :: "('z, 'mw, 'm, 'u) client_call \<Rightarrow> nat option option" where
  "max_redirects_of (SetMaxRedirects n) = Some (Some n)"
| "max_redirects_of _ = None"

fun verbose_of :: "('z, 'mw, 'm, 'u) client_call \<Rightarrow> bool option" where
  "verbose_of (SetVerbose e) = Some e"
| "verbose_of _ = None"

fun multithreaded_of :: "('z, 'mw, 'm, 'u) client_call \<Rightarrow> bool option option" where
  "multithreaded_of (SetMultithreaded e) = Some (Some e)"
| "multithreaded_of _ = None"

fun middleware_of :: "('z, 'mw, 'm, 'u) client_call \<Rightarrow> 'mw option" where
  "middleware_of (AddMiddleware mw) = Some mw"
| "middleware_of _ = None"

fun option_of :: "('z, 'mw, 'm, 'u) client_call \<Rightarrow> 'z client_opt option" where
  "option_of (CrateOption opt) = Some opt"
| "option_of (SetVerbose e) = Some (Flag ConnectionVerbose e)"
| "option_of _ = None"

lemma calls_settings:
  assumes "client_calls C H us cs b = (Inr (), b')"
  shows "cb_base_url b' = last_set base_url_of cs (cb_base_url b)"
    and "cb_max_connections b' = last_set max_connections_of cs (cb_max_connections b)"
    and "cb_error_for_status b' = last_set error_for_status_of cs (cb_error_for_status b)"
    and "cb_total_timeout b' = last_set timeout_of cs (cb_total_timeout b)"
    and "cb_pool_timeout b' = last_set pool_timeout_of cs (cb_pool_timeout b)"
    and "cb_follow_redirects b' = last_set follow_redirects_of cs (cb_follow_redirects b)"
    and "cb_max_redirects b' = last_set max_redirects_of cs (cb_max_redirects b)"
    and "cb_connection_verbose b' = last_set verbose_of cs (cb_connection_verbose b)"
    and "cb_runtime_multithreaded b' = last_set multithreaded_of cs (cb_runtime_multithreaded b)"
  by (rule client_calls_last [OF _ assms]; rename_tac c b b', case_tac c; force simp: setter_Inr split: if_splits)+

text \<open>The default values of a name: those in the last header map that has any.\<close>

definition default_values :: "'m http_ops \<Rightarrow> header_name \<Rightarrow> 'm option \<Rightarrow> header_value list" where
  "default_values H k dflt = (case dflt of Some m \<Rightarrow> hm_get_all H m k | None \<Rightarrow> [])"

definition default_values_of ::
    "'m http_ops \<Rightarrow> header_name \<Rightarrow> ('z, 'mw, 'm, 'u) client_call \<Rightarrow> header_value list option" where
  "default_values_of H k c =
     (case c of
        SetDefaultHeaders hs \<Rightarrow>
          (let vs = default_values H k (header_content hs) in if vs = [] then None else Some vs)
      | _ \<Rightarrow> None)"

lemma taken_content: "fst (try_take_inner hs) = Inr m \<Longrightarrow> header_content hs = Some m"
  by (auto simp: try_take_inner_def safe_lock_def header_content_def split: option.splits sum.splits if_splits)

lemma calls_default_headers:
  assumes "http_headers H" and "client_calls C H us cs b = (Inr (), b')"
  shows "default_values H k (cb_default_headers b') =
    last_set (default_values_of H k) cs (default_values H k (cb_default_headers b))"
  using http_headers.extend_law [OF assms(1)]
  by (intro client_calls_last [where get = "\<lambda>b. default_values H k (cb_default_headers b)", OF _ assms(2)],
      rename_tac c b b', case_tac c)
    (auto simp: setter_Inr default_values_of_def default_values_def Let_def dest!: taken_content
      split: if_splits option.splits)

text \<open>The protocol: whether HTTP/1 and HTTP/2 are enabled.\<close>

fun protocol_after :: "('z, 'mw, 'm, 'u) client_call \<Rightarrow> bool \<times> bool \<Rightarrow> bool \<times> bool" where
  "protocol_after SetHttp1Only _ = (True, False)"
| "protocol_after (SetHttp2 e) (h1, _) = (h1, e)"
| "protocol_after SetHttp2PriorKnowledge _ = (False, True)"
| "protocol_after _ p = p"

definition protocol :: "('z, 'mw, 'm, 'u) client_call list \<Rightarrow> bool \<times> bool" where
  "protocol cs = fold protocol_after cs (True, False)"

lemma calls_protocol:
  assumes "client_calls C H us cs b = (Inr (), b')"
  shows "(cb_http1 b', cb_http2 b') = fold protocol_after cs (cb_http1 b, cb_http2 b)"
  by (rule client_calls_fold [where get = "\<lambda>b. (cb_http1 b, cb_http2 b)", OF _ assms], rename_tac c b b', case_tac c,
      auto simp: setter_Inr split: if_splits)

lemma calls_lower_case:
  assumes "client_calls C H us cs b = (Inr (), b')"
  shows "cb_http1_lower_case_headers b' \<longleftrightarrow> cb_http1_lower_case_headers b \<or> SetLowerCaseHeaders \<in> set cs"
proof -
  have "cb_http1_lower_case_headers b' = fold (\<lambda>c v. v \<or> c = SetLowerCaseHeaders) cs (cb_http1_lower_case_headers b)"
    by (rule client_calls_fold [OF _ assms], rename_tac c b b', case_tac c, auto simp: setter_Inr split: if_splits)
  moreover have "fold (\<lambda>c v. v \<or> c = SetLowerCaseHeaders) cs v \<longleftrightarrow> v \<or> SetLowerCaseHeaders \<in> set cs" for v
    by (induction cs arbitrary: v) auto
  ultimately show ?thesis by simp
qed

lemma calls_inner:
  assumes "client_calls C H us cs b = (Inr (), b')"
  shows "cb_inner b' = map_option (set_opts C (List.map_filter option_of cs)) (cb_inner b)"
proof -
  let ?set = "\<lambda>c v. case option_of c of Some opt \<Rightarrow> map_option (cb_set C opt) v | None \<Rightarrow> v"
  have "fold ?set cs (Some i) = Some (set_opts C (List.map_filter option_of cs) i)" for i
    by (induction cs arbitrary: i) (auto simp: map_filter_simps set_opts_def split: option.split)
  moreover have "fold ?set cs None = None"
    by (induction cs) (auto split: option.split)
  moreover have "cb_inner b' = fold ?set cs (cb_inner b)"
    by (rule client_calls_fold [OF _ assms], rename_tac c b b', case_tac c, auto simp: setter_Inr split: if_splits)
  ultimately show ?thesis by (cases "cb_inner b") simp_all
qed

lemma calls_middlewares:
  assumes "client_calls C H us cs b = (Inr (), b')" and "cb_middlewares b = None"
  shows "cb_middlewares b' = (case List.map_filter middleware_of cs of [] \<Rightarrow> None | mws \<Rightarrow> Some mws)"
proof -
  let ?add = "\<lambda>c v. case middleware_of c of Some mw \<Rightarrow> Some ((case v of Some mws \<Rightarrow> mws | None \<Rightarrow> []) @ [mw]) | None \<Rightarrow> v"
  have some: "fold ?add cs (Some mws) = Some (mws @ List.map_filter middleware_of cs)" for mws cs
    by (induction cs arbitrary: mws) (auto simp: map_filter_simps split: option.split)
  have "fold ?add cs None = (case List.map_filter middleware_of cs of [] \<Rightarrow> None | mws \<Rightarrow> Some mws)"
    by (induction cs) (auto simp: map_filter_simps some split: option.split)
  moreover have "cb_middlewares b' = fold ?add cs (cb_middlewares b)"
    by (rule client_calls_fold [OF _ assms(1)], rename_tac c b b', case_tac c, auto simp: setter_Inr split: if_splits)
  ultimately show ?thesis using assms(2) by simp
qed

lemma client_calls_inv:
  assumes "\<And>c b b'. call_setter C H us c b = (Inr (), b') \<Longrightarrow> P b \<Longrightarrow> P b'"
  shows "client_calls C H us cs b = (Inr (), b') \<Longrightarrow> P b \<Longrightarrow> P b'"
proof (induction cs arbitrary: b)
  case (Cons c cs)
  from Cons.prems obtain b1 where "call_setter C H us c b = (Inr (), b1)" "client_calls C H us cs b1 = (Inr (), b')"
    unfolding client_calls_Cons_Inr by blast
  with Cons assms show ?case by blast
qed simp

text \<open>What \<open>max_connections\<close> and \<open>base_url\<close> accept.\<close>

definition builder_ok :: "('u \<Rightarrow> string) \<Rightarrow> ('cb, 'mw, 'f, 'm, 'u) client_builder \<Rightarrow> bool" where
  "builder_ok us b \<longleftrightarrow> cb_max_connections b \<noteq> Some 0 \<and>
     (\<forall>u. cb_base_url b = Some u \<longrightarrow> us u \<noteq> [] \<and> last (us u) = CHR ''/'')"

lemma calls_ok:
  assumes "client_calls C H us cs b = (Inr (), b')" and "builder_ok us b"
  shows "builder_ok us b'"
  by (rule client_calls_inv [where P = "builder_ok us", OF _ assms], rename_tac c b b', case_tac c,
      auto simp: setter_Inr builder_ok_def split: if_splits)

subsection \<open>What a client is built with\<close>

definition protocol_list :: "bool \<times> bool \<Rightarrow> 'z client_opt list" where
  "protocol_list p = (if p = (True, True) then [] else if p = (True, False) then [Http1Only] else [Http2PriorKnowledge])"

definition redirect_list :: "bool \<Rightarrow> nat option \<Rightarrow> 'z client_opt list" where
  "redirect_list follow n =
     (if \<not> follow then [RedirectNone] else case n of None \<Rightarrow> [] | Some k \<Rightarrow> [RedirectLimited k])"

lemma build_client_base_InrE:
  assumes "build_client_base C handle verbose tok ptr b = (Inr cl, b')"
  obtains c cl0 runtime where "cb_inner b = Some c" and "cb_http1 b \<or> cb_http2 b"
    and "cb_build C (set_opts C (TlsBackendRustls # protocol_list (cb_http1 b, cb_http2 b) @
      redirect_list (cb_follow_redirects b) (cb_max_redirects b) @
      (if cb_http1_lower_case_headers b then [] else [Http1TitleCaseHeaders])) c) = Inr cl0"
    and "cl = base_client_new cl0 runtime (cb_middlewares b) (cb_json_handler b) (cb_total_timeout b)
      (map_option (\<lambda>n. limiter_new n (cb_pool_timeout b)) (cb_max_connections b)) (cb_error_for_status b)
      (cb_default_headers b) (cb_base_url b) (cb_connection_verbose b) tok ptr"
    and "handle (cb_runtime_multithreaded b) = Inr runtime" and "cb_connection_verbose b \<Longrightarrow> verbose = Inr ()"
  using assms
  by (auto simp: build_client_base_def take_or_def ok_or_def protocol_opts_def redirect_opts_def header_case_opts_def
      protocol_list_def redirect_list_def base_client_new_def set_opts_def Let_def
      split: sum.splits option.splits if_splits)

text \<open>
  C27. What a client has, after any sequence of calls on a new builder: each setting is that of the last
  call for it, the default values of a header name are those of the last header map that has it,
  middlewares are in the order they were added; the crate's client is built with the options of the
  calls in their order, between the default user agent and the options for TLS, protocol,
  redirects and header case. It runs on the runtime of the kind asked for last, and verbose logging of
  connections is on if it was asked for last, in which case it was set up. A limiter has at least one permit, and there is none, whatever the
  pool timeout, without \<open>max_connections\<close>.
\<close>

theorem client_has_settings:
  assumes "http_headers H" and "client_calls C H us cs (client_builder_new C) = (Inr (), b)"
    and "build_client_base C handle verbose tok ptr b = (Inr cl, b')"
  shows "cb_build C (set_opts C (UserAgent DEFAULT_UA # List.map_filter option_of cs @ TlsBackendRustls #
      protocol_list (protocol cs) @
      redirect_list (last_set follow_redirects_of cs True) (last_set max_redirects_of cs None) @
      (if SetLowerCaseHeaders \<in> set cs then [] else [Http1TitleCaseHeaders])) (cb_new C)) = Inr (cl_client cl) \<and>
    cl_error_for_status cl = last_set error_for_status_of cs False \<and>
    cl_total_timeout cl = last_set timeout_of cs None \<and>
    cl_base_url cl = last_set base_url_of cs None \<and>
    cl_middlewares cl = (case List.map_filter middleware_of cs of [] \<Rightarrow> None | mws \<Rightarrow> Some (Arc ptr mws)) \<and>
    default_values H k (cl_default_headers cl) = last_set (default_values_of H k) cs [] \<and>
    cl_limiter cl = map_option (\<lambda>n. limiter_new n (last_set pool_timeout_of cs None)) (last_set max_connections_of cs None) \<and>
    (\<forall>lim. cl_limiter cl = Some lim \<longrightarrow> lim_limit lim > 0) \<and>
    handle (last_set multithreaded_of cs None) = Inr (cl_runtime cl) \<and>
    cl_connection_verbose cl = last_set verbose_of cs False \<and> (cl_connection_verbose cl \<longrightarrow> verbose = Inr ())"
proof -
  from build_client_base_InrE [OF assms(3)] obtain c cl0 runtime where c: "cb_inner b = Some c" "cb_http1 b \<or> cb_http2 b"
    and built: "cb_build C (set_opts C (TlsBackendRustls # protocol_list (cb_http1 b, cb_http2 b) @
      redirect_list (cb_follow_redirects b) (cb_max_redirects b) @
      (if cb_http1_lower_case_headers b then [] else [Http1TitleCaseHeaders])) c) = Inr cl0"
    and cl: "cl = base_client_new cl0 runtime (cb_middlewares b) (cb_json_handler b) (cb_total_timeout b)
      (map_option (\<lambda>n. limiter_new n (cb_pool_timeout b)) (cb_max_connections b)) (cb_error_for_status b)
      (cb_default_headers b) (cb_base_url b) (cb_connection_verbose b) tok ptr"
    and rt: "handle (cb_runtime_multithreaded b) = Inr runtime" "cb_connection_verbose b \<Longrightarrow> verbose = Inr ()" by blast
  note calls = calls_settings [OF assms(2)] calls_lower_case [OF assms(2)] calls_protocol [OF assms(2)]
    calls_middlewares [OF assms(2)] calls_inner [OF assms(2)] calls_default_headers [OF assms(1,2), of k]
  have start: "builder_ok us (client_builder_new C)"
    by (simp add: builder_ok_def client_builder_new_def)
  from calls_ok [OF assms(2) start] have "cb_max_connections b \<noteq> Some 0" by (simp add: builder_ok_def)
  moreover from arg_cong [OF cl, of cl_limiter]
  have "cl_limiter cl = map_option (\<lambda>n. limiter_new n (cb_pool_timeout b)) (cb_max_connections b)"
    by (simp add: base_client_new_def)
  ultimately have lim: "\<forall>lim. cl_limiter cl = Some lim \<longrightarrow> lim_limit lim > 0"
    by (auto simp: limiter_new_def)
  have "c = set_opts C (List.map_filter option_of cs) (cb_set C (UserAgent DEFAULT_UA) (cb_new C))"
    using calls(13) c(1) by (simp add: client_builder_new_def)
  with built have "cb_build C (set_opts C (UserAgent DEFAULT_UA # List.map_filter option_of cs @ TlsBackendRustls #
      protocol_list (protocol cs) @
      redirect_list (last_set follow_redirects_of cs True) (last_set max_redirects_of cs None) @
      (if SetLowerCaseHeaders \<in> set cs then [] else [Http1TitleCaseHeaders])) (cb_new C)) = Inr (cl_client cl)"
    using calls(6,7,10,11) by (simp add: cl base_client_new_def client_builder_new_def set_opts_def protocol_def)
  moreover have "cl_error_for_status cl = last_set error_for_status_of cs False \<and>
    cl_total_timeout cl = last_set timeout_of cs None \<and> cl_base_url cl = last_set base_url_of cs None \<and>
    cl_middlewares cl = (case List.map_filter middleware_of cs of [] \<Rightarrow> None | mws \<Rightarrow> Some (Arc ptr mws)) \<and>
    default_values H k (cl_default_headers cl) = last_set (default_values_of H k) cs [] \<and>
    cl_limiter cl = map_option (\<lambda>n. limiter_new n (last_set pool_timeout_of cs None)) (last_set max_connections_of cs None)"
    using calls(1-5,12,14) by (simp add: cl base_client_new_def client_builder_new_def default_values_def split: list.split)
  moreover have "handle (last_set multithreaded_of cs None) = Inr (cl_runtime cl) \<and>
    cl_connection_verbose cl = last_set verbose_of cs False \<and> (cl_connection_verbose cl \<longrightarrow> verbose = Inr ())"
    using calls(8,9) rt by (simp add: cl base_client_new_def client_builder_new_def)
  ultimately show ?thesis using lim by blast
qed

text \<open>A crate builder that is the list of its options, and a client that is that list.\<close>

definition list_ops :: "(nat client_opt list, nat, nat client_opt list) cb_ops" where
  "list_ops = \<lparr>cb_new = [], cb_set = (\<lambda>opt opts. opts @ [opt]), cb_build = Inr\<rparr>"

definition demo_calls :: "(nat, nat, flat_map, string) client_call list" where
  "demo_calls = [SetMaxConnections (Some 3), SetPoolTimeout 5, AddMiddleware 8, CrateOption (Flag Gzip True),
     SetHttp2 True, SetMaxConnections (Some 2), AddMiddleware 9, SetFollowRedirects False]"

abbreviation demo_builder :: "(nat client_opt list, nat, nat, flat_map, string) client_builder" where
  "demo_builder \<equiv> snd (client_calls list_ops flat_ops id demo_calls (client_builder_new list_ops))"

lemmas call_defs = cb_checked_def cb_check_inner_def cb_opt_def cb_apply_def apply_opt_def ok_or_def
  cb_set_base_url_def cb_set_runtime_multithreaded_def cb_set_max_connections_def cb_set_error_for_status_def
  cb_set_follow_redirects_def cb_set_max_redirects_def cb_set_timeout_def cb_set_pool_timeout_def
  cb_set_connection_verbose_def cb_set_http1_lower_case_headers_def cb_set_http1_only_def cb_set_http2_def
  cb_set_http2_prior_knowledge_def cb_inner_with_middleware_def cb_set_default_headers_def

lemmas built_defs = build_client_base_def take_or_def ok_or_def protocol_opts_def redirect_opts_def
  header_case_opts_def base_client_new_def set_opts_def Let_def

lemma demo_calls_ok:
  "client_calls list_ops flat_ops id demo_calls (client_builder_new list_ops) = (Inr (), demo_builder)"
  by (simp add: demo_calls_def client_builder_new_def call_defs)

lemma demo_built:
  "\<exists>cl b'. build_client_base list_ops (\<lambda>_. Inr 0) (Inr ()) [3] 0 demo_builder = (Inr cl, b')"
  by (simp add: demo_calls_def client_builder_new_def call_defs built_defs list_ops_def)

theorem client_has_settings_witness:
  "\<exists>(cl :: (nat client_opt list, string, nat, nat, flat_map) client) b'.
     build_client_base list_ops (\<lambda>_. Inr 0) (Inr ()) [3] 0 demo_builder = (Inr cl, b') \<and>
     cl_middlewares cl = Some (Arc 0 [8, 9]) \<and> cl_limiter cl = Some (limiter_new 2 (Some 5)) \<and>
     cl_client cl = [UserAgent DEFAULT_UA, Flag Gzip True, TlsBackendRustls, RedirectNone, Http1TitleCaseHeaders]"
proof -
  from demo_built obtain cl :: "(nat client_opt list, string, nat, nat, flat_map) client" and b' where
    b: "build_client_base list_ops (\<lambda>_. Inr 0) (Inr ()) [3] 0 demo_builder = (Inr cl, b')" by blast
  note spec = client_has_settings [OF http_headers_flat demo_calls_ok b]
  have "cl_middlewares cl = Some (Arc 0 [8, 9])" "cl_limiter cl = Some (limiter_new 2 (Some 5))"
    using spec by (simp_all add: demo_calls_def last_set_def map_filter_simps)
  moreover have "cl_client cl = [UserAgent DEFAULT_UA, Flag Gzip True, TlsBackendRustls, RedirectNone, Http1TitleCaseHeaders]"
    using spec by (simp add: demo_calls_def last_set_def map_filter_simps list_ops_def set_opts_def protocol_def
        protocol_list_def redirect_list_def)
  ultimately show ?thesis using b by blast
qed

subsection \<open>When building fails, and what is left\<close>

text \<open>
  Building fails for want of a protocol exactly when the calls disabled both, which they can:
  \<open>http2_prior_knowledge()\<close> followed by \<open>http2(False)\<close>. The builder is spent by it, although
  nothing was built.
\<close>

theorem no_protocol_fails:
  assumes "client_calls C H us cs (client_builder_new C) = (Inr (), b)"
    and "handle (cb_runtime_multithreaded b) = Inr rt" and "\<And>c. \<exists>cl. cb_build C c = Inr cl"
  shows "(protocol cs \<noteq> (False, False) \<longrightarrow> (\<exists>cl. fst (build_client_base C handle (Inr ()) tok ptr b) = Inr cl)) \<and>
    (protocol cs = (False, False) \<longrightarrow>
      (\<exists>e. fst (build_client_base C handle (Inr ()) tok ptr b) = Inl e \<and> exc_class e = BuilderError) \<and>
      fst (build_client_base C handle (Inr ()) tok ptr (snd (build_client_base C handle (Inr ()) tok ptr b))) = Inl client_built) \<and>
    protocol (cs @ [SetHttp2PriorKnowledge, SetHttp2 False]) = (False, False)"
proof -
  from calls_protocol [OF assms(1)] have p: "protocol cs = (cb_http1 b, cb_http2 b)"
    by (simp add: client_builder_new_def protocol_def)
  from calls_inner [OF assms(1)] obtain c where c: "cb_inner b = Some c"
    by (auto simp: client_builder_new_def)
  from assms(3) obtain g where g: "cb_build C c = Inr (g c)" for c by metis
  have "\<exists>cl. fst (build_client_base C handle (Inr ()) tok ptr b) = Inr cl" if "protocol cs \<noteq> (False, False)"
    using that p c assms(2)
    by (cases "cb_http1 b"; cases "cb_http2 b")
      (simp_all add: build_client_base_def take_or_def ok_or_def Let_def protocol_opts_def g)
  moreover have "build_client_base C handle (Inr ()) tok ptr b =
      (Inl (from_msg BuilderError ''At least one of http1 or http2 must be enabled''), b\<lparr>cb_inner := None\<rparr>)"
    if "protocol cs = (False, False)"
    using that p c assms(2) by (simp add: build_client_base_def take_or_def ok_or_def Let_def protocol_opts_def)
  moreover have "exc_class (from_msg BuilderError m) = BuilderError" for m
    by (simp add: from_msg_def from_causes_def)
  moreover have "fst (build_client_base C handle (Inr ()) tok ptr (b\<lparr>cb_inner := None\<rparr>)) = Inl client_built"
    using assms(2) by (simp add: build_client_base_def take_or_def ok_or_def)
  moreover have "protocol (cs @ [SetHttp2PriorKnowledge, SetHttp2 False]) = (False, False)"
    by (simp add: protocol_def split: prod.split)
  ultimately show ?thesis by simp
qed

definition no_protocol :: "(nat, nat, flat_map, string) client_call list" where
  "no_protocol = [SetHttp2PriorKnowledge, SetHttp2 False]"

theorem no_protocol_fails_witness:
  "\<exists>e. fst (build_client_base list_ops (\<lambda>_. Inr 0) (Inr ()) [] 0
       (snd (client_calls list_ops flat_ops id no_protocol
         (client_builder_new list_ops :: (nat client_opt list, nat, nat, flat_map, string) client_builder)))) = Inl e \<and>
     exc_class e = BuilderError"
proof -
  let ?b = "client_builder_new list_ops :: (nat client_opt list, nat, nat, flat_map, string) client_builder"
  have "client_calls list_ops flat_ops id no_protocol ?b = (Inr (), snd (client_calls list_ops flat_ops id no_protocol ?b))"
    by (simp add: no_protocol_def call_defs)
  from no_protocol_fails [OF this, of "\<lambda>_. Inr 0" 0 "[]"] show ?thesis
    by (simp add: list_ops_def no_protocol_def protocol_def)
qed

lemma build_spends:
  assumes "handle (cb_runtime_multithreaded b) = Inr rt" and "build_client_base C handle verbose tok ptr b = (r, bb)"
  shows "cb_inner bb = None \<and> cb_runtime_multithreaded bb = cb_runtime_multithreaded b"
  using assms by (auto simp: build_client_base_def take_or_def ok_or_def Let_def split: sum.splits option.splits)

text \<open>
  A builder that was built from, also without success, is spent: \<open>build\<close> and every setter raise
  and change nothing, with two exceptions. The choice of the protocol is accepted silently, and
  \<open>connection_verbose\<close> raises but has changed its flag.
\<close>

theorem client_builder_spent:
  assumes "handle (cb_runtime_multithreaded b) = Inr rt"
  shows "let bb = snd (build_client_base C handle verbose tok ptr b) in
    fst (build_client_base C handle verbose tok ptr bb) = Inl client_built \<and>
    ((\<exists>bb'. call_setter C H us c bb = (Inr (), bb')) \<longleftrightarrow> c \<in> {SetHttp1Only, SetHttp2PriorKnowledge} \<union> range SetHttp2) \<and>
    (\<forall>e bb'. call_setter C H us c bb = (Inl e, bb') \<longrightarrow>
      bb' = bb \<or> (\<exists>v. c = SetVerbose v \<and> bb' = bb\<lparr>cb_connection_verbose := v\<rparr>))"
proof -
  obtain r bb where bb: "build_client_base C handle verbose tok ptr b = (r, bb)" by fastforce
  from build_spends [OF assms bb] have gone: "cb_inner bb = None"
    and rt: "handle (cb_runtime_multithreaded bb) = Inr rt" using assms by simp_all
  have "fst (build_client_base C handle verbose tok ptr bb) = Inl client_built"
    using rt by (simp add: build_client_base_def take_or_def ok_or_def gone)
  moreover have "(\<exists>bb'. call_setter C H us c bb = (Inr (), bb')) \<longleftrightarrow>
      c \<in> {SetHttp1Only, SetHttp2PriorKnowledge} \<union> range SetHttp2"
    by (cases c) (auto simp: call_defs gone)
  moreover have "\<forall>e bb'. call_setter C H us c bb = (Inl e, bb') \<longrightarrow>
      bb' = bb \<or> (\<exists>v. c = SetVerbose v \<and> bb' = bb\<lparr>cb_connection_verbose := v\<rparr>)"
    by (cases c) (auto simp: call_defs gone)
  ultimately show ?thesis by (simp add: bb)
qed

theorem client_builder_spent_witness:
  "fst (build_client_base list_ops (\<lambda>_. Inr 0) (Inr ()) [] 0
     (snd (build_client_base list_ops (\<lambda>_. Inr 0) (Inr ()) [] 0 demo_builder))) = Inl client_built"
  using client_builder_spent [where handle = "\<lambda>_. Inr 0" and rt = 0 and b = demo_builder and C = list_ops
    and verbose = "Inr ()" and tok = "[]"]
  by (simp add: Let_def)

end
