(* ===== verification/Coro_Waiter.thy ===== *)
theory Coro_Waiter
  imports Take_Once
begin

section \<open>Waiting for Python coroutines\<close>

text \<open>
  Models \<open>src/internal/asyncio_coro.rs\<close>: a Rust future (\<open>CoroWaiter\<close>) that waits for a Python
  coroutine. A bridge object is called by the event loop, first to make a task of the coroutine
  (\<open>on_init\<close>), then when the task is done (\<open>on_done\<close>); it sends the result over a oneshot
  channel. The event loop and its tasks are not the program's: \<open>create_task\<close>, \<open>Task.result\<close>,
  \<open>Task.cancel\<close> are what the operations are given; the loop itself is part of the step relation.
\<close>

subsection \<open>The oneshot channel\<close>

text \<open>\<open>None\<close> in the slot: nothing was sent. The receiver may be gone.\<close>

record 'a oneshot =
  os_slot :: "'a option"
  os_tx :: bool
  os_rx :: bool

text \<open>Sending uses the sender up; the value comes back if the receiver is gone.\<close>

definition os_send :: "'a \<Rightarrow> 'a oneshot \<Rightarrow> 'a option \<times> 'a oneshot" where
  "os_send v ch =
     (if os_rx ch then (None, ch\<lparr>os_slot := Some v, os_tx := False\<rparr>) else (Some v, ch\<lparr>os_tx := False\<rparr>))"

lemma os_send_fields [simp]:
  "os_tx (snd (os_send v ch)) = False" "os_rx (snd (os_send v ch)) = os_rx ch"
  "os_slot (snd (os_send v ch)) = (if os_rx ch then Some v else os_slot ch)"
  by (simp_all add: os_send_def)

datatype 'a poll = Pending | Ready 'a

definition os_poll :: "'a pyres oneshot \<Rightarrow> 'a pyres poll" where
  "os_poll ch =
     (case os_slot ch of
        Some v \<Rightarrow> Ready v
      | None \<Rightarrow>
          if os_tx ch then Pending
          else Ready (Inl (runtime_error ''Failed to receive task result: channel closed'')))"

subsection \<open>The bridge\<close>

text \<open>\<open>'co\<close> are coroutines, \<open>'lp\<close> event loops, \<open>'tk\<close> tasks; the sender is that of the channel.\<close>

record ('co, 'lp, 'tk, 'o, 'a) bridge =
  br_extractor :: "('o pyres \<Rightarrow> 'a pyres) option"
  br_coro :: "'co option"
  br_event_loop :: "'lp option"
  br_task :: "'tk option"

definition bridge_new ::
    "('o pyres \<Rightarrow> 'a pyres) \<Rightarrow> 'co \<Rightarrow> 'lp pyres \<Rightarrow> ('co, 'lp, 'tk, 'o, 'a) bridge pyres" where
  "bridge_new ext coro loop =
     map_res (\<lambda>l. \<lparr>br_extractor = Some ext, br_coro = Some coro, br_event_loop = Some l, br_task = None\<rparr>) loop"

definition no_coro :: py_err where
  "no_coro = runtime_error ''Task was cancelled''"

text \<open>
  \<open>init_task\<close>: \<open>mk_task\<close> is \<open>create_task\<close> followed by \<open>add_done_callback\<close>. An error is also sent to
  the waiter.
\<close>

definition init_task ::
    "('lp \<Rightarrow> 'co \<Rightarrow> 'tk pyres) \<Rightarrow> ('co, 'lp, 'tk, 'o, 'a) bridge \<Rightarrow> 'a pyres oneshot \<Rightarrow>
     unit pyres \<times> ('co, 'lp, 'tk, 'o, 'a) bridge \<times> 'a pyres oneshot" where
  "init_task mk_task b ch =
     (let b1 = b\<lparr>br_coro := None\<rparr>;
          res = and_then (ok_or no_coro (br_coro b)) (\<lambda>coro.
                and_then (ok_or (runtime_error ''Expected event_loop'') (br_event_loop b1)) (\<lambda>l. mk_task l coro))
      in case res of
           Inr t \<Rightarrow> (Inr (), b1\<lparr>br_task := Some t\<rparr>, ch)
         | Inl e \<Rightarrow> (Inl e, b1, if os_tx ch then snd (os_send (Inl e) ch) else ch))"

text \<open>\<open>handle_done\<close>: \<open>res\<close> is what \<open>result()\<close> of the task gives or raises.\<close>

definition handle_done ::
    "'o pyres \<Rightarrow> ('co, 'lp, 'tk, 'o, 'a) bridge \<Rightarrow> 'a pyres oneshot \<Rightarrow>
     unit pyres \<times> ('co, 'lp, 'tk, 'o, 'a) bridge \<times> 'a pyres oneshot" where
  "handle_done res b ch =
     (let r = (case br_extractor b of
                 None \<Rightarrow> Inl (runtime_error ''Sender already consumed'')
               | Some ext \<Rightarrow> ext res);
          b1 = b\<lparr>br_task := None, br_extractor := None\<rparr>
      in if os_tx ch
         then (case os_send r ch of
                 (None, ch') \<Rightarrow> (Inr (), b1, ch')
               | (Some back, ch') \<Rightarrow> (map_res (\<lambda>_. ()) back, b1, ch'))
         else (Inl (runtime_error ''Task was cancelled''), b1, ch))"

text \<open>\<open>stop\<close> is \<open>Task.cancel\<close>.\<close>

definition bridge_cancel ::
    "('tk \<Rightarrow> unit pyres) \<Rightarrow> ('co, 'lp, 'tk, 'o, 'a) bridge \<Rightarrow> unit pyres \<times> ('co, 'lp, 'tk, 'o, 'a) bridge" where
  "bridge_cancel stop b =
     (let b1 = b\<lparr>br_coro := None, br_task := None\<rparr>
      in case br_task b of None \<Rightarrow> (Inr (), b1) | Some t \<Rightarrow> (stop t, b1))"

text \<open>
  The bridge objects of Python are made of a bridge under a mutex. The lock fails if a thread panicked
  with it; \<open>was_poisoned\<close> tells that.
\<close>

definition bridge_lock :: "bool \<Rightarrow> 'b \<Rightarrow> 'b pyres" where
  "bridge_lock was_poisoned b = (if was_poisoned then Inl (runtime_error ''mutex poisoned'') else Inr b)"

definition bridge_object_new ::
    "('o pyres \<Rightarrow> 'a pyres) \<Rightarrow> 'co \<Rightarrow> 'lp pyres \<Rightarrow> (bool \<times> ('co, 'lp, 'tk, 'o, 'a) bridge) pyres" where
  "bridge_object_new ext coro loop = map_res (Pair False) (bridge_new ext coro loop)"

definition bridge_object_cancel ::
    "('tk \<Rightarrow> unit pyres) \<Rightarrow> bool \<times> ('co, 'lp, 'tk, 'o, 'a) bridge \<Rightarrow>
     unit pyres \<times> bool \<times> ('co, 'lp, 'tk, 'o, 'a) bridge" where
  "bridge_object_cancel stop ob =
     (case bridge_lock (fst ob) (snd ob) of
        Inl e \<Rightarrow> (Inl e, ob)
      | Inr b \<Rightarrow> (case bridge_cancel stop b of (r, b') \<Rightarrow> (r, fst ob, b')))"

text \<open>A new bridge can be cancelled, and again: there is nothing left to stop.\<close>

lemma bridge_object_cancel_new:
  assumes "bridge_object_new ext coro loop = Inr ob"
  shows "fst (bridge_object_cancel stop ob) = Inr ()" and "br_coro (snd (snd (bridge_object_cancel stop ob))) = None"
  using assms
  by (auto simp: bridge_object_new_def bridge_new_def bridge_object_cancel_def bridge_lock_def bridge_cancel_def
      elim!: map_res_InrE split: prod.split)

subsection \<open>The waiter\<close>

text \<open>
  \<open>CoroWaiter::new\<close>: \<open>call_soon\<close> is the answer of the loop to the request to call \<open>on_init\<close>.
\<close>

definition cw_new ::
    "('o pyres \<Rightarrow> 'a pyres) \<Rightarrow> 'co \<Rightarrow> 'lp pyres \<Rightarrow> unit pyres \<Rightarrow>
     (('co, 'lp, 'tk, 'o, 'a) bridge \<times> 'a pyres oneshot) pyres" where
  "cw_new ext coro loop call_soon =
     and_then (bridge_new ext coro loop) (\<lambda>b.
       map_res (\<lambda>_. (b, \<lparr>os_slot = None, os_tx = True, os_rx = True\<rparr>)) call_soon)"

text \<open>\<open>cancelled\<close>: \<open>None\<close> without a cancel handle, else whether it was cancelled.\<close>

definition cw_poll ::
    "('tk \<Rightarrow> unit pyres) \<Rightarrow> bool option \<Rightarrow> ('co, 'lp, 'tk, 'o, 'a) bridge \<Rightarrow> 'a pyres oneshot \<Rightarrow>
     'a pyres poll \<times> ('co, 'lp, 'tk, 'o, 'a) bridge" where
  "cw_poll stop cancelled b ch =
     (if cancelled = Some True
      then (case bridge_cancel stop b of
              (Inr _, b') \<Rightarrow> (Ready (Inl (cancelled_error ''Task was cancelled'')), b')
            | (Inl e, b') \<Rightarrow> (Ready (Inl e), b'))
      else (os_poll ch, b))"

subsection \<open>Waiter, bridge and event loop together\<close>

text \<open>
  What the event loop does with the task of the coroutine; a finished task calls \<open>on_done\<close> later.
  \<open>w_made\<close> counts the tasks made, \<open>w_stopped\<close> tells whether the task was asked to stop,
  \<open>w_out\<close> is what the waiter has returned.
\<close>

datatype 'o task_state = NoTask | Running | Finished "'o pyres" | CalledBack "'o pyres"

record ('co, 'lp, 'o, 'a) waiting =
  w_bridge :: "('co, 'lp, unit, 'o, 'a) bridge"
  w_chan :: "'a pyres oneshot"
  w_init :: bool
  w_task :: "'o task_state"
  w_made :: nat
  w_cancel :: "bool option"
  w_stopped :: bool
  w_out :: "'a pyres option"

definition waiting_start ::
    "('co, 'lp, unit, 'o, 'a) bridge \<times> 'a pyres oneshot \<Rightarrow> bool \<Rightarrow> ('co, 'lp, 'o, 'a) waiting" where
  "waiting_start bc handle =
     \<lparr>w_bridge = fst bc, w_chan = snd bc, w_init = True, w_task = NoTask, w_made = 0,
      w_cancel = (if handle then Some False else None), w_stopped = False, w_out = None\<rparr>"

datatype 'o cw_event = OnInit "unit pyres" | TaskEnds "'o pyres" | OnDone | CancelFires | PollWaiter | DropWaiter

fun cw_step :: "'o cw_event \<Rightarrow> ('co, 'lp, 'o, 'a) waiting \<Rightarrow> ('co, 'lp, 'o, 'a) waiting option" where
  "cw_step (OnInit r) s =
     (if \<not> w_init s then None
      else (case init_task (\<lambda>_ _. r) (w_bridge s) (w_chan s) of
              (_, b, ch) \<Rightarrow>
                (let calls = (br_coro (w_bridge s) \<noteq> None \<and> br_event_loop (w_bridge s) \<noteq> None)
                 in Some (s\<lparr>w_bridge := b, w_chan := ch, w_init := False,
                      w_task := (if calls \<and> r = Inr () then Running else NoTask),
                      w_made := w_made s + of_bool calls\<rparr>))))"
| "cw_step (TaskEnds r) s = (if w_task s = Running then Some (s\<lparr>w_task := Finished r\<rparr>) else None)"
| "cw_step OnDone s =
     (case w_task s of
        Finished r \<Rightarrow>
          (case handle_done r (w_bridge s) (w_chan s) of
             (_, b, ch) \<Rightarrow> Some (s\<lparr>w_bridge := b, w_chan := ch, w_task := CalledBack r\<rparr>))
      | _ \<Rightarrow> None)"
| "cw_step CancelFires s = (if w_cancel s = Some False then Some (s\<lparr>w_cancel := Some True\<rparr>) else None)"
| "cw_step PollWaiter s =
     (if w_out s \<noteq> None \<or> \<not> os_rx (w_chan s) then None
      else (case cw_poll (\<lambda>_. Inr ()) (w_cancel s) (w_bridge s) (w_chan s) of
              (Pending, b) \<Rightarrow> Some (s\<lparr>w_bridge := b\<rparr>)
            | (Ready v, b) \<Rightarrow>
                Some (s\<lparr>w_bridge := b, w_out := Some v,
                  w_stopped := (w_stopped s \<or> w_cancel s = Some True \<and> br_task (w_bridge s) \<noteq> None)\<rparr>)))"
| "cw_step DropWaiter s =
     (if os_rx (w_chan s) then Some (s\<lparr>w_chan := (w_chan s)\<lparr>os_rx := False\<rparr>\<rparr>) else None)"

fun cw_run :: "'o cw_event list \<Rightarrow> ('co, 'lp, 'o, 'a) waiting \<Rightarrow> ('co, 'lp, 'o, 'a) waiting option" where
  "cw_run [] s = Some s"
| "cw_run (ev # evs) s = (case cw_step ev s of None \<Rightarrow> None | Some s' \<Rightarrow> cw_run evs s')"

lemma cw_run_inv:
  assumes "\<And>ev s s'. cw_step ev s = Some s' \<Longrightarrow> P s \<Longrightarrow> P s'"
  shows "cw_run evs s = Some s' \<Longrightarrow> P s \<Longrightarrow> P s'"
  by (induction evs arbitrary: s) (auto split: option.splits dest: assms)

text \<open>The outcome of the coroutine is known to be \<open>v\<close>; this does not change any more.\<close>

definition ended :: "('o pyres \<Rightarrow> 'a pyres) \<Rightarrow> ('co, 'lp, 'o, 'a) waiting \<Rightarrow> 'a pyres \<Rightarrow> bool" where
  "ended ext s v \<longleftrightarrow> \<not> w_init s \<and>
     ((\<exists>r. w_task s = CalledBack r \<and> v = ext r) \<or> (w_task s = NoTask \<and> (\<exists>e. v = Inl e)))"

lemma cw_step_ended:
  assumes "cw_step ev s = Some s'" and "ended ext s v"
  shows "ended ext s' v"
proof -
  from assms have "w_task s' = w_task s \<and> w_init s' = w_init s"
    by (cases ev) (auto simp: ended_def split: if_splits task_state.splits prod.splits poll.splits)
  with assms(2) show ?thesis by (simp add: ended_def)
qed

text \<open>
  The sender is there until the result or a failure to start was sent, and nothing but these is in
  the channel.
\<close>

definition cw_inv :: "('o pyres \<Rightarrow> 'a pyres) \<Rightarrow> ('co, 'lp, 'o, 'a) waiting \<Rightarrow> bool" where
  "cw_inv ext s \<longleftrightarrow>
     w_made s \<le> 1 \<and>
     (w_init s \<longrightarrow> w_task s = NoTask \<and> w_made s = 0 \<and> br_task (w_bridge s) = None) \<and>
     (os_tx (w_chan s) \<longleftrightarrow> w_init s \<or> w_task s = Running \<or> (\<exists>r. w_task s = Finished r)) \<and>
     (os_tx (w_chan s) \<longrightarrow> os_slot (w_chan s) = None \<and> br_extractor (w_bridge s) = Some ext) \<and>
     (\<not> os_tx (w_chan s) \<and> os_rx (w_chan s) \<longrightarrow> os_slot (w_chan s) \<noteq> None) \<and>
     (\<forall>v. os_slot (w_chan s) = Some v \<longrightarrow> ended ext s v) \<and>
     (\<forall>v. w_out s = Some v \<longrightarrow>
        (w_cancel s = Some True \<and> v = Inl (cancelled_error ''Task was cancelled'')) \<or> ended ext s v)"

lemma cw_inv_start:
  "cw_new ext coro loop soon = Inr bc \<Longrightarrow> cw_inv ext (waiting_start bc handle)"
  by (auto simp: cw_inv_def waiting_start_def cw_new_def bridge_new_def and_then_Inr_iff elim!: map_res_InrE)

text \<open>What \<open>on_init\<close> and \<open>on_done\<close> do while the sender is there.\<close>

lemma init_task_sender:
  assumes "os_tx ch" and "init_task (\<lambda>_ _. r) b ch = (res, b', ch')"
  shows "b' = b\<lparr>br_coro := None, br_task := (if res = Inr () then Some () else br_task b)\<rparr>"
    and "res = Inr () \<longleftrightarrow> br_coro b \<noteq> None \<and> br_event_loop b \<noteq> None \<and> r = Inr ()"
    and "ch' = (if res = Inr () then ch else snd (os_send (map_res undefined res) ch))"
  using assms
  by (auto simp: init_task_def ok_or_def Let_def os_send_def split: option.splits sum.splits prod.splits)

lemma handle_done_sender:
  assumes "os_tx ch" and "br_extractor b = Some ext"
  shows "snd (handle_done r b ch) = (b\<lparr>br_task := None, br_extractor := None\<rparr>, snd (os_send (ext r) ch))"
  using assms by (simp add: handle_done_def os_send_def Let_def)

lemma cw_inv_OnInit:
  assumes "cw_step (OnInit r) s = Some s'" and "cw_inv ext s"
  shows "cw_inv ext s'"
proof -
  obtain res b' ch' where i: "init_task (\<lambda>_ _. r) (w_bridge s) (w_chan s) = (res, b', ch')" by (metis prod_cases3)
  from assms have "w_init s" "os_tx (w_chan s)" by (auto simp: cw_inv_def split: if_splits)
  from assms(1) this i init_task_sender [OF this(2) i] assms(2) cw_step_ended [OF assms(1), of ext] show ?thesis
    by (cases res) (auto simp: cw_inv_def Let_def ended_def split: if_splits)
qed

lemma cw_inv_OnDone:
  assumes "cw_step OnDone s = Some s'" and "cw_inv ext s"
  shows "cw_inv ext s'"
proof -
  from assms(1) obtain r where r: "w_task s = Finished r" by (auto split: task_state.splits)
  with assms(2) have "os_tx (w_chan s)" "br_extractor (w_bridge s) = Some ext" by (auto simp: cw_inv_def)
  from handle_done_sender [OF this, of r] assms r cw_step_ended [OF assms(1), of ext] show ?thesis
    by (auto simp: cw_inv_def ended_def split: prod.splits if_splits)
qed

lemma cw_poll_result:
  assumes "cw_step PollWaiter s = Some s'" and "w_out s' = Some v"
  shows "if w_cancel s = Some True then v = Inl (cancelled_error ''Task was cancelled'') else os_poll (w_chan s) = Ready v"
  using assms
  by (cases "w_cancel s = Some True"; cases "br_task (w_bridge s)"; cases "os_poll (w_chan s)")
    (auto simp: cw_poll_def bridge_cancel_def Let_def split: if_splits)

lemma cw_poll_fields:
  assumes "cw_step PollWaiter s = Some s'"
  shows "w_chan s' = w_chan s \<and> w_init s' = w_init s \<and> w_task s' = w_task s \<and> w_made s' = w_made s \<and>
    w_cancel s' = w_cancel s \<and> br_extractor (w_bridge s') = br_extractor (w_bridge s) \<and>
    (br_task (w_bridge s) = None \<longrightarrow> br_task (w_bridge s') = None) \<and> os_rx (w_chan s)"
  using assms
  by (cases "w_cancel s = Some True"; cases "br_task (w_bridge s)"; cases "os_poll (w_chan s)")
    (auto simp: cw_poll_def bridge_cancel_def Let_def split: if_splits)

lemma os_poll_ended:
  assumes "cw_inv ext s" and "os_rx (w_chan s)" and "os_poll (w_chan s) = Ready v"
  shows "ended ext s v"
proof (cases "os_slot (w_chan s)")
  case None
  with assms(3) have "\<not> os_tx (w_chan s)" by (simp add: os_poll_def split: if_splits)
  with None assms(1,2) show ?thesis by (simp add: cw_inv_def)
next
  case (Some u)
  with assms(3) have "u = v" by (simp add: os_poll_def)
  with Some assms(1) show ?thesis by (simp add: cw_inv_def)
qed

lemma cw_inv_PollWaiter:
  assumes "cw_step PollWaiter s = Some s'" and "cw_inv ext s"
  shows "cw_inv ext s'"
proof -
  note same = cw_poll_fields [OF assms(1)]
  then have "ended ext s' = ended ext s" by (simp add: ended_def fun_eq_iff)
  moreover have "(w_cancel s = Some True \<and> v = Inl (cancelled_error ''Task was cancelled'')) \<or> ended ext s v"
    if "w_out s' = Some v" for v
    using cw_poll_result [OF assms(1) that] os_poll_ended [OF assms(2), of v] same by (auto split: if_splits)
  ultimately show ?thesis using same assms(2) unfolding cw_inv_def by simp
qed

lemma cw_inv_quiet:
  assumes "cw_inv ext s" and "w_task s' = w_task s" and "w_init s' = w_init s" and "w_made s' = w_made s"
    and "w_bridge s' = w_bridge s" and "w_out s' = w_out s"
    and "w_cancel s = Some True \<longrightarrow> w_cancel s' = Some True"
    and "os_tx (w_chan s') = os_tx (w_chan s)" and "os_slot (w_chan s') = os_slot (w_chan s)"
    and "os_rx (w_chan s') \<longrightarrow> os_rx (w_chan s)"
  shows "cw_inv ext s'"
proof -
  from assms(2,3) have "ended ext s' = ended ext s" by (simp add: ended_def fun_eq_iff)
  with assms show ?thesis unfolding cw_inv_def by metis
qed

lemma cw_inv_step:
  assumes step: "cw_step ev s = Some s'" and inv: "cw_inv ext s"
  shows "cw_inv ext s'"
proof (cases ev)
  case (TaskEnds r)
  with step have s': "w_task s = Running" "s' = s\<lparr>w_task := Finished r\<rparr>" by (simp_all split: if_splits)
  from inv s'(1) have "os_slot (w_chan s) = None" and out: "\<not> ended ext s v" for v
    by (simp_all add: cw_inv_def ended_def)
  with inv s' show ?thesis by (simp add: cw_inv_def out)
next
  case CancelFires
  with step show ?thesis by (intro cw_inv_quiet [OF inv]) (simp_all split: if_splits, auto)
next
  case DropWaiter
  with step show ?thesis by (intro cw_inv_quiet [OF inv]) (simp_all split: if_splits, auto)
qed (use assms cw_inv_OnInit cw_inv_OnDone cw_inv_PollWaiter in blast)+

lemma cw_inv_run: "cw_run evs s = Some s' \<Longrightarrow> cw_inv ext s \<Longrightarrow> cw_inv ext s'"
  by (rule cw_run_inv [where P = "cw_inv ext", OF cw_inv_step])

lemma cw_run_append:
  "cw_run (evs @ evs') s = (case cw_run evs s of None \<Rightarrow> None | Some s' \<Rightarrow> cw_run evs' s')"
  by (induction evs arbitrary: s) (auto split: option.split)

text \<open>A coroutine that was taken away from the bridge before it was started never runs.\<close>

definition never_started :: "('co, 'lp, 'o, 'a) waiting \<Rightarrow> bool" where
  "never_started s \<longleftrightarrow> w_made s = 0 \<and> br_coro (w_bridge s) = None \<and> w_task s = NoTask"

lemma never_started_step: "cw_step ev s = Some s' \<Longrightarrow> never_started s \<Longrightarrow> never_started s'"
proof (cases ev)
  case (OnInit r)
  assume "cw_step ev s = Some s'" "never_started s"
  with OnInit show ?thesis by (auto simp: never_started_def init_task_def ok_or_def Let_def split: if_splits)
next
  case PollWaiter
  assume "cw_step ev s = Some s'" "never_started s"
  with PollWaiter show ?thesis
    by (auto simp: never_started_def cw_poll_def bridge_cancel_def Let_def
        split: if_splits poll.splits option.splits)
qed (auto simp: never_started_def split: if_splits)

lemma never_started_run: "cw_run evs s = Some s' \<Longrightarrow> never_started s \<Longrightarrow> never_started s'"
  by (rule cw_run_inv [where P = never_started, OF never_started_step])

text \<open>Every coroutine can be waited for to its end.\<close>

fun rank :: "bool \<Rightarrow> 'o task_state \<Rightarrow> nat" where
  "rank True _ = 3"
| "rank False Running = 2"
| "rank False (Finished _) = 1"
| "rank False _ = 0"

lemma loop_step:
  assumes "cw_inv ext s" and "rank (w_init s) (w_task s) > 0"
  shows "\<exists>ev s'. ev \<in> {OnInit (Inr ()), TaskEnds r, OnDone} \<and> cw_step ev s = Some s' \<and>
    rank (w_init s') (w_task s') < rank (w_init s) (w_task s) \<and> os_rx (w_chan s') = os_rx (w_chan s) \<and> w_out s' = w_out s"
proof (cases "w_init s")
  case True
  with assms(1) have "os_tx (w_chan s)" by (simp add: cw_inv_def)
  obtain res b' ch' where i: "init_task (\<lambda>_ _. Inr ()) (w_bridge s) (w_chan s) = (res, b', ch')" by (metis prod_cases3)
  from init_task_sender(3) [OF \<open>os_tx (w_chan s)\<close> i] have "os_rx ch' = os_rx (w_chan s)" by simp
  with True i have "\<exists>s'. cw_step (OnInit (Inr ())) s = Some s' \<and> rank (w_init s') (w_task s') < 3 \<and>
      os_rx (w_chan s') = os_rx (w_chan s) \<and> w_out s' = w_out s" by (simp add: Let_def)
  with True show ?thesis by auto
next
  case False
  show ?thesis
  proof (cases "w_task s")
    case Running
    with False have "cw_step (TaskEnds r) s = Some (s\<lparr>w_task := Finished r\<rparr>)" by simp
    with False Running show ?thesis by (intro exI [of _ "TaskEnds r"] exI) auto
  next
    case (Finished q)
    with assms(1) have "os_tx (w_chan s)" "br_extractor (w_bridge s) = Some ext" by (simp_all add: cw_inv_def)
    from handle_done_sender [OF this, of q] obtain res where
      "handle_done q (w_bridge s) (w_chan s) = (res, (w_bridge s)\<lparr>br_task := None, br_extractor := None\<rparr>, snd (os_send (ext q) (w_chan s)))"
      by (metis prod.collapse)
    with False Finished show ?thesis by (intro exI [of _ OnDone] exI) auto
  qed (use False assms(2) in simp_all)
qed

lemma poll_when_done:
  assumes "cw_inv ext s" and "os_rx (w_chan s)" and "w_out s = None"
    and "rank (w_init s) (w_task s) = 0"
  shows "\<exists>s'. cw_step PollWaiter s = Some s' \<and> w_out s' \<noteq> None"
proof -
  from assms(4) have "\<not> w_init s" "w_task s \<noteq> Running" "\<forall>r. w_task s \<noteq> Finished r"
    by (cases "w_init s"; cases "w_task s"; simp)+
  with assms(1) have "\<not> os_tx (w_chan s)" by (simp add: cw_inv_def)
  with assms(2,3) show ?thesis
    by (auto simp: cw_poll_def os_poll_def bridge_cancel_def Let_def split: option.split)
qed

lemma coro_can_end:
  assumes "cw_inv ext s" and "os_rx (w_chan s)" and "w_out s = None"
  shows "\<exists>evs s'. cw_run (evs @ [PollWaiter]) s = Some s' \<and> w_out s' \<noteq> None \<and>
    set evs \<subseteq> {OnInit (Inr ()), TaskEnds r, OnDone}"
  using assms
proof (induction "rank (w_init s) (w_task s)" arbitrary: s rule: less_induct)
  case less
  show ?case
  proof (cases "rank (w_init s) (w_task s) = 0")
    case True
    from poll_when_done [OF less.prems True] show ?thesis by (auto intro!: exI [of _ "[]"])
  next
    case False
    then obtain ev s1 where ev: "ev \<in> {OnInit (Inr ()), TaskEnds r, OnDone}" "cw_step ev s = Some s1"
      and "rank (w_init s1) (w_task s1) < rank (w_init s) (w_task s)" "os_rx (w_chan s1)" "w_out s1 = None"
      using loop_step [OF less.prems(1), of r] less.prems by auto
    from less.hyps [OF this(3) cw_inv_step [OF ev(2) less.prems(1)] this(4,5)] obtain evs s' where
      "cw_run (evs @ [PollWaiter]) s1 = Some s'" "w_out s' \<noteq> None" "set evs \<subseteq> {OnInit (Inr ()), TaskEnds r, OnDone}"
      by blast
    with ev show ?thesis by (intro exI [of _ "ev # evs"] exI [of _ s']) auto
  qed
qed

text \<open>Before the start only a cancellation makes the waiter return, and it takes the coroutine away.\<close>

definition early_out :: "('co, 'lp, 'o, 'a) waiting \<Rightarrow> bool" where
  "early_out s \<longleftrightarrow> (w_init s \<and> w_out s \<noteq> None \<longrightarrow> br_coro (w_bridge s) = None)"

lemma early_out_step:
  assumes "cw_step ev s = Some s'" and "cw_inv ext s" and "early_out s"
  shows "early_out s'"
proof (cases ev)
  case OnDone
  with assms(1) have "w_init s' = w_init s" "w_task s \<noteq> NoTask"
    by (auto split: task_state.splits prod.splits)
  with assms(2) show ?thesis by (simp add: cw_inv_def early_out_def)
next
  case PollWaiter
  show ?thesis
  proof (cases "w_init s")
    case True
    with assms(2) have "os_poll (w_chan s) = Pending" by (simp add: cw_inv_def os_poll_def)
    with True PollWaiter assms(1) show ?thesis
      by (cases "w_cancel s = Some True"; cases "br_task (w_bridge s)")
        (auto simp: early_out_def cw_poll_def bridge_cancel_def Let_def split: if_splits)
  next
    case False
    with cw_poll_fields assms(1) PollWaiter have "\<not> w_init s'" by metis
    then show ?thesis by (simp add: early_out_def)
  qed
qed (use assms in \<open>auto simp: early_out_def Let_def split: if_splits task_state.splits prod.splits\<close>)

lemma early_out_run: "cw_run evs s = Some s' \<Longrightarrow> cw_inv ext s \<Longrightarrow> early_out s \<Longrightarrow> early_out s'"
  using cw_run_inv [where P = "\<lambda>s. cw_inv ext s \<and> early_out s"] cw_inv_step early_out_step by blast

subsection \<open>Properties\<close>

text \<open>
  C29. A coroutine is started at most once, and what the waiter returns is the extracted result of its
  finished task, or the error that it could not be started, or, only if it was cancelled, that it
  was cancelled. A waiter that was cancelled before the start makes sure that the coroutine never
  runs.
\<close>

theorem coro_waiter_result:
  assumes "cw_new ext coro loop soon = Inr bc" and "cw_run evs (waiting_start bc handle) = Some s"
  shows "w_made s \<le> 1 \<and>
    (\<forall>v. w_out s = Some v \<longrightarrow>
      (w_cancel s = Some True \<and> v = Inl (cancelled_error ''Task was cancelled'')) \<or>
      (\<exists>r. w_task s = CalledBack r \<and> v = ext r) \<or>
      (\<not> w_init s \<and> w_task s = NoTask \<and> (\<exists>e. v = Inl e))) \<and>
    (w_out s \<noteq> None \<and> w_init s \<longrightarrow> (\<forall>evs' s'. cw_run evs' s = Some s' \<longrightarrow> w_made s' = 0 \<and> w_task s' = NoTask))"
proof -
  note start = cw_inv_start [OF assms(1), of handle]
  have inv: "cw_inv ext s" by (rule cw_inv_run [OF assms(2) start])
  have "early_out s" by (rule early_out_run [OF assms(2) start]) (simp add: early_out_def waiting_start_def)
  with inv have "w_out s \<noteq> None \<and> w_init s \<longrightarrow> never_started s"
    by (simp add: cw_inv_def never_started_def early_out_def)
  then have "w_out s \<noteq> None \<and> w_init s \<longrightarrow>
      (\<forall>evs' s'. cw_run evs' s = Some s' \<longrightarrow> w_made s' = 0 \<and> w_task s' = NoTask)"
    using never_started_run [of _ s] by (auto simp: never_started_def)
  with inv show ?thesis unfolding cw_inv_def ended_def by blast
qed

definition demo_extract :: "nat pyres \<Rightarrow> nat pyres" where
  "demo_extract r = map_res (\<lambda>n. n + 1) r"

definition demo_waiting :: "(nat, nat, nat, nat) waiting" where
  "demo_waiting = waiting_start
     (\<lparr>br_extractor = Some demo_extract, br_coro = Some 5, br_event_loop = Some 6, br_task = None\<rparr>,
      \<lparr>os_slot = None, os_tx = True, os_rx = True\<rparr>) True"

lemma demo_new: "cw_new demo_extract 5 (Inr 6) (Inr ()) =
  Inr (\<lparr>br_extractor = Some demo_extract, br_coro = Some 5, br_event_loop = Some 6, br_task = None\<rparr>,
       \<lparr>os_slot = None, os_tx = True, os_rx = True\<rparr>)"
  by (simp add: cw_new_def bridge_new_def)

theorem coro_waiter_result_witness:
  "\<exists>s. cw_run [CancelFires, PollWaiter] demo_waiting = Some s \<and> w_init s \<and>
     (\<forall>evs' s'. cw_run evs' s = Some s' \<longrightarrow> w_made s' = 0)"
proof -
  have "\<exists>s. cw_run [CancelFires, PollWaiter] demo_waiting = Some s \<and> w_init s \<and> w_out s \<noteq> None"
    by (simp add: demo_waiting_def waiting_start_def cw_poll_def bridge_cancel_def)
  then obtain s where s: "cw_run [CancelFires, PollWaiter] demo_waiting = Some s" "w_init s" "w_out s \<noteq> None" by blast
  from coro_waiter_result [OF demo_new s(1) [unfolded demo_waiting_def]] s show ?thesis by blast
qed

text \<open>
  C30. No wakeup is lost: in every reachable state in which the waiter still waits, the loop's own
  steps (calling \<open>on_init\<close>, the task ending with any result, calling \<open>on_done\<close>) lead to a state in
  which the next poll returns, also after a failed start or a cancellation.
\<close>

theorem coro_waiter_completes:
  assumes "cw_new ext coro loop soon = Inr bc" and "cw_run evs (waiting_start bc handle) = Some s"
    and "os_rx (w_chan s)" and "w_out s = None"
  shows "\<exists>evs' s'. cw_run (evs' @ [PollWaiter]) s = Some s' \<and> w_out s' \<noteq> None \<and>
    set evs' \<subseteq> {OnInit (Inr ()), TaskEnds r, OnDone}"
  by (rule coro_can_end [OF cw_inv_run [OF assms(2) cw_inv_start [OF assms(1)]] assms(3,4)])

theorem coro_waiter_completes_witness:
  "\<exists>evs' s'. cw_run (evs' @ [PollWaiter]) demo_waiting = Some s' \<and> w_out s' \<noteq> None"
proof -
  have "cw_run [] demo_waiting = Some demo_waiting" by simp
  from coro_waiter_completes [OF demo_new this [unfolded demo_waiting_def], of "Inr 0"] show ?thesis
    by (auto simp: demo_waiting_def waiting_start_def)
qed

end
