(* ===== verification/Runtime.thy ===== *)
theory Runtime
  imports Client
begin

section \<open>The runtimes and their configuration\<close>

text \<open>
  Models \<open>RuntimeConfig\<close>, \<open>RuntimeHandle::global_handle\<close>, \<open>InnerRuntime::new\<close> and the functions
  exported to Python of \<open>src/runtime/runtime.rs\<close>. The configuration is behind a lock, which is
  poisoned when a thread panics while it holds it for writing. \<open>tokio\<close>'s builder is a parameter: setting an
  option gives the changed builder or panics (\<open>None\<close>). A \<open>Duration\<close> is its number of nanoseconds.
\<close>

datatype runtime_opt = WorkerThreads nat | MaxBlockingThreads nat | ThreadKeepAlive nat

record 'rb tokio_ops =
  new_multi_thread :: 'rb
  new_current_thread :: 'rb
  tokio_set :: "runtime_opt \<Rightarrow> 'rb \<Rightarrow> 'rb option"
  tokio_build :: "'rb \<Rightarrow> string + runtime_handle"
  spawn_thread :: "string + unit"

record runtime_config =
  rc_multithreaded :: "bool option"
  rc_worker_threads :: "nat option"
  rc_max_blocking_threads :: "nat option"
  rc_blocking_thread_keep_alive :: "nat option"
  rc_multithreaded_initialized :: bool

text \<open>The statics: the configuration with its lock, and the two runtimes once they were asked for.\<close>

record runtime_globals =
  g_config :: runtime_config
  g_poisoned :: bool
  g_single :: "runtime_handle pyres option"
  g_multi :: "runtime_handle pyres option"

definition globals_init :: runtime_globals where
  "globals_init = \<lparr>g_config = \<lparr>rc_multithreaded = None, rc_worker_threads = None, rc_max_blocking_threads = None,
     rc_blocking_thread_keep_alive = None, rc_multithreaded_initialized = False\<rparr>, g_poisoned = False,
     g_single = None, g_multi = None\<rparr>"

definition config_read :: "runtime_globals \<Rightarrow> runtime_config pyres" where
  "config_read g = (if g_poisoned g then Inl (runtime_error ''Config lock poisoned'') else Inr (g_config g))"

subsection \<open>The functions for Python\<close>

definition runtime_multithreaded_default :: "bool option \<Rightarrow> runtime_globals \<Rightarrow> unit pyres \<times> runtime_globals" where
  "runtime_multithreaded_default enable g =
     (case config_read g of
        Inl e \<Rightarrow> (Inl e, g)
      | Inr c \<Rightarrow> (Inr (), g\<lparr>g_config := c\<lparr>rc_multithreaded := enable\<rparr>\<rparr>))"

definition set_config_check_init ::
    "(runtime_config \<Rightarrow> nat option) \<Rightarrow> (nat option \<Rightarrow> runtime_config \<Rightarrow> runtime_config) \<Rightarrow> nat option \<Rightarrow>
     runtime_globals \<Rightarrow> unit pyres \<times> runtime_globals" where
  "set_config_check_init get put v g =
     (case config_read g of
        Inl e \<Rightarrow> (Inl e, g)
      | Inr c \<Rightarrow>
          if get c \<noteq> v \<and> rc_multithreaded_initialized c
          then (Inl (runtime_error
            (''Multi-threaded runtime config can not be changed after the multi-threaded runtime has been '' @
             ''initialized'')), g)
          else (Inr (), g\<lparr>g_config := put v c\<rparr>))"

definition set_worker_threads :: "nat option \<Rightarrow> runtime_globals \<Rightarrow> unit pyres \<times> runtime_globals" where
  "set_worker_threads v = set_config_check_init rc_worker_threads (\<lambda>v c. c\<lparr>rc_worker_threads := v\<rparr>) v"

definition set_max_blocking_threads :: "nat option \<Rightarrow> runtime_globals \<Rightarrow> unit pyres \<times> runtime_globals" where
  "set_max_blocking_threads v =
     set_config_check_init rc_max_blocking_threads (\<lambda>v c. c\<lparr>rc_max_blocking_threads := v\<rparr>) v"

definition set_blocking_thread_keep_alive :: "nat option \<Rightarrow> runtime_globals \<Rightarrow> unit pyres \<times> runtime_globals" where
  "set_blocking_thread_keep_alive v =
     set_config_check_init rc_blocking_thread_keep_alive (\<lambda>v c. c\<lparr>rc_blocking_thread_keep_alive := v\<rparr>) v"

subsection \<open>Building a runtime\<close>

definition config_opts :: "runtime_config \<Rightarrow> runtime_opt list" where
  "config_opts c =
     (case rc_worker_threads c of Some n \<Rightarrow> [WorkerThreads n] | None \<Rightarrow> []) @
     (case rc_max_blocking_threads c of Some n \<Rightarrow> [MaxBlockingThreads n] | None \<Rightarrow> []) @
     (case rc_blocking_thread_keep_alive c of Some d \<Rightarrow> [ThreadKeepAlive d] | None \<Rightarrow> [])"

fun tokio_set_all :: "'rb tokio_ops \<Rightarrow> runtime_opt list \<Rightarrow> 'rb \<Rightarrow> 'rb option" where
  "tokio_set_all T [] b = Some b"
| "tokio_set_all T (opt # opts) b =
     (case tokio_set T opt b of None \<Rightarrow> None | Some b' \<Rightarrow> tokio_set_all T opts b')"

definition build_runtime :: "'rb tokio_ops \<Rightarrow> 'rb \<Rightarrow> runtime_handle pyres" where
  "build_runtime T b =
     (case tokio_build T b of
        Inl e \<Rightarrow> Inl (runtime_error (''Failed to create tokio runtime: '' @ e))
      | Inr h \<Rightarrow> Inr h)"

text \<open>\<open>None\<close>: the thread has panicked, with the lock held.\<close>

definition build_tokio_runtime ::
    "'rb tokio_ops \<Rightarrow> bool \<Rightarrow> runtime_globals \<Rightarrow> runtime_handle pyres option \<times> runtime_globals" where
  "build_tokio_runtime T multi g =
     (if multi
      then (case config_read g of
              Inl e \<Rightarrow> (Some (Inl e), g)
            | Inr c \<Rightarrow>
                (case tokio_set_all T (config_opts c) (new_multi_thread T) of
                   None \<Rightarrow> (None, g\<lparr>g_poisoned := True\<rparr>)
                 | Some b \<Rightarrow>
                     (case build_runtime T b of
                        Inl e \<Rightarrow> (Some (Inl e), g)
                      | Inr h \<Rightarrow> (Some (Inr h), g\<lparr>g_config := c\<lparr>rc_multithreaded_initialized := True\<rparr>\<rparr>))))
      else (Some (build_runtime T (new_current_thread T)), g))"

definition inner_runtime_new ::
    "'rb tokio_ops \<Rightarrow> bool \<Rightarrow> runtime_globals \<Rightarrow> runtime_handle pyres \<times> runtime_globals" where
  "inner_runtime_new T multi g =
     (case spawn_thread T of
        Inl e \<Rightarrow> (Inl (runtime_error (''Failed to spawn tokio runtime thread: '' @ e)), g)
      | Inr _ \<Rightarrow>
          (case build_tokio_runtime T multi g of
             (Some r, g') \<Rightarrow> (r, g')
           | (None, g') \<Rightarrow>
               (Inl (runtime_error ''Failed to recv tokio runtime: receiving on a closed channel''), g')))"

text \<open>Both runtimes are made once, at the first use; a failure is kept as well.\<close>

definition choose_multithreaded :: "bool option \<Rightarrow> runtime_globals \<Rightarrow> bool" where
  "choose_multithreaded multithreaded g =
     (case multithreaded of
        Some m \<Rightarrow> m
      | None \<Rightarrow>
          (case config_read g of
             Inr c \<Rightarrow> (case rc_multithreaded c of Some m \<Rightarrow> m | None \<Rightarrow> g_multi g \<noteq> None)
           | Inl _ \<Rightarrow> g_multi g \<noteq> None))"

definition global_handle ::
    "'rb tokio_ops \<Rightarrow> bool option \<Rightarrow> runtime_globals \<Rightarrow> runtime_handle pyres \<times> runtime_globals" where
  "global_handle T multithreaded g =
     (if choose_multithreaded multithreaded g
      then (case g_multi g of
              Some r \<Rightarrow> (r, g)
            | None \<Rightarrow> (case inner_runtime_new T True g of (r, g') \<Rightarrow> (r, g'\<lparr>g_multi := Some r\<rparr>)))
      else (case g_single g of
              Some r \<Rightarrow> (r, g)
            | None \<Rightarrow> (case inner_runtime_new T False g of (r, g') \<Rightarrow> (r, g'\<lparr>g_single := Some r\<rparr>))))"

subsection \<open>Sequences of calls\<close>

datatype runtime_call =
    SetDefault "bool option" | SetWorkers "nat option" | SetBlocking "nat option" | SetKeepAlive "nat option"
  | GetHandle "bool option"

fun runtime_do :: "'rb tokio_ops \<Rightarrow> runtime_call \<Rightarrow> runtime_globals \<Rightarrow> runtime_globals" where
  "runtime_do T (SetDefault e) g = snd (runtime_multithreaded_default e g)"
| "runtime_do T (SetWorkers v) g = snd (set_worker_threads v g)"
| "runtime_do T (SetBlocking v) g = snd (set_max_blocking_threads v g)"
| "runtime_do T (SetKeepAlive v) g = snd (set_blocking_thread_keep_alive v g)"
| "runtime_do T (GetHandle m) g = snd (global_handle T m g)"

definition runtime_all :: "'rb tokio_ops \<Rightarrow> runtime_call list \<Rightarrow> runtime_globals \<Rightarrow> runtime_globals" where
  "runtime_all T cs g = fold (runtime_do T) cs g"

lemmas config_defs = runtime_multithreaded_default_def set_worker_threads_def set_max_blocking_threads_def
  set_blocking_thread_keep_alive_def set_config_check_init_def config_read_def

text \<open>The settings the runtime was made with are those of the configuration.\<close>

definition runtime_inv :: "'rb tokio_ops \<Rightarrow> runtime_globals \<Rightarrow> bool" where
  "runtime_inv T g \<longleftrightarrow>
     (g_poisoned g \<longrightarrow> (\<exists>e. g_multi g = Some (Inl e))) \<and>
     (rc_multithreaded_initialized (g_config g) \<longleftrightarrow> (\<exists>h. g_multi g = Some (Inr h))) \<and>
     (\<forall>h. g_multi g = Some (Inr h) \<longrightarrow>
        (\<exists>b. tokio_set_all T (config_opts (g_config g)) (new_multi_thread T) = Some b \<and> tokio_build T b = Inr h))"

lemma runtime_inv_init: "runtime_inv T globals_init"
  by (simp add: runtime_inv_def globals_init_def)

lemma config_opts_flags [simp]:
  "config_opts (c\<lparr>rc_multithreaded := m\<rparr>) = config_opts c"
  "config_opts (c\<lparr>rc_multithreaded_initialized := i\<rparr>) = config_opts c"
  by (simp_all add: config_opts_def)

lemma config_opts_asked:
  "config_opts c = List.map_filter id [map_option WorkerThreads (rc_worker_threads c),
     map_option MaxBlockingThreads (rc_max_blocking_threads c), map_option ThreadKeepAlive (rc_blocking_thread_keep_alive c)]"
  by (simp add: config_opts_def map_filter_simps split: option.split)

lemma config_opts_eq:
  "config_opts c = config_opts c' \<longleftrightarrow> rc_worker_threads c = rc_worker_threads c' \<and>
     rc_max_blocking_threads c = rc_max_blocking_threads c' \<and> rc_blocking_thread_keep_alive c = rc_blocking_thread_keep_alive c'"
  by (auto simp: config_opts_def split: option.splits)

lemma inner_runtime_multi:
  assumes "inner_runtime_new T True g = (r, g')" and "\<not> g_poisoned g"
  shows "g_multi g' = g_multi g"
    and "(\<exists>e. r = Inl e \<and> g_config g' = g_config g) \<or>
      (\<exists>b h. r = Inr h \<and> \<not> g_poisoned g' \<and> g_config g' = (g_config g)\<lparr>rc_multithreaded_initialized := True\<rparr> \<and>
         tokio_set_all T (config_opts (g_config g)) (new_multi_thread T) = Some b \<and> tokio_build T b = Inr h)"
  using assms
  by (auto simp: inner_runtime_new_def build_tokio_runtime_def config_read_def build_runtime_def
      split: sum.splits option.splits prod.splits if_splits)

lemma inner_runtime_single: "inner_runtime_new T False g = (r, g') \<Longrightarrow> g' = g"
  by (auto simp: inner_runtime_new_def build_tokio_runtime_def split: sum.splits prod.splits)

lemma runtime_inv_step: "runtime_inv T g \<Longrightarrow> runtime_inv T (runtime_do T c g)"
proof (cases c)
  case (GetHandle m)
  assume inv: "runtime_inv T g"
  show ?thesis
  proof (cases "choose_multithreaded m g \<and> g_multi g = None")
    case True
    with inv have np: "\<not> g_poisoned g" by (auto simp: runtime_inv_def)
    obtain r g' where i: "inner_runtime_new T True g = (r, g')" by fastforce
    from inner_runtime_multi [OF i np] inv True GetHandle i show ?thesis
      by (auto simp: runtime_inv_def global_handle_def)
  next
    case False
    with inv GetHandle show ?thesis
      by (auto simp: global_handle_def runtime_inv_def dest!: inner_runtime_single split: option.split prod.split)
  qed
qed (auto simp: runtime_inv_def config_defs config_opts_def split: sum.split if_split)

lemma runtime_inv_all: "runtime_inv T g \<Longrightarrow> runtime_inv T (runtime_all T cs g)"
  unfolding runtime_all_def by (induction cs arbitrary: g) (simp_all add: runtime_inv_step)

subsection \<open>Properties\<close>

text \<open>
  C31. Once the multi-threaded runtime exists, it was built with exactly the settings for worker threads,
  blocking threads and their keep-alive that the configuration shows, and it keeps them: whatever is called
  later, each of the settings and the runtime stay the same, a setter succeeds exactly if it asks for the
  value that is set, and every client that asks for the multi-threaded runtime gets this one.
\<close>

theorem runtime_config_frozen:
  assumes "g = runtime_all T cs globals_init" and "g_multi g = Some (Inr h)"
  shows "(\<exists>b. tokio_set_all T (List.map_filter id
        [map_option WorkerThreads (rc_worker_threads (g_config g)),
         map_option MaxBlockingThreads (rc_max_blocking_threads (g_config g)),
         map_option ThreadKeepAlive (rc_blocking_thread_keep_alive (g_config g))]) (new_multi_thread T) = Some b \<and>
      tokio_build T b = Inr h) \<and>
    (\<forall>cs'. let g' = runtime_all T cs' g in
      rc_worker_threads (g_config g') = rc_worker_threads (g_config g) \<and>
      rc_max_blocking_threads (g_config g') = rc_max_blocking_threads (g_config g) \<and>
      rc_blocking_thread_keep_alive (g_config g') = rc_blocking_thread_keep_alive (g_config g) \<and>
      g_multi g' = Some (Inr h) \<and> global_handle T (Some True) g' = (Inr h, g') \<and>
      (fst (set_worker_threads v g') = Inr () \<longleftrightarrow> v = rc_worker_threads (g_config g')) \<and>
      (fst (set_max_blocking_threads v g') = Inr () \<longleftrightarrow> v = rc_max_blocking_threads (g_config g')) \<and>
      (fst (set_blocking_thread_keep_alive v' g') = Inr () \<longleftrightarrow> v' = rc_blocking_thread_keep_alive (g_config g')))"
proof -
  have inv: "runtime_inv T g" unfolding assms(1) by (rule runtime_inv_all [OF runtime_inv_init])
  have frozen_step: "config_opts (g_config (runtime_do T c g)) = config_opts (g_config g) \<and>
      g_multi (runtime_do T c g) = Some (Inr h)" if "runtime_inv T g" "g_multi g = Some (Inr h)" for c g
    using that
    by (cases c) (auto simp: runtime_inv_def config_defs global_handle_def dest!: inner_runtime_single
      split: option.split prod.split)
  have frozen: "config_opts (g_config (runtime_all T cs' g)) = config_opts (g_config g) \<and>
      g_multi (runtime_all T cs' g) = Some (Inr h)" if "runtime_inv T g" "g_multi g = Some (Inr h)" for cs' g
    using that
  proof (induction cs' arbitrary: g)
    case (Cons c cs')
    from Cons.IH [OF runtime_inv_step [OF Cons.prems(1)]] frozen_step [OF Cons.prems] show ?case
      by (simp add: runtime_all_def)
  qed (simp add: runtime_all_def)
  have later: "let g' = runtime_all T cs' g in
      config_opts (g_config g') = config_opts (g_config g) \<and> g_multi g' = Some (Inr h) \<and>
      global_handle T (Some True) g' = (Inr h, g') \<and>
      (fst (set_worker_threads v g') = Inr () \<longleftrightarrow> v = rc_worker_threads (g_config g')) \<and>
      (fst (set_max_blocking_threads v g') = Inr () \<longleftrightarrow> v = rc_max_blocking_threads (g_config g')) \<and>
      (fst (set_blocking_thread_keep_alive v' g') = Inr () \<longleftrightarrow> v' = rc_blocking_thread_keep_alive (g_config g'))" for cs'
  proof -
    from frozen [OF inv assms(2), of cs'] runtime_inv_all [OF inv, of cs'] show ?thesis
      by (auto simp: Let_def runtime_inv_def global_handle_def choose_multithreaded_def config_defs)
  qed
  with inv assms(2) show ?thesis
    unfolding config_opts_asked [symmetric] by (auto simp: runtime_inv_def Let_def config_opts_eq)
qed

text \<open>A \<open>tokio\<close> that takes every option but zero threads.\<close>

definition demo_tokio :: "runtime_opt list tokio_ops" where
  "demo_tokio = \<lparr>new_multi_thread = [], new_current_thread = [],
     tokio_set = (\<lambda>opt b. if opt \<in> {WorkerThreads 0, MaxBlockingThreads 0} then None else Some (b @ [opt])),
     tokio_build = (\<lambda>b. Inr (length b)), spawn_thread = Inr ()\<rparr>"

theorem runtime_config_frozen_witness:
  "let g = runtime_all demo_tokio [SetWorkers (Some 2), GetHandle (Some True), SetWorkers (Some 3)] globals_init
   in g_multi g = Some (Inr 1) \<and> fst (set_worker_threads (Some 3) g) \<noteq> Inr ()"
proof -
  let ?cs = "[SetWorkers (Some 2), GetHandle (Some True), SetWorkers (Some 3)]"
  let ?g = "runtime_all demo_tokio ?cs globals_init"
  have g: "g_multi ?g = Some (Inr 1)" "rc_worker_threads (g_config ?g) = Some 2"
    by (simp_all add: runtime_all_def config_defs globals_init_def global_handle_def choose_multithreaded_def
        inner_runtime_new_def build_tokio_runtime_def demo_tokio_def config_opts_def build_runtime_def)
  from runtime_config_frozen [OF refl g(1), of "Some 3"] have "\<forall>cs'. fst (set_worker_threads (Some 3) (runtime_all demo_tokio cs' ?g)) = Inr ()
    \<longleftrightarrow> Some 3 = rc_worker_threads (g_config (runtime_all demo_tokio cs' ?g))" unfolding Let_def by blast
  from spec [OF this, of "[]"] g show ?thesis by (simp add: runtime_all_def)
qed

text \<open>
  Zero worker threads are accepted, and the first use of the multi-threaded runtime then panics in
  \<open>tokio\<close> with the configuration locked: from then on, for the life of the process, the
  configuration cannot be read or changed and the runtime cannot be had, also with the number
  corrected. The single-threaded runtime still works.
\<close>

theorem zero_worker_threads_poison:
  assumes "\<And>b. tokio_set T (WorkerThreads 0) b = None" and "spawn_thread T = Inr ()"
    and "tokio_build T (new_current_thread T) = Inr h"
  shows "fst (set_worker_threads (Some 0) globals_init) = Inr () \<and>
    (let g = runtime_all T [SetWorkers (Some 0), GetHandle (Some True)] globals_init in
      \<forall>cs'. let g' = runtime_all T cs' g in
        (\<exists>e. fst (set_worker_threads v g') = Inl e) \<and> (\<exists>e. fst (runtime_multithreaded_default d g') = Inl e) \<and>
        (\<exists>e. fst (global_handle T (Some True) g') = Inl e) \<and>
        fst (global_handle T (Some False) g') = Inr h)"
proof -
  let ?P = "\<lambda>g. g_poisoned g \<and> (\<exists>e. g_multi g = Some (Inl e)) \<and> (g_single g = None \<or> g_single g = Some (Inr h))"
  have single: "inner_runtime_new T False g = (Inr h, g)" for g
    by (simp add: inner_runtime_new_def build_tokio_runtime_def build_runtime_def assms(2,3))
  have "?P (runtime_all T [SetWorkers (Some 0), GetHandle (Some True)] globals_init)"
    by (simp add: runtime_all_def config_defs globals_init_def global_handle_def choose_multithreaded_def
        inner_runtime_new_def build_tokio_runtime_def config_opts_def assms(1,2))
  moreover have step: "?P g \<Longrightarrow> ?P (runtime_do T c g)" for g c
    by (cases c) (auto simp: config_defs global_handle_def single split: option.split)
  have "?P g \<Longrightarrow> ?P (runtime_all T cs' g)" for g cs'
    unfolding runtime_all_def by (induction cs' arbitrary: g) (use step in auto)
  moreover have "?P g \<Longrightarrow> (\<exists>e. fst (set_worker_threads v g) = Inl e) \<and>
      (\<exists>e. fst (runtime_multithreaded_default d g) = Inl e) \<and>
      (\<exists>e. fst (global_handle T (Some True) g) = Inl e) \<and> fst (global_handle T (Some False) g) = Inr h" for g
    by (auto simp: config_defs global_handle_def choose_multithreaded_def single split: option.split)
  moreover have "fst (set_worker_threads (Some 0) globals_init) = Inr ()"
    by (simp add: config_defs globals_init_def)
  ultimately show ?thesis unfolding Let_def by blast
qed

theorem zero_worker_threads_poison_witness:
  "\<exists>e. fst (set_worker_threads (Some 4)
     (runtime_all demo_tokio [SetWorkers (Some 0), GetHandle (Some True)] globals_init)) = Inl e"
proof -
  have "\<forall>cs'. \<exists>e. fst (set_worker_threads (Some 4) (runtime_all demo_tokio cs'
     (runtime_all demo_tokio [SetWorkers (Some 0), GetHandle (Some True)] globals_init))) = Inl e"
    using zero_worker_threads_poison [of demo_tokio 0 "Some 4" None] unfolding Let_def
    by (simp add: demo_tokio_def)
  from spec [OF this, of "[]"] show ?thesis by (simp add: runtime_all_def)
qed

end
