(* ===== verification/Url.thy ===== *)
theory Url
  imports Header_Views Client
begin

section \<open>URLs and query parameters\<close>

text \<open>
  Models \<open>Url\<close> of \<open>src/http/url.rs\<close> and the query values of \<open>src/internal/types.rs\<close>. A URL object
  is immutable but for a cell with its query pairs, filled at the first use. The URL itself
  is the \<open>url\<close> crate's: its operations are the record \<open>url_ops\<close>, what it documents of them the
  locale \<open>url_crate\<close>. Its getters and string
  methods are in \<open>Py_Values\<close>.
\<close>

subsection \<open>Query values\<close>

text \<open>
  What the extraction takes a Python value for: \<open>'fl\<close> are floats, \<open>PList\<close> is any sequence but a string. The
  variants of \<open>QueryVal\<close> are tried in their order; an \<open>i64\<close> is extracted from an integer of its
  range, an \<open>f64\<close> also from an integer (\<open>float_of\<close>, \<open>None\<close>: too large).
\<close>

datatype 'fl py_value = PBool bool | PInt int | PFloat 'fl | PStr string | PList "'fl py_value list" | POther

datatype 'fl query_val = QBool bool | QInt int | QFloat 'fl | QString string

datatype 'fl query_value = QValue "'fl query_val" | QArray "'fl query_val list"

definition i64_min :: int where
  "i64_min = - (2 ^ 63)"

definition i64_max :: int where
  "i64_max = 2 ^ 63 - 1"

definition no_variant :: py_err where
  "no_variant = PyErr PyTypeError ''failed to extract enum'' NoDetails"

definition extract_query_val :: "(int \<Rightarrow> 'fl option) \<Rightarrow> 'fl py_value \<Rightarrow> 'fl query_val pyres" where
  "extract_query_val float_of v =
     (case v of
        PBool b \<Rightarrow> Inr (QBool b)
      | PInt i \<Rightarrow>
          if i64_min \<le> i \<and> i \<le> i64_max then Inr (QInt i)
          else (case float_of i of Some f \<Rightarrow> Inr (QFloat f) | None \<Rightarrow> Inl no_variant)
      | PFloat f \<Rightarrow> Inr (QFloat f)
      | PStr s \<Rightarrow> Inr (QString s)
      | _ \<Rightarrow> Inl no_variant)"

definition extract_query_value :: "(int \<Rightarrow> 'fl option) \<Rightarrow> 'fl py_value \<Rightarrow> 'fl query_value pyres" where
  "extract_query_value float_of v =
     (case extract_query_val float_of v of
        Inr q \<Rightarrow> Inr (QValue q)
      | Inl _ \<Rightarrow>
          (case v of
             PList vs \<Rightarrow> map_res QArray (collect_res (map (extract_query_val float_of) vs))
           | _ \<Rightarrow> Inl no_variant))"

subsection \<open>The interface of the crate\<close>

text \<open>
  \<open>u_append_query\<close> is the form serialiser of \<open>serde_urlencoded\<close> over \<open>query_pairs_mut\<close>;
  errors are given as their message.
\<close>

record ('u, 'fl, 'ip) url_ops =
  u_parse :: "string \<Rightarrow> string + 'u"
  u_join :: "'u \<Rightarrow> string \<Rightarrow> string + 'u"
  u_str :: "'u \<Rightarrow> string"
  u_query_pairs :: "'u \<Rightarrow> (string \<times> string) list"
  u_set_query :: "string option \<Rightarrow> 'u \<Rightarrow> 'u"
  u_append_query :: "(string \<times> 'fl query_val) list \<Rightarrow> 'u \<Rightarrow> string + 'u"
  u_set_path :: "string \<Rightarrow> 'u \<Rightarrow> 'u"
  u_set_path_segments :: "string list \<Rightarrow> 'u \<Rightarrow> 'u option"
  u_set_port :: "16 word option \<Rightarrow> 'u \<Rightarrow> 'u option"
  u_set_host :: "string option \<Rightarrow> 'u \<Rightarrow> string + 'u"
  u_parse_ip :: "string \<Rightarrow> string + 'ip"
  u_set_ip_host :: "'ip \<Rightarrow> 'u \<Rightarrow> 'u option"
  u_set_username :: "string \<Rightarrow> 'u \<Rightarrow> 'u option"
  u_set_password :: "string option \<Rightarrow> 'u \<Rightarrow> 'u option"
  u_set_scheme :: "string \<Rightarrow> 'u \<Rightarrow> 'u option"
  u_set_fragment :: "string option \<Rightarrow> 'u \<Rightarrow> 'u"
  u_cmp :: "'u \<Rightarrow> 'u \<Rightarrow> int"

subsection \<open>The object\<close>

record 'u url =
  url_inner :: 'u
  url_query :: "(string \<times> string) list option"

definition url_new :: "'u \<Rightarrow> 'u url" where
  "url_new u = \<lparr>url_inner = u, url_query = None\<rparr>"

definition parse_inner :: "('u, 'fl, 'ip) url_ops \<Rightarrow> string \<Rightarrow> 'u pyres" where
  "parse_inner U s = map_err value_error (u_parse U s)"

text \<open>\<open>UrlType\<close>: a URL object (of exactly this class), a string, or an object whose \<open>str\<close> is a URL.\<close>

datatype 'u url_arg = UrlObject "'u url" | UrlString string | UrlOther "string pyres"

definition url_type_extract :: "('u, 'fl, 'ip) url_ops \<Rightarrow> 'u url_arg \<Rightarrow> 'u pyres" where
  "url_type_extract U a =
     (case a of
        UrlObject x \<Rightarrow> Inr (url_inner x)
      | UrlString s \<Rightarrow> parse_inner U s
      | UrlOther str \<Rightarrow> and_then str (parse_inner U))"

definition url_parse :: "('u, 'fl, 'ip) url_ops \<Rightarrow> 'u url_arg \<Rightarrow> 'u url pyres" where
  "url_parse U a = map_res url_new (url_type_extract U a)"

definition url_is_valid :: "('u, 'fl, 'ip) url_ops \<Rightarrow> string \<Rightarrow> bool" where
  "url_is_valid U s = (case u_parse U s of Inr _ \<Rightarrow> True | Inl _ \<Rightarrow> False)"

definition url_join :: "('u, 'fl, 'ip) url_ops \<Rightarrow> 'u url \<Rightarrow> string \<Rightarrow> 'u url pyres" where
  "url_join U x s = map_res url_new (map_err value_error (u_join U (url_inner x) s))"

definition query_pairs_of :: "(string \<times> 'fl query_value) list \<Rightarrow> (string \<times> 'fl query_val) list" where
  "query_pairs_of query =
     concat (map (\<lambda>(key, val). case val of QArray arr \<Rightarrow> map (Pair key) arr | QValue v \<Rightarrow> [(key, v)]) query)"

definition extend_query_inner ::
    "('u, 'fl, 'ip) url_ops \<Rightarrow> (string \<times> 'fl query_value) list option \<Rightarrow> 'u \<Rightarrow> 'u pyres" where
  "extend_query_inner U query u =
     (case query of
        None \<Rightarrow> Inr u
      | Some q \<Rightarrow> map_err value_error (u_append_query U (query_pairs_of q) u))"

definition url_parse_with_params ::
    "('u, 'fl, 'ip) url_ops \<Rightarrow> 'u url_arg \<Rightarrow> (string \<times> 'fl query_value) list \<Rightarrow> 'u url pyres" where
  "url_parse_with_params U a params =
     and_then (url_type_extract U a) (\<lambda>u. map_res url_new (extend_query_inner U (Some params) u))"

definition with_query ::
    "('u, 'fl, 'ip) url_ops \<Rightarrow> 'u url \<Rightarrow> (string \<times> 'fl query_value) list option \<Rightarrow> 'u url pyres" where
  "with_query U x query = map_res url_new (extend_query_inner U query (u_set_query U None (url_inner x)))"

definition extend_query ::
    "('u, 'fl, 'ip) url_ops \<Rightarrow> 'u url \<Rightarrow> (string \<times> 'fl query_value) list option \<Rightarrow> 'u url pyres" where
  "extend_query U x query = map_res url_new (extend_query_inner U query (url_inner x))"

definition with_query_string :: "('u, 'fl, 'ip) url_ops \<Rightarrow> 'u url \<Rightarrow> string option \<Rightarrow> 'u url" where
  "with_query_string U x query = url_new (u_set_query U query (url_inner x))"

definition with_path :: "('u, 'fl, 'ip) url_ops \<Rightarrow> 'u url \<Rightarrow> string \<Rightarrow> 'u url" where
  "with_path U x path = url_new (u_set_path U path (url_inner x))"

definition cannot_be_base :: py_err where
  "cannot_be_base = value_error ''cannot be base''"

definition with_path_segments :: "('u, 'fl, 'ip) url_ops \<Rightarrow> 'u url \<Rightarrow> string list \<Rightarrow> 'u url pyres" where
  "with_path_segments U x segments =
     map_res url_new (ok_or cannot_be_base (u_set_path_segments U segments (url_inner x)))"

definition with_port :: "('u, 'fl, 'ip) url_ops \<Rightarrow> 'u url \<Rightarrow> 16 word option \<Rightarrow> 'u url pyres" where
  "with_port U x port = map_res url_new (ok_or cannot_be_base (u_set_port U port (url_inner x)))"

definition with_host :: "('u, 'fl, 'ip) url_ops \<Rightarrow> 'u url \<Rightarrow> string option \<Rightarrow> 'u url pyres" where
  "with_host U x host = map_res url_new (map_err value_error (u_set_host U host (url_inner x)))"

definition with_ip_host :: "('u, 'fl, 'ip) url_ops \<Rightarrow> 'u url \<Rightarrow> string \<Rightarrow> 'u url pyres" where
  "with_ip_host U x addr =
     and_then (map_err value_error (u_parse_ip U addr)) (\<lambda>ip.
       map_res url_new (ok_or cannot_be_base (u_set_ip_host U ip (url_inner x))))"

definition with_username :: "('u, 'fl, 'ip) url_ops \<Rightarrow> 'u url \<Rightarrow> string \<Rightarrow> 'u url pyres" where
  "with_username U x name = map_res url_new (ok_or cannot_be_base (u_set_username U name (url_inner x)))"

definition with_password :: "('u, 'fl, 'ip) url_ops \<Rightarrow> 'u url \<Rightarrow> string option \<Rightarrow> 'u url pyres" where
  "with_password U x pw = map_res url_new (ok_or cannot_be_base (u_set_password U pw (url_inner x)))"

definition with_scheme :: "('u, 'fl, 'ip) url_ops \<Rightarrow> 'u url \<Rightarrow> string \<Rightarrow> 'u url pyres" where
  "with_scheme U x scheme =
     map_res url_new (ok_or (value_error ''Invalid scheme'') (u_set_scheme U scheme (url_inner x)))"

definition with_fragment :: "('u, 'fl, 'ip) url_ops \<Rightarrow> 'u url \<Rightarrow> string option \<Rightarrow> 'u url" where
  "with_fragment U x fragment = url_new (u_set_fragment U fragment (url_inner x))"

definition url_copy :: "'u url \<Rightarrow> 'u url" where
  "url_copy x = url_new (url_inner x)"

subsection \<open>The query pairs\<close>

definition query_pairs_vec :: "('u, 'fl, 'ip) url_ops \<Rightarrow> 'u url \<Rightarrow> (string \<times> string) list \<times> 'u url" where
  "query_pairs_vec U x =
     (case url_query x of
        Some ps \<Rightarrow> (ps, x)
      | None \<Rightarrow> (let ps = u_query_pairs U (url_inner x) in (ps, x\<lparr>url_query := Some ps\<rparr>)))"

definition query_dict_multi_value :: "('u, 'fl, 'ip) url_ops \<Rightarrow> 'u url \<Rightarrow> (string \<times> dict_value) list \<times> 'u url" where
  "query_dict_multi_value U x =
     (case query_pairs_vec U x of (ps, x') \<Rightarrow> (fold (\<lambda>(k, v) dict. dict_add dict k v) ps [], x'))"

subsection \<open>Comparison\<close>

text \<open>\<open>rich_compare\<close> of Python strings, for an operand that is no URL, is \<open>py_cmp\<close>.\<close>

definition url_richcmp ::
    "('u, 'fl, 'ip) url_ops \<Rightarrow> (string \<Rightarrow> 'u url_arg \<Rightarrow> compare_op \<Rightarrow> bool pyres) \<Rightarrow> 'u url \<Rightarrow> 'u url_arg \<Rightarrow>
     compare_op \<Rightarrow> bool pyres" where
  "url_richcmp U py_cmp x other op =
     (case url_type_extract U other of
        Inl _ \<Rightarrow> py_cmp (u_str U (url_inner x)) other op
      | Inr u \<Rightarrow>
          (let c = u_cmp U (url_inner x) u in
           Inr (case op of Lt \<Rightarrow> c < 0 | Le \<Rightarrow> c \<le> 0 | Eq \<Rightarrow> c = 0 | Ne \<Rightarrow> c \<noteq> 0 | Gt \<Rightarrow> c > 0 | Ge \<Rightarrow> c \<ge> 0)))"

subsection \<open>What the crate documents\<close>

text \<open>\<open>shown\<close> is how a query value is written.\<close>

locale url_crate =
  fixes U :: "('u, 'fl, 'ip) url_ops"
    and shown :: "'fl query_val \<Rightarrow> string"
  assumes no_query: "u_query_pairs U (u_set_query U None u) = []"
    and append_query: "u_append_query U ps u = Inr u' \<Longrightarrow>
      u_query_pairs U u' = u_query_pairs U u @ map (\<lambda>(k, v). (k, shown v)) ps"
    and cmp_str: "u_cmp U u u' = 0 \<longleftrightarrow> u_str U u = u_str U u'"
begin

lemma extend_query_pairs:
  "extend_query_inner U (Some q) u = Inr u' \<Longrightarrow>
   u_query_pairs U u' = u_query_pairs U u @ map (\<lambda>(k, v). (k, shown v)) (query_pairs_of q)"
  by (cases "u_append_query U (query_pairs_of q) u") (auto simp: extend_query_inner_def append_query)

lemma with_query_pairs:
  "with_query U x (Some q) = Inr y \<Longrightarrow>
   url_query y = None \<and> u_query_pairs U (url_inner y) = map (\<lambda>(k, v). (k, shown v)) (query_pairs_of q)"
  by (auto simp: with_query_def url_new_def no_query elim!: map_res_InrE dest: extend_query_pairs)

lemma extended_pairs:
  "extend_query U x (Some q) = Inr y \<Longrightarrow>
   url_query y = None \<and> u_query_pairs U (url_inner y) =
     u_query_pairs U (url_inner x) @ map (\<lambda>(k, v). (k, shown v)) (query_pairs_of q)"
  by (auto simp: extend_query_def url_new_def elim!: map_res_InrE dest: extend_query_pairs)

lemma eq_is_str_eq: "url_richcmp U py_cmp x (UrlObject y) Eq = Inr (u_str U (url_inner x) = u_str U (url_inner y))"
  by (simp add: url_richcmp_def url_type_extract_def cmp_str)

end

text \<open>
  A URL that is its text before the query and its query pairs, which are written by hand; it meets the
  laws.
\<close>

fun show_query_val :: "string query_val \<Rightarrow> string" where
  "show_query_val (QBool b) = (if b then ''true'' else ''false'')"
| "show_query_val (QInt i) = replicate (nat (abs i)) CHR ''1''"
| "show_query_val (QFloat f) = f"
| "show_query_val (QString s) = s"

definition pair_str :: "string \<times> (string \<times> string) list \<Rightarrow> string" where
  "pair_str u = fst u @ concat (map (\<lambda>(k, v). ''&'' @ k @ ''='' @ v) (snd u))"

definition pair_url :: "(string \<times> (string \<times> string) list, string, string) url_ops" where
  "pair_url = \<lparr>
     u_parse = (\<lambda>s. Inr (s, [])), u_join = (\<lambda>u s. Inr (fst u @ s, [])),
     u_str = pair_str, u_query_pairs = snd,
     u_set_query = (\<lambda>q u. (fst u, case q of None \<Rightarrow> [] | Some s \<Rightarrow> [(s, [])])),
     u_append_query = (\<lambda>ps u. Inr (fst u, snd u @ map (\<lambda>(k, v). (k, show_query_val v)) ps)),
     u_set_path = (\<lambda>s u. (s, snd u)), u_set_path_segments = (\<lambda>_ _. None), u_set_port = (\<lambda>_ u. Some u),
     u_set_host = (\<lambda>_ u. Inr u), u_parse_ip = Inr, u_set_ip_host = (\<lambda>_ u. Some u),
     u_set_username = (\<lambda>_ u. Some u), u_set_password = (\<lambda>_ u. Some u), u_set_scheme = (\<lambda>_ u. Some u),
     u_set_fragment = (\<lambda>_ u. u), u_cmp = (\<lambda>u u'. if pair_str u = pair_str u' then 0 else 1)\<rparr>"

interpretation pairs: url_crate pair_url show_query_val
  by unfold_locales (auto simp: pair_url_def)

lemma url_crate_pair: "url_crate pair_url show_query_val"
  by (rule pairs.url_crate_axioms)

subsection \<open>Properties\<close>

lemma dict_of_pairs:
  "dict_strs (dict_get (fold (\<lambda>(k, v) dict. dict_add dict k v) ps dict) key) =
   dict_strs (dict_get dict key) @ map snd (filter (\<lambda>p. fst p = key) ps)"
  by (induction ps arbitrary: dict) (auto simp: dict_strs_add)

text \<open>
  C33. Query parameters come back: the pairs of a URL made by \<open>with_query(params)\<close> and then
  \<open>extend_query(further)\<close> are those of the two, in order, a list giving one pair per element;
  \<open>query_dict_multi_value\<close> groups them by name; looking twice gives the same.
\<close>

theorem query_params_roundtrip:
  assumes "url_crate U shown" and "with_query U x (Some params) = Inr y" and "extend_query U y (Some further) = Inr z"
  shows "let ps = map (\<lambda>(k, v). (k, shown v)) (query_pairs_of (params @ further)) in
    fst (query_pairs_vec U z) = ps \<and>
    fst (query_pairs_vec U (snd (query_pairs_vec U z))) = ps \<and>
    (\<forall>k. dict_strs (dict_get (fst (query_dict_multi_value U z)) k) = map snd (filter (\<lambda>p. fst p = k) ps))"
proof -
  let ?ps = "map (\<lambda>(k, v). (k, shown v)) (query_pairs_of (params @ further))"
  from url_crate.with_query_pairs [OF assms(1,2)] url_crate.extended_pairs [OF assms(1,3)]
  have z: "url_query z = None" "u_query_pairs U (url_inner z) = ?ps"
    by (simp_all add: query_pairs_of_def)
  then have ps: "query_pairs_vec U z = (?ps, z\<lparr>url_query := Some ?ps\<rparr>)" by (simp add: query_pairs_vec_def Let_def)
  moreover have "fst (query_pairs_vec U (z\<lparr>url_query := Some ?ps\<rparr>)) = ?ps" by (simp add: query_pairs_vec_def)
  moreover have none: "dict_strs None = []" by (simp add: dict_strs_def)
  moreover have "dict_strs (dict_get (fst (query_dict_multi_value U z)) k) = map snd (filter (\<lambda>p. fst p = k) ?ps)" for k
    using dict_of_pairs [of ?ps "[]" k] by (simp add: query_dict_multi_value_def ps none)
  ultimately show ?thesis by (simp add: Let_def)
qed

definition demo_params :: "(string \<times> string query_value) list" where
  "demo_params = [(''a'', QArray [QString ''x'', QBool True]), (''b'', QValue (QString ''y''))]"

theorem query_params_roundtrip_witness:
  "\<exists>y z. with_query pair_url (url_new (''u'', [(''q'', ''0'')])) (Some demo_params) = Inr y \<and>
     extend_query pair_url y (Some [(''a'', QValue (QFloat ''1.5''))]) = Inr z \<and>
     fst (query_pairs_vec pair_url z) = [(''a'', ''x''), (''a'', ''true''), (''b'', ''y''), (''a'', ''1.5'')]"
proof -
  let ?y = "url_new (''u'', [(''a'', ''x''), (''a'', ''true''), (''b'', ''y'')])"
  have y: "with_query pair_url (url_new (''u'', [(''q'', ''0'')])) (Some demo_params) = Inr ?y"
    by (simp add: with_query_def extend_query_inner_def url_new_def pair_url_def demo_params_def query_pairs_of_def)
  have "\<exists>z. extend_query pair_url ?y (Some [(''a'', QValue (QFloat ''1.5''))]) = Inr z"
    by (simp add: extend_query_def extend_query_inner_def pair_url_def)
  then obtain z where z: "extend_query pair_url ?y (Some [(''a'', QValue (QFloat ''1.5''))]) = Inr z" by blast
  from query_params_roundtrip [OF url_crate_pair y z] y z show ?thesis
    by (auto simp: Let_def demo_params_def query_pairs_of_def)
qed

text \<open>
  An integer of a query is sent as it is exactly if it fits 64 bits; beyond, it is sent as a float.
\<close>

lemma query_int:
  "extract_query_value float_of (PInt i) = Inr (QValue (QInt j)) \<longleftrightarrow> j = i \<and> - (2 ^ 63) \<le> i \<and> i < 2 ^ 63"
  "float_of (2 ^ 63) = Some f \<Longrightarrow> extract_query_value float_of (PInt (2 ^ 63)) = Inr (QValue (QFloat f))"
  by (auto simp: extract_query_value_def extract_query_val_def i64_min_def i64_max_def split: option.split)

end
