(* ===== verification/Arguments.thy ===== *)
theory Arguments
  imports Url Request_Builder Request_Properties
begin

section \<open>Arguments of requests\<close>

text \<open>
  Models the conversions of \<open>Method\<close>, \<open>QueryParams\<close>, \<open>FormParams\<close> and \<open>Extensions\<close> of
  \<open>src/internal/types.rs\<close> and what becomes of query parameters: a URL writes a list as one pair per
  element, the request builder hands it to \<open>serde_urlencoded\<close>, which has no lists.
\<close>

subsection \<open>Conversions\<close>

text \<open>\<open>parse\<close> is \<open>http::Method\<close>'s.\<close>

definition method_into_py :: "('me \<Rightarrow> string) \<Rightarrow> 'me \<Rightarrow> string" where
  "method_into_py show_me m = show_me m"

definition method_extract :: "(string \<Rightarrow> string + 'me) \<Rightarrow> string pyres \<Rightarrow> 'me pyres" where
  "method_extract parse s = and_then s (\<lambda>m. map_err value_error (parse m))"

type_synonym ('o, 'fl) query_extractor = "('o, string, 'fl query_value) extractor"

text \<open>The value of a pair is extracted as a \<open>QueryValue\<close> from what the object is (\<open>view\<close>).\<close>

definition query_extractor ::
    "('o \<Rightarrow> ('o \<times> 'o) pyres) \<Rightarrow> ('o \<Rightarrow> string pyres) \<Rightarrow> ('o \<Rightarrow> string) \<Rightarrow> ('o \<Rightarrow> 'fl py_value) \<Rightarrow> (int \<Rightarrow> 'fl option) \<Rightarrow>
     ('o, 'fl) query_extractor" where
  "query_extractor pair_of key_of show_of view float_of =
     \<lparr>ext_pair = pair_of, ext_key = key_of, ext_value = (\<lambda>ob. extract_query_value float_of (view ob)), show_obj = show_of\<rparr>"

definition query_params_extract ::
    "('o, 'fl) query_extractor \<Rightarrow> nat pyres \<Rightarrow> 'o key_val_pairs pyres \<Rightarrow> (string \<times> 'fl query_value) list pyres" where
  "query_params_extract X len_res kvs = and_then kvs (\<lambda>ps. into_vec X len_res ps ''query'')"

definition form_params_extract ::
    "('o, 'fl) query_extractor \<Rightarrow> nat pyres \<Rightarrow> 'o key_val_pairs pyres \<Rightarrow> (string \<times> 'fl query_value) list pyres" where
  "form_params_extract X len_res kvs = and_then kvs (\<lambda>ps. into_vec X len_res ps ''form'')"

text \<open>Extensions are a new dictionary, whose keys are strings.\<close>

datatype 'o ext_arg = ExactDict "(string \<times> 'o) list" | ExtPairs "'o key_val_pairs pyres"

definition extensions_extract :: "('o, string, 'o) extractor \<Rightarrow> 'o ext_arg \<Rightarrow> (string \<times> 'o) list pyres" where
  "extensions_extract X a =
     (case a of
        ExactDict d \<Rightarrow> Inr d
      | ExtPairs kvs \<Rightarrow>
          and_then kvs (\<lambda>ps.
            case for_each X ps ''extensions'' (\<lambda>(k, v) dict. (Inr (), dict_set dict k v)) [] of
              (Inl e, _) \<Rightarrow> Inl e
            | (Inr _, dict) \<Rightarrow> Inr dict))"

text \<open>The last value of a key is kept.\<close>

lemma dict_of_fold:
  "dict_get (fold (\<lambda>(k, v) dict. dict_set dict k v) ps dict) key =
   (case map_of (rev ps) key of Some v \<Rightarrow> Some v | None \<Rightarrow> dict_get dict key)"
  by (induction ps arbitrary: dict) (auto simp: dict_get_set map_add_def split: option.split)

lemma extensions_last:
  assumes "good_prefix (pairs_of X kvs ''extensions'') = (ps, None)"
  shows "\<exists>d. extensions_extract X (ExtPairs (Inr kvs)) = Inr d \<and> dict_get d key = map_of (rev ps) key"
proof -
  have "for_each X kvs ''extensions'' (\<lambda>(k, v) dict. (Inr (), dict_set dict k v)) [] =
      (Inr (), fold (\<lambda>(k, v) dict. dict_set dict k v) ps [])"
    using assms try_for_each_good [of "pairs_of X kvs ''extensions''" "\<lambda>(k, v) dict. (Inr (), dict_set dict k v)"
        "\<lambda>(k, v) dict. dict_set dict k v" "[]"]
    by (auto simp: for_each_pairs_of)
  then show ?thesis by (auto simp: extensions_extract_def dict_of_fold split: option.split)
qed

subsection \<open>Lists in parameters\<close>

text \<open>
  \<open>serde_urlencoded\<close> refuses a sequence as the value of a pair; \<open>reqwest\<close> keeps the error until the
  request is built.
\<close>

locale flat_encoder =
  fixes B :: "('rb, 'rq, 'fl query_value, 'form) rb_ops"
  assumes query_list: "(k, QArray vs) \<in> set ps \<Longrightarrow> \<exists>e. rb_build B (rb_query B ps rb) = Inl e"
    and form_list: "(k, QArray vs) \<in> set ps \<Longrightarrow> \<exists>e. rb_build B (rb_form B ps rb) = Inl e"
begin

lemma build_query_list:
  assumes "(k, QArray vs) \<in> set ps" and "b_inner b = Some rb"
  shows "\<exists>e. add_query B (Inr ps) b = (Inr (), b\<lparr>b_inner := Some (rb_query B ps rb)\<rparr>) \<and>
    fst (build H B R st (snd (add_query B (Inr ps) b))) = Inl (from_err BuilderError ''Failed to build request'' e)"
  using query_list [OF assms(1), of rb] assms(2)
  by (auto simp: add_query_def builder_apply_def apply_opt_def build_def inner_build_def Let_def)

lemma build_form_list:
  assumes "(k, QArray vs) \<in> set ps" and "b_inner b = Some rb"
  shows "\<exists>e. set_form B (Inr ps) b = (Inr (), b\<lparr>b_inner := Some (rb_form B ps rb)\<rparr>) \<and>
    fst (build H B R st (snd (set_form B (Inr ps) b))) = Inl (from_err BuilderError ''Failed to build request'' e)"
  using form_list [OF assms(1), of rb] assms(2)
  by (auto simp: set_form_def builder_apply_def apply_opt_def build_def inner_build_def Let_def)

end

text \<open>A builder that keeps the parameters and looks for lists when it is built.\<close>

definition params_error :: std_error where
  "params_error = StdError ''unsupported value'' AsOther None"

definition params_rb ::
    "((string \<times> string query_value) list, ((header_name \<times> header_value) list, unit) plain_request, string query_value, unit)
       rb_ops" where
  "params_rb = \<lparr>
     rb_build = (\<lambda>ps. if list_ex (\<lambda>(k, v). case v of QArray _ \<Rightarrow> True | QValue _ \<Rightarrow> False) ps then Inl params_error
        else Inr \<lparr>p_method = ''GET'', p_url = ''u'', p_headers = [], p_body = None, p_timeout = None\<rparr>),
     rb_query = (\<lambda>ps r. r @ ps), rb_form = (\<lambda>ps r. r @ ps), rb_timeout = (\<lambda>_ r. r), rb_multipart = (\<lambda>_ r. r)\<rparr>"

interpretation params: flat_encoder params_rb
  by unfold_locales (force simp: params_rb_def list_ex_iff)+

lemma flat_encoder_params: "flat_encoder params_rb"
  by (rule params.flat_encoder_axioms)

subsection \<open>Properties\<close>

text \<open>
  C34. Lists in query and form parameters, which \<open>QueryParams\<close> and \<open>FormParams\<close> accept. \<open>with_query\<close> of a
  URL writes one pair per element; \<open>query\<close> and \<open>form\<close> of a request builder take the same parameters
  without an error, but then building the request fails.
\<close>

theorem list_parameters_fail:
  assumes "flat_encoder B" and "url_crate U shown" and "b_inner b = Some rb"
    and "query_params_extract X len_res kvs = Inr q" and "(k, QArray vs) \<in> set q"
  shows "(\<forall>y. with_query U x (Some q) = Inr y \<longrightarrow>
      u_query_pairs U (url_inner y) =
        concat (map (\<lambda>(k, v). case v of QArray vs \<Rightarrow> map (\<lambda>v. (k, shown v)) vs | QValue v \<Rightarrow> [(k, shown v)]) q)) \<and>
    fst (add_query B (query_params_extract X len_res kvs) b) = Inr () \<and>
    (\<exists>e. fst (build H B R st (snd (add_query B (query_params_extract X len_res kvs) b))) =
      Inl (from_err BuilderError ''Failed to build request'' e)) \<and>
    (\<exists>e. fst (build H B R st (snd (set_form B (Inr q) b))) =
      Inl (from_err BuilderError ''Failed to build request'' e))"
proof (intro conjI allI impI)
  have flat: "map (\<lambda>(k, v). (k, shown v)) (query_pairs_of q) =
      concat (map (\<lambda>(k, v). case v of QArray vs \<Rightarrow> map (\<lambda>v. (k, shown v)) vs | QValue v \<Rightarrow> [(k, shown v)]) q)"
    by (induction q) (auto simp: query_pairs_of_def split: query_value.split)
  show "u_query_pairs U (url_inner y) =
        concat (map (\<lambda>(k, v). case v of QArray vs \<Rightarrow> map (\<lambda>v. (k, shown v)) vs | QValue v \<Rightarrow> [(k, shown v)]) q)"
    if "with_query U x (Some q) = Inr y" for y
    using url_crate.with_query_pairs [OF assms(2) that] by (simp add: flat)
  show "fst (add_query B (query_params_extract X len_res kvs) b) = Inr ()"
    using assms(3,4) by (simp add: add_query_def builder_apply_def apply_opt_def)
  show "\<exists>e. fst (build H B R st (snd (add_query B (query_params_extract X len_res kvs) b))) =
      Inl (from_err BuilderError ''Failed to build request'' e)"
    using flat_encoder.build_query_list [OF assms(1,5,3)] assms(4) by auto
  show "\<exists>e. fst (build H B R st (snd (set_form B (Inr q) b))) =
      Inl (from_err BuilderError ''Failed to build request'' e)"
    using flat_encoder.build_form_list [OF assms(1,5,3)] by auto
qed

text \<open>A mapping with one list, as Python gives it.\<close>

definition tag_items :: "nat \<Rightarrow> string py_value" where
  "tag_items n = (if n = 1 then PList [PStr ''x'', PStr ''y''] else POther)"

definition tag_extractor :: "(nat, string) query_extractor" where
  "tag_extractor = query_extractor (\<lambda>n. Inr (n, n + 1)) (\<lambda>_. Inr ''tag'') (\<lambda>_. ''?'') tag_items (\<lambda>_. None)"

definition tag_builder ::
    "((string \<times> string query_value) list, unit, (header_name \<times> header_value) list, unit, unit, unit, unit, unit, unit)
       request_builder" where
  "tag_builder = request_builder_new [] () None None False None False False"

lemma tag_params:
  "query_params_extract tag_extractor (Inr 1) (Inr (Mapping (Inr [0 :: nat]))) =
   Inr [(''tag'', QArray [QString ''x'', QString ''y''])]"
  by (simp add: query_params_extract_def into_vec_good pairs_of_def kv_def extract_kv_def tag_extractor_def
      query_extractor_def extract_query_value_def extract_query_val_def tag_items_def)

lemma list_parameters_fail_witness:
  "\<exists>e. fst (build flat_ops params_rb plain_ops False
      (snd (add_query params_rb (query_params_extract tag_extractor (Inr 1) (Inr (Mapping (Inr [0 :: nat])))) tag_builder))) =
    Inl (from_err BuilderError ''Failed to build request'' e)"
proof -
  have "b_inner tag_builder = Some []" by (simp add: tag_builder_def request_builder_new_def)
  note failed = list_parameters_fail [OF flat_encoder_params url_crate_pair this tag_params, of "''tag''"]
  show ?thesis using failed [of "[QString ''x'', QString ''y'']" _ flat_ops plain_ops False] by simp
qed

end
