(* ===== verification/Cookies.thy ===== *)
theory Cookies
  imports Header_Api Builders Url
begin

section \<open>Cookies and the cookie store\<close>

text \<open>
  Models \<open>Cookie\<close> of \<open>src/cookie/cookie.rs\<close>, \<open>CookieStore\<close> and the provider a client is given,
  \<open>CookieStorePyProxy\<close>, of \<open>src/cookie/cookie_store.rs\<close>. Cookies and the store proper are those of the
  crates \<open>cookie\<close> and \<open>cookie_store\<close>: the records \<open>cookie_ops\<close> and \<open>store_ops\<close>. The getters of a
  cookie are one record, \<open>cookie_view\<close>; the string methods, which work on the text of the cookie, are
  in \<open>Py_Values\<close>.
\<close>

subsection \<open>Cookies\<close>

datatype same_site = SameSiteStrict | SameSiteLax | SameSiteNone

text \<open>\<open>'d\<close> is a duration, \<open>'t\<close> a point in time.\<close>

record ('d, 't) cookie_view =
  cv_name :: string
  cv_value :: string
  cv_http_only :: "bool option"
  cv_secure :: "bool option"
  cv_same_site :: "same_site option"
  cv_partitioned :: "bool option"
  cv_max_age :: "'d option"
  cv_path :: "string option"
  cv_domain :: "string option"
  cv_expires_datetime :: "'t option"

record ('c, 'd, 't) cookie_ops =
  ck_new :: "string \<Rightarrow> string \<Rightarrow> 'c"
  ck_parse :: "string \<Rightarrow> string + 'c"
  ck_parse_encoded :: "string \<Rightarrow> string + 'c"
  ck_split_parse :: "string \<Rightarrow> (string + 'c) list"
  ck_split_parse_encoded :: "string \<Rightarrow> (string + 'c) list"
  ck_view :: "'c \<Rightarrow> ('d, 't) cookie_view"
  ck_set_name :: "string \<Rightarrow> 'c \<Rightarrow> 'c"
  ck_set_value :: "string \<Rightarrow> 'c \<Rightarrow> 'c"
  ck_set_http_only :: "bool \<Rightarrow> 'c \<Rightarrow> 'c"
  ck_set_secure :: "bool \<Rightarrow> 'c \<Rightarrow> 'c"
  ck_set_same_site :: "same_site option \<Rightarrow> 'c \<Rightarrow> 'c"
  ck_set_partitioned :: "bool \<Rightarrow> 'c \<Rightarrow> 'c"
  ck_set_max_age :: "'d option \<Rightarrow> 'c \<Rightarrow> 'c"
  ck_set_path :: "string \<Rightarrow> 'c \<Rightarrow> 'c"
  ck_unset_path :: "'c \<Rightarrow> 'c"
  ck_set_domain :: "string \<Rightarrow> 'c \<Rightarrow> 'c"
  ck_unset_domain :: "'c \<Rightarrow> 'c"
  ck_set_expires :: "'t option \<Rightarrow> 'c \<Rightarrow> 'c"
  ck_show :: "'c \<Rightarrow> string"
  ck_eq :: "'c \<Rightarrow> 'c \<Rightarrow> bool"

definition cookie_parse_inner :: "('c, 'd, 't) cookie_ops \<Rightarrow> string \<Rightarrow> 'c pyres" where
  "cookie_parse_inner K s = map_err value_error (ck_parse K s)"

definition cookie_parse_encoded :: "('c, 'd, 't) cookie_ops \<Rightarrow> string \<Rightarrow> 'c pyres" where
  "cookie_parse_encoded K s = map_err value_error (ck_parse_encoded K s)"

definition cookie_split_parse :: "('c, 'd, 't) cookie_ops \<Rightarrow> string \<Rightarrow> 'c list pyres" where
  "cookie_split_parse K s = map_err value_error (collect_res (ck_split_parse K s))"

definition cookie_split_parse_encoded :: "('c, 'd, 't) cookie_ops \<Rightarrow> string \<Rightarrow> 'c list pyres" where
  "cookie_split_parse_encoded K s = map_err value_error (collect_res (ck_split_parse_encoded K s))"

definition cookie_http_only :: "('c, 'd, 't) cookie_ops \<Rightarrow> 'c \<Rightarrow> bool" where
  "cookie_http_only K c = (case cv_http_only (ck_view K c) of None \<Rightarrow> False | Some b \<Rightarrow> b)"

definition cookie_secure :: "('c, 'd, 't) cookie_ops \<Rightarrow> 'c \<Rightarrow> bool" where
  "cookie_secure K c = (case cv_secure (ck_view K c) of None \<Rightarrow> False | Some b \<Rightarrow> b)"

definition cookie_partitioned :: "('c, 'd, 't) cookie_ops \<Rightarrow> 'c \<Rightarrow> bool" where
  "cookie_partitioned K c = (case cv_partitioned (ck_view K c) of None \<Rightarrow> False | Some b \<Rightarrow> b)"

definition cookie_same_site :: "('c, 'd, 't) cookie_ops \<Rightarrow> 'c \<Rightarrow> string option" where
  "cookie_same_site K c =
     (case cv_same_site (ck_view K c) of
        Some SameSiteStrict \<Rightarrow> Some ''Strict''
      | Some SameSiteLax \<Rightarrow> Some ''Lax''
      | Some SameSiteNone \<Rightarrow> Some ''None''
      | None \<Rightarrow> None)"

definition with_same_site :: "('c, 'd, 't) cookie_ops \<Rightarrow> string option \<Rightarrow> 'c \<Rightarrow> 'c pyres" where
  "with_same_site K s c =
     and_then
       (if s = Some ''Strict'' then Inr (Some SameSiteStrict)
        else if s = Some ''Lax'' then Inr (Some SameSiteLax)
        else if s = Some ''None'' then Inr (Some SameSiteNone)
        else if s = None then Inr None
        else Inl (value_error ''invalid SameSite, expected 'Strict', 'Lax', 'None', or None''))
       (\<lambda>ss. Inr (ck_set_same_site K ss c))"

definition cookie_with_path :: "('c, 'd, 't) cookie_ops \<Rightarrow> string option \<Rightarrow> 'c \<Rightarrow> 'c" where
  "cookie_with_path K p c = (case p of Some s \<Rightarrow> ck_set_path K s c | None \<Rightarrow> ck_unset_path K c)"

definition cookie_with_domain :: "('c, 'd, 't) cookie_ops \<Rightarrow> string option \<Rightarrow> 'c \<Rightarrow> 'c" where
  "cookie_with_domain K d c = (case d of Some s \<Rightarrow> ck_set_domain K s c | None \<Rightarrow> ck_unset_domain K c)"

text \<open>
  The methods \<open>with_*\<close> on a clone of the cookie; those of one line that only call the setter of the
  crate are its setters.
\<close>

datatype ('d, 't) cookie_call =
    WithName string | WithValue string | WithHttpOnly bool | WithSecure bool | WithSameSite "string option"
  | WithPartitioned bool | WithMaxAge "'d option" | WithPath "string option" | WithDomain "string option"
  | WithExpiresDatetime "'t option"

fun cookie_with :: "('c, 'd, 't) cookie_ops \<Rightarrow> ('d, 't) cookie_call \<Rightarrow> 'c \<Rightarrow> 'c pyres" where
  "cookie_with K (WithName s) c = Inr (ck_set_name K s c)"
| "cookie_with K (WithValue s) c = Inr (ck_set_value K s c)"
| "cookie_with K (WithHttpOnly b) c = Inr (ck_set_http_only K b c)"
| "cookie_with K (WithSecure b) c = Inr (ck_set_secure K b c)"
| "cookie_with K (WithSameSite s) c = with_same_site K s c"
| "cookie_with K (WithPartitioned b) c = Inr (ck_set_partitioned K b c)"
| "cookie_with K (WithMaxAge d) c = Inr (ck_set_max_age K d c)"
| "cookie_with K (WithPath p) c = Inr (cookie_with_path K p c)"
| "cookie_with K (WithDomain d) c = Inr (cookie_with_domain K d c)"
| "cookie_with K (WithExpiresDatetime t) c = Inr (ck_set_expires K t c)"

text \<open>What the hash is computed from, in its order, and equality with an object that may be no cookie.\<close>

definition to_ascii_lowercase :: "string \<Rightarrow> string" where
  "to_ascii_lowercase s =
     map (\<lambda>c. if CHR ''A'' \<le> c \<and> c \<le> CHR ''Z'' then char_of (of_char c + 32 :: nat) else c) s"

definition cookie_hash :: "('c, 'd, 't) cookie_ops \<Rightarrow> (('d, 't) cookie_view \<Rightarrow> 'h) \<Rightarrow> 'c \<Rightarrow> 'h" where
  "cookie_hash K hash c =
     (let v = ck_view K c
      in hash (v\<lparr>cv_path := map_option to_ascii_lowercase (cv_path v),
                 cv_domain := map_option to_ascii_lowercase (cv_domain v)\<rparr>))"

datatype 'c cookie_arg = CookieObject 'c | CookieString string | CookieOther "string pyres"

definition cookie_extract :: "('c, 'd, 't) cookie_ops \<Rightarrow> 'c cookie_arg \<Rightarrow> 'c pyres" where
  "cookie_extract K a =
     (case a of
        CookieObject c \<Rightarrow> Inr c
      | CookieString s \<Rightarrow> cookie_parse_inner K s
      | CookieOther str \<Rightarrow> and_then str (cookie_parse_inner K))"

definition cookie_eq :: "('c, 'd, 't) cookie_ops \<Rightarrow> 'c \<Rightarrow> 'c cookie_arg \<Rightarrow> bool" where
  "cookie_eq K c other = (case cookie_extract K other of Inl _ \<Rightarrow> False | Inr c' \<Rightarrow> ck_eq K c' c)"

definition cookie_ne :: "('c, 'd, 't) cookie_ops \<Rightarrow> 'c \<Rightarrow> 'c cookie_arg \<Rightarrow> bool" where
  "cookie_ne K c other = (case cookie_extract K other of Inl _ \<Rightarrow> True | Inr c' \<Rightarrow> \<not> ck_eq K c' c)"

subsection \<open>The store\<close>

text \<open>Cookies of the store are given as those of the crate \<open>cookie\<close>, which the code makes of them.\<close>

record ('s, 'c, 'u) store_ops =
  st_new :: 's
  st_matches :: "'s \<Rightarrow> 'u \<Rightarrow> 'c list"
  st_contains :: "'s \<Rightarrow> string \<Rightarrow> string \<Rightarrow> string \<Rightarrow> bool"
  st_contains_any :: "'s \<Rightarrow> string \<Rightarrow> string \<Rightarrow> string \<Rightarrow> bool"
  st_get :: "'s \<Rightarrow> string \<Rightarrow> string \<Rightarrow> string \<Rightarrow> 'c option"
  st_get_any :: "'s \<Rightarrow> string \<Rightarrow> string \<Rightarrow> string \<Rightarrow> 'c option"
  st_remove :: "'s \<Rightarrow> string \<Rightarrow> string \<Rightarrow> string \<Rightarrow> 'c option \<times> 's"
  st_insert_raw :: "'s \<Rightarrow> 'c \<Rightarrow> 'u \<Rightarrow> (string + unit) \<times> 's"
  st_clear :: "'s \<Rightarrow> 's"
  st_iter_unexpired :: "'s \<Rightarrow> 'c list"
  st_iter_any :: "'s \<Rightarrow> 'c list"
  st_store_response_cookies :: "'s \<Rightarrow> 'c list \<Rightarrow> 'u \<Rightarrow> 's"
  st_get_request_values :: "'s \<Rightarrow> 'u \<Rightarrow> (string \<times> string) list"

record 's cookie_store =
  cs_inner :: 's
  cs_poisoned :: bool

definition poisoned_text :: string where
  "poisoned_text = ''poisoned lock: another task failed inside''"

definition cs_lock :: "'s cookie_store \<Rightarrow> 's pyres" where
  "cs_lock cs = (if cs_poisoned cs then Inl (value_error poisoned_text) else Inr (cs_inner cs))"

definition cookie_store_new :: "('s, 'c, 'u) store_ops \<Rightarrow> 's cookie_store" where
  "cookie_store_new S = \<lparr>cs_inner = st_new S, cs_poisoned = False\<rparr>"

text \<open>Readers of the store, and the two sides of its writers.\<close>

definition cs_read :: "('s \<Rightarrow> 'a) \<Rightarrow> 's cookie_store \<Rightarrow> 'a pyres" where
  "cs_read f cs = map_res f (cs_lock cs)"

definition cs_write :: "('s \<Rightarrow> 'a pyres \<times> 's) \<Rightarrow> 's cookie_store \<Rightarrow> 'a pyres \<times> 's cookie_store" where
  "cs_write f cs =
     (case cs_lock cs of
        Inl e \<Rightarrow> (Inl e, cs)
      | Inr s \<Rightarrow> (case f s of (r, s') \<Rightarrow> (r, cs\<lparr>cs_inner := s'\<rparr>)))"

definition cs_matches ::
    "('u, 'fl, 'ip) url_ops \<Rightarrow> ('s, 'c, 'u) store_ops \<Rightarrow> 'u url_arg \<Rightarrow> 's cookie_store \<Rightarrow> 'c list pyres" where
  "cs_matches U S url cs = and_then (url_type_extract U url) (\<lambda>u. cs_read (\<lambda>s. st_matches S s u) cs)"

definition cs_contains :: "('s, 'c, 'u) store_ops \<Rightarrow> string \<Rightarrow> string \<Rightarrow> string \<Rightarrow> 's cookie_store \<Rightarrow> bool pyres" where
  "cs_contains S d p n cs = cs_read (\<lambda>s. st_contains S s d p n) cs"

definition cs_contains_any :: "('s, 'c, 'u) store_ops \<Rightarrow> string \<Rightarrow> string \<Rightarrow> string \<Rightarrow> 's cookie_store \<Rightarrow> bool pyres" where
  "cs_contains_any S d p n cs = cs_read (\<lambda>s. st_contains_any S s d p n) cs"

definition cs_get :: "('s, 'c, 'u) store_ops \<Rightarrow> string \<Rightarrow> string \<Rightarrow> string \<Rightarrow> 's cookie_store \<Rightarrow> 'c option pyres" where
  "cs_get S d p n cs = cs_read (\<lambda>s. st_get S s d p n) cs"

definition cs_get_any :: "('s, 'c, 'u) store_ops \<Rightarrow> string \<Rightarrow> string \<Rightarrow> string \<Rightarrow> 's cookie_store \<Rightarrow> 'c option pyres" where
  "cs_get_any S d p n cs = cs_read (\<lambda>s. st_get_any S s d p n) cs"

definition cs_remove ::
    "('s, 'c, 'u) store_ops \<Rightarrow> string \<Rightarrow> string \<Rightarrow> string \<Rightarrow> 's cookie_store \<Rightarrow> 'c option pyres \<times> 's cookie_store" where
  "cs_remove S d p n cs = cs_write (\<lambda>s. case st_remove S s d p n of (c, s') \<Rightarrow> (Inr c, s')) cs"

definition cs_insert ::
    "('u, 'fl, 'ip) url_ops \<Rightarrow> ('c, 'd, 't) cookie_ops \<Rightarrow> ('s, 'c, 'u) store_ops \<Rightarrow> 'c cookie_arg \<Rightarrow> 'u url_arg \<Rightarrow>
     's cookie_store \<Rightarrow> unit pyres \<times> 's cookie_store" where
  "cs_insert U K S cookie url cs =
     (case cookie_extract K cookie of
        Inl e \<Rightarrow> (Inl e, cs)
      | Inr c \<Rightarrow>
          (case url_type_extract U url of
             Inl e \<Rightarrow> (Inl e, cs)
           | Inr u \<Rightarrow>
               cs_write (\<lambda>s. case st_insert_raw S s c u of (r, s') \<Rightarrow> (map_err value_error r, s')) cs))"

definition cs_clear :: "('s, 'c, 'u) store_ops \<Rightarrow> 's cookie_store \<Rightarrow> unit pyres \<times> 's cookie_store" where
  "cs_clear S cs = cs_write (\<lambda>s. (Inr (), st_clear S s)) cs"

definition cs_get_all_unexpired :: "('s, 'c, 'u) store_ops \<Rightarrow> 's cookie_store \<Rightarrow> 'c list pyres" where
  "cs_get_all_unexpired S cs = cs_read (st_iter_unexpired S) cs"

definition cs_get_all_any :: "('s, 'c, 'u) store_ops \<Rightarrow> 's cookie_store \<Rightarrow> 'c list pyres" where
  "cs_get_all_any S cs = cs_read (st_iter_any S) cs"

subsection \<open>The provider of a client\<close>

text \<open>
  \<open>CookieStorePyProxy\<close>: the cookies of a response are put into the store, those of a URL are made into
  a header. \<open>utf8\<close> tells whether bytes are UTF-8, \<open>value_of\<close> is \<open>HeaderValue::from_maybe_shared\<close>. The
  trait has no errors, so a poisoned store panics.
\<close>

definition unwrap_poisoned :: "'a outcome" where
  "unwrap_poisoned = Panicked (PanicString (''called `Result::unwrap()` on an `Err` value: PoisonError { .. }''))"

definition response_cookie :: "(bytes \<Rightarrow> bool) \<Rightarrow> ('c, 'd, 't) cookie_ops \<Rightarrow> header_value \<Rightarrow> 'c option" where
  "response_cookie utf8 K v =
     (if utf8 (hv_bytes v)
      then (case ck_parse K (bytes_str (hv_bytes v)) of Inl _ \<Rightarrow> None | Inr c \<Rightarrow> Some c)
      else None)"

definition proxy_set_cookies ::
    "(bytes \<Rightarrow> bool) \<Rightarrow> ('c, 'd, 't) cookie_ops \<Rightarrow> ('s, 'c, 'u) store_ops \<Rightarrow> header_value list \<Rightarrow> 'u \<Rightarrow>
     's cookie_store \<Rightarrow> unit outcome \<times> 's cookie_store" where
  "proxy_set_cookies utf8 K S cookie_headers url cs =
     (if cs_poisoned cs then (unwrap_poisoned, cs)
      else (Returned (), cs\<lparr>cs_inner :=
              st_store_response_cookies S (cs_inner cs)
                (List.map_filter (response_cookie utf8 K) cookie_headers) url\<rparr>))"

fun join_with :: "string \<Rightarrow> string list \<Rightarrow> string" where
  "join_with sep [] = []"
| "join_with sep [x] = x"
| "join_with sep (x # xs) = x @ sep @ join_with sep xs"

definition proxy_cookies ::
    "(bytes \<Rightarrow> header_value option) \<Rightarrow> ('s, 'c, 'u) store_ops \<Rightarrow> 'u \<Rightarrow> 's cookie_store \<Rightarrow> header_value option outcome" where
  "proxy_cookies value_of S url cs =
     (if cs_poisoned cs then unwrap_poisoned
      else (let cookies_str = join_with ''; ''
                  (map (\<lambda>(name, val). name @ ''='' @ val) (st_get_request_values S (cs_inner cs) url))
            in Returned (if cookies_str = [] then None else value_of (str_bytes cookies_str))))"

end
