(* ===== verification/Cookie_Properties.thy ===== *)
theory Cookie_Properties
  imports Cookies
begin

section \<open>Properties of cookies\<close>

text \<open>
  What a client sends for the cookies of its store, read back the way a server reads it, and what the
  \<open>with_*\<close> methods of a cookie do to its attributes.
\<close>

subsection \<open>Reading a cookie header\<close>

text \<open>The reading of RFC 6265: pairs are separated by a semicolon and a space, a name ends at the first \<open>=\<close>.\<close>

fun split_pairs :: "string \<Rightarrow> string \<Rightarrow> string list" where
  "split_pairs acc [] = [acc]"
| "split_pairs acc [c] = [acc @ [c]]"
| "split_pairs acc (a # b # cs) =
     (if a = CHR '';'' \<and> b = CHR '' '' then acc # split_pairs [] cs else split_pairs (acc @ [a]) (b # cs))"

definition read_pair :: "string \<Rightarrow> string \<times> string" where
  "read_pair s = (takeWhile (\<lambda>c. c \<noteq> CHR ''='') s, drop 1 (dropWhile (\<lambda>c. c \<noteq> CHR ''='') s))"

definition read_cookies :: "string \<Rightarrow> (string \<times> string) list" where
  "read_cookies s = map read_pair (split_pairs [] s)"

lemma split_pairs_end: "CHR '';'' \<notin> set x \<Longrightarrow> split_pairs acc x = [acc @ x]"
  by (induction acc x rule: split_pairs.induct) auto

lemma split_pairs_sep: "CHR '';'' \<notin> set x \<Longrightarrow> split_pairs acc (x @ CHR '';'' # CHR '' '' # ys) = (acc @ x) # split_pairs [] ys"
proof (induction x arbitrary: acc)
  case (Cons c x)
  then show ?case by (cases x) auto
qed simp

lemma split_join:
  assumes "xs \<noteq> []" and "\<And>x. x \<in> set xs \<Longrightarrow> CHR '';'' \<notin> set x"
  shows "split_pairs [] (join_with ''; '' xs) = xs"
  using assms
proof (induction xs rule: induct_list012)
  case (3 x y zs)
  then show ?case by (simp add: split_pairs_sep)
qed (simp_all add: split_pairs_end)

lemma read_pair_shown: "CHR ''='' \<notin> set n \<Longrightarrow> read_pair (n @ ''='' @ v) = (n, v)"
proof -
  assume "CHR ''='' \<notin> set n"
  then have "\<forall>c \<in> set n. c \<noteq> CHR ''=''" by metis
  then show ?thesis by (simp add: read_pair_def takeWhile_append2 dropWhile_append2)
qed

lemma bytes_str_inverse [simp]: "bytes_str (str_bytes s) = s"
proof -
  have "char_of (unat (of_nat (of_char c) :: 8 word)) = c" for c :: char
    by (simp add: unat_of_nat)
  then show ?thesis by (simp add: bytes_str_def str_bytes_def comp_def)
qed

text \<open>Text that a header value may hold; a control character makes the conversion fail.\<close>

definition printable :: "string \<Rightarrow> bool" where
  "printable s = list_all (\<lambda>b. b \<ge> 32 \<and> b \<noteq> 127) (str_bytes s)"

definition has_control :: "string \<Rightarrow> bool" where
  "has_control s = list_ex (\<lambda>b. b < 32 \<and> b \<noteq> 9 \<or> b = 127) (str_bytes s)"

locale value_conversion =
  fixes value_of :: "bytes \<Rightarrow> header_value option"
  assumes converts: "list_all (\<lambda>b. b \<ge> 32 \<and> b \<noteq> 127) bs \<Longrightarrow> \<exists>v. value_of bs = Some v \<and> hv_bytes v = bs"
    and refuses: "list_ex (\<lambda>b. b < 32 \<and> b \<noteq> 9 \<or> b = 127) bs \<Longrightarrow> value_of bs = None"

definition value_of_bytes :: "bytes \<Rightarrow> header_value option" where
  "value_of_bytes bs = (if list_all (\<lambda>b. b \<ge> 32 \<and> b \<noteq> 127 \<or> b = 9) bs then Some (HeaderValue bs False) else None)"

interpretation value_of_bytes: value_conversion value_of_bytes
proof unfold_locales
  show "list_all (\<lambda>b. b \<ge> 32 \<and> b \<noteq> 127) bs \<Longrightarrow> \<exists>v. value_of_bytes bs = Some v \<and> hv_bytes v = bs" for bs
    by (auto simp: value_of_bytes_def list_all_iff)
  have "b < 32 \<and> b \<noteq> 9 \<or> b = 127 \<Longrightarrow> \<not> (b \<ge> 32 \<and> b \<noteq> 127 \<or> b = 9)" for b :: byte
    by (auto simp: not_le)
  then show "list_ex (\<lambda>b. b < 32 \<and> b \<noteq> 9 \<or> b = 127) bs \<Longrightarrow> value_of_bytes bs = None" for bs
    unfolding value_of_bytes_def list_all_iff list_ex_iff by metis
qed

lemma value_conversion_bytes: "value_conversion value_of_bytes"
  by (rule value_of_bytes.value_conversion_axioms)

lemma str_bytes_append: "str_bytes (x @ y) = str_bytes x @ str_bytes y"
  by (simp add: str_bytes_def)

lemma printable_append [simp]: "printable (x @ y) \<longleftrightarrow> printable x \<and> printable y"
  by (simp add: printable_def str_bytes_append)

lemma has_control_append [simp]: "has_control (x @ y) \<longleftrightarrow> has_control x \<or> has_control y"
  by (simp add: has_control_def str_bytes_append)

lemma printable_join: "(\<And>x. x \<in> set xs \<Longrightarrow> printable x) \<Longrightarrow> printable (join_with ''; '' xs)"
proof (induction xs rule: induct_list012)
  case (3 x y zs)
  moreover have "printable ''; ''" by (simp add: printable_def str_bytes_def)
  ultimately show ?case by (simp only: join_with.simps printable_append) simp
qed (simp_all add: printable_def str_bytes_def)

lemma control_join: "x \<in> set xs \<Longrightarrow> has_control x \<Longrightarrow> has_control (join_with ''; '' xs)"
proof (induction xs rule: induct_list012)
  case (3 y z zs)
  then show ?case by (simp only: join_with.simps has_control_append list.set insert_iff) blast
qed simp_all

lemma join_nonempty: "xs \<noteq> [] \<Longrightarrow> (\<And>x. x \<in> set xs \<Longrightarrow> x \<noteq> []) \<Longrightarrow> join_with sep xs \<noteq> []"
  by (induction xs rule: induct_list012) auto

text \<open>A pair that can be written: the header keeps it apart from the others.\<close>

definition plain_pair :: "string \<times> string \<Rightarrow> bool" where
  "plain_pair p \<longleftrightarrow> printable (fst p) \<and> printable (snd p) \<and>
     CHR '';'' \<notin> set (fst p) \<and> CHR '';'' \<notin> set (snd p) \<and> CHR ''='' \<notin> set (fst p)"

text \<open>
  C35. The cookie header of a request. When the store has no cookie for the URL there is none; when every
  name and value is plain text, a server that reads the header gets exactly the pairs the store gave, in
  its order; but when one name or value has a control character, no cookie is sent at all, and no error
  tells so.
\<close>

theorem cookie_header_spec:
  assumes "value_conversion value_of" and "\<not> cs_poisoned cs" and "ps = st_get_request_values S (cs_inner cs) url"
  shows "(ps = [] \<longrightarrow> proxy_cookies value_of S url cs = Returned None) \<and>
    (ps \<noteq> [] \<and> list_all plain_pair ps \<longrightarrow>
      (\<exists>v. proxy_cookies value_of S url cs = Returned (Some v) \<and> read_cookies (bytes_str (hv_bytes v)) = ps)) \<and>
    (list_ex (\<lambda>(n, v). has_control n \<or> has_control v) ps \<longrightarrow> proxy_cookies value_of S url cs = Returned None)"
proof (intro conjI)
  show "ps = [] \<longrightarrow> proxy_cookies value_of S url cs = Returned None"
    using assms(2,3) by (simp add: proxy_cookies_def)
  let ?xs = "map (\<lambda>(name, val). name @ ''='' @ val) ps"
  have sent: "proxy_cookies value_of S url cs =
      Returned (if join_with ''; '' ?xs = [] then None else value_of (str_bytes (join_with ''; '' ?xs)))"
    using assms(2,3) by (simp add: proxy_cookies_def Let_def)
  show "ps \<noteq> [] \<and> list_all plain_pair ps \<longrightarrow>
      (\<exists>v. proxy_cookies value_of S url cs = Returned (Some v) \<and> read_cookies (bytes_str (hv_bytes v)) = ps)"
  proof
    assume "ps \<noteq> [] \<and> list_all plain_pair ps"
    then have ne: "ps \<noteq> []" and plain: "\<And>p. p \<in> set ps \<Longrightarrow> plain_pair p" by (auto simp: list_all_iff)
    have "printable ''=''" by (simp add: printable_def str_bytes_def)
    with plain have "\<And>x. x \<in> set ?xs \<Longrightarrow> printable x"
      by (auto simp: plain_pair_def simp del: append_Cons append_Nil)
    then have "printable (join_with ''; '' ?xs)" by (rule printable_join)
    with value_conversion.converts [OF assms(1)] obtain v
      where v: "value_of (str_bytes (join_with ''; '' ?xs)) = Some v" "hv_bytes v = str_bytes (join_with ''; '' ?xs)"
      unfolding printable_def by blast
    have "split_pairs [] (join_with ''; '' ?xs) = ?xs"
      using ne plain by (intro split_join) (auto simp: plain_pair_def)
    then have "read_cookies (join_with ''; '' ?xs) = map (read_pair \<circ> (\<lambda>(name, val). name @ ''='' @ val)) ps"
      by (simp add: read_cookies_def)
    also have "\<dots> = ps"
      by (rule map_idI) (use plain in \<open>auto simp: plain_pair_def read_pair_shown simp del: append_Cons append_Nil\<close>)
    finally have "read_cookies (bytes_str (hv_bytes v)) = ps" by (simp add: v(2))
    moreover have "join_with ''; '' ?xs \<noteq> []" using ne by (intro join_nonempty) auto
    ultimately show "\<exists>v. proxy_cookies value_of S url cs = Returned (Some v) \<and> read_cookies (bytes_str (hv_bytes v)) = ps"
      using v(1) sent by auto
  qed
  show "list_ex (\<lambda>(n, v). has_control n \<or> has_control v) ps \<longrightarrow> proxy_cookies value_of S url cs = Returned None"
  proof
    assume "list_ex (\<lambda>(n, v). has_control n \<or> has_control v) ps"
    then obtain n v where "(n, v) \<in> set ps" "has_control n \<or> has_control v" by (auto simp: list_ex_iff)
    then have "n @ ''='' @ v \<in> set ?xs" and "has_control (n @ ''='' @ v)"
      by (force, simp only: has_control_append, blast)
    then have "has_control (join_with ''; '' ?xs)" by (rule control_join)
    with value_conversion.refuses [OF assms(1)] sent show "proxy_cookies value_of S url cs = Returned None"
      unfolding has_control_def by simp
  qed
qed

text \<open>A store that sends all it has to every URL.\<close>

definition all_store :: "((string \<times> string) list, string \<times> string, string) store_ops" where
  "all_store = \<lparr>
     st_new = [], st_matches = (\<lambda>s _. s),
     st_contains = (\<lambda>s _ _ n. n \<in> fst ` set s), st_contains_any = (\<lambda>s _ _ n. n \<in> fst ` set s),
     st_get = (\<lambda>s _ _ n. map_option (Pair n) (map_of s n)), st_get_any = (\<lambda>s _ _ n. map_option (Pair n) (map_of s n)),
     st_remove = (\<lambda>s _ _ n. (map_option (Pair n) (map_of s n), filter (\<lambda>c. fst c \<noteq> n) s)),
     st_insert_raw = (\<lambda>s c _. (Inr (), s @ [c])), st_clear = (\<lambda>_. []),
     st_iter_unexpired = (\<lambda>s. s), st_iter_any = (\<lambda>s. s),
     st_store_response_cookies = (\<lambda>s cs _. s @ cs), st_get_request_values = (\<lambda>s _. s)\<rparr>"

lemma cookie_header_spec_witness:
  "(\<exists>v. proxy_cookies value_of_bytes all_store ''u''
      \<lparr>cs_inner = [(''a'', ''1''), (''b'', ''x=y'')], cs_poisoned = False\<rparr> = Returned (Some v) \<and>
      read_cookies (bytes_str (hv_bytes v)) = [(''a'', ''1''), (''b'', ''x=y'')]) \<and>
   proxy_cookies value_of_bytes all_store ''u''
      \<lparr>cs_inner = [(''a'', ''1''), (''b'', [CHR 10])], cs_poisoned = False\<rparr> = Returned None"
proof (rule conjI)
  show "\<exists>v. proxy_cookies value_of_bytes all_store ''u''
      \<lparr>cs_inner = [(''a'', ''1''), (''b'', ''x=y'')], cs_poisoned = False\<rparr> = Returned (Some v) \<and>
      read_cookies (bytes_str (hv_bytes v)) = [(''a'', ''1''), (''b'', ''x=y'')]"
    using cookie_header_spec [OF value_conversion_bytes, of "\<lparr>cs_inner = [(''a'', ''1''), (''b'', ''x=y'')], cs_poisoned = False\<rparr>",
        OF _ refl, of all_store "''u''"]
    by (simp add: all_store_def plain_pair_def printable_def str_bytes_def)
  show "proxy_cookies value_of_bytes all_store ''u''
      \<lparr>cs_inner = [(''a'', ''1''), (''b'', [CHR 10])], cs_poisoned = False\<rparr> = Returned None"
    using cookie_header_spec [OF value_conversion_bytes, of "\<lparr>cs_inner = [(''a'', ''1''), (''b'', [CHR 10])], cs_poisoned = False\<rparr>",
        OF _ refl, of all_store "''u''"]
    by (simp add: all_store_def has_control_def str_bytes_def)
qed

subsection \<open>Attributes of a cookie\<close>

text \<open>
  What a \<open>with_*\<close> method promises: one attribute is set, or the name of a same-site policy is refused.
  The crate shows a domain without the dot it may start with.
\<close>

definition without_dot :: "string \<Rightarrow> string" where
  "without_dot s = (case s of [] \<Rightarrow> [] | c # cs \<Rightarrow> if c = CHR ''.'' then cs else s)"

fun view_with :: "('d, 't) cookie_call \<Rightarrow> ('d, 't) cookie_view \<Rightarrow> ('d, 't) cookie_view option" where
  "view_with (WithName s) v = Some (v\<lparr>cv_name := s\<rparr>)"
| "view_with (WithValue s) v = Some (v\<lparr>cv_value := s\<rparr>)"
| "view_with (WithHttpOnly b) v = Some (v\<lparr>cv_http_only := Some b\<rparr>)"
| "view_with (WithSecure b) v = Some (v\<lparr>cv_secure := Some b\<rparr>)"
| "view_with (WithSameSite s) v =
     (case s of
        None \<Rightarrow> Some (v\<lparr>cv_same_site := None\<rparr>)
      | Some n \<Rightarrow>
          map_option (\<lambda>ss. v\<lparr>cv_same_site := Some ss\<rparr>)
            (map_of [(''Strict'', SameSiteStrict), (''Lax'', SameSiteLax), (''None'', SameSiteNone)] n))"
| "view_with (WithPartitioned b) v = Some (v\<lparr>cv_partitioned := Some b\<rparr>)"
| "view_with (WithMaxAge d) v = Some (v\<lparr>cv_max_age := d\<rparr>)"
| "view_with (WithPath p) v = Some (v\<lparr>cv_path := p\<rparr>)"
| "view_with (WithDomain d) v = Some (v\<lparr>cv_domain := map_option without_dot d\<rparr>)"
| "view_with (WithExpiresDatetime t) v = Some (v\<lparr>cv_expires_datetime := t\<rparr>)"

locale cookie_crate =
  fixes K :: "('c, 'd, 't) cookie_ops"
  assumes sets: "ck_view K (ck_set_name K s c) = (ck_view K c)\<lparr>cv_name := s\<rparr>"
      "ck_view K (ck_set_value K s c) = (ck_view K c)\<lparr>cv_value := s\<rparr>"
      "ck_view K (ck_set_http_only K b c) = (ck_view K c)\<lparr>cv_http_only := Some b\<rparr>"
      "ck_view K (ck_set_secure K b c) = (ck_view K c)\<lparr>cv_secure := Some b\<rparr>"
      "ck_view K (ck_set_same_site K ss c) = (ck_view K c)\<lparr>cv_same_site := ss\<rparr>"
      "ck_view K (ck_set_partitioned K b c) = (ck_view K c)\<lparr>cv_partitioned := Some b\<rparr>"
      "ck_view K (ck_set_max_age K d c) = (ck_view K c)\<lparr>cv_max_age := d\<rparr>"
      "ck_view K (ck_set_path K s c) = (ck_view K c)\<lparr>cv_path := Some s\<rparr>"
      "ck_view K (ck_unset_path K c) = (ck_view K c)\<lparr>cv_path := None\<rparr>"
      "ck_view K (ck_set_domain K s c) = (ck_view K c)\<lparr>cv_domain := Some (without_dot s)\<rparr>"
      "ck_view K (ck_unset_domain K c) = (ck_view K c)\<lparr>cv_domain := None\<rparr>"
      "ck_view K (ck_set_expires K t c) = (ck_view K c)\<lparr>cv_expires_datetime := t\<rparr>"
begin

lemma with_refines:
  "(\<forall>c'. cookie_with K call c = Inr c' \<longrightarrow> view_with call (ck_view K c) = Some (ck_view K c')) \<and>
   (\<forall>e. cookie_with K call c = Inl e \<longrightarrow> view_with call (ck_view K c) = None)"
  by (cases call) (auto simp: sets with_same_site_def cookie_with_path_def cookie_with_domain_def split: option.splits)

lemma same_site_back: "with_same_site K s c = Inr c' \<Longrightarrow> cookie_same_site K c' = s"
  by (auto simp: with_same_site_def cookie_same_site_def sets split: if_splits)

end

text \<open>Cookies that are their attributes; they are shown by name and value only.\<close>

definition view_cookie :: "(('d, 't) cookie_view, 'd, 't) cookie_ops" where
  "view_cookie = (let c0 = (\<lambda>n v. \<lparr>cv_name = n, cv_value = v, cv_http_only = None, cv_secure = None, cv_same_site = None,
                     cv_partitioned = None, cv_max_age = None, cv_path = None, cv_domain = None,
                     cv_expires_datetime = None\<rparr>)
     in \<lparr>ck_new = c0, ck_parse = (\<lambda>s. Inr (case_prod c0 (read_pair s))),
     ck_parse_encoded = (\<lambda>s. Inr (case_prod c0 (read_pair s))),
     ck_split_parse = (\<lambda>s. map (\<lambda>p. Inr (case_prod c0 p)) (read_cookies s)),
     ck_split_parse_encoded = (\<lambda>s. map (\<lambda>p. Inr (case_prod c0 p)) (read_cookies s)),
     ck_view = id, ck_set_name = (\<lambda>s. cv_name_update (\<lambda>_. s)), ck_set_value = (\<lambda>s. cv_value_update (\<lambda>_. s)),
     ck_set_http_only = (\<lambda>b. cv_http_only_update (\<lambda>_. Some b)), ck_set_secure = (\<lambda>b. cv_secure_update (\<lambda>_. Some b)),
     ck_set_same_site = (\<lambda>ss. cv_same_site_update (\<lambda>_. ss)),
     ck_set_partitioned = (\<lambda>b. cv_partitioned_update (\<lambda>_. Some b)),
     ck_set_max_age = (\<lambda>d. cv_max_age_update (\<lambda>_. d)),
     ck_set_path = (\<lambda>s. cv_path_update (\<lambda>_. Some s)), ck_unset_path = cv_path_update (\<lambda>_. None),
     ck_set_domain = (\<lambda>s. cv_domain_update (\<lambda>_. Some (without_dot s))), ck_unset_domain = cv_domain_update (\<lambda>_. None),
     ck_set_expires = (\<lambda>t. cv_expires_datetime_update (\<lambda>_. t)),
     ck_show = (\<lambda>c. cv_name c @ ''='' @ cv_value c), ck_eq = (=)\<rparr>)"

interpretation view_cookie: cookie_crate view_cookie
  by unfold_locales (simp_all add: view_cookie_def Let_def)

end
