(* ===== verification/Mime.thy ===== *)
theory Mime
  imports Header_Views
begin

section \<open>MIME types\<close>

text \<open>
  Models \<open>Mime\<close> of \<open>src/http/mime.rs\<close>: conversion of arguments, the parameters and comparison. A MIME
  type is the \<open>mime\<close> crate's, the record \<open>mime_ops\<close>; its getters and string methods are in
  \<open>Py_Values\<close>.
\<close>

record 'mi mime_ops =
  mi_parse :: "string \<Rightarrow> string + 'mi"
  mi_str :: "'mi \<Rightarrow> string"
  mi_params :: "'mi \<Rightarrow> (string \<times> string) list"
  mi_get_param :: "'mi \<Rightarrow> string \<Rightarrow> string option"
  mi_cmp :: "'mi \<Rightarrow> 'mi \<Rightarrow> int"

definition mime_parse_inner :: "'mi mime_ops \<Rightarrow> string \<Rightarrow> 'mi pyres" where
  "mime_parse_inner M s = map_err value_error (mi_parse M s)"

datatype 'mi mime_arg = MimeObject 'mi | MimeString string | MimeOther "string pyres"

definition mime_extract :: "'mi mime_ops \<Rightarrow> 'mi mime_arg \<Rightarrow> 'mi pyres" where
  "mime_extract M a =
     (case a of
        MimeObject m \<Rightarrow> Inr m
      | MimeString s \<Rightarrow> mime_parse_inner M s
      | MimeOther str \<Rightarrow> and_then str (mime_parse_inner M))"

text \<open>An operand that is no MIME type is compared with the text of this one, as Python compares strings.\<close>

definition mime_richcmp ::
    "'mi mime_ops \<Rightarrow> (string \<Rightarrow> 'mi mime_arg \<Rightarrow> compare_op \<Rightarrow> bool pyres) \<Rightarrow> 'mi \<Rightarrow> 'mi mime_arg \<Rightarrow> compare_op \<Rightarrow>
     bool pyres" where
  "mime_richcmp M py_cmp m other op =
     (case mime_extract M other of
        Inl _ \<Rightarrow> py_cmp (mi_str M m) other op
      | Inr m' \<Rightarrow>
          (let c = mi_cmp M m m' in
           Inr (case op of Lt \<Rightarrow> c < 0 | Le \<Rightarrow> c \<le> 0 | Eq \<Rightarrow> c = 0 | Ne \<Rightarrow> c \<noteq> 0 | Gt \<Rightarrow> c > 0 | Ge \<Rightarrow> c \<ge> 0)))"

definition mime_len :: "'mi mime_ops \<Rightarrow> 'mi \<Rightarrow> nat" where
  "mime_len M m = length (mi_str M m)"

lemma mime_trichotomy:
  assumes "mime_extract M other = Inr m'"
  shows "mime_richcmp M py_cmp m other Ne = map_res Not (mime_richcmp M py_cmp m other Eq)"
    and "mime_richcmp M py_cmp m other Le = map_res Not (mime_richcmp M py_cmp m other Gt)"
    and "mime_richcmp M py_cmp m other Ge = map_res Not (mime_richcmp M py_cmp m other Lt)"
  using assms by (auto simp: mime_richcmp_def Let_def)

end
