(* ===== verification/Task_Local.thy ===== *)
theory Task_Local
  imports Request
begin

section \<open>Event loops and task contexts\<close>

text \<open>
  Models \<open>src/internal/task_local.rs\<close> and \<open>src/internal/asyncio.rs\<close>: the event loop and the context
  variables a request remembers, and the test for asynchronous callables. The functions of Python's
  \<open>asyncio\<close>, \<open>contextvars\<close> and \<open>inspect\<close> are arguments. \<open>Request.once_get_or_current\<close> is the cell seen
  from a request, where a task local is one thing; here it is opened up.
\<close>

subsection \<open>Asynchronous callables\<close>

record 'o callables =
  is_callable :: "'o \<Rightarrow> bool"
  py_iscoroutinefunction :: "'o \<Rightarrow> bool pyres"
  has_call :: "'o \<Rightarrow> bool pyres"
  get_call :: "'o \<Rightarrow> 'o pyres"

definition iscoroutinefunction :: "'o callables \<Rightarrow> 'o \<Rightarrow> bool pyres" where
  "iscoroutinefunction P ob =
     (if \<not> is_callable P ob then Inl (value_error ''Expected a callable'') else py_iscoroutinefunction P ob)"

definition is_async_callable :: "'o callables \<Rightarrow> 'o \<Rightarrow> bool pyres" where
  "is_async_callable P ob =
     and_then (iscoroutinefunction P ob) (\<lambda>yes.
       if yes then Inr True
       else and_then (has_call P ob) (\<lambda>has.
         if has then and_then (get_call P ob) (iscoroutinefunction P) else Inr False))"

lemma not_callable: "\<not> is_callable P ob \<Longrightarrow> is_async_callable P ob = Inl (value_error ''Expected a callable'')"
  by (simp add: is_async_callable_def iscoroutinefunction_def)

text \<open>An instance whose \<open>__call__\<close> is a coroutine function counts as asynchronous.\<close>

lemma async_instance:
  assumes "is_callable P ob" "py_iscoroutinefunction P ob = Inr b" "has_call P ob = Inr True" "get_call P ob = Inr m"
    "is_callable P m" "py_iscoroutinefunction P m = Inr b'"
  shows "is_async_callable P ob = Inr (b \<or> b')"
  using assms by (simp add: is_async_callable_def iscoroutinefunction_def)

subsection \<open>Task locals\<close>

record ('lp, 'cx) task_local =
  tl_event_loop :: "'lp option"
  tl_context :: "'cx option"

definition task_local_current ::
    "('w \<Rightarrow> 'lp pyres \<times> 'w) \<Rightarrow> ('w \<Rightarrow> 'cx pyres \<times> 'w) \<Rightarrow> 'w \<Rightarrow> ('lp, 'cx) task_local pyres \<times> 'w" where
  "task_local_current get_running_loop copy_context w =
     (case get_running_loop w of
        (Inl e, w1) \<Rightarrow> (Inl e, w1)
      | (Inr l, w1) \<Rightarrow>
          (case copy_context w1 of
             (Inl e, w2) \<Rightarrow> (Inl e, w2)
           | (Inr c, w2) \<Rightarrow> (Inr \<lparr>tl_event_loop = Some l, tl_context = Some c\<rparr>, w2)))"

definition event_loop_of :: "('lp, 'cx) task_local \<Rightarrow> 'lp pyres" where
  "event_loop_of t = ok_or (runtime_error ''Expected event_loop'') (tl_event_loop t)"

definition task_local_clone_ref :: "('lp, 'cx) task_local \<Rightarrow> ('lp, 'cx) task_local pyres" where
  "task_local_clone_ref t =
     and_then (ok_or (runtime_error ''Expected event_loop'') (tl_event_loop t)) (\<lambda>l.
       map_res (\<lambda>c. \<lparr>tl_event_loop = Some l, tl_context = Some c\<rparr>)
         (ok_or (runtime_error ''Expected context'') (tl_context t)))"

definition event_loop_call_soon ::
    "('lp \<Rightarrow> 'o \<Rightarrow> 'cx option \<Rightarrow> 'w \<Rightarrow> unit pyres \<times> 'w) \<Rightarrow> ('lp, 'cx) task_local \<Rightarrow> 'o \<Rightarrow> 'w \<Rightarrow> unit pyres \<times> 'w" where
  "event_loop_call_soon call_soon_threadsafe t callable w =
     (case event_loop_of t of
        Inl e \<Rightarrow> (Inl e, w)
      | Inr l \<Rightarrow> call_soon_threadsafe l callable (tl_context t) w)"

definition task_local_clear :: "('lp, 'cx) task_local \<Rightarrow> ('lp, 'cx) task_local" where
  "task_local_clear t = t\<lparr>tl_event_loop := None, tl_context := None\<rparr>"

text \<open>\<open>OnceTaskLocal\<close>: a cell that is set once.\<close>

definition once_local_get_or_current ::
    "('w \<Rightarrow> ('lp, 'cx) task_local pyres \<times> 'w) \<Rightarrow> 'w \<times> ('lp, 'cx) task_local option \<Rightarrow>
     ('lp, 'cx) task_local pyres \<times> 'w \<times> ('lp, 'cx) task_local option" where
  "once_local_get_or_current cur s =
     (case s of (w, cell) \<Rightarrow>
        (case cell of
           Some t \<Rightarrow> (task_local_clone_ref t, w, cell)
         | None \<Rightarrow>
             (case cur w of
                (Inl e, w') \<Rightarrow> (Inl e, w', None)
              | (Inr t, w') \<Rightarrow> (task_local_clone_ref t, w', Some t))))"

definition once_clone_ref :: "('lp, 'cx) task_local option \<Rightarrow> ('lp, 'cx) task_local option pyres" where
  "once_clone_ref cell = (case cell of None \<Rightarrow> Inr None | Some t \<Rightarrow> map_res Some (task_local_clone_ref t))"

text \<open>
  A task local that was made by \<open>current\<close> and not cleared by the garbage collector is whole; then the
  cell behaves as the request model has it, and its copies hold the same.
\<close>

definition whole :: "('lp, 'cx) task_local \<Rightarrow> bool" where
  "whole t \<longleftrightarrow> tl_event_loop t \<noteq> None \<and> tl_context t \<noteq> None"

lemma current_whole: "task_local_current g c w = (Inr t, w') \<Longrightarrow> whole t"
  by (auto simp: task_local_current_def whole_def split: prod.splits sum.splits)

lemma whole_clone: "whole t \<Longrightarrow> task_local_clone_ref t = Inr t"
  by (cases t) (auto simp: whole_def task_local_clone_ref_def)

lemma once_refines:
  assumes "\<And>t. cell = Some t \<Longrightarrow> whole t"
  shows "once_local_get_or_current (task_local_current g c) (w, cell) =
         once_get_or_current (task_local_current g c) (w, cell)"
    and "once_clone_ref cell = Inr cell"
  using assms
  by (auto simp: once_local_get_or_current_def once_get_or_current_def once_clone_ref_def whole_clone
      dest: current_whole split: option.split prod.split sum.split)

end
