(* ===== verification/One_Off.thy ===== *)
theory One_Off
  imports Client_Builder Client
begin

section \<open>Requests as Python objects and one-off requests\<close>

text \<open>
  Models the request classes of \<open>src/request/consumed_request.rs\<close> (those of
  \<open>src/request/stream_request.rs\<close> are made and copied the same way), the builders of one-off
  requests of \<open>src/request/request_builder.rs\<close> and the functions of \<open>src/internal/oneoff.rs\<close>. A
  new object takes an address, \<open>fresh\<close>, which is not in use.
\<close>

subsection \<open>Request objects\<close>

definition request_new_py ::
    "nat \<Rightarrow> ('rq, 'sp, 'x, 'j, 'm, 'o, 'tl, 'co, 'mw) request_inner \<Rightarrow>
     (('w, 'rq, 'sp, 'x, 'j, 'm, 'o, 'tl, 'co, 'mw) heap, nat) eff" where
  "request_new_py fresh i hp = (Inr fresh, put_request fresh (Some i) hp)"

definition request_copy ::
    "('rq, 'm, 'b, 'me, 'u) reqwest_ops \<Rightarrow> ('x \<Rightarrow> 'w \<Rightarrow> 'x pyres \<times> 'w) \<Rightarrow> ('sp \<Rightarrow> 'sp) \<Rightarrow>
     ('w, 'o, 'tl, 'co) stream_env \<Rightarrow> nat \<Rightarrow> nat \<Rightarrow>
     (('w, 'rq, 'sp, 'x, 'j, 'm, 'o, 'tl, 'co, 'mw) heap, nat) eff" where
  "request_copy R copy_dict clone_spawner SE fresh a =
     bind_eff (try_clone_inner R copy_dict clone_spawner SE None a) (request_new_py fresh)"

definition from_request_and_body ::
    "('rq, 'm, 'b, 'me, 'u) reqwest_ops \<Rightarrow> ('x \<Rightarrow> 'w \<Rightarrow> 'x pyres \<times> 'w) \<Rightarrow> ('sp \<Rightarrow> 'sp) \<Rightarrow>
     ('w, 'o, 'tl, 'co) stream_env \<Rightarrow> nat \<Rightarrow> nat \<Rightarrow> nat option \<Rightarrow>
     (('w, 'rq, 'sp, 'x, 'j, 'm, 'o, 'tl, 'co, 'mw) heap, nat) eff" where
  "from_request_and_body R copy_dict clone_spawner SE fresh a body_obj =
     bind_eff (try_clone_inner R copy_dict clone_spawner SE body_obj a) (request_new_py fresh)"

subsection \<open>One-off requests\<close>

record ('rb, 'sp, 'm, 'o, 'tl, 'co, 'x, 'mw, 'f, 'cl) one_off =
  oo_builder :: "('rb, 'sp, 'm, 'o, 'tl, 'co, 'x, 'mw, 'f) request_builder"
  oo_client :: "'cl option"

text \<open>A client of its own, with the settings a new builder has.\<close>

definition one_off_new ::
    "('cb, 'z, 'cl) cb_ops \<Rightarrow> (bool option \<Rightarrow> runtime_handle pyres) \<Rightarrow> unit pyres \<Rightarrow> token \<Rightarrow> nat \<Rightarrow>
     ('ob, 'u) url_args \<Rightarrow> ('rb, 'rq, 'q, 'form) rb_ops \<Rightarrow> ('cl \<Rightarrow> 'me \<Rightarrow> 'u \<Rightarrow> 'rb) \<Rightarrow> nat \<Rightarrow> bool \<Rightarrow> 'me \<Rightarrow> 'ob \<Rightarrow>
     ('rb, 'cl spawner_data, 'm, 'o, 'tl, 'co, 'x, 'mw, 'f, ('cl, 'u, 'mw, 'f, 'm) client) one_off pyres" where
  "one_off_new C handle verbose tok ptr U B mk fresh is_blocking me ob =
     and_then (fst (build_client_base C handle verbose tok ptr (client_builder_new C))) (\<lambda>client.
       map_res (\<lambda>b. \<lparr>oo_builder = b, oo_client = Some client\<rparr>)
         (create_request_builder U B mk fresh client me ob is_blocking))"

text \<open>\<open>pyreqwest_get\<close> and the others; \<open>pyreqwest_request\<close> is \<open>one_off_new\<close>.\<close>

definition one_off_verb ::
    "(string \<Rightarrow> 'me) \<Rightarrow> ('cb, 'z, 'cl) cb_ops \<Rightarrow> (bool option \<Rightarrow> runtime_handle pyres) \<Rightarrow> unit pyres \<Rightarrow> token \<Rightarrow> nat \<Rightarrow>
     ('ob, 'u) url_args \<Rightarrow> ('rb, 'rq, 'q, 'form) rb_ops \<Rightarrow> ('cl \<Rightarrow> 'me \<Rightarrow> 'u \<Rightarrow> 'rb) \<Rightarrow> nat \<Rightarrow> bool \<Rightarrow> verb \<Rightarrow> 'ob \<Rightarrow>
     ('rb, 'cl spawner_data, 'm, 'o, 'tl, 'co, 'x, 'mw, 'f, ('cl, 'u, 'mw, 'f, 'm) client) one_off pyres" where
  "one_off_verb mth C handle verbose tok ptr U B mk fresh is_blocking v ob =
     one_off_new C handle verbose tok ptr U B mk fresh is_blocking (mth (verb_name v)) ob"

text \<open>The client is taken first; then the request is built and gets its object.\<close>

definition one_off_take ::
    "'m http_ops \<Rightarrow> ('rb, 'rq, 'q, 'form) rb_ops \<Rightarrow> ('rq, 'm, 'b, 'me, 'u) reqwest_ops \<Rightarrow> nat \<Rightarrow>
     ('rb, 'sp, 'm, 'o, 'tl, 'co, 'x, 'mw, 'f, 'cl) one_off \<Rightarrow>
     ('w, 'rq, 'sp, 'x, 'f json_handler, 'm, 'o, 'tl, 'co, 'mw) heap \<Rightarrow>
     nat pyres \<times> ('rb, 'sp, 'm, 'o, 'tl, 'co, 'x, 'mw, 'f, 'cl) one_off \<times>
     ('w, 'rq, 'sp, 'x, 'f json_handler, 'm, 'o, 'tl, 'co, 'mw) heap" where
  "one_off_take H B R fresh oo hp =
     (case take_or sent_error (oo_client oo) of
        (Inl e, _) \<Rightarrow> (Inl e, oo, hp)
      | (Inr _, c) \<Rightarrow>
          (case inner_build H B R FullyConsumed (oo_builder oo) of
             (Inl e, b') \<Rightarrow> (Inl e, \<lparr>oo_builder = b', oo_client = c\<rparr>, hp)
           | (Inr i, b') \<Rightarrow>
               (case request_new_py fresh i hp of
                  (r, hp') \<Rightarrow> (r, \<lparr>oo_builder = b', oo_client = c\<rparr>, hp'))))"

definition one_off_send ::
    "'m http_ops \<Rightarrow> ('rb, 'rq, 'q, 'form) rb_ops \<Rightarrow> ('rq, 'm, 'b, 'me, 'u) reqwest_ops \<Rightarrow>
     (nat \<Rightarrow> (('w, 'rq, 'sp, 'x, 'f json_handler, 'm, 'o, 'tl, 'co, 'mw) heap, 'resp) eff) \<Rightarrow> nat \<Rightarrow>
     ('rb, 'sp, 'm, 'o, 'tl, 'co, 'x, 'mw, 'f, 'cl) one_off \<Rightarrow>
     ('w, 'rq, 'sp, 'x, 'f json_handler, 'm, 'o, 'tl, 'co, 'mw) heap \<Rightarrow>
     'resp pyres \<times> ('rb, 'sp, 'm, 'o, 'tl, 'co, 'x, 'mw, 'f, 'cl) one_off \<times>
     ('w, 'rq, 'sp, 'x, 'f json_handler, 'm, 'o, 'tl, 'co, 'mw) heap" where
  "one_off_send H B R send fresh oo hp =
     (case one_off_take H B R fresh oo hp of
        (Inl e, oo', hp') \<Rightarrow> (Inl e, oo', hp')
      | (Inr a, oo', hp') \<Rightarrow> (case send a hp' of (r, hp'') \<Rightarrow> (r, oo', hp'')))"

text \<open>\<open>send\<close> is \<open>send_inner\<close> of the asynchronous class and \<open>blocking_send_inner\<close> of the other.\<close>

definition one_off_async_send where
  "one_off_async_send H B R cur send_rq E chk =
     one_off_send H B R (send_inner R cur send_rq E chk)"

definition one_off_sync_send where
  "one_off_sync_send H B R cur send_rq E chk =
     one_off_send H B R (blocking_send_inner R cur send_rq E chk)"

definition one_off_with_middleware ::
    "nat \<Rightarrow> 'mw \<Rightarrow> ('rb, 'sp, 'm, 'o, 'tl, 'co, 'x, 'mw, 'f, 'cl) one_off \<Rightarrow>
     unit pyres \<times> ('rb, 'sp, 'm, 'o, 'tl, 'co, 'x, 'mw, 'f, 'cl) one_off" where
  "one_off_with_middleware ptr mw oo =
     (case inner_with_middleware ptr mw (oo_builder oo) of (r, b') \<Rightarrow> (r, oo\<lparr>oo_builder := b'\<rparr>))"

subsection \<open>Lemmas\<close>

text \<open>A one-off request is sent like the request its builder builds, and is spent by it, also when building fails.\<close>

lemma one_off_is_build_and_send:
  assumes "oo_client oo = Some cl"
  shows "one_off_send H B R send fresh oo hp =
    (case build H B R False (oo_builder oo) of
       (Inl e, b') \<Rightarrow> (Inl e, \<lparr>oo_builder = b', oo_client = None\<rparr>, hp)
     | (Inr i, b') \<Rightarrow>
         (case bind_eff (request_new_py fresh i) send hp of (r, hp') \<Rightarrow> (r, \<lparr>oo_builder = b', oo_client = None\<rparr>, hp')))"
  using assms
  by (auto simp: one_off_send_def one_off_take_def build_def body_consume_config_of_def take_or_def bind_eff_def
      request_new_py_def split: prod.split sum.split)

lemma one_off_spent:
  assumes "one_off_send H B R send fresh oo hp = (r, oo', hp')"
  shows "oo_client oo' = None"
    and "one_off_send H B R send fresh' oo' hp' = (Inl sent_error, oo', hp')"
    and "oo_client oo = Some cl \<Longrightarrow> b_inner (oo_builder oo') = None"
proof -
  show none: "oo_client oo' = None"
    using assms by (cases "oo_client oo") (auto simp: one_off_send_def one_off_take_def take_or_def request_new_py_def
        split: prod.splits sum.splits)
  then show "one_off_send H B R send fresh' oo' hp' = (Inl sent_error, oo', hp')"
    by (simp add: one_off_send_def one_off_take_def take_or_def)
  show "oo_client oo = Some cl \<Longrightarrow> b_inner (oo_builder oo') = None"
    using assms inner_build_takes [of H B R FullyConsumed "oo_builder oo"]
    by (auto simp: one_off_send_def one_off_take_def take_or_def request_new_py_def split: prod.splits sum.splits)
qed

end
