(* ===== verification/Logger.thy ===== *)
theory Logger
  imports Exceptions
begin

section \<open>Verbose logging\<close>

text \<open>
  Models \<open>src/logging/logger.rs\<close>: records of the Rust crates are put into a bounded channel by any
  thread and handed to Python's \<open>logging\<close> when the log is flushed. The channel is a list; the
  lock of its receiver is poisoned when a thread panicked with it. What the Python logger does with
  a record is \<open>py_call\<close>, on the state \<open>'w\<close> of the interpreter. Records that other threads add
  while the log is flushed are not modelled: the result then is as if they came before or after.
\<close>

datatype log_level = Error | Warn | Info | Debug | Trace

record log_entry =
  le_level :: log_level
  le_target :: string
  le_message :: string
  le_timestamp :: nat

record log_channel =
  lc_entries :: "log_entry list"
  lc_poisoned :: bool

text \<open>A time is in nanoseconds since the epoch, 0 if the clock is before it. \<open>None\<close>: logging was not initialised.\<close>

type_synonym log_state = "log_channel option"

definition CHANNEL_BUFFER_SIZE :: nat where
  "CHANNEL_BUFFER_SIZE = 10000"

definition log_record :: "log_entry \<Rightarrow> log_state \<Rightarrow> log_state" where
  "log_record entry st =
     (case st of
        None \<Rightarrow> None
      | Some ch \<Rightarrow>
          if length (lc_entries ch) < CHANNEL_BUFFER_SIZE
          then Some (ch\<lparr>lc_entries := lc_entries ch @ [entry]\<rparr>) else Some ch)"

text \<open>Every record is wanted, and there is nothing to flush on the Rust side.\<close>

definition log_enabled :: "'md \<Rightarrow> bool" where
  "log_enabled metadata = True"

definition log_flush :: "log_state \<Rightarrow> log_state" where
  "log_flush st = st"

text \<open>\<open>set_logger\<close> is the answer of the \<open>log\<close> crate, which has one logger per process.\<close>

definition init_verbose_logging :: "string + unit \<Rightarrow> log_state \<Rightarrow> unit pyres \<times> log_state" where
  "init_verbose_logging set_logger st =
     (case st of
        Some ch \<Rightarrow> (Inr (), st)
      | None \<Rightarrow> (map_err runtime_error set_logger, Some \<lparr>lc_entries = [], lc_poisoned = False\<rparr>))"

subsection \<open>Taking records out\<close>

text \<open>The loop takes a record before it looks at the count.\<close>

fun pop_loop :: "nat option \<Rightarrow> log_entry list \<Rightarrow> log_entry list \<Rightarrow> log_entry list \<times> log_entry list" where
  "pop_loop count entries [] = (entries, [])"
| "pop_loop count entries (entry # rest) =
     (if (case count of Some n \<Rightarrow> length (entries @ [entry]) \<ge> n | None \<Rightarrow> False)
      then (entries @ [entry], rest)
      else pop_loop count (entries @ [entry]) rest)"

definition pop_entries :: "nat option \<Rightarrow> log_state \<Rightarrow> log_entry list option \<times> log_state" where
  "pop_entries count st =
     (case st of
        None \<Rightarrow> (None, None)
      | Some ch \<Rightarrow>
          if lc_poisoned ch then (None, st)
          else (case pop_loop count [] (lc_entries ch) of
                  (entries, rest) \<Rightarrow>
                    ((if entries = [] then None else Some entries), Some (ch\<lparr>lc_entries := rest\<rparr>))))"

subsection \<open>Handing records to Python\<close>

definition py_level :: "log_level \<Rightarrow> nat" where
  "py_level l = (case l of Error \<Rightarrow> 40 | Warn \<Rightarrow> 30 | Info \<Rightarrow> 20 | Debug \<Rightarrow> 10 | Trace \<Rightarrow> 10)"

text \<open>
  The loggers that were made so far; \<open>get\<close> makes one, with its filter. The record is passed with
  its level, message and time.
\<close>

definition py_logger ::
    "(string \<Rightarrow> 'w \<Rightarrow> 'lg pyres \<times> 'w) \<Rightarrow> string \<Rightarrow> (string \<times> 'lg) list \<times> 'w \<Rightarrow> 'lg pyres \<times> (string \<times> 'lg) list \<times> 'w" where
  "py_logger get target s =
     (case s of (loggers, w) \<Rightarrow>
        (case map_of loggers target of
           Some lg \<Rightarrow> (Inr lg, loggers, w)
         | None \<Rightarrow>
             (case get target w of
                (Inl e, w') \<Rightarrow> (Inl e, loggers, w')
              | (Inr lg, w') \<Rightarrow> (Inr lg, loggers @ [(target, lg)], w'))))"

text \<open>
  The keyword arguments of a record: \<open>extra\<close>, with the time of the import, an attribute of the module
  that \<open>start\<close> gets, and the time of the record, both in nanoseconds.
\<close>

type_synonym log_extra = "(string \<times> nat) list"

definition py_logger_extra_kwarg ::
    "('w \<Rightarrow> nat pyres \<times> 'w) \<Rightarrow> log_entry \<Rightarrow> 'w \<Rightarrow> (string \<times> log_extra) list pyres \<times> 'w" where
  "py_logger_extra_kwarg start entry w =
     (case start w of
        (Inl e, w') \<Rightarrow> (Inl e, w')
      | (Inr start_time, w') \<Rightarrow>
          (Inr [(''extra'', [(''_pyreqwest_start_time'', start_time), (''_pyreqwest_log_timestamp'', le_timestamp entry)])], w'))"

definition py_log ::
    "(string \<Rightarrow> 'w \<Rightarrow> 'lg pyres \<times> 'w) \<Rightarrow> ('w \<Rightarrow> nat pyres \<times> 'w) \<Rightarrow>
     ('lg \<Rightarrow> nat \<Rightarrow> string \<Rightarrow> (string \<times> log_extra) list \<Rightarrow> 'w \<Rightarrow> unit pyres \<times> 'w) \<Rightarrow> log_entry \<Rightarrow>
     (string \<times> 'lg) list \<times> 'w \<Rightarrow> unit pyres \<times> (string \<times> 'lg) list \<times> 'w" where
  "py_log get start py_call entry s =
     (case py_logger get (le_target entry) s of
        (Inl e, s') \<Rightarrow> (Inl e, s')
      | (Inr lg, loggers, w) \<Rightarrow>
          (case py_logger_extra_kwarg start entry w of
             (Inl e, w') \<Rightarrow> (Inl e, loggers, w')
           | (Inr kwargs, w') \<Rightarrow>
               (case py_call lg (py_level (le_level entry)) (le_message entry) kwargs w' of
                  (r, w'') \<Rightarrow> (r, loggers, w''))))"

text \<open>What the Python logger is called with, once its loggers and the module are there.\<close>

lemma py_log_known_logger:
  assumes "map_of loggers (le_target entry) = Some lg" and "start w = (Inr t, w)"
  shows "py_log get start py_call entry (loggers, w) =
    (case py_call lg (py_level (le_level entry)) (le_message entry)
        [(''extra'', [(''_pyreqwest_start_time'', t), (''_pyreqwest_log_timestamp'', le_timestamp entry)])] w of
       (r, w') \<Rightarrow> (r, loggers, w'))"
  using assms by (simp add: py_log_def py_logger_def py_logger_extra_kwarg_def)

text \<open>A logger is made and given its filter once for each target: it is found in the dictionary from then on.\<close>

lemma py_logger_kept:
  assumes "py_logger get target s = (Inr lg, s')"
  shows "map_of (fst s') target = Some lg" and "py_logger get' target s' = (Inr lg, s')"
  using assms
  by (auto simp: py_logger_def map_add_def split: prod.splits option.splits sum.splits)

fun try_log :: "(log_entry \<Rightarrow> 's \<Rightarrow> unit pyres \<times> 's) \<Rightarrow> log_entry list \<Rightarrow> 's \<Rightarrow> unit pyres \<times> 's" where
  "try_log log [] s = (Inr (), s)"
| "try_log log (entry # entries) s =
     (case log entry s of (Inl e, s') \<Rightarrow> (Inl e, s') | (Inr _, s') \<Rightarrow> try_log log entries s')"

definition flush_logs :: "(log_entry \<Rightarrow> 's \<Rightarrow> unit pyres \<times> 's) \<Rightarrow> log_state \<Rightarrow> 's \<Rightarrow> unit pyres \<times> log_state \<times> 's" where
  "flush_logs log st s =
     (case pop_entries None st of
        (None, st') \<Rightarrow> (Inr (), st', s)
      | (Some entries, st') \<Rightarrow> (case try_log log entries s of (r, s') \<Rightarrow> (r, st', s')))"

text \<open>In batches of 1000; the measure is the number of records left.\<close>

fun pending :: "log_state \<Rightarrow> nat" where
  "pending None = 0"
| "pending (Some ch) = length (lc_entries ch)"

lemma pop_loop_take:
  "pop_loop None acc xs = (acc @ xs, [])"
  "length acc < n \<Longrightarrow> pop_loop (Some n) acc xs = (acc @ take (n - length acc) xs, drop (n - length acc) xs)"
proof -
  show "pop_loop None acc xs = (acc @ xs, [])" by (induction xs arbitrary: acc) simp_all
  show "length acc < n \<Longrightarrow> pop_loop (Some n) acc xs = (acc @ take (n - length acc) xs, drop (n - length acc) xs)"
  proof (induction xs arbitrary: acc)
    case (Cons x xs)
    then obtain k where k: "n - length acc = Suc k" by (cases "n - length acc") auto
    then have "n \<le> Suc (length acc) \<longleftrightarrow> k = 0" "n - Suc (length acc) = k" by auto
    with Cons k show ?case by auto
  qed simp
qed

lemma pop_entries_smaller:
  assumes "pop_entries (Some (Suc n)) st = (Some entries, st')"
  shows "pending st' < pending st"
proof -
  from assms obtain ch where ch: "st = Some ch" "\<not> lc_poisoned ch"
    by (auto simp: pop_entries_def split: option.splits if_splits)
  with assms pop_loop_take(2) [of "[]" "Suc n" "lc_entries ch"] show ?thesis
    by (auto simp: pop_entries_def split: if_splits)
qed

function flush_logs_no_gil ::
    "(log_entry \<Rightarrow> 's \<Rightarrow> unit pyres \<times> 's) \<Rightarrow> log_state \<Rightarrow> 's \<Rightarrow> unit pyres \<times> log_state \<times> 's" where
  "flush_logs_no_gil log st s =
     (case pop_entries (Some 1000) st of
        (None, st') \<Rightarrow> (Inr (), st', s)
      | (Some entries, st') \<Rightarrow>
          (case try_log log entries s of
             (Inl e, s') \<Rightarrow> (Inl e, st', s')
           | (Inr _, s') \<Rightarrow> flush_logs_no_gil log st' s'))"
  by pat_completeness auto
termination
  by (relation "measure (\<lambda>(_, st, _). pending st)")
    (auto simp: pop_entries_smaller [of 999, simplified] dest!: sym [of "(Some _, _)"])

declare flush_logs_no_gil.simps [simp del]

subsection \<open>What a flush delivers\<close>

text \<open>The state of the interpreter after the logger was called with each of the records.\<close>

definition logged :: "(log_entry \<Rightarrow> 's \<Rightarrow> unit pyres \<times> 's) \<Rightarrow> log_entry list \<Rightarrow> 's \<Rightarrow> 's" where
  "logged log xs s = fold (\<lambda>e t. snd (log e t)) xs s"

definition accepts :: "(log_entry \<Rightarrow> 's \<Rightarrow> unit pyres \<times> 's) \<Rightarrow> log_entry list \<Rightarrow> bool" where
  "accepts log xs \<longleftrightarrow> (\<forall>e \<in> set xs. \<forall>t. fst (log e t) = Inr ())"

lemma logged_Nil [simp]: "logged log [] s = s"
  by (simp add: logged_def)

lemma accepts_Nil [simp]: "accepts log []"
  by (simp add: accepts_def)

lemma logged_append [simp]: "logged log (xs @ ys) s = logged log ys (logged log xs s)"
  by (simp add: logged_def)

lemma accepts_append [simp]: "accepts log (xs @ ys) \<longleftrightarrow> accepts log xs \<and> accepts log ys"
  by (auto simp: accepts_def)

lemma try_log_accepted:
  assumes "accepts log xs"
  shows "try_log log (xs @ ys) s = try_log log ys (logged log xs s)"
  using assms
proof (induction xs arbitrary: s)
  case (Cons x xs)
  then obtain s' where "log x s = (Inr (), s')" by (cases "log x s") (auto simp: accepts_def dest: spec [of _ s])
  with Cons show ?case by (auto simp: accepts_def logged_def)
qed (simp add: logged_def)

lemma try_log_all: "accepts log xs \<Longrightarrow> try_log log xs s = (Inr (), logged log xs s)"
  using try_log_accepted [of log xs "[]"] by simp

lemma records_kept:
  "length (lc_entries ch) \<le> CHANNEL_BUFFER_SIZE \<Longrightarrow>
   fold log_record es (Some ch) =
     Some (ch\<lparr>lc_entries := lc_entries ch @ take (CHANNEL_BUFFER_SIZE - length (lc_entries ch)) es\<rparr>)"
proof (induction es arbitrary: ch)
  case (Cons e es)
  show ?case
  proof (cases "length (lc_entries ch) < CHANNEL_BUFFER_SIZE")
    case True
    then obtain k where "CHANNEL_BUFFER_SIZE - length (lc_entries ch) = Suc k" by (cases "CHANNEL_BUFFER_SIZE - length (lc_entries ch)") auto
    moreover from this have "CHANNEL_BUFFER_SIZE - Suc (length (lc_entries ch)) = k" by simp
    ultimately show ?thesis
      using True Cons.IH [of "ch\<lparr>lc_entries := lc_entries ch @ [e]\<rparr>"] by (simp add: log_record_def)
  qed (use Cons in \<open>simp add: log_record_def\<close>)
qed simp

text \<open>One batch.\<close>

lemma pop_batch:
  assumes "\<not> lc_poisoned ch"
  shows "pop_entries None (Some ch) =
           (if lc_entries ch = [] then None else Some (lc_entries ch), Some (ch\<lparr>lc_entries := []\<rparr>))"
    and "pop_entries (Some 1000) (Some ch) =
           (if lc_entries ch = [] then None else Some (take 1000 (lc_entries ch)),
            Some (ch\<lparr>lc_entries := drop 1000 (lc_entries ch)\<rparr>))"
  using assms pop_loop_take(1) [of "[]" "lc_entries ch"] pop_loop_take(2) [of "[]" 1000 "lc_entries ch"]
  by (auto simp: pop_entries_def)

lemma flush_batch_accepted:
  assumes "\<not> lc_poisoned ch" and "lc_entries ch = batch @ rest" and "length batch = 1000" and "accepts log batch"
  shows "flush_logs_no_gil log (Some ch) s = flush_logs_no_gil log (Some (ch\<lparr>lc_entries := rest\<rparr>)) (logged log batch s)"
  using assms by (subst flush_logs_no_gil.simps) (auto simp: pop_batch try_log_all)

lemma flush_last_accepted:
  assumes "\<not> lc_poisoned ch" and "length (lc_entries ch) < 1000" and "accepts log (lc_entries ch)"
  shows "flush_logs_no_gil log (Some ch) s = (Inr (), Some (ch\<lparr>lc_entries := []\<rparr>), logged log (lc_entries ch) s)"
proof -
  have empty: "flush_logs_no_gil log (Some (ch\<lparr>lc_entries := []\<rparr>)) t = (Inr (), Some (ch\<lparr>lc_entries := []\<rparr>), t)" for t
    using assms(1) by (subst flush_logs_no_gil.simps) (simp add: pop_batch)
  from assms show ?thesis
    by (subst flush_logs_no_gil.simps) (auto simp: pop_batch try_log_all empty logged_def)
qed

lemma flush_no_gil_all:
  assumes "\<not> lc_poisoned ch" and "accepts log (lc_entries ch)"
  shows "flush_logs_no_gil log (Some ch) s = (Inr (), Some (ch\<lparr>lc_entries := []\<rparr>), logged log (lc_entries ch) s)"
  using assms
proof (induction "length (lc_entries ch)" arbitrary: ch s rule: less_induct)
  case less
  show ?case
  proof (cases "length (lc_entries ch) < 1000")
    case False
    define batch where "batch = take 1000 (lc_entries ch)"
    define rest where "rest = drop 1000 (lc_entries ch)"
    have split: "lc_entries ch = batch @ rest" "length batch = 1000"
      using False by (simp_all add: batch_def rest_def)
    have accepted: "accepts log batch" "accepts log rest"
      using less.prems(2) split(1) by simp_all
    let ?rest = "ch\<lparr>lc_entries := rest\<rparr>"
    have "flush_logs_no_gil log (Some ch) s = flush_logs_no_gil log (Some ?rest) (logged log batch s)"
      using less.prems(1) split accepted(1) by (rule flush_batch_accepted)
    also have "\<dots> = (Inr (), Some (?rest\<lparr>lc_entries := []\<rparr>), logged log (lc_entries ?rest) (logged log batch s))"
      by (rule less.hyps) (use less.prems(1) split accepted in simp_all)
    finally show ?thesis by (simp add: split(1))
  next
    case True
    from less.prems(1) True less.prems(2) show ?thesis by (rule flush_last_accepted)
  qed
qed

lemma flush_no_gil_raises:
  assumes "\<not> lc_poisoned ch" and "lc_entries ch = xs @ e # ys" and "accepts log xs" and "log e (logged log xs s) = (Inl err, s')"
  shows "flush_logs_no_gil log (Some ch) s =
    (Inl err, Some (ch\<lparr>lc_entries := drop (1000 * (length xs div 1000 + 1)) (lc_entries ch)\<rparr>), s')"
  using assms
proof (induction "length xs" arbitrary: ch xs s rule: less_induct)
  case less
  show ?case
  proof (cases "length xs < 1000")
    case True
    then have "take 1000 (lc_entries ch) = xs @ e # take (1000 - Suc (length xs)) ys"
      using less.prems(2) by (simp add: take_Cons')
    then have "try_log log (take 1000 (lc_entries ch)) s = (Inl err, s')"
      using less.prems(3,4) by (simp add: try_log_accepted)
    with True less.prems(1,2) show ?thesis
      by (subst flush_logs_no_gil.simps) (simp add: pop_batch)
  next
    case False
    define batch where "batch = take 1000 xs"
    define xs' where "xs' = drop 1000 xs"
    have split: "xs = batch @ xs'" "length batch = 1000"
      using False by (simp_all add: batch_def xs'_def)
    have "lc_entries ch = batch @ (xs' @ e # ys)" using less.prems(2) split by simp
    with less.prems split
    have "flush_logs_no_gil log (Some ch) s =
        flush_logs_no_gil log (Some (ch\<lparr>lc_entries := xs' @ e # ys\<rparr>)) (logged log batch s)"
      by (simp add: flush_batch_accepted)
    also have "\<dots> = (Inl err, Some (ch\<lparr>lc_entries := drop (1000 * (length xs' div 1000 + 1)) (xs' @ e # ys)\<rparr>), s')"
      using less.prems split less.hyps [of xs' "ch\<lparr>lc_entries := xs' @ e # ys\<rparr>" "logged log batch s"] by simp
    also have "drop (1000 * (length xs' div 1000 + 1)) (xs' @ e # ys) =
        drop (1000 * (length xs div 1000 + 1)) (lc_entries ch)"
    proof -
      have "(1000 + length xs') div 1000 = 1 + length xs' div 1000"
        using div_add_self1 [of "1000 :: nat" "length xs'"] by simp
      with split less.prems(2) show ?thesis by simp
    qed
    finally show ?thesis .
  qed
qed

lemma flush_spec:
  assumes "\<not> lc_poisoned ch" and "accepts log xs"
  shows "lc_entries ch = xs \<Longrightarrow> flush_logs log (Some ch) s = (Inr (), Some (ch\<lparr>lc_entries := []\<rparr>), logged log xs s)"
    and "lc_entries ch = xs @ e # ys \<Longrightarrow> log e (logged log xs s) = (Inl err, s') \<Longrightarrow>
      flush_logs log (Some ch) s = (Inl err, Some (ch\<lparr>lc_entries := []\<rparr>), s')"
  using assms by (auto simp: flush_logs_def pop_batch try_log_all try_log_accepted logged_def)

text \<open>
  C36. Of the records logged since \<open>init_verbose_logging\<close> the first 10000 are kept, the others dropped. A
  flush, in one piece or in batches, hands each of the kept ones to Python once and in order, and leaves
  the log empty. When the Python logger raises for a record (\<open>e\<close>, after \<open>xs\<close>), the flush raises that
  error and the records after it that were taken out with it are lost: all of them with \<open>flush_logs\<close>,
  those of its batch of 1000 with \<open>flush_logs_no_gil\<close>.
\<close>

theorem log_flush_delivery:
  assumes "take CHANNEL_BUFFER_SIZE es = xs @ rest" and "accepts log xs"
    and "st = fold log_record es (snd (init_verbose_logging (Inr ()) None))"
  shows "(rest = [] \<longrightarrow>
      flush_logs log st s = (Inr (), Some \<lparr>lc_entries = [], lc_poisoned = False\<rparr>, logged log xs s) \<and>
      flush_logs_no_gil log st s = (Inr (), Some \<lparr>lc_entries = [], lc_poisoned = False\<rparr>, logged log xs s)) \<and>
    (rest = e # ys \<and> log e (logged log xs s) = (Inl err, s') \<longrightarrow>
      flush_logs log st s = (Inl err, Some \<lparr>lc_entries = [], lc_poisoned = False\<rparr>, s') \<and>
      flush_logs_no_gil log st s =
        (Inl err, Some \<lparr>lc_entries = drop (1000 - Suc (length xs mod 1000)) ys, lc_poisoned = False\<rparr>, s'))"
proof (rule conjI)
  let ?ch = "\<lparr>lc_entries = xs @ rest, lc_poisoned = False\<rparr>"
  have st: "st = Some ?ch"
    using assms(1,3) by (simp add: init_verbose_logging_def records_kept)
  show "rest = [] \<longrightarrow>
      flush_logs log st s = (Inr (), Some \<lparr>lc_entries = [], lc_poisoned = False\<rparr>, logged log xs s) \<and>
      flush_logs_no_gil log st s = (Inr (), Some \<lparr>lc_entries = [], lc_poisoned = False\<rparr>, logged log xs s)"
    using assms(2) flush_spec(1) [of ?ch log xs s] flush_no_gil_all [of ?ch log s] by (auto simp: st)
  have "drop (1000 * (length xs div 1000 + 1)) (xs @ e # ys) = drop (1000 - Suc (length xs mod 1000)) ys"
  proof -
    have batch_end: "r < 1000 \<Longrightarrow> 1000 * (q + 1) = (q * 1000 + r) + Suc (1000 - Suc r)" for q r :: nat
      by simp
    have "1000 * (length xs div 1000 + 1) = length xs + Suc (1000 - Suc (length xs mod 1000))"
      using batch_end [of "length xs mod 1000" "length xs div 1000"] by (simp only: div_mult_mod_eq)
    moreover have "drop (length xs + Suc k) (xs @ e # ys) = drop k ys" for k by simp
    ultimately show ?thesis by (simp only:)
  qed
  then show "rest = e # ys \<and> log e (logged log xs s) = (Inl err, s') \<longrightarrow>
      flush_logs log st s = (Inl err, Some \<lparr>lc_entries = [], lc_poisoned = False\<rparr>, s') \<and>
      flush_logs_no_gil log st s =
        (Inl err, Some \<lparr>lc_entries = drop (1000 - Suc (length xs mod 1000)) ys, lc_poisoned = False\<rparr>, s')"
    using assms(2) flush_spec(2) [of ?ch log xs e ys s err s'] flush_no_gil_raises [of ?ch xs e ys log s err s']
    by (simp add: st)
qed

text \<open>A Python logger that keeps the messages and raises for an empty one.\<close>

definition picky_logger :: "log_entry \<Rightarrow> string list \<Rightarrow> unit pyres \<times> string list" where
  "picky_logger entry seen =
     (if le_message entry = [] then (Inl (value_error ''empty''), seen) else (Inr (), seen @ [le_message entry]))"

definition told :: "string \<Rightarrow> log_entry" where
  "told m = \<lparr>le_level = Info, le_target = ''t'', le_message = m, le_timestamp = 0\<rparr>"

lemma log_flush_delivery_witness:
  "flush_logs picky_logger
     (fold log_record [told ''a'', told [], told ''b''] (snd (init_verbose_logging (Inr ()) None))) [] =
     (Inl (value_error ''empty''), Some \<lparr>lc_entries = [], lc_poisoned = False\<rparr>, [''a''])"
  using log_flush_delivery [of "[told ''a'', told [], told ''b'']" "[told ''a'']" "[told [], told ''b'']"
      picky_logger _ "[]" "told []" "[told ''b'']" "value_error ''empty''" "[''a'']", OF _ _ refl]
  by (simp add: CHANNEL_BUFFER_SIZE_def accepts_def logged_def picky_logger_def told_def)

end
