(* ===== verification/Round_Trip.thy ===== *)
theory Round_Trip
  imports Client_Properties
begin

section \<open>From the client to the answer\<close>

text \<open>
  The components put together: a client makes a request builder, headers and a body are set, the
  request is built, sent without middlewares, executed by the task of the spawner, and its response
  read. The server is a function from what reaches it to its answer.
\<close>

subsection \<open>Sending through the spawner\<close>

text \<open>
  \<open>Spawner::spawn_reqwest\<close> for a request that is left alone: its future runs to its end, or is
  cancelled in the end if it has none. It does not touch the heap of objects.
\<close>

definition spawn_reqwest ::
    "'m http_ops \<Rightarrow> ('rq, 'm, 'b, 'me, 'u) reqwest_ops \<Rightarrow> patterns \<Rightarrow> chunk_fun \<Rightarrow> ('me \<Rightarrow> bool) \<Rightarrow>
     ('cl \<Rightarrow> 'rq \<Rightarrow> std_error + (('m, 'st, 'x option) http_parts \<times> frames)) \<Rightarrow> std_error \<Rightarrow> acquire \<Rightarrow> nat \<Rightarrow>
     ('rq, 'cl spawner_data, 'x, 'f json_handler) request_data \<Rightarrow> ('h, (chan, 'm, 'st, 'x, 'f) response) eff" where
  "spawn_reqwest H R is_match next_data is_head execute err acq elapsed rd hp =
     (spawn_reqwest_inner
        (HandledFirst (case spawn_future H R is_match next_data is_head execute err acq elapsed rd of
           None \<Rightarrow> CancelSeen | Some (res, _) \<Rightarrow> Joined (TaskDone res))), hp)"

lemma spawn_reqwest_done:
  assumes "spawn_future H R is_match next_data is_head execute err acq elapsed rd = Some (res, kept)"
  shows "spawn_reqwest H R is_match next_data is_head execute err acq elapsed rd hp = (res, hp)"
  using assms by (cases res) (simp_all add: spawn_reqwest_def spawn_reqwest_inner_def spawn_handled_def join_result_def)

subsection \<open>What is sent\<close>

text \<open>A request with a body of bytes and no middlewares, from the heap to the crate.\<close>

lemma send_plain:
  assumes "ri_body i = Some (ReqBody (from_bytes bs))" and "middlewares_next i = None" and "ri_headers i = None"
  shows "send_inner R cur send_rq E chk a (put_request a (Some i) hp) =
    bind_eff (send_rq ((request i)\<lparr>reqwest := rq_set_body R (Some (FromBytes bs)) (reqwest (request i))\<rparr>))
      (\<lambda>resp hp'. (chk resp, hp')) (put_request a None hp)"
  using assms
  by (simp add: send_inner_def take_chain_def bind_eff_def request_ref_inner_def inner_set_task_local_def
      body_set_task_local_def body_lock_def from_bytes_def request_body_new_def spawn_request_def
      prepare_spawn_request_def request_take_inner_def prepare_body_def body_into_reqwest_def prepare_headers_def
      Let_def put_request_def)

text \<open>The request that is built from a builder of the client, headers and bytes set.\<close>

lemma built_request:
  assumes laws: "http_headers H" "reqwest_request R"
    and client: "create_request_builder U B mk fresh c me ob blocking = Inr b" "cl_middlewares c = None"
    and calls: "headers_calls H cs (b_headers b) = (Inr u, bh)"
    and built: "build H B R False (b\<lparr>b_headers := bh, b_body := Some (AnyBody (from_bytes bs))\<rparr>) = (Inr i, b')"
  obtains rb rq0 where "b_inner b = Some rb" "rb_build B rb = Inr rq0" "ri_body i = Some (ReqBody (from_bytes bs))"
    "middlewares_next i = None" "ri_headers i = None"
    "rq_method R (reqwest (request i)) = rq_method R rq0" "rq_url R (reqwest (request i)) = rq_url R rq0"
    "\<And>k. hm_get_all H (rq_headers R (reqwest (request i))) k =
      (if asked H k cs [] \<noteq> [] then asked H k cs []
       else if opt_values H (cl_default_headers c) k \<noteq> [] then opt_values H (cl_default_headers c) k
       else hm_get_all H (rq_headers R rq0) k)"
    "sp_client (spawner (request i)) = cl_client c" "sp_limiter (spawner (request i)) = cl_limiter c"
    "rd_body_consume_config (request i) = FullyConsumed" "rd_error_for_status (request i) = cl_error_for_status c"
proof -
  let ?b = "b\<lparr>b_headers := bh, b_body := Some (AnyBody (from_bytes bs))\<rparr>"
  from client obtain sp where b: "b_headers b = builder_headers_new (cl_default_headers c)" "b_middlewares_next b = None"
    "b_spawner b = Some sp" "sp_client sp = cl_client c" "sp_limiter sp = cl_limiter c"
    "b_error_for_status b = cl_error_for_status c"
    by (auto elim!: create_request_builder_InrE simp: init_middleware_next_def request_builder_new_def spawner_new_def)
  from built [unfolded build_def] show thesis
  proof (rule inner_build_InrE)
    fix rb rq0 sp' hs bh' hs'
    assume rb: "b_inner ?b = Some rb" "rb_build B rb = Inr rq0" and sp': "b_spawner ?b = Some sp'"
      and d: "drain_into_headers H (rq_headers R rq0) (b_headers ?b) = (hs, bh')"
      and hs': "(case b_body ?b of Some (JsonBody _) \<Rightarrow> insert_json_type H hs | _ \<Rightarrow> Inr hs) = Inr hs'"
      and i: "i = request_new
        \<lparr>spawner = sp', reqwest = rq_set_headers R hs' rq0, rd_extensions = b_extensions ?b,
         rd_body_consume_config = body_consume_config_of False ?b, rd_json_handler = b_json_handler ?b,
         rd_error_for_status = b_error_for_status ?b, rd_connection_verbose = b_connection_verbose ?b\<rparr>
        (map_option (\<lambda>bb. case bb of JsonBody x \<Rightarrow> x | AnyBody x \<Rightarrow> x) (b_body ?b)) (b_middlewares_next ?b)"
    have hs: "hs' = fst (drain_into_headers H (rq_headers R rq0) bh)" using hs' d by simp
    have "hm_get_all H hs' k =
      (if asked H k cs [] \<noteq> [] then asked H k cs []
       else if opt_values H (cl_default_headers c) k \<noteq> [] then opt_values H (cl_default_headers c) k
       else hm_get_all H (rq_headers R rq0) k)" for k
      using http_headers.headers_calls_ok [OF laws(1) calls, of k] b(1)
      by (auto simp: hs http_headers.drain_ok [OF laws(1)] builder_headers_new_def)
    with rb sp' b show thesis
      by (intro that [of rb rq0])
        (simp_all add: i request_new_def body_consume_config_of_def reqwest_request.headers_set(1) [OF laws(2)]
          reqwest_request.method_set(3) [OF laws(2)] reqwest_request.url_set(3) [OF laws(2)])
  qed
qed

subsection \<open>The round trip\<close>

lemma spawned_plain:
  assumes "response_chunks next_data" and "http_status S"
    and "sp_limiter (spawner rd) = None" and "rd_body_consume_config rd = FullyConsumed" and "\<not> is_head (rq_method R (reqwest rd))"
    and "execute (sp_client (spawner rd)) (reqwest rd) = Inr (head, fs)" and "no_errors fs"
    and "\<forall>n. content_length_of H (parts_headers head) = Some n \<longrightarrow> n \<le> isize_max"
  shows "\<exists>j r'. spawn_reqwest H R is_match next_data is_head execute err acq elapsed rd hp = (Inr (Some j), hp) \<and>
    resp_status j = parts_status head \<and> resp_error_for_status j = rd_error_for_status rd \<and>
    bytes_inner (recv is_match) None (Some j) rh = Some (Inr (body_bytes fs), r', rh)"
proof -
  let ?head = "insert_extensions (rd_extensions rd) head"
  have head: "parts_headers ?head = parts_headers head" "parts_status ?head = parts_status head"
    by (simp_all add: insert_extensions_def split: option.split)
  have consume: "FullyConsumed \<noteq> NoBody" by simp
  from assms(8) have len: "\<forall>n. content_length_of H (parts_headers ?head) = Some n \<longrightarrow> n \<le> isize_max" by (simp add: head)
  define h where "h = ?head"
  note len = len [folded h_def] and head = head [folded h_def]
  obtain j kept r' where j: "resp_initialize H is_match next_data (h, fs) True FullyConsumed (sp_runtime (spawner rd))
      (rd_json_handler rd) (rd_error_for_status rd) = Some (Inr (Some j), kept)"
    and st: "resp_status j = parts_status h" and ef: "resp_error_for_status j = rd_error_for_status rd"
    and bytes: "bytes_inner (recv is_match) None (Some j) rh = Some (Inr (body_bytes fs), r', rh)"
    using initialize_response [OF assms(1,7) consume len, of is_match True "sp_runtime (spawner rd)" "rd_json_handler rd"
      "rd_error_for_status rd" rh]
    by (elim exE conjE) (rule that)
  have "spawn_future H R is_match next_data is_head execute err acq elapsed rd = Some (Inr (Some j), False)"
    using assms(3-6) j by (simp add: spawn_future_def Let_def h_def)
  from spawn_reqwest_done [OF this]
  have "spawn_reqwest H R is_match next_data is_head execute err acq elapsed rd hp = (Inr (Some j), hp)" .
  with st ef bytes show ?thesis unfolding head by (intro exI conjI)
qed

text \<open>
  C1. A request of a client without middlewares, with any calls of \<open>header\<close> and \<open>headers\<close> and a body of
  bytes: what reaches the server has the method and URL of the builder, per name the headers asked for,
  else the defaults of the client, and exactly the body; what comes back is a response with the status
  of the answer whose \<open>bytes()\<close> are exactly the body of the answer, or a \<open>StatusError\<close> if the client
  raises for status and the answer is an error; and the request object is spent.
\<close>

theorem request_round_trip:
  assumes "http_headers H" and "reqwest_request R" and "response_chunks next_data" and "http_status S"
    and "create_request_builder U B mk fresh c me ob False = Inr b" and "cl_middlewares c = None" and "cl_limiter c = None"
    and "headers_calls H cs (b_headers b) = (Inr u, bh)"
    and "build H B R False (b\<lparr>b_headers := bh, b_body := Some (AnyBody (from_bytes bs))\<rparr>) = (Inr i, b')"
    and "\<And>rq. execute (cl_client c) rq = Inr (answer rq)" and "\<And>rq. no_errors (snd (answer rq))"
    and "\<forall>rq n. content_length_of H (parts_headers (fst (answer rq))) = Some n \<longrightarrow> n \<le> isize_max"
    and "\<forall>rb rq. b_inner b = Some rb \<and> rb_build B rb = Inr rq \<longrightarrow> \<not> is_head (rq_method R rq)"
  shows "\<exists>rb rq0 rq res r'.
    b_inner b = Some rb \<and> rb_build B rb = Inr rq0 \<and>
    rq_method R rq = rq_method R rq0 \<and> rq_url R rq = rq_url R rq0 \<and> rq_body R rq = Some (FromBytes bs) \<and>
    (\<forall>k. hm_get_all H (rq_headers R rq) k =
      (if asked H k cs [] \<noteq> [] then asked H k cs []
       else if opt_values H (cl_default_headers c) k \<noteq> [] then opt_values H (cl_default_headers c) k
       else hm_get_all H (rq_headers R rq0) k)) \<and>
    send_inner R cur (spawn_reqwest H R is_match next_data is_head execute err acq elapsed) E (check_error_for_status S) a
      (put_request a (Some i) hp) = (res, put_request a None hp) \<and>
    (if cl_error_for_status c \<and> 400 \<le> unat (as_u16 S (parts_status (fst (answer rq)))) \<and>
        unat (as_u16 S (parts_status (fst (answer rq)))) < 600
     then \<exists>e. res = Inl e \<and> exc_class e = StatusError
     else \<exists>resp. res = Inr resp \<and> get_status S resp = Inr (as_u16 S (parts_status (fst (answer rq)))) \<and>
       bytes_inner (recv is_match) None resp rh = Some (Inr (body_bytes (snd (answer rq))), r', rh))"
proof -
  from built_request [OF assms(1,2,5,6,8,9)] obtain rb rq0 where
    rb: "b_inner b = Some rb" "rb_build B rb = Inr rq0" and
    body: "ri_body i = Some (ReqBody (from_bytes bs))" and
    plain: "middlewares_next i = None" "ri_headers i = None" and
    same: "rq_method R (reqwest (request i)) = rq_method R rq0" "rq_url R (reqwest (request i)) = rq_url R rq0" and
    hdrs: "\<And>k. hm_get_all H (rq_headers R (reqwest (request i))) k =
      (if asked H k cs [] \<noteq> [] then asked H k cs []
       else if opt_values H (cl_default_headers c) k \<noteq> [] then opt_values H (cl_default_headers c) k
       else hm_get_all H (rq_headers R rq0) k)" and
    sp: "sp_client (spawner (request i)) = cl_client c" "sp_limiter (spawner (request i)) = cl_limiter c"
      "rd_body_consume_config (request i) = FullyConsumed" "rd_error_for_status (request i) = cl_error_for_status c"
    by blast
  define rq where "rq = rq_set_body R (Some (FromBytes bs)) (reqwest (request i))"
  let ?rd = "(request i)\<lparr>reqwest := rq\<rparr>"
  have rq: "rq_method R rq = rq_method R rq0" "rq_url R rq = rq_url R rq0" "rq_body R rq = Some (FromBytes bs)"
    "rq_headers R rq = rq_headers R (reqwest (request i))"
    by (simp_all add: rq_def same reqwest_request.method_set(4) [OF assms(2)] reqwest_request.url_set(4) [OF assms(2)]
        reqwest_request.body_set(1) [OF assms(2)] reqwest_request.headers_set(4) [OF assms(2)])
  obtain head fs where ans: "answer rq = (head, fs)" by fastforce
  have "execute (sp_client (spawner ?rd)) (reqwest ?rd) = Inr (head, fs)" using assms(10) sp(1) ans by simp
  moreover have "no_errors fs" "\<forall>n. content_length_of H (parts_headers head) = Some n \<longrightarrow> n \<le> isize_max"
    using assms(11) [of rq] assms(12) ans by (auto dest: spec [of _ rq])
  moreover have "sp_limiter (spawner ?rd) = None" "rd_body_consume_config ?rd = FullyConsumed" using sp assms(7) by simp_all
  ultimately obtain j r' where j: "spawn_reqwest H R is_match next_data is_head execute err acq elapsed ?rd (put_request a None hp) =
      (Inr (Some j), put_request a None hp)"
    and st: "resp_status j = parts_status head" and ef: "resp_error_for_status j = cl_error_for_status c"
    and bytes: "bytes_inner (recv is_match) None (Some j) rh = Some (Inr (body_bytes fs), r', rh)"
    using spawned_plain [OF assms(3,4), of ?rd is_head R execute head fs H is_match err acq elapsed "put_request a None hp" rh]
      assms(13) rb rq(1) sp(4) by auto
  have send: "send_inner R cur (spawn_reqwest H R is_match next_data is_head execute err acq elapsed) E (check_error_for_status S) a
      (put_request a (Some i) hp) = (check_error_for_status S (Some j), put_request a None hp)"
    by (simp add: send_plain [OF body plain] rq_def [symmetric] bind_eff_def j)
  have res: "if cl_error_for_status c \<and> 400 \<le> unat (as_u16 S (parts_status head)) \<and> unat (as_u16 S (parts_status head)) < 600
     then \<exists>e. check_error_for_status S (Some j) = Inl e \<and> exc_class e = StatusError
     else check_error_for_status S (Some j) = Inr (Some j)"
    using error_for_status_spec [OF assms(4), of j] st ef by (cases "error_for_status S (Some j)") (auto split: if_splits)
  have "get_status S (Some j) = Inr (as_u16 S (parts_status head))" by (simp add: get_status_def resp_ref_inner_def st)
  with rb rq hdrs send res bytes ans show ?thesis
    by (intro exI [of _ rb] exI [of _ rq0] exI [of _ rq] exI [of _ "check_error_for_status S (Some j)"] exI [of _ r']) auto
qed

text \<open>A server that sends the body back, and a client that talks to it.\<close>

type_synonym echo_request = "(flat_map, (nat, nat, nat) reqwest_body) plain_request"

definition echo_answer :: "echo_request \<Rightarrow> (flat_map, 16 word, nat option) http_parts \<times> frames" where
  "echo_answer rq =
     (\<lparr>parts_status = 200, parts_version = HTTP_11, parts_headers = [], parts_extensions = None\<rparr>,
      case p_body rq of Some (FromBytes bs) \<Rightarrow> [Inr (DataFrame (take 1 bs)), Inr (DataFrame (drop 1 bs))] | _ \<Rightarrow> [])"

definition echo_client :: "(nat, string, nat, nat, flat_map) client" where
  "echo_client = \<lparr>cl_client = 0, cl_base_url = None, cl_runtime = 0, cl_middlewares = None,
     cl_json_handler = None, cl_total_timeout = None, cl_limiter = None, cl_error_for_status = True,
     cl_default_headers = Some [(nm ''a'', vl [9]), (nm ''c'', vl [8])], cl_connection_verbose = False, cl_close = [3]\<rparr>"

definition echo_mk :: "nat \<Rightarrow> string \<Rightarrow> string \<Rightarrow> echo_request" where
  "echo_mk _ me url = \<lparr>p_method = me, p_url = url, p_headers = [], p_body = None, p_timeout = None\<rparr>"

definition echo_builder ::
    "(echo_request, nat spawner_data, flat_map, nat, nat, nat, nat, nat, nat) request_builder" where
  "echo_builder = request_builder_new (echo_mk 0 ''POST'' ''u'') (spawner_new 0 0 None (child_token 4 [3]))
     None None True (Some [(nm ''a'', vl [9]), (nm ''c'', vl [8])]) False False"

lemma echo_created: "create_request_builder demo_urls plain_rb echo_mk 4 echo_client ''POST'' ''u'' False = Inr echo_builder"
  by (simp add: create_request_builder_def request_url_def echo_client_def demo_urls_def echo_builder_def
      init_middleware_next_def)

definition echo_headers :: "flat_map builder_headers" where
  "echo_headers = \<lparr>default_headers = Some [(nm ''c'', vl [8])], set_headers = Some [(nm ''a'', vl [1]), (nm ''a'', vl [2])]\<rparr>"

lemma echo_calls:
  "headers_calls flat_ops [CallHeader (nm ''a'') (vl [1]), CallHeader (nm ''a'') (vl [2])] (b_headers echo_builder) =
   (Inr (), echo_headers)"
  using calls_example by (simp add: echo_builder_def request_builder_new_def echo_headers_def)

lemma echo_built:
  "\<exists>i b'. build flat_ops plain_rb plain_ops False
     (echo_builder\<lparr>b_headers := echo_headers, b_body := Some (AnyBody (from_bytes [104, 105]))\<rparr>) = (Inr i, b')"
  by (simp add: build_def inner_build_def echo_builder_def request_builder_new_def plain_rb_def plain_ops_def echo_mk_def
      Let_def split: prod.split)

lemma request_round_trip_witness:
  "\<exists>i b'. build flat_ops plain_rb plain_ops False
       (echo_builder\<lparr>b_headers := echo_headers, b_body := Some (AnyBody (from_bytes [104, 105]))\<rparr>) = (Inr i, b') \<and>
     (\<forall>E hp. \<exists>resp r'. send_inner plain_ops no_context
         (spawn_reqwest flat_ops plain_ops (\<lambda>_ _. False) first_data (\<lambda>me. me = ''HEAD'') (\<lambda>_ rq. Inr (echo_answer rq))
            timed_out (AcquiredAfter 0) 0) E (check_error_for_status u16_status) 7
         (put_request 7 (Some i) hp) = (Inr resp, put_request 7 None hp) \<and>
       get_status u16_status resp = Inr 200 \<and>
       bytes_inner (recv (\<lambda>_ _. False)) None resp demo_heap = Some (Inr [104, 105], r', demo_heap))"
proof -
  from echo_built obtain i b' where b: "build flat_ops plain_rb plain_ops False
     (echo_builder\<lparr>b_headers := echo_headers, b_body := Some (AnyBody (from_bytes [104, 105]))\<rparr>) = (Inr i, b')" by blast
  have bodies: "no_errors (snd (echo_answer rq))" and
    len: "\<forall>rq n. content_length_of flat_ops (parts_headers (fst (echo_answer rq))) = Some n \<longrightarrow> n \<le> isize_max" for rq
    by (auto simp: echo_answer_def content_length_of_def flat_ops_def flat_get_all_def split: option.split reqwest_body.split)
  have post: "\<forall>rb rq. b_inner echo_builder = Some rb \<and> rb_build plain_rb rb = Inr rq \<longrightarrow> \<not> rq_method plain_ops rq = ''HEAD''"
    by (auto simp: echo_builder_def request_builder_new_def echo_mk_def plain_rb_def plain_ops_def)
  have client: "cl_middlewares echo_client = None" "cl_limiter echo_client = None" "cl_error_for_status echo_client"
    by (simp_all add: echo_client_def)
  have ok: "as_u16 u16_status (parts_status (fst (echo_answer rq))) = 200" for rq
    by (simp add: echo_answer_def u16_status_def)
  have echo: "body_bytes (snd (echo_answer rq)) = [104, 105]" if "rq_body plain_ops rq = Some (FromBytes [104, 105])" for rq
    using that by (simp add: echo_answer_def plain_ops_def)
  note trip = request_round_trip [where is_head = "\<lambda>me. me = ''HEAD''" and answer = echo_answer
      and execute = "\<lambda>_ rq. Inr (echo_answer rq)", OF http_headers_flat reqwest_request_plain
      data.response_chunks_axioms u16.http_status_axioms echo_created client(1,2) echo_calls b refl bodies len post]
  show ?thesis
  proof (rule exI [of _ i], rule exI [of _ b'], intro conjI allI)
    show "build flat_ops plain_rb plain_ops False
     (echo_builder\<lparr>b_headers := echo_headers, b_body := Some (AnyBody (from_bytes [104, 105]))\<rparr>) = (Inr i, b')" by (rule b)
  next
    fix E hp
    show "\<exists>resp r'. send_inner plain_ops no_context
         (spawn_reqwest flat_ops plain_ops (\<lambda>_ _. False) first_data (\<lambda>me. me = ''HEAD'') (\<lambda>_ rq. Inr (echo_answer rq))
            timed_out (AcquiredAfter 0) 0) E (check_error_for_status u16_status) 7
         (put_request 7 (Some i) hp) = (Inr resp, put_request 7 None hp) \<and>
       get_status u16_status resp = Inr 200 \<and>
       bytes_inner (recv (\<lambda>_ _. False)) None resp demo_heap = Some (Inr [104, 105], r', demo_heap)"
      using trip [where cur = no_context and is_match = "\<lambda>_ _. False" and err = timed_out and acq = "AcquiredAfter 0"
          and elapsed = 0 and E = E and a = 7 and hp = hp and rh = demo_heap] echo
      by (auto simp: ok)
  qed
qed

end
