(* ===== verification/Gc.thy ===== *)
theory Gc
  imports Client_Properties Client_Builder Response_Builder Stream_Request Coro_Waiter Task_Local "HOL-Library.Multiset"
begin

section \<open>The hooks of the garbage collector\<close>

text \<open>
  Models \<open>__traverse__\<close> and \<open>__clear__\<close> of all classes. The collector of Python finds cycles by
  comparing the reference count of an object with the number of times it is visited from other
  objects; so an object has to visit each Python reference it holds once. A visit may answer with a
  number other than zero, which ends the traversal (\<open>?\<close> on \<open>PyTraverseError\<close>). Every opaque Python
  object is of the type \<open>'o\<close>.
\<close>

subsection \<open>Visits\<close>

datatype 'o py_ref = PyObj 'o | PyHeaders nat | PyBody nat | PyReaderObj nat | PyResponse nat

text \<open>A traversal in a state \<open>'s\<close> of the collector; zero is \<open>Ok(())\<close>.\<close>

type_synonym 's walk = "'s \<Rightarrow> int \<times> 's"

type_synonym ('o, 's) py_visit = "'o py_ref \<Rightarrow> 's walk"

definition walk_ok :: "'s walk" where
  "walk_ok s = (0, s)"

definition walk_then :: "'s walk \<Rightarrow> 's walk \<Rightarrow> 's walk" where
  "walk_then f g s = (case f s of (r, s') \<Rightarrow> if r = 0 then g s' else (r, s'))"

text \<open>\<open>PyVisit::call\<close> takes a reference or an optional one; a \<open>for\<close> loop visits one after the other.\<close>

definition visit_opt :: "('a \<Rightarrow> 's walk) \<Rightarrow> 'a option \<Rightarrow> 's walk" where
  "visit_opt f x = (case x of None \<Rightarrow> walk_ok | Some a \<Rightarrow> f a)"

primrec visit_each :: "('a \<Rightarrow> 's walk) \<Rightarrow> 'a list \<Rightarrow> 's walk" where
  "visit_each f [] = walk_ok"
| "visit_each f (x # xs) = walk_then (f x) (visit_each f xs)"

named_theorems walk_simps \<open>traversals as sequences of visits\<close>

lemma walk_then_ok [simp]: "walk_then walk_ok f = f" "walk_then f walk_ok = f"
  by (auto simp: walk_then_def walk_ok_def split: prod.splits)

lemma walk_then_assoc [simp]: "walk_then (walk_then f g) h = walk_then f (walk_then g h)"
  by (auto simp: walk_then_def split: prod.splits)

lemma visit_each_append [walk_simps]: "visit_each v (xs @ ys) = walk_then (visit_each v xs) (visit_each v ys)"
  by (induction xs) simp_all

lemma visit_each_map [simp]: "visit_each v (map f xs) = visit_each (\<lambda>x. v (f x)) xs"
  by (induction xs) simp_all

text \<open>The references of an optional field.\<close>

definition of_opt :: "('a \<Rightarrow> 'b list) \<Rightarrow> 'a option \<Rightarrow> 'b list" where
  "of_opt f x = (case x of None \<Rightarrow> [] | Some a \<Rightarrow> f a)"

lemma of_opt_simps [simp]: "of_opt f None = []" "of_opt f (Some a) = f a"
  by (simp_all add: of_opt_def)

subsection \<open>Task locals, JSON handlers, chains\<close>

definition task_local_traverse :: "('o, 's) py_visit \<Rightarrow> ('o, 'o) task_local \<Rightarrow> 's walk" where
  "task_local_traverse v t =
     walk_then (visit_opt (\<lambda>x. v (PyObj x)) (tl_event_loop t)) (visit_opt (\<lambda>x. v (PyObj x)) (tl_context t))"

definition task_local_refs :: "('o, 'o) task_local \<Rightarrow> 'o py_ref list" where
  "task_local_refs t = of_opt (\<lambda>x. [PyObj x]) (tl_event_loop t) @ of_opt (\<lambda>x. [PyObj x]) (tl_context t)"

definition json_traverse :: "('o, 's) py_visit \<Rightarrow> 'o json_handler \<Rightarrow> 's walk" where
  "json_traverse v j = walk_then (visit_opt (\<lambda>x. v (PyObj x)) (loads j)) (visit_opt (\<lambda>x. v (PyObj x)) (dumps j))"

definition json_clear :: "'o json_handler \<Rightarrow> 'o json_handler" where
  "json_clear j = j\<lparr>loads := None, dumps := None\<rparr>"

definition json_refs :: "'o json_handler \<Rightarrow> 'o py_ref list" where
  "json_refs j = of_opt (\<lambda>x. [PyObj x]) (loads j) @ of_opt (\<lambda>x. [PyObj x]) (dumps j)"

text \<open>
  The vector of a chain is behind an \<open>Arc\<close>: all chains of a client and the client itself have the same
  one, and each visits what is in it. The vector of a chain with added middlewares is its own.
\<close>

definition next_traverse :: "('o, 's) py_visit \<Rightarrow> 'o next_inner \<Rightarrow> 's walk" where
  "next_traverse v n =
     walk_then (visit_opt (\<lambda>mws. visit_each (\<lambda>mw. v (PyObj mw)) (arc_val mws)) (middlewares n))
       (visit_opt (visit_each (\<lambda>mw. v (PyObj mw))) (override_middlewares n))"

definition next_clear :: "'o next_inner \<Rightarrow> 'o next_inner" where
  "next_clear n = n\<lparr>middlewares := None, override_middlewares := None\<rparr>"

definition next_refs :: "'o next_inner \<Rightarrow> 'o py_ref list" where
  "next_refs n = of_opt (\<lambda>mws. map PyObj (arc_val mws)) (middlewares n) @ of_opt (map PyObj) (override_middlewares n)"

text \<open>\<open>Next\<close> has a task local beside its chain, \<open>SyncNext\<close> only the chain; \<open>Next\<close> has no \<open>__clear__\<close>.\<close>

definition py_next_traverse :: "('o, 's) py_visit \<Rightarrow> 'o next_inner \<Rightarrow> ('o, 'o) task_local \<Rightarrow> 's walk" where
  "py_next_traverse v n t = walk_then (next_traverse v n) (task_local_traverse v t)"

lemma traverse_parts [walk_simps]:
  "task_local_traverse v t = visit_each v (task_local_refs t)"
  "json_traverse v j = visit_each v (json_refs j)"
  "next_traverse v n = visit_each v (next_refs n)"
  by (simp_all add: task_local_traverse_def task_local_refs_def json_traverse_def json_refs_def next_traverse_def
      next_refs_def visit_opt_def walk_simps split: option.split)

lemma py_next_traverse_seen [walk_simps]:
  "py_next_traverse v n t = visit_each v (next_refs n @ task_local_refs t)"
  by (simp add: py_next_traverse_def walk_simps)

lemma clear_parts:
  "task_local_refs (task_local_clear t) = []" "json_refs (json_clear j) = []" "next_refs (next_clear n) = []"
  by (simp_all add: task_local_refs_def task_local_clear_def json_refs_def json_clear_def next_refs_def next_clear_def)

subsection \<open>Bodies\<close>

text \<open>The waiter of an asynchronous iterator is not visited, but \<open>__clear__\<close> drops it.\<close>

definition stream_traverse :: "('o, 's) py_visit \<Rightarrow> ('o, ('o, 'o) task_local, 'co) body_stream \<Rightarrow> 's walk" where
  "stream_traverse v bs =
     walk_then (visit_opt (\<lambda>x. v (PyObj x)) (bs_stream bs))
       (walk_then (visit_opt (\<lambda>x. v (PyObj x)) (py_iter bs)) (visit_opt (task_local_traverse v) (bs_task_local bs)))"

definition stream_clear :: "('o, 'tl, 'co) body_stream \<Rightarrow> ('o, 'tl, 'co) body_stream" where
  "stream_clear bs = bs\<lparr>bs_stream := None, py_iter := None, bs_task_local := None, cur_waiter := None\<rparr>"

definition stream_seen :: "('o, ('o, 'o) task_local, 'co) body_stream \<Rightarrow> 'o py_ref list" where
  "stream_seen bs =
     of_opt (\<lambda>x. [PyObj x]) (bs_stream bs) @ of_opt (\<lambda>x. [PyObj x]) (py_iter bs) @ of_opt task_local_refs (bs_task_local bs)"

text \<open>A body that is being polled (\<open>locked\<close>) or whose mutex is poisoned visits nothing.\<close>

definition body_traverse :: "bool \<Rightarrow> ('o, 's) py_visit \<Rightarrow> ('o, ('o, 'o) task_local, 'co) request_body \<Rightarrow> 's walk" where
  "body_traverse locked v b =
     (if locked \<or> rb_poisoned b then walk_ok
      else case rb_inner b of
             Some (BodyBytes _) \<Rightarrow> walk_ok
           | Some (BodyStreamed stream) \<Rightarrow> stream_traverse v stream
           | None \<Rightarrow> walk_ok)"

definition body_seen :: "bool \<Rightarrow> ('o, ('o, 'o) task_local, 'co) request_body \<Rightarrow> 'o py_ref list" where
  "body_seen locked b =
     (if locked \<or> rb_poisoned b then []
      else of_opt (\<lambda>i. case i of BodyBytes _ \<Rightarrow> [] | BodyStreamed stream \<Rightarrow> stream_seen stream) (rb_inner b))"

lemma stream_traverse_seen [walk_simps]: "stream_traverse v bs = visit_each v (stream_seen bs)"
  by (simp add: stream_traverse_def stream_seen_def visit_opt_def walk_simps split: option.split)

lemma body_traverse_seen [walk_simps]: "body_traverse locked v b = visit_each v (body_seen locked b)"
  by (simp add: body_traverse_def body_seen_def stream_traverse_seen split: option.split inner_body.split)

text \<open>What a body refers to, \<open>wr\<close> being the references of a coroutine waiter.\<close>

definition waiter_refs :: "('co \<Rightarrow> 'o py_ref list) \<Rightarrow> ('o, ('o, 'o) task_local, 'co) body_stream \<Rightarrow> 'o py_ref list" where
  "waiter_refs wr bs = of_opt (\<lambda>w. case w of AsyncWaiter co \<Rightarrow> wr co | SyncWaiter _ \<Rightarrow> []) (cur_waiter bs)"

definition body_refs :: "('co \<Rightarrow> 'o py_ref list) \<Rightarrow> ('o, ('o, 'o) task_local, 'co) request_body \<Rightarrow> 'o py_ref list" where
  "body_refs wr b =
     of_opt (\<lambda>i. case i of BodyBytes _ \<Rightarrow> [] | BodyStreamed bs \<Rightarrow> stream_seen bs @ waiter_refs wr bs) (rb_inner b)"

text \<open>What it does not visit of them.\<close>

definition body_missed ::
    "('co \<Rightarrow> 'o py_ref list) \<Rightarrow> bool \<Rightarrow> ('o, ('o, 'o) task_local, 'co) request_body \<Rightarrow> 'o py_ref list" where
  "body_missed wr locked b =
     (if locked \<or> rb_poisoned b then body_refs wr b
      else of_opt (\<lambda>i. case i of BodyBytes _ \<Rightarrow> [] | BodyStreamed bs \<Rightarrow> waiter_refs wr bs) (rb_inner b))"

lemma body_seen_missed: "mset (body_refs wr b) = mset (body_seen locked b) + mset (body_missed wr locked b)"
  by (simp add: body_refs_def body_seen_def body_missed_def of_opt_def split: option.split inner_body.split)

lemma stream_clear_refs: "stream_seen (stream_clear bs) @ waiter_refs wr (stream_clear bs) = []"
  by (simp add: stream_clear_def stream_seen_def waiter_refs_def)

subsection \<open>Request builders and requests\<close>

definition builder_traverse ::
    "bool \<Rightarrow> ('o, 's) py_visit \<Rightarrow>
     ('rb, 'sp, 'm, 'o, ('o, 'o) task_local, 'co, 'o, 'o, 'o) request_builder \<Rightarrow> 's walk" where
  "builder_traverse locked v b =
     walk_then (visit_opt (\<lambda>x. v (PyObj x)) (b_extensions b))
    (walk_then (visit_opt (next_traverse v) (b_middlewares_next b))
    (walk_then (visit_opt (json_traverse v) (b_json_handler b))
       (case b_body b of
          Some (AnyBody bd) \<Rightarrow> body_traverse locked v bd
        | Some (JsonBody bd) \<Rightarrow> body_traverse locked v bd
        | None \<Rightarrow> walk_ok)))"

definition builder_clear ::
    "('rb, 'sp, 'm, 'o, 'tl, 'co, 'x, 'mw, 'f) request_builder \<Rightarrow>
     ('rb, 'sp, 'm, 'o, 'tl, 'co, 'x, 'mw, 'f) request_builder" where
  "builder_clear b = b\<lparr>b_inner := None, b_spawner := None, b_body := None, b_extensions := None,
     b_middlewares_next := None, b_json_handler := None\<rparr>"

definition any_body :: "('o, 'tl, 'co) builder_body \<Rightarrow> ('o, 'tl, 'co) request_body" where
  "any_body bb = (case bb of AnyBody bd \<Rightarrow> bd | JsonBody bd \<Rightarrow> bd)"

definition builder_seen ::
    "bool \<Rightarrow> ('rb, 'sp, 'm, 'o, ('o, 'o) task_local, 'co, 'o, 'o, 'o) request_builder \<Rightarrow> 'o py_ref list" where
  "builder_seen locked b =
     of_opt (\<lambda>x. [PyObj x]) (b_extensions b) @ of_opt next_refs (b_middlewares_next b) @
     of_opt json_refs (b_json_handler b) @ of_opt (\<lambda>bb. body_seen locked (any_body bb)) (b_body b)"

lemma builder_traverse_seen [walk_simps]: "builder_traverse locked v b = visit_each v (builder_seen locked b)"
  by (simp add: builder_traverse_def builder_seen_def any_body_def visit_opt_def walk_simps
      split: option.split builder_body.split)

text \<open>A request visits neither its JSON handler nor the task local it keeps for its stream.\<close>

definition request_traverse ::
    "bool \<Rightarrow> ('o, 's) py_visit \<Rightarrow>
     ('rq, 'sp, 'o, 'o json_handler, 'm, 'o, ('o, 'o) task_local, 'co, 'o) request_inner option \<Rightarrow> 's walk" where
  "request_traverse locked v slf =
     (case slf of
        None \<Rightarrow> walk_ok
      | Some i \<Rightarrow>
          walk_then (case ri_headers i of Some (ReqPyHeaders n) \<Rightarrow> v (PyHeaders n) | _ \<Rightarrow> walk_ok)
         (walk_then (visit_opt (\<lambda>x. v (PyObj x)) (rd_extensions (request i)))
         (walk_then (visit_opt (next_traverse v) (middlewares_next i))
            (case ri_body i of
               Some (ReqBody bd) \<Rightarrow> body_traverse locked v bd
             | Some (ReqPyBody n) \<Rightarrow> v (PyBody n)
             | None \<Rightarrow> walk_ok))))"

definition request_clear :: "'i option \<Rightarrow> 'i option" where
  "request_clear slf = None"

definition headers_refs :: "'m req_headers \<Rightarrow> 'o py_ref list" where
  "headers_refs h = (case h of ReqHeaders _ \<Rightarrow> [] | ReqPyHeaders n \<Rightarrow> [PyHeaders n])"

definition req_body_seen :: "bool \<Rightarrow> ('o, ('o, 'o) task_local, 'co) req_body \<Rightarrow> 'o py_ref list" where
  "req_body_seen locked b = (case b of ReqBody bd \<Rightarrow> body_seen locked bd | ReqPyBody n \<Rightarrow> [PyBody n])"

definition request_seen ::
    "bool \<Rightarrow> ('rq, 'sp, 'o, 'o json_handler, 'm, 'o, ('o, 'o) task_local, 'co, 'o) request_inner \<Rightarrow> 'o py_ref list" where
  "request_seen locked i =
     of_opt headers_refs (ri_headers i) @ of_opt (\<lambda>x. [PyObj x]) (rd_extensions (request i)) @
     of_opt next_refs (middlewares_next i) @ of_opt (req_body_seen locked) (ri_body i)"

lemma request_traverse_seen [walk_simps]:
  "request_traverse locked v slf = visit_each v (of_opt (request_seen locked) slf)"
  by (simp add: request_traverse_def request_seen_def headers_refs_def req_body_seen_def visit_opt_def walk_simps
      split: option.split req_headers.split req_body.split)

definition stream_request_traverse :: "('o, 's) py_visit \<Rightarrow> stream_request \<Rightarrow> 's walk" where
  "stream_request_traverse v slf = (case slf of None \<Rightarrow> walk_ok | Some resp \<Rightarrow> v (PyResponse resp))"

definition stream_request_clear :: "stream_request \<Rightarrow> stream_request" where
  "stream_request_clear slf = None"

text \<open>What a request and a builder refer to, and what they do not visit of it.\<close>

definition builder_refs ::
    "('co \<Rightarrow> 'o py_ref list) \<Rightarrow>
     ('rb, 'sp, 'm, 'o, ('o, 'o) task_local, 'co, 'o, 'o, 'o) request_builder \<Rightarrow> 'o py_ref list" where
  "builder_refs wr b =
     of_opt (\<lambda>x. [PyObj x]) (b_extensions b) @ of_opt next_refs (b_middlewares_next b) @
     of_opt json_refs (b_json_handler b) @ of_opt (\<lambda>bb. body_refs wr (any_body bb)) (b_body b)"

definition req_body_refs :: "('co \<Rightarrow> 'o py_ref list) \<Rightarrow> ('o, ('o, 'o) task_local, 'co) req_body \<Rightarrow> 'o py_ref list" where
  "req_body_refs wr b = (case b of ReqBody bd \<Rightarrow> body_refs wr bd | ReqPyBody n \<Rightarrow> [PyBody n])"

definition req_body_missed ::
    "('co \<Rightarrow> 'o py_ref list) \<Rightarrow> bool \<Rightarrow> ('o, ('o, 'o) task_local, 'co) req_body \<Rightarrow> 'o py_ref list" where
  "req_body_missed wr locked b = (case b of ReqBody bd \<Rightarrow> body_missed wr locked bd | ReqPyBody _ \<Rightarrow> [])"

definition request_refs ::
    "('co \<Rightarrow> 'o py_ref list) \<Rightarrow>
     ('rq, 'sp, 'o, 'o json_handler, 'm, 'o, ('o, 'o) task_local, 'co, 'o) request_inner \<Rightarrow> 'o py_ref list" where
  "request_refs wr i =
     of_opt json_refs (rd_json_handler (request i)) @ of_opt (\<lambda>x. [PyObj x]) (rd_extensions (request i)) @
     of_opt (req_body_refs wr) (ri_body i) @ of_opt headers_refs (ri_headers i) @
     of_opt next_refs (middlewares_next i) @ of_opt task_local_refs (lazy_task_local i)"

definition request_missed ::
    "('co \<Rightarrow> 'o py_ref list) \<Rightarrow> bool \<Rightarrow>
     ('rq, 'sp, 'o, 'o json_handler, 'm, 'o, ('o, 'o) task_local, 'co, 'o) request_inner \<Rightarrow> 'o py_ref list" where
  "request_missed wr locked i =
     of_opt json_refs (rd_json_handler (request i)) @ of_opt task_local_refs (lazy_task_local i) @
     of_opt (req_body_missed wr locked) (ri_body i)"

lemma builder_seen_missed:
  "mset (builder_refs wr b) =
     mset (builder_seen locked b) + mset (of_opt (\<lambda>bb. body_missed wr locked (any_body bb)) (b_body b))"
  by (simp add: builder_refs_def builder_seen_def of_opt_def body_seen_missed [of wr _ locked] split: option.split)

lemma request_seen_missed: "mset (request_refs wr i) = mset (request_seen locked i) + mset (request_missed wr locked i)"
  by (simp add: request_refs_def request_seen_def request_missed_def req_body_refs_def req_body_seen_def
      req_body_missed_def of_opt_def body_seen_missed [of wr _ locked] split: option.split req_body.split)

lemma builder_clear_refs: "builder_refs wr (builder_clear b) = []"
  by (simp add: builder_refs_def builder_clear_def)

subsection \<open>Responses\<close>

text \<open>
  A response visits neither its JSON handler nor the reader object it has handed out, and it has no
  \<open>__clear__\<close>. The contexts of the JSON callbacks hold what they were made of.
\<close>

definition response_traverse :: "('o, 's) py_visit \<Rightarrow> ('r, 'm, 'st, 'o, 'o) response \<Rightarrow> 's walk" where
  "response_traverse v slf =
     (case resp_ref_inner slf of
        Inl _ \<Rightarrow> walk_ok
      | Inr i \<Rightarrow>
          walk_then (case headers_field i of RespPyHeaders n \<Rightarrow> v (PyHeaders n) | RespHeaders _ \<Rightarrow> walk_ok)
            (case extensions_field i of RespPyExtensions x \<Rightarrow> v (PyObj x) | RespExtensions _ \<Rightarrow> walk_ok))"

definition loads_context_traverse :: "('o, 's) py_visit \<Rightarrow> nat \<Rightarrow> nat \<Rightarrow> 'o \<Rightarrow> 's walk" where
  "loads_context_traverse v body_reader headers extensions =
     walk_then (v (PyReaderObj body_reader)) (walk_then (v (PyHeaders headers)) (v (PyObj extensions)))"

definition dumps_context_traverse :: "('o, 's) py_visit \<Rightarrow> 'o \<Rightarrow> 's walk" where
  "dumps_context_traverse v data = v (PyObj data)"

definition resp_headers_refs :: "'m resp_headers \<Rightarrow> 'o py_ref list" where
  "resp_headers_refs h = (case h of RespHeaders _ \<Rightarrow> [] | RespPyHeaders n \<Rightarrow> [PyHeaders n])"

text \<open>The dictionary may be in the extensions of the crate, before it was asked for.\<close>

definition resp_extensions_refs :: "'o resp_extensions \<Rightarrow> 'o py_ref list" where
  "resp_extensions_refs x = (case x of RespExtensions e \<Rightarrow> of_opt (\<lambda>d. [PyObj d]) e | RespPyExtensions d \<Rightarrow> [PyObj d])"

definition response_seen :: "('r, 'm, 'st, 'o, 'o) resp_inner \<Rightarrow> 'o py_ref list" where
  "response_seen i = resp_headers_refs (headers_field i) @
     (case extensions_field i of RespExtensions _ \<Rightarrow> [] | RespPyExtensions d \<Rightarrow> [PyObj d])"

definition reader_refs :: "'r resp_reader \<Rightarrow> 'o py_ref list" where
  "reader_refs r = (case r of Reader _ \<Rightarrow> [] | PyReader n \<Rightarrow> [PyReaderObj n])"

definition response_refs :: "('r, 'm, 'st, 'o, 'o) resp_inner \<Rightarrow> 'o py_ref list" where
  "response_refs i = resp_headers_refs (headers_field i) @ resp_extensions_refs (extensions_field i) @
     of_opt reader_refs (body_reader_field i) @ of_opt json_refs (resp_json_handler i)"

definition response_missed :: "('r, 'm, 'st, 'o, 'o) resp_inner \<Rightarrow> 'o py_ref list" where
  "response_missed i =
     (case extensions_field i of RespExtensions e \<Rightarrow> of_opt (\<lambda>d. [PyObj d]) e | RespPyExtensions _ \<Rightarrow> []) @
     of_opt reader_refs (body_reader_field i) @ of_opt json_refs (resp_json_handler i)"

lemma response_traverse_seen [walk_simps]: "response_traverse v slf = visit_each v (of_opt response_seen slf)"
  by (cases slf) (simp_all add: response_traverse_def resp_ref_inner_def response_seen_def resp_headers_refs_def walk_simps
      split: resp_headers.split resp_extensions.split)

lemma response_seen_missed: "mset (response_refs i) = mset (response_seen i) + mset (response_missed i)"
  by (simp add: response_refs_def response_seen_def response_missed_def resp_extensions_refs_def
      split: resp_extensions.split)

definition rsb_traverse ::
    "bool \<Rightarrow> ('o, 's) py_visit \<Rightarrow> ('m, 'st, 'o, 'o, ('o, 'o) task_local, 'co) response_builder \<Rightarrow> 's walk" where
  "rsb_traverse locked v b =
     walk_then (visit_opt (\<lambda>x. v (PyObj x)) (rsb_extensions b)) (visit_opt (body_traverse locked v) (rsb_body b))"

definition rsb_clear :: "('m, 'st, 'x, 'o, 'tl, 'co) response_builder \<Rightarrow> ('m, 'st, 'x, 'o, 'tl, 'co) response_builder" where
  "rsb_clear b = b\<lparr>rsb_body := None, rsb_extensions := None\<rparr>"

lemma rsb_traverse_seen [walk_simps]:
  "rsb_traverse locked v b =
     visit_each v (of_opt (\<lambda>x. [PyObj x]) (rsb_extensions b) @ of_opt (body_seen locked) (rsb_body b))"
  by (simp add: rsb_traverse_def visit_opt_def walk_simps split: option.split)

subsection \<open>Clients\<close>

definition client_traverse :: "('o, 's) py_visit \<Rightarrow> ('cl, 'u, 'o, 'o, 'm) client \<Rightarrow> 's walk" where
  "client_traverse v c =
     walk_then (visit_opt (\<lambda>mws. visit_each (\<lambda>mw. v (PyObj mw)) (arc_val mws)) (cl_middlewares c))
       (visit_opt (json_traverse v) (cl_json_handler c))"

definition client_builder_traverse :: "('o, 's) py_visit \<Rightarrow> ('cb, 'o, 'o, 'm, 'u) client_builder \<Rightarrow> 's walk" where
  "client_builder_traverse v b =
     walk_then (visit_opt (visit_each (\<lambda>mw. v (PyObj mw))) (cb_middlewares b))
       (visit_opt (json_traverse v) (cb_json_handler b))"

definition client_builder_clear :: "('cb, 'mw, 'f, 'm, 'u) client_builder \<Rightarrow> ('cb, 'mw, 'f, 'm, 'u) client_builder" where
  "client_builder_clear b = b\<lparr>cb_middlewares := None, cb_json_handler := None\<rparr>"

definition client_seen :: "('cl, 'u, 'o, 'o, 'm) client \<Rightarrow> 'o py_ref list" where
  "client_seen c = of_opt (\<lambda>mws. map PyObj (arc_val mws)) (cl_middlewares c) @ of_opt json_refs (cl_json_handler c)"

lemma client_traverse_seen [walk_simps]:
  "client_traverse v c = visit_each v (client_seen c)"
  "client_builder_traverse v b =
     visit_each v (of_opt (map PyObj) (cb_middlewares b) @ of_opt json_refs (cb_json_handler b))"
  by (simp_all add: client_traverse_def client_builder_traverse_def client_seen_def visit_opt_def walk_simps split: option.split)

subsection \<open>The bridge to a coroutine\<close>

definition bridge_inner_traverse :: "('o, 's) py_visit \<Rightarrow> ('o, 'o, 'o, 'p, 'a) bridge \<Rightarrow> 's walk" where
  "bridge_inner_traverse v b =
     walk_then (visit_opt (\<lambda>x. v (PyObj x)) (br_coro b))
       (walk_then (visit_opt (\<lambda>x. v (PyObj x)) (br_event_loop b)) (visit_opt (\<lambda>x. v (PyObj x)) (br_task b)))"

definition bridge_inner_clear :: "('co, 'lp, 'tk, 'p, 'a) bridge \<Rightarrow> ('co, 'lp, 'tk, 'p, 'a) bridge" where
  "bridge_inner_clear b = b\<lparr>br_coro := None, br_event_loop := None, br_task := None\<rparr>"

text \<open>The object has a mutex around it, which both hooks only try to lock.\<close>

definition bridge_traverse :: "bool \<Rightarrow> ('o, 's) py_visit \<Rightarrow> ('o, 'o, 'o, 'p, 'a) bridge \<Rightarrow> 's walk" where
  "bridge_traverse locked v b = (if locked then walk_ok else bridge_inner_traverse v b)"

definition bridge_clear :: "bool \<Rightarrow> ('co, 'lp, 'tk, 'p, 'a) bridge \<Rightarrow> ('co, 'lp, 'tk, 'p, 'a) bridge" where
  "bridge_clear locked b = (if locked then b else bridge_inner_clear b)"

lemma bridge_hooks [walk_simps]:
  "bridge_traverse locked v b = visit_each v (if locked then [] else
     of_opt (\<lambda>x. [PyObj x]) (br_coro b) @ of_opt (\<lambda>x. [PyObj x]) (br_event_loop b) @ of_opt (\<lambda>x. [PyObj x]) (br_task b))"
  "bridge_traverse locked v (bridge_clear False b) = walk_ok"
  by (simp_all add: bridge_traverse_def bridge_clear_def bridge_inner_traverse_def bridge_inner_clear_def visit_opt_def walk_simps split: option.split)

subsection \<open>What the collector counts\<close>

text \<open>The visitor that counts the visits of each object, and never fails.\<close>

definition count_visit :: "('o, 'o py_ref multiset) py_visit" where
  "count_visit r s = (0, add_mset r s)"

definition visited :: "'o py_ref multiset walk \<Rightarrow> 'o py_ref multiset" where
  "visited w = snd (w {#})"

lemma visited_each [simp]: "visited (visit_each count_visit xs) = mset xs"
proof -
  have "visit_each count_visit xs s = (0, s + mset xs)" for s
    by (induction xs arbitrary: s) (simp_all add: walk_ok_def walk_then_def count_visit_def)
  then show ?thesis by (simp add: visited_def)
qed

lemma visited_ok [simp]: "visited walk_ok = {#}"
  by (simp add: visited_def walk_ok_def)

lemmas traverse_seen = request_traverse_seen response_traverse_seen builder_traverse_seen client_traverse_seen

text \<open>A visit that fails ends the traversal: what comes after it is not visited.\<close>

lemma visit_stops:
  assumes "\<And>y s. y \<in> set xs \<Longrightarrow> fst (v y s) = 0" and "\<And>s. fst (v x s) \<noteq> 0"
  shows "visit_each v (xs @ x # ys) s = visit_each v (xs @ [x]) s"
  using assms(1)
proof (induction xs arbitrary: s)
  case Nil
  obtain r s' where v: "v x s = (r, s')" by fastforce
  then have "r \<noteq> 0" using assms(2) [of s] by simp
  then show ?case by (simp add: walk_then_def walk_ok_def v)
next
  case (Cons z zs)
  then show ?case by (simp add: walk_then_def split: prod.split)
qed

text \<open>
  The visits of a request, a response and a request builder, beside the Python references each
  holds. A request misses its JSON handler, the task local it keeps and, like a builder, the waiter of its
  body and everything of a body that is being polled; a response misses its JSON handler and the
  reader object it handed out. An object that is reached only that way is not visited at all, so the
  collector never finds a cycle through it. After \<open>__clear__\<close> nothing is visited, and a builder holds
  no reference.
\<close>

theorem collector_hooks_spec:
  "visited (request_traverse locked count_visit (Some i)) + mset (request_missed wr locked i) = mset (request_refs wr i) \<and>
   visited (response_traverse count_visit (Some r)) + mset (response_missed r) = mset (response_refs r) \<and>
   visited (builder_traverse locked count_visit b) +
     mset (of_opt (\<lambda>bb. body_missed wr locked (any_body bb)) (b_body b)) = mset (builder_refs wr b) \<and>
   visited (request_traverse locked count_visit (request_clear slf)) = {#} \<and>
   visited (builder_traverse locked count_visit (builder_clear b)) = {#} \<and> builder_refs wr (builder_clear b) = []"
  by (simp add: traverse_seen request_seen_missed [of wr i locked] response_seen_missed
      builder_seen_missed [of wr b locked] builder_clear_refs request_clear_def)
     (simp add: builder_clear_def builder_seen_def)

subsection \<open>The shared vector of middlewares\<close>

text \<open>
  The Python references a client and request builders hold. A vector behind an \<open>Arc\<close> is there once, whoever has
  the \<open>Arc\<close>: it counts once for each address. Everything else an object holds is its own.
\<close>

definition next_arcs :: "'o next_inner \<Rightarrow> 'o list arc list" where
  "next_arcs n = of_opt (\<lambda>mws. [mws]) (middlewares n)"

definition next_own :: "'o next_inner \<Rightarrow> 'o py_ref list" where
  "next_own n = of_opt (map PyObj) (override_middlewares n)"

definition builder_arcs ::
    "('rb, 'sp, 'm, 'o, ('o, 'o) task_local, 'co, 'o, 'o, 'o) request_builder \<Rightarrow> 'o list arc list" where
  "builder_arcs b = of_opt next_arcs (b_middlewares_next b)"

definition builder_own ::
    "('co \<Rightarrow> 'o py_ref list) \<Rightarrow>
     ('rb, 'sp, 'm, 'o, ('o, 'o) task_local, 'co, 'o, 'o, 'o) request_builder \<Rightarrow> 'o py_ref list" where
  "builder_own wr b =
     of_opt (\<lambda>x. [PyObj x]) (b_extensions b) @ of_opt next_own (b_middlewares_next b) @
     of_opt json_refs (b_json_handler b) @ of_opt (\<lambda>bb. body_refs wr (any_body bb)) (b_body b)"

definition shared_refs :: "'o list arc list \<Rightarrow> 'o py_ref multiset" where
  "shared_refs as = (\<Sum>a\<leftarrow>remdups as. mset (map PyObj (arc_val a)))"

definition references ::
    "('co \<Rightarrow> 'o py_ref list) \<Rightarrow> ('cl, 'u, 'o, 'o, 'm) client \<Rightarrow>
     ('rb, 'sp, 'm, 'o, ('o, 'o) task_local, 'co, 'o, 'o, 'o) request_builder list \<Rightarrow> 'o py_ref multiset" where
  "references wr c bs =
     mset (of_opt json_refs (cl_json_handler c)) + (\<Sum>b\<leftarrow>bs. mset (builder_own wr b)) +
     shared_refs (of_opt (\<lambda>mws. [mws]) (cl_middlewares c) @ concat (map builder_arcs bs))"

lemma shared_refs_same: "set as \<subseteq> {a} \<Longrightarrow> shared_refs (a # as) = mset (map PyObj (arc_val a))"
proof -
  assume as: "set as \<subseteq> {a}"
  have "distinct (remdups (a # as))" "set (remdups (a # as)) = {a}" using as by auto
  then have "remdups (a # as) = [a]"
    by (metis distinct_length_2_or_more list.set_intros(1) list.set_intros(2) neq_Nil_conv set_empty2 singletonD insert_not_empty)
  then show ?thesis by (simp add: shared_refs_def)
qed

lemma builder_of_client_seen:
  assumes "create_request_builder U B mk fresh c me ob blocking = Inr b" and "cl_middlewares c = Some mws"
  shows "builder_seen locked b = map PyObj (arc_val mws) @ of_opt json_refs (cl_json_handler c)"
    and "builder_arcs b = [mws]" and "builder_own wr b = of_opt json_refs (cl_json_handler c)"
    and "builder_seen locked (snd (inner_with_middleware ptr mw b)) =
      map PyObj (arc_val mws @ [mw]) @ of_opt json_refs (cl_json_handler c)"
    and "builder_arcs (snd (inner_with_middleware ptr mw b)) = []"
    and "builder_own wr (snd (inner_with_middleware ptr mw b)) =
      map PyObj (arc_val mws @ [mw]) @ of_opt json_refs (cl_json_handler c)"
proof -
  from assms obtain n where n: "b_middlewares_next b = Some n" "middlewares n = Some mws" "override_middlewares n = None"
    and b: "b_extensions b = None" "b_body b = None" "b_json_handler b = cl_json_handler c"
    by (elim create_request_builder_InrE)
       (auto simp: init_middleware_next_def next_inner_new_def request_builder_new_def split: if_splits)
  note defs = builder_seen_def next_refs_def builder_arcs_def next_arcs_def builder_own_def next_own_def
    inner_with_middleware_def add_middleware_def Let_def
  show "builder_seen locked b = map PyObj (arc_val mws) @ of_opt json_refs (cl_json_handler c)"
    and "builder_arcs b = [mws]" and "builder_own wr b = of_opt json_refs (cl_json_handler c)"
    and "builder_seen locked (snd (inner_with_middleware ptr mw b)) =
      map PyObj (arc_val mws @ [mw]) @ of_opt json_refs (cl_json_handler c)"
    and "builder_arcs (snd (inner_with_middleware ptr mw b)) = []"
    and "builder_own wr (snd (inner_with_middleware ptr mw b)) =
      map PyObj (arc_val mws @ [mw]) @ of_opt json_refs (cl_json_handler c)"
    using n b by (simp_all add: defs)
qed

text \<open>
  C37. A client and the builders made from it have the same \<open>Arc\<close> and so share one vector with one
  reference to each middleware, but each of them visits it: the collector counts, beside every reference
  there is, one visit more of each middleware per builder, so it takes that many references from outside for
  references from inside. A builder with a middleware added has copied the references into a vector of its
  own, and then the visits are exactly the references.
\<close>

theorem shared_chain_overcounted:
  assumes "cl_middlewares c = Some chain"
    and "\<forall>b\<in>set bs. \<exists>fresh me ob blocking. create_request_builder U B mk fresh c me ob blocking = Inr b"
  shows "visited (client_traverse count_visit c) + (\<Sum>b\<leftarrow>bs. visited (builder_traverse locked count_visit b)) =
      references wr c bs + repeat_mset (length bs) (mset (map PyObj (arc_val chain))) \<and>
    (\<forall>b\<in>set bs. visited (client_traverse count_visit c) +
        visited (builder_traverse locked count_visit (snd (inner_with_middleware ptr mw b))) =
      references wr c [snd (inner_with_middleware ptr mw b)])"
proof
  let ?json = "mset (of_opt json_refs (cl_json_handler c))"
  let ?mws = "mset (map PyObj (arc_val chain))"
  have "(\<Sum>b\<leftarrow>bs. visited (builder_traverse locked count_visit b)) = repeat_mset (length bs) (?mws + ?json) \<and>
      (\<Sum>b\<leftarrow>bs. mset (builder_own wr b)) = repeat_mset (length bs) ?json \<and> set (concat (map builder_arcs bs)) \<subseteq> {chain}"
    using assms(2)
  proof (induction bs)
    case (Cons b bs)
    then show ?case by (auto simp: traverse_seen builder_of_client_seen(1-3) [OF _ assms(1)])
  qed simp
  then show "visited (client_traverse count_visit c) + (\<Sum>b\<leftarrow>bs. visited (builder_traverse locked count_visit b)) =
      references wr c bs + repeat_mset (length bs) ?mws"
    by (simp add: traverse_seen client_seen_def references_def assms(1) shared_refs_same)
next
  show "\<forall>b\<in>set bs. visited (client_traverse count_visit c) +
        visited (builder_traverse locked count_visit (snd (inner_with_middleware ptr mw b))) =
      references wr c [snd (inner_with_middleware ptr mw b)]"
  proof
    fix b assume "b \<in> set bs"
    with assms(2) obtain fresh me ob blocking where
      b: "create_request_builder U B mk fresh c me ob blocking = Inr b" by blast
    show "visited (client_traverse count_visit c) +
        visited (builder_traverse locked count_visit (snd (inner_with_middleware ptr mw b))) =
      references wr c [snd (inner_with_middleware ptr mw b)]"
      by (simp add: traverse_seen client_seen_def references_def assms(1) shared_refs_def
          builder_of_client_seen(4-6) [OF b assms(1)])
  qed
qed

text \<open>Two references to the middlewares 8 and 9, and four visits.\<close>

theorem shared_chain_overcounted_witness:
  "\<exists>b :: ((flat_map, bytes) plain_request, nat spawner_data, flat_map, nat, (nat, nat) task_local, nat, nat, nat, nat) request_builder.
     create_request_builder demo_urls plain_rb demo_mk 4 demo_client ''GET'' ''u'' True = Inr b \<and>
     references (\<lambda>_. []) demo_client [b] = {#PyObj 8, PyObj 9#} \<and>
     visited (client_traverse count_visit demo_client) + visited (builder_traverse False count_visit b) =
       {#PyObj 8, PyObj 9, PyObj 8, PyObj 9#}"
proof -
  obtain b :: "((flat_map, bytes) plain_request, nat spawner_data, flat_map, nat, (nat, nat) task_local, nat, nat, nat, nat) request_builder"
    where b: "create_request_builder demo_urls plain_rb demo_mk 4 demo_client ''GET'' ''u'' True = Inr b"
    by (simp add: create_request_builder_def request_url_def demo_client_def demo_urls_def
        init_middleware_next_def next_inner_new_def set_timeout_def builder_apply_def apply_opt_def request_builder_new_def)
  have c: "cl_middlewares demo_client = Some (Arc 5 [8, 9])" "cl_json_handler demo_client = None"
    by (simp_all add: demo_client_def)
  have bs: "\<forall>b'\<in>set [b]. \<exists>fresh me ob blocking.
      create_request_builder demo_urls plain_rb demo_mk fresh demo_client me ob blocking = Inr b'"
    using b by auto
  have refs: "references (\<lambda>_. []) demo_client [b] = {#PyObj 8, PyObj 9#}"
    by (simp add: references_def c shared_refs_same builder_of_client_seen(2,3) [OF b c(1)])
  have "visited (client_traverse count_visit demo_client) + visited (builder_traverse False count_visit b) =
      {#PyObj 8, PyObj 9, PyObj 8, PyObj 9#}"
    using conjunct1 [OF shared_chain_overcounted [OF c(1) bs, of False "\<lambda>_. []" 7 6]] by (simp add: refs)
  then show ?thesis using b refs by (intro exI [of _ b] conjI)
qed

end
