(* ===== verification/Request_Heap.thy ===== *)
theory Request_Heap
  imports One_Off Request_Properties
begin

section \<open>The heap of requests\<close>

text \<open>
  The objects that requests share with Python, under any sequence of operations: every address a
  request refers to is allocated, and no two requests refer to the same headers object. Bodies, in
  contrast, can be shared.
\<close>

subsection \<open>References of requests\<close>

definition hdr_ref :: "('w, 'rq, 'sp, 'x, 'j, 'm, 'o, 'tl, 'co, 'mw) heap \<Rightarrow> nat \<Rightarrow> nat option" where
  "hdr_ref hp a = (case requests hp a of
     Some i \<Rightarrow> (case ri_headers i of Some (ReqPyHeaders n) \<Rightarrow> Some n | _ \<Rightarrow> None) | None \<Rightarrow> None)"

definition body_ref :: "('w, 'rq, 'sp, 'x, 'j, 'm, 'o, 'tl, 'co, 'mw) heap \<Rightarrow> nat \<Rightarrow> nat option" where
  "body_ref hp a = (case requests hp a of
     Some i \<Rightarrow> (case ri_body i of Some (ReqPyBody n) \<Rightarrow> Some n | _ \<Rightarrow> None) | None \<Rightarrow> None)"

definition heap_ok :: "('w, 'rq, 'sp, 'x, 'j, 'm, 'o, 'tl, 'co, 'mw) heap \<Rightarrow> bool" where
  "heap_ok hp \<longleftrightarrow>
     (\<forall>a n. hdr_ref hp a = Some n \<longrightarrow> n < hnext hp) \<and> (\<forall>a n. body_ref hp a = Some n \<longrightarrow> n < bnext hp) \<and>
     (\<forall>a b n. hdr_ref hp a = Some n \<longrightarrow> hdr_ref hp b = Some n \<longrightarrow> a = b)"

text \<open>
  What an operation on the request at \<open>a\<close> may do: it gives up its headers object, keeps it, or gets a
  new one; its body object is any that is allocated.
\<close>

definition heap_change ::
    "nat \<Rightarrow> ('w, 'rq, 'sp, 'x, 'j, 'm, 'o, 'tl, 'co, 'mw) heap \<Rightarrow>
     ('w, 'rq, 'sp, 'x, 'j, 'm, 'o, 'tl, 'co, 'mw) heap \<Rightarrow> bool" where
  "heap_change a hp hp' \<longleftrightarrow>
     hnext hp \<le> hnext hp' \<and> bnext hp \<le> bnext hp' \<and>
     (\<forall>b. b \<noteq> a \<longrightarrow> requests hp' b = requests hp b) \<and>
     (hdr_ref hp' a = None \<or> hdr_ref hp' a = hdr_ref hp a \<or>
       hdr_ref hp' a = Some (hnext hp) \<and> hnext hp < hnext hp') \<and>
     (\<forall>n. body_ref hp' a = Some n \<longrightarrow> body_ref hp a = Some n \<or> n < bnext hp')"

lemma heap_change_ok:
  assumes ok: "heap_ok hp" and ch: "heap_change a hp hp'"
  shows "heap_ok hp'"
proof -
  have refs: "hdr_ref hp' b = hdr_ref hp b" "body_ref hp' b = body_ref hp b" if "b \<noteq> a" for b
    using ch that by (simp_all add: heap_change_def hdr_ref_def body_ref_def)
  have grow: "hnext hp \<le> hnext hp'" "bnext hp \<le> bnext hp'" using ch by (simp_all add: heap_change_def)
  have lt: "n < hnext hp" if "hdr_ref hp b = Some n" for b n using ok that by (simp add: heap_ok_def)
  have new: "n < hnext hp' \<and> (hdr_ref hp a = Some n \<or> n = hnext hp)" if "hdr_ref hp' a = Some n" for n
  proof -
    have "hdr_ref hp a = Some n \<or> n = hnext hp \<and> hnext hp < hnext hp'" using ch that by (auto simp: heap_change_def)
    with lt [of a n] grow(1) show ?thesis by auto
  qed
  have h: "n < hnext hp'" if "hdr_ref hp' b = Some n" for b n
    using that new lt grow(1) refs(1) [of b] by (cases "b = a") (auto dest: less_le_trans)
  have b: "n < bnext hp'" if "body_ref hp' b = Some n" for b n
  proof -
    have "body_ref hp b = Some n \<or> n < bnext hp'" using ch that refs(2) [of b] by (cases "b = a") (auto simp: heap_change_def)
    moreover have "n < bnext hp" if "body_ref hp b = Some n" using ok that by (simp add: heap_ok_def)
    ultimately show ?thesis using grow(2) by auto
  qed
  have old: "hdr_ref hp b = Some n \<or> b = a \<and> n = hnext hp" if "hdr_ref hp' b = Some n" for b n
    using that new refs(1) [of b] by (cases "b = a") auto
  have "b = c" if "hdr_ref hp' b = Some n" "hdr_ref hp' c = Some n" for b c n
    using old [OF that(1)] old [OF that(2)] lt ok by (auto simp: heap_ok_def)
  with h b show ?thesis by (auto simp: heap_ok_def)
qed

lemma heap_change_refl: "heap_change a hp hp"
  by (simp add: heap_change_def)

lemma heap_change_interp [simp]:
  "heap_change a hp (hp'\<lparr>interp := w\<rparr>) = heap_change a hp hp'"
  "heap_change a hp (hp'\<lparr>rbodies := f\<rparr>) = heap_change a hp hp'"
  "heap_change a hp (hp'\<lparr>hmaps := g\<rparr>) = heap_change a hp hp'"
  by (simp_all add: heap_change_def hdr_ref_def body_ref_def)

subsection \<open>The operations\<close>

lemma put_change:
  assumes "requests hp a = Some i"
    and "ri_headers i' = ri_headers i" "ri_body i' = ri_body i"
  shows "heap_change a hp (put_request a (Some i') hp)"
  using assms by (simp add: heap_change_def hdr_ref_def body_ref_def put_request_def)

lemma attribute_changes:
  "heap_change a hp (snd (set_method R me a hp))" "heap_change a hp (snd (set_url R u a hp))"
  "heap_change a hp (snd (set_extensions x a hp))" "heap_change a hp (snd (get_extensions new_dict a hp))"
  by (auto simp: set_method_def set_url_def set_extensions_def get_extensions_def request_ref_inner_def upd_reqwest_def
      heap_change_def hdr_ref_def body_ref_def put_request_def split: sum.split option.split prod.split)

lemma get_headers_change: "heap_change a hp (snd (get_headers R a hp))"
  by (auto simp: get_headers_def request_ref_inner_def heap_change_def hdr_ref_def body_ref_def put_request_def
      new_hmap_def split: sum.split option.split prod.split req_headers.split)

lemma set_headers_attr_change: "heap_change a hp (snd (set_headers_attr h a hp))"
  by (auto simp: set_headers_attr_def request_ref_inner_def heap_change_def hdr_ref_def body_ref_def put_request_def
      new_hmap_def split: sum.split option.split)

lemma get_body_change: "heap_change a hp (snd (get_body a hp))"
  by (auto simp: get_body_def request_ref_inner_def heap_change_def hdr_ref_def body_ref_def put_request_def
      new_body_def split: sum.split option.split prod.split req_body.split)

lemma set_body_change: "\<forall>n. b = Some n \<longrightarrow> n < bnext hp \<Longrightarrow> heap_change a hp (snd (set_body b a hp))"
  by (auto simp: set_body_def request_ref_inner_def heap_change_def hdr_ref_def body_ref_def put_request_def
      split: sum.split option.split)

lemma prepare_nexts:
  "prepare_body cur blk b lazy hp = (r, hp') \<Longrightarrow> hnext hp' = hnext hp \<and> bnext hp' = bnext hp"
  "prepare_headers h hp = (r', hp'') \<Longrightarrow> hnext hp'' = hnext hp \<and> bnext hp'' = bnext hp"
  by (auto simp: prepare_body_def prepare_headers_def
      split: option.splits req_body.splits req_headers.splits prod.splits sum.splits)

lemma prepare_spawn_change: "heap_change a hp (snd (prepare_spawn_request R cur blk a hp))"
proof -
  have "hnext (snd (prepare_spawn_request R cur blk a hp)) = hnext hp \<and>
    bnext (snd (prepare_spawn_request R cur blk a hp)) = bnext hp"
    by (auto simp: prepare_spawn_request_def Let_def request_take_inner_def put_request_def
        dest!: prepare_nexts split: prod.split sum.split)
  then show ?thesis by (simp add: heap_change_def prepare_spends hdr_ref_def body_ref_def)
qed

lemma inner_set_task_local_change:
  assumes "requests hp a = Some i" and "inner_set_task_local cur a i hp = (r, hp')"
  shows "\<exists>i'. requests hp' = (requests hp)(a := Some i') \<and> ri_headers i' = ri_headers i \<and>
    (\<forall>n. ri_body i' = Some (ReqPyBody n) \<longrightarrow> ri_body i = Some (ReqPyBody n)) \<and>
    (\<forall>j. r = Inr j \<longrightarrow> j = i') \<and> hnext hp' = hnext hp \<and> bnext hp' = bnext hp"
  using assms
  by (auto simp: inner_set_task_local_def Let_def put_request_def fun_upd_idem elim!: map_res_InrE
      split: option.splits req_body.splits prod.splits)

lemma take_chain_change: "heap_change a hp (snd (take_chain cur needs_local a hp))"
proof (cases "requests hp a")
  case None
  then show ?thesis by (simp add: take_chain_def request_ref_inner_def heap_change_refl)
next
  case (Some i)
  obtain r hp1 where t: "inner_set_task_local cur a i hp = (r, hp1)" by fastforce
  from inner_set_task_local_change [OF Some t] obtain i' where
    i': "requests hp1 = (requests hp)(a := Some i')" "ri_headers i' = ri_headers i"
      "\<forall>n. ri_body i' = Some (ReqPyBody n) \<longrightarrow> ri_body i = Some (ReqPyBody n)" "\<forall>j. r = Inr j \<longrightarrow> j = i'"
    and nx: "hnext hp1 = hnext hp" "bnext hp1 = bnext hp" by blast
  have "heap_change a hp hp2" if "requests hp2 = (requests hp)(a := Some i2)" "ri_headers i2 = ri_headers i'"
      "ri_body i2 = ri_body i'" "hnext hp2 = hnext hp" "bnext hp2 = bnext hp" for hp2 i2
    using that i' Some
    by (auto simp: heap_change_def hdr_ref_def body_ref_def split: option.splits req_body.splits)
  with i' nx Some t show ?thesis
    by (auto simp: take_chain_def request_ref_inner_def bind_eff_def Let_def put_request_def
        split: sum.split option.split prod.split)
qed

lemma clone_nexts:
  assumes "try_clone_inner R copy_dict clone_spawner SE bo a hp = (r, hp')"
  shows "requests hp' = requests hp" "hnext hp' = hnext hp" "bnext hp' = bnext hp"
    "r = Inr i \<Longrightarrow> ri_headers i \<noteq> Some (ReqPyHeaders n)"
    "r = Inr i \<Longrightarrow> ri_body i = Some (ReqPyBody n) \<Longrightarrow> bo = Some n"
  using assms
  by (auto simp: try_clone_inner_def request_ref_inner_def try_clone_body_def try_clone_headers_def elim!: map_res_InrE
      split: sum.splits option.splits prod.splits req_body.splits req_headers.splits)

lemma clone_change:
  assumes "requests hp fresh = None" and "\<forall>n. bo = Some n \<longrightarrow> n < bnext hp"
  shows "heap_change fresh hp (snd (bind_eff (try_clone_inner R copy_dict clone_spawner SE bo a) (request_new_py fresh) hp))"
proof -
  obtain r hp' where c: "try_clone_inner R copy_dict clone_spawner SE bo a hp = (r, hp')" by fastforce
  note n = clone_nexts [OF c]
  show ?thesis
  proof (cases r)
    case (Inl e)
    with c n assms show ?thesis by (simp add: bind_eff_def heap_change_def hdr_ref_def body_ref_def)
  next
    case (Inr i)
    with n(4) [of i] n(5) [of i] assms(2) n(1-3) show ?thesis
      by (auto simp: c bind_eff_def request_new_py_def heap_change_def hdr_ref_def body_ref_def put_request_def
          split: option.splits req_headers.splits req_body.splits)
  qed
qed

subsection \<open>Any sequence of operations\<close>

text \<open>
  What Python and the task of a request can do with the heap: make requests, headers and body objects,
  use them, and call the operations of requests. A body given as an argument is an object that exists.
\<close>

inductive heap_step ::
    "('rq, 'm, ('o, 'tl, 'co) reqwest_body, 'me, 'u) reqwest_ops \<Rightarrow> ('w \<Rightarrow> 'tl pyres \<times> 'w) \<Rightarrow> ('w \<Rightarrow> 'x \<times> 'w) \<Rightarrow>
     ('x \<Rightarrow> 'w \<Rightarrow> 'x pyres \<times> 'w) \<Rightarrow> ('sp \<Rightarrow> 'sp) \<Rightarrow> ('w, 'o, 'tl, 'co) stream_env \<Rightarrow>
     ('w, 'rq, 'sp, 'x, 'j, 'm, 'o, 'tl, 'co, 'mw) heap \<Rightarrow>
     ('w, 'rq, 'sp, 'x, 'j, 'm, 'o, 'tl, 'co, 'mw) heap \<Rightarrow> bool"
  for R cur new_dict copy_dict clone_spawner SE where
  new_request: "requests hp a = None \<Longrightarrow>
    heap_step R cur new_dict copy_dict clone_spawner SE hp (snd (request_new_py a (request_new rd b nexts) hp))"
| new_headers: "heap_step R cur new_dict copy_dict clone_spawner SE hp (snd (new_hmap h hp))"
| new_body: "heap_step R cur new_dict copy_dict clone_spawner SE hp (snd (new_body b hp))"
| use_headers: "heap_step R cur new_dict copy_dict clone_spawner SE hp (hp\<lparr>hmaps := (hmaps hp)(n := h)\<rparr>)"
| use_body: "heap_step R cur new_dict copy_dict clone_spawner SE hp (hp\<lparr>rbodies := (rbodies hp)(n := b)\<rparr>)"
| python: "heap_step R cur new_dict copy_dict clone_spawner SE hp (hp\<lparr>interp := w\<rparr>)"
| get_headers: "heap_step R cur new_dict copy_dict clone_spawner SE hp (snd (get_headers R a hp))"
| set_headers: "heap_step R cur new_dict copy_dict clone_spawner SE hp (snd (set_headers_attr h a hp))"
| get_body: "heap_step R cur new_dict copy_dict clone_spawner SE hp (snd (get_body a hp))"
| set_body: "\<forall>n. bo = Some n \<longrightarrow> n < bnext hp \<Longrightarrow>
    heap_step R cur new_dict copy_dict clone_spawner SE hp (snd (set_body bo a hp))"
| set_method: "heap_step R cur new_dict copy_dict clone_spawner SE hp (snd (set_method R me a hp))"
| set_url: "heap_step R cur new_dict copy_dict clone_spawner SE hp (snd (set_url R u a hp))"
| get_extensions: "heap_step R cur new_dict copy_dict clone_spawner SE hp (snd (get_extensions new_dict a hp))"
| set_extensions: "heap_step R cur new_dict copy_dict clone_spawner SE hp (snd (set_extensions x a hp))"
| copy: "requests hp fresh = None \<Longrightarrow>
    heap_step R cur new_dict copy_dict clone_spawner SE hp (snd (request_copy R copy_dict clone_spawner SE fresh a hp))"
| copy_with_body: "requests hp fresh = None \<Longrightarrow> \<forall>n. bo = Some n \<longrightarrow> n < bnext hp \<Longrightarrow>
    heap_step R cur new_dict copy_dict clone_spawner SE hp
      (snd (from_request_and_body R copy_dict clone_spawner SE fresh a bo hp))"
| take_chain: "heap_step R cur new_dict copy_dict clone_spawner SE hp (snd (take_chain cur needs_local a hp))"
| execute: "heap_step R cur new_dict copy_dict clone_spawner SE hp (snd (prepare_spawn_request R cur blk a hp))"

lemma object_changes:
  "heap_change a hp (snd (new_hmap h hp))" "heap_change a hp (snd (new_body b hp))"
  "requests hp a = None \<Longrightarrow> heap_change a hp (snd (request_new_py a (request_new rd bd nexts) hp))"
  by (auto simp: new_hmap_def new_body_def request_new_py_def request_new_def heap_change_def hdr_ref_def body_ref_def
      put_request_def split: option.splits)

lemma heap_step_change: "heap_step R cur new_dict copy_dict clone_spawner SE hp hp' \<Longrightarrow> \<exists>a. heap_change a hp hp'"
proof (induction rule: heap_step.induct)
  case (copy hp fresh a)
  then show ?case using clone_change [of hp fresh None R copy_dict clone_spawner SE a] by (auto simp: request_copy_def)
next
  case (copy_with_body hp fresh bo a)
  then show ?case using clone_change [of hp fresh bo R copy_dict clone_spawner SE a] by (auto simp: from_request_and_body_def)
qed (blast intro: object_changes get_headers_change set_headers_attr_change get_body_change set_body_change
    attribute_changes take_chain_change prepare_spawn_change | simp add: heap_change_refl)+

lemma heap_steps_ok:
  assumes "(heap_step R cur new_dict copy_dict clone_spawner SE)\<^sup>*\<^sup>* hp hp'" and "heap_ok hp"
  shows "heap_ok hp'"
  using assms by (induction rule: rtranclp_induct) (auto dest!: heap_step_change intro: heap_change_ok)

text \<open>What the getters return is what the request refers to then.\<close>

lemma get_headers_ref: "get_headers R a hp = (Inr n, hp') \<Longrightarrow> hdr_ref hp' a = Some n"
  by (auto simp: get_headers_def request_ref_inner_def hdr_ref_def put_request_def new_hmap_def
      split: sum.splits option.splits prod.splits req_headers.splits)

lemma get_body_ref: "get_body a hp = (Inr (Some n), hp') \<Longrightarrow> body_ref hp' a = Some n"
  by (auto simp: get_body_def request_ref_inner_def body_ref_def put_request_def new_body_def
      split: sum.splits option.splits prod.splits req_body.splits)

text \<open>
  C38. From a heap without requests, after any sequence of operations of Python and of sent requests, the
  objects that \<open>headers\<close> and \<open>body\<close> of a request return exist, and two requests never share a headers
  object: an edit of the one cannot change what is sent for the other.
\<close>

theorem request_heap_typed:
  assumes "(heap_step R cur new_dict copy_dict clone_spawner SE)\<^sup>*\<^sup>* hp0 hp" and "requests hp0 = (\<lambda>_. None)"
  shows "(\<forall>a n hp'. get_headers R a hp = (Inr n, hp') \<longrightarrow> n < hnext hp') \<and>
    (\<forall>a n hp'. get_body a hp = (Inr (Some n), hp') \<longrightarrow> n < bnext hp') \<and>
    (\<forall>a b n m hp1 hp2. a \<noteq> b \<and> get_headers R a hp = (Inr n, hp1) \<and> get_headers R b hp1 = (Inr m, hp2) \<longrightarrow> n \<noteq> m)"
proof (intro conjI allI impI)
  have "heap_ok hp0" using assms(2) by (simp add: heap_ok_def hdr_ref_def body_ref_def)
  from heap_steps_ok [OF assms(1) this] have ok: "heap_ok hp" .
  then have ok1: "heap_ok hp'" if "get_headers R a hp = (r, hp')" for a r hp'
    using heap_change_ok [OF ok get_headers_change [of a hp R]] that by simp
  show "n < hnext hp'" if "get_headers R a hp = (Inr n, hp')" for a n hp'
    using ok1 [OF that] get_headers_ref [OF that] by (simp add: heap_ok_def)
  show "n < bnext hp'" if "get_body a hp = (Inr (Some n), hp')" for a n hp'
    using heap_change_ok [OF ok get_body_change [of a hp]] that get_body_ref [OF that] by (auto simp: heap_ok_def)
  show "n \<noteq> m" if h: "a \<noteq> b \<and> get_headers R a hp = (Inr n, hp1) \<and> get_headers R b hp1 = (Inr m, hp2)" for a b n m hp1 hp2
  proof -
    from h have "heap_ok hp2" "heap_change b hp1 hp2"
      using heap_change_ok [OF ok1 get_headers_change [of b hp1 R]] get_headers_change [of b hp1 R] by auto
    moreover from h have "hdr_ref hp1 a = Some n" "hdr_ref hp2 b = Some m" using get_headers_ref by blast+
    moreover have "hdr_ref hp2 a = hdr_ref hp1 a"
      using h \<open>heap_change b hp1 hp2\<close> by (simp add: heap_change_def hdr_ref_def)
    ultimately show ?thesis using h by (auto simp: heap_ok_def)
  qed
qed

text \<open>Two requests made one after the other, with the headers of the crate's request.\<close>

definition two_requests ::
    "(unit, (flat_map, (nat, nat, nat) reqwest_body) plain_request, unit, nat, nat, flat_map, nat, nat, nat, nat) heap" where
  "two_requests = snd (request_new_py 1 sample_inner (snd (request_new_py 0 sample_inner (sample_heap\<lparr>requests := \<lambda>_. None\<rparr>))))"

theorem request_heap_typed_witness:
  "\<exists>n m hp1 hp2. get_headers plain_ops 0 two_requests = (Inr n, hp1) \<and> get_headers plain_ops 1 hp1 = (Inr m, hp2) \<and> n \<noteq> m"
proof -
  let ?hp0 = "sample_heap\<lparr>requests := \<lambda>_. None\<rparr>"
  let ?step = "heap_step plain_ops no_context (\<lambda>w. (0, w)) (\<lambda>x w. (Inr x, w)) id no_streams"
  have "?step ?hp0 (snd (request_new_py 0 sample_inner ?hp0))"
    unfolding sample_inner_def by (rule heap_step.new_request) simp
  moreover have "?step (snd (request_new_py 0 sample_inner ?hp0)) two_requests"
    unfolding two_requests_def unfolding sample_inner_def
    by (rule heap_step.new_request) (simp add: request_new_py_def)
  ultimately have "?step\<^sup>*\<^sup>* ?hp0 two_requests" by (rule converse_rtranclp_into_rtranclp [OF _ r_into_rtranclp])
  moreover have "requests ?hp0 = (\<lambda>_. None)" by simp
  ultimately have
    "a \<noteq> b \<Longrightarrow> get_headers plain_ops a two_requests = (Inr n, hp1) \<Longrightarrow> get_headers plain_ops b hp1 = (Inr m, hp2) \<Longrightarrow> n \<noteq> m"
    for a b n m hp1 hp2 using conjunct2 [OF conjunct2 [OF request_heap_typed]] by blast
  note this [of 0 1]
  moreover have "\<exists>n m hp1 hp2. get_headers plain_ops 0 two_requests = (Inr n, hp1) \<and>
      get_headers plain_ops 1 hp1 = (Inr m, hp2)"
    by (simp add: two_requests_def request_new_py_def get_headers_def request_ref_inner_def new_hmap_def sample_inner_def
        request_new_def put_request_def)
  ultimately show ?thesis by fastforce
qed

end
