(* ===== verification/Error_Mapping.thy ===== *)
theory Error_Mapping
  imports Exceptions Header_Ref
begin

section \<open>Which exception a transport error becomes\<close>

text \<open>
  What \<open>map_send_error\<close> and \<open>map_read_error\<close> of \<open>src/exceptions/utils.rs\<close> make of an error of the
  \<open>reqwest\<close> crate, with the patterns for timeouts read as \<open>regex\<close> reads them: text that contains one
  of two words, in any case.
\<close>

fun contains :: "string \<Rightarrow> string \<Rightarrow> bool" where
  "contains p [] \<longleftrightarrow> p = []"
| "contains p (c # cs) \<longleftrightarrow> take (length p) (c # cs) = p \<or> contains p cs"

definition says_timeout :: "string \<Rightarrow> bool" where
  "says_timeout s \<longleftrightarrow> contains ''timed out'' (map to_lower s) \<or> contains ''timeout'' (map to_lower s)"

definition timeout_classes :: "exc_type list" where
  "timeout_classes = [ConnectTimeoutError, ReadTimeoutError, WriteTimeoutError]"

lemma contains_append: "contains p (xs @ p @ ys)"
proof (induction xs)
  case Nil
  show ?case
  proof (cases "p @ ys")
    case (Cons c cs)
    then have "take (length p) (c # cs) = p" by (metis append_eq_conv_conj)
    with Cons show ?thesis by simp
  qed simp
qed auto

lemma mapped_details:
  "inner_py_err e = None \<Longrightarrow> exc_details (inner_map_io_error is_match e k) =
     Causes (Some (map (\<lambda>c. CauseMessage (display c)) (error_causes_iter e)))"
  by (simp add: classifier_defs split: error_kind.split)

lemma mapped_class:
  "inner_py_err e = None \<Longrightarrow> exc_class (inner_map_io_error is_match e k) =
    (if is_timeout_error is_match e then
       if is_body_error e then case k of Send \<Rightarrow> WriteTimeoutError | Read \<Rightarrow> ReadTimeoutError else ConnectTimeoutError
     else if is_connect_error is_match e then
       if is_body_error e then case k of Send \<Rightarrow> WriteError | Read \<Rightarrow> ReadError else ConnectError
     else if is_decode_error e then if is_body_error e then BodyDecodeError else DecodeError
     else if has_flag is_redirect e then RedirectError
     else if has_flag is_builder e then BuilderError else RequestError)"
  unfolding inner_map_io_error_def
  by (simp add: Let_def from_causes_def from_err_def split: error_kind.split)

text \<open>
  The chain of causes, stated by its links: it starts with the error, each member is the source of the
  one before it, and the last has none.
\<close>

definition cause_chain :: "std_error \<Rightarrow> std_error list \<Rightarrow> bool" where
  "cause_chain e cs \<longleftrightarrow> cs \<noteq> [] \<and> hd cs = e \<and> source (last cs) = None \<and>
     (\<forall>i. Suc i < length cs \<longrightarrow> source (cs ! i) = Some (cs ! Suc i))"

lemma cause_chain_iter: "cause_chain e (error_causes_iter e)"
proof (induction e rule: error_causes_iter.induct)
  case (2 d k s)
  obtain es where es: "error_causes_iter s = s # es" using error_causes_iter_Cons by blast
  show ?case
    unfolding cause_chain_def
  proof (intro conjI allI impI)
    fix i assume "Suc i < length (error_causes_iter (StdError d k (Some s)))"
    with 2 es show "source (error_causes_iter (StdError d k (Some s)) ! i) =
        Some (error_causes_iter (StdError d k (Some s)) ! Suc i)"
      by (cases i) (auto simp: cause_chain_def)
  qed (use 2 in \<open>auto simp: cause_chain_def\<close>)
qed (simp add: cause_chain_def)

lemma cause_chain_Cons: "cause_chain e (c # d # cs) \<longleftrightarrow> c = e \<and> source e = Some d \<and> cause_chain d (d # cs)"
  by (auto simp: cause_chain_def nth_Cons split: nat.splits)

lemma cause_chain_unique: "cause_chain e cs \<Longrightarrow> cs = error_causes_iter e"
proof (induction cs arbitrary: e)
  case (Cons c cs)
  show ?case
  proof (cases cs)
    case Nil
    with Cons.prems have "c = e" "source e = None" by (auto simp: cause_chain_def)
    with Nil show ?thesis by (cases e) simp
  next
    case (Cons d ds)
    with Cons.prems Cons.IH [of d] show ?thesis by (cases e) (simp add: cause_chain_Cons)
  qed
qed (simp add: cause_chain_def)

lemma cause_chain_iff: "cause_chain e cs \<longleftrightarrow> cs = error_causes_iter e"
  using cause_chain_iter cause_chain_unique by blast

text \<open>What a cause is.\<close>

definition flagged :: "(reqwest_flags \<Rightarrow> bool) \<Rightarrow> std_error \<Rightarrow> bool" where
  "flagged p c \<longleftrightarrow> (\<exists>f. downcast c = AsReqwest f \<and> p f)"

definition from_python :: "std_error \<Rightarrow> bool" where
  "from_python c \<longleftrightarrow> (\<exists>p. downcast c = AsPyErr p)"

lemma has_flag_flagged: "has_flag p c = flagged p c"
  by (auto simp: has_flag_def flagged_def split: err_downcast.split)

lemma first_from_python:
  assumes "i < length cs" "downcast (cs ! i) = AsPyErr p" "\<forall>j<i. \<not> from_python (cs ! j)"
  shows "inner_py_err_in cs = Some p"
  using assms
proof (induction cs arbitrary: i)
  case (Cons c cs)
  show ?case
  proof (cases i)
    case 0
    with Cons.prems show ?thesis by simp
  next
    case (Suc j)
    have "\<not> from_python c" using Cons.prems(3) Suc by (auto dest: spec [of _ 0])
    moreover have "\<forall>m<j. \<not> from_python (cs ! m)" using Cons.prems(3) Suc by auto
    ultimately show ?thesis
      using Cons.IH [of j] Cons.prems Suc by (auto simp: from_python_def split: err_downcast.split)
  qed
qed simp

text \<open>The class a chain of causes without a Python exception stands for; its first member is the error itself.\<close>

definition told_class :: "(string list \<Rightarrow> string \<Rightarrow> bool) \<Rightarrow> std_error list \<Rightarrow> error_kind \<Rightarrow> exc_type" where
  "told_class is_match cs k =
     (let in_body = (\<exists>c\<in>set cs. flagged is_body c \<or> flagged is_decode c)
      in if flagged is_timeout (hd cs) \<or> (\<exists>c\<in>set cs. says_timeout (display c)) then
           (if \<not> in_body then ConnectTimeoutError else if k = Send then WriteTimeoutError else ReadTimeoutError)
         else if flagged is_connect (hd cs) \<or> (\<exists>c\<in>set cs. is_match CONNECTION_ERROR_PATTERN (display c)) then
           (if \<not> in_body then ConnectError else if k = Send then WriteError else ReadError)
         else if \<exists>c\<in>set cs. flagged is_decode c \<or> downcast c = AsHyper True then
           (if in_body then BodyDecodeError else DecodeError)
         else if flagged is_redirect (hd cs) then RedirectError
         else if flagged is_builder (hd cs) then BuilderError else RequestError)"


text \<open>A refused connection to a URL with the word in its path.\<close>

definition refused :: std_error where
  "refused = StdError ''error sending request for url (http://h/timeout)''
     (AsReqwest \<lparr>is_timeout = False, is_connect = True, is_body = False, is_decode = False, is_redirect = False, is_builder = False\<rparr>)
     (Some (StdError ''connection refused'' AsOther None))"

lemma refused_chain: "cause_chain refused cs \<longleftrightarrow> cs = [refused, StdError ''connection refused'' AsOther None]"
  by (simp add: cause_chain_iff refused_def)

lemma refused_facts:
  "says_timeout (display refused)" "\<not> flagged p (StdError s AsOther None)" "\<not> flagged is_body refused"
  "\<not> flagged is_decode refused" "\<not> from_python refused" "\<not> from_python (StdError s AsOther None)"
proof -
  have "says_timeout ''error sending request for url (http://h/timeout)''" by code_simp
  then show "says_timeout (display refused)" by (simp add: refused_def)
qed (simp_all add: flagged_def from_python_def refused_def)

text \<open>And an exception of the stream of a request body, wrapped by the crate.\<close>

definition stream_failed :: std_error where
  "stream_failed = StdError ''error sending request''
     (AsReqwest \<lparr>is_timeout = False, is_connect = False, is_body = True, is_decode = False, is_redirect = False, is_builder = False\<rparr>)
     (Some (StdError ''ValueError: timed out'' (AsPyErr (value_error ''timed out'')) None))"

lemma stream_failed_chain:
  "cause_chain stream_failed cs \<longleftrightarrow>
     cs = [stream_failed, StdError ''ValueError: timed out'' (AsPyErr (value_error ''timed out'')) None]"
  by (simp add: cause_chain_iff stream_failed_def)


end
