(* ===== verification/Header_Access.thy ===== *)
theory Header_Access
  imports Header_Properties
begin

section \<open>Header maps as arguments and their views as collections\<close>

text \<open>
  The conversion of a Python object to a header map, and the methods of \<open>HeaderMap\<close> and of its views that
  pass on to those of \<open>Header_Map\<close> and \<open>Header_Views\<close>. A view holds the map it was made of, not a
  copy (\<open>clone_arc\<close>): a view is its map here.
\<close>

subsection \<open>Arguments and copies\<close>

datatype ('m, 'o) header_arg = HeaderMapArg "'m header_map" | PairsArg "nat pyres" "'o key_val_pairs pyres"

definition header_map_extract ::
    "'m http_ops \<Rightarrow> ('o, header_name, header_value) extractor \<Rightarrow> ('m, 'o) header_arg \<Rightarrow> 'm header_map pyres" where
  "header_map_extract H X a =
     (case a of
        HeaderMapArg h \<Rightarrow> try_clone h
      | PairsArg len_res kvs \<Rightarrow> and_then kvs (\<lambda>o'. new_py H X len_res (Some o')))"

definition clone_arc :: "'m header_map \<Rightarrow> 'm header_map" where
  "clone_arc h = h"

definition header_map_try_clone_inner :: "'m header_map \<Rightarrow> 'm pyres" where
  "header_map_try_clone_inner h = ref_map (\<lambda>m. Inr m) h"

definition header_copy :: "'m header_map \<Rightarrow> 'm header_map pyres" where
  "header_copy h = ref_map (\<lambda>m. Inr (header_map_from m)) h"

definition header_getall :: "'m http_ops \<Rightarrow> string \<Rightarrow> 'm header_map \<Rightarrow> header_value list pyres" where
  "header_getall H key h = get_all H key h"

definition header_iter :: "'m http_ops \<Rightarrow> 'm header_map \<Rightarrow> header_name list pyres" where
  "header_iter H h = keys_iter_new H h"

definition header_items :: "'m header_map \<Rightarrow> 'm header_map" where
  "header_items h = clone_arc h"

definition header_keys :: "'m header_map \<Rightarrow> 'm header_map" where
  "header_keys h = clone_arc h"

definition header_values :: "'m header_map \<Rightarrow> 'm header_map" where
  "header_values h = clone_arc h"

subsection \<open>The views\<close>

definition items_view_iter :: "'m http_ops \<Rightarrow> 'm header_map \<Rightarrow> items_iter pyres" where
  "items_view_iter H view = items_iter_new H (clone_arc view)"

definition items_view_len :: "'m http_ops \<Rightarrow> 'm header_map \<Rightarrow> nat pyres" where
  "items_view_len H view = header_len H view"

definition items_view_reversed :: "'m http_ops \<Rightarrow> 'm header_map \<Rightarrow> (header_name \<times> header_value) list pyres" where
  "items_view_reversed H view = map_res vec_rev_iter (items_to_vec H view)"

definition keys_view_iter :: "'m http_ops \<Rightarrow> 'm header_map \<Rightarrow> header_name list pyres" where
  "keys_view_iter H view = keys_iter_new H view"

definition keys_view_len :: "'m http_ops \<Rightarrow> 'm header_map \<Rightarrow> nat pyres" where
  "keys_view_len H view = header_len H view"

definition keys_view_contains :: "'m http_ops \<Rightarrow> string \<Rightarrow> 'm header_map \<Rightarrow> bool pyres" where
  "keys_view_contains H key view = header_contains H key view"

definition keys_view_reversed :: "'m http_ops \<Rightarrow> 'm header_map \<Rightarrow> header_name list pyres" where
  "keys_view_reversed H view = map_res vec_rev_iter (keys_to_vec H view)"

definition values_view_iter :: "'m http_ops \<Rightarrow> 'm header_map \<Rightarrow> items_iter pyres" where
  "values_view_iter H view = items_iter_new H (clone_arc view)"

definition values_view_len :: "'m http_ops \<Rightarrow> 'm header_map \<Rightarrow> nat pyres" where
  "values_view_len H view = header_len H view"

definition values_view_reversed :: "'m http_ops \<Rightarrow> 'm header_map \<Rightarrow> header_value list pyres" where
  "values_view_reversed H view = map_res vec_rev_iter (values_to_vec H view)"

subsection \<open>The views agree\<close>

text \<open>
  The three views of a map have one length, that of what each yields backwards; the keys view yields
  backwards what it yields, a name once for each of its values, and contains exactly the names it
  yields; the values yielded backwards are those of the items.
\<close>

theorem header_views_agree:
  assumes "http_headers H" and "live h m"
  shows "\<exists>ps ks vs. items_view_reversed H h = Inr ps \<and> keys_view_reversed H h = Inr ks \<and> values_view_reversed H h = Inr vs \<and>
    items_view_len H h = Inr (length ps) \<and> keys_view_len H h = Inr (length ks) \<and> values_view_len H h = Inr (length vs) \<and>
    ks = map fst ps \<and> keys_view_iter H h = Inr (rev ks) \<and> mset vs = mset (map snd ps) \<and>
    (\<forall>key k. name_of H key = Some k \<longrightarrow> keys_view_contains H key h = Inr (k \<in> set ks))"
proof -
  have iter: "k \<in> fst ` set (hm_iter H m) \<longleftrightarrow> hm_get_all H m k \<noteq> []" for k
  proof -
    have "hm_get_all H m k \<noteq> [] \<longleftrightarrow> filter (\<lambda>p. fst p = k) (hm_iter H m) \<noteq> []"
      using http_headers.iter_key [OF assms(1), of k m] by (metis map_is_Nil_conv)
    then show ?thesis by (auto simp: filter_empty_conv)
  qed
  have vals: "mset (hm_values H m) = mset (map snd (hm_iter H m))" by (rule http_headers.values_iter [OF assms(1)])
  then have "length (hm_values H m) = length (hm_iter H m)" by (metis length_map size_mset)
  moreover have "keys_view_contains H key h = Inr (k \<in> fst ` set (hm_iter H m))" if "name_of H key = Some k" for key k
    by (simp add: keys_view_contains_def header_contains_def ref_map_live [OF assms(2)] hm_contains_str_def that
        http_headers.contains_law [OF assms(1)] iter)
  ultimately show ?thesis
    by (intro exI [of _ "rev (hm_iter H m)"] exI [of _ "rev (map fst (hm_iter H m))"] exI [of _ "rev (hm_values H m)"])
      (simp add: items_view_reversed_def keys_view_reversed_def values_view_reversed_def items_view_len_def
        keys_view_len_def values_view_len_def keys_view_iter_def items_to_vec_def keys_to_vec_def values_to_vec_def
        keys_iter_new_def keys_mult_deque_def header_len_def vec_rev_iter_def ref_map_live [OF assms(2)]
        http_headers.len_law [OF assms(1)] rev_map vals)
qed

end
