(* ===== verification/Py_Values.thy ===== *)
theory Py_Values
  imports Error_Mapping Cookies Mime
begin

section \<open>What Python sees of URLs, cookies, MIME types and header fields\<close>

text \<open>
  Getters and the protocol of strings (\<open>len\<close>, \<open>in\<close>, indexing, iteration, \<open>str\<close>, \<open>repr\<close>, \<open>hash\<close>) of
  \<open>Url\<close>, \<open>Cookie\<close> and \<open>Mime\<close>, and the conversions of \<open>src/internal/types.rs\<close>. What the crates answer
  about their values is a record of functions; Python's strings are the record \<open>py_str\<close>. Rust strings
  are their UTF-8 bytes.
\<close>

record ('k, 'o) py_str =
  s_repr :: "string \<Rightarrow> string"
  s_get_item :: "string \<Rightarrow> 'k \<Rightarrow> 'o pyres"
  s_iter :: "string \<Rightarrow> 'o pyres"

subsection \<open>URLs\<close>

record ('u, 'h) url_view =
  uv_make_relative :: "'u \<Rightarrow> 'u \<Rightarrow> string option"
  uv_origin_ascii :: "'u \<Rightarrow> string"
  uv_origin_unicode :: "'u \<Rightarrow> string"
  uv_scheme :: "'u \<Rightarrow> string"
  uv_is_special :: "'u \<Rightarrow> bool"
  uv_has_authority :: "'u \<Rightarrow> bool"
  uv_authority :: "'u \<Rightarrow> string"
  uv_cannot_be_a_base :: "'u \<Rightarrow> bool"
  uv_username :: "'u \<Rightarrow> string"
  uv_password :: "'u \<Rightarrow> string option"
  uv_has_host :: "'u \<Rightarrow> bool"
  uv_host_str :: "'u \<Rightarrow> string option"
  uv_domain :: "'u \<Rightarrow> string option"
  uv_port :: "'u \<Rightarrow> 16 word option"
  uv_port_or_known_default :: "'u \<Rightarrow> 16 word option"
  uv_path :: "'u \<Rightarrow> string"
  uv_path_segments :: "'u \<Rightarrow> string list option"
  uv_query_string :: "'u \<Rightarrow> string option"
  uv_fragment :: "'u \<Rightarrow> string option"
  uv_hash :: "'u \<Rightarrow> 'h"

definition url_make_relative ::
    "('u, 'fl, 'ip) url_ops \<Rightarrow> ('u, 'h) url_view \<Rightarrow> 'u url \<Rightarrow> 'u url_arg \<Rightarrow> string option pyres" where
  "url_make_relative U V x base = map_res (uv_make_relative V (url_inner x)) (url_type_extract U base)"

definition url_origin_ascii :: "('u, 'h) url_view \<Rightarrow> 'u url \<Rightarrow> string" where
  "url_origin_ascii V x = uv_origin_ascii V (url_inner x)"

definition url_origin_unicode :: "('u, 'h) url_view \<Rightarrow> 'u url \<Rightarrow> string" where
  "url_origin_unicode V x = uv_origin_unicode V (url_inner x)"

definition url_scheme :: "('u, 'h) url_view \<Rightarrow> 'u url \<Rightarrow> string" where
  "url_scheme V x = uv_scheme V (url_inner x)"

definition url_is_special :: "('u, 'h) url_view \<Rightarrow> 'u url \<Rightarrow> bool" where
  "url_is_special V x = uv_is_special V (url_inner x)"

definition url_has_authority :: "('u, 'h) url_view \<Rightarrow> 'u url \<Rightarrow> bool" where
  "url_has_authority V x = uv_has_authority V (url_inner x)"

definition url_authority :: "('u, 'h) url_view \<Rightarrow> 'u url \<Rightarrow> string" where
  "url_authority V x = uv_authority V (url_inner x)"

definition url_cannot_be_a_base :: "('u, 'h) url_view \<Rightarrow> 'u url \<Rightarrow> bool" where
  "url_cannot_be_a_base V x = uv_cannot_be_a_base V (url_inner x)"

definition url_username :: "('u, 'h) url_view \<Rightarrow> 'u url \<Rightarrow> string" where
  "url_username V x = uv_username V (url_inner x)"

definition url_password :: "('u, 'h) url_view \<Rightarrow> 'u url \<Rightarrow> string option" where
  "url_password V x = uv_password V (url_inner x)"

definition url_has_host :: "('u, 'h) url_view \<Rightarrow> 'u url \<Rightarrow> bool" where
  "url_has_host V x = uv_has_host V (url_inner x)"

definition url_host_str :: "('u, 'h) url_view \<Rightarrow> 'u url \<Rightarrow> string option" where
  "url_host_str V x = uv_host_str V (url_inner x)"

definition url_domain :: "('u, 'h) url_view \<Rightarrow> 'u url \<Rightarrow> string option" where
  "url_domain V x = uv_domain V (url_inner x)"

definition url_port :: "('u, 'h) url_view \<Rightarrow> 'u url \<Rightarrow> 16 word option" where
  "url_port V x = uv_port V (url_inner x)"

definition url_port_or_known_default :: "('u, 'h) url_view \<Rightarrow> 'u url \<Rightarrow> 16 word option" where
  "url_port_or_known_default V x = uv_port_or_known_default V (url_inner x)"

definition url_path :: "('u, 'h) url_view \<Rightarrow> 'u url \<Rightarrow> string" where
  "url_path V x = uv_path V (url_inner x)"

definition url_path_segments :: "('u, 'h) url_view \<Rightarrow> 'u url \<Rightarrow> string list option" where
  "url_path_segments V x = uv_path_segments V (url_inner x)"

definition url_query_string :: "('u, 'h) url_view \<Rightarrow> 'u url \<Rightarrow> string option" where
  "url_query_string V x = uv_query_string V (url_inner x)"

definition url_fragment :: "('u, 'h) url_view \<Rightarrow> 'u url \<Rightarrow> string option" where
  "url_fragment V x = uv_fragment V (url_inner x)"

definition url_query_pairs :: "('u, 'fl, 'ip) url_ops \<Rightarrow> 'u url \<Rightarrow> (string \<times> string) list \<times> 'u url" where
  "url_query_pairs U x = query_pairs_vec U x"

definition url_truediv :: "('u, 'fl, 'ip) url_ops \<Rightarrow> 'u url \<Rightarrow> string \<Rightarrow> 'u url pyres" where
  "url_truediv U x s = url_join U x s"

definition url_new_py :: "('u, 'fl, 'ip) url_ops \<Rightarrow> 'u url_arg \<Rightarrow> 'u url pyres" where
  "url_new_py U a = map_res url_new (url_type_extract U a)"

definition url_as_str :: "('u, 'fl, 'ip) url_ops \<Rightarrow> 'u url \<Rightarrow> string" where
  "url_as_str U x = u_str U (url_inner x)"

definition url_repr :: "('u, 'fl, 'ip) url_ops \<Rightarrow> ('k, 'o) py_str \<Rightarrow> 'u url \<Rightarrow> string" where
  "url_repr U P x = ''Url('' @ s_repr P (url_as_str U x) @ '')''"

definition url_hash :: "('u, 'h) url_view \<Rightarrow> 'u url \<Rightarrow> 'h" where
  "url_hash V x = uv_hash V (url_inner x)"

definition url_len :: "('u, 'fl, 'ip) url_ops \<Rightarrow> 'u url \<Rightarrow> nat" where
  "url_len U x = length (url_as_str U x)"

definition url_contains :: "('u, 'fl, 'ip) url_ops \<Rightarrow> 'u url \<Rightarrow> string \<Rightarrow> bool" where
  "url_contains U x item = contains item (url_as_str U x)"

definition url_getitem :: "('u, 'fl, 'ip) url_ops \<Rightarrow> ('k, 'o) py_str \<Rightarrow> 'u url \<Rightarrow> 'k \<Rightarrow> 'o pyres" where
  "url_getitem U P x k = s_get_item P (url_as_str U x) k"

definition url_iter :: "('u, 'fl, 'ip) url_ops \<Rightarrow> ('k, 'o) py_str \<Rightarrow> 'u url \<Rightarrow> 'o pyres" where
  "url_iter U P x = s_iter P (url_as_str U x)"

text \<open>\<open>Clone\<close>, \<open>From<Url> for reqwest::Url\<close> and \<open>From<reqwest::Url> for Url\<close>.\<close>

definition url_clone :: "'u url \<Rightarrow> 'u url" where
  "url_clone x = url_new (url_inner x)"

definition url_into_reqwest :: "'u url \<Rightarrow> 'u" where
  "url_into_reqwest x = url_inner x"

definition url_from_reqwest :: "'u \<Rightarrow> 'u url" where
  "url_from_reqwest u = url_new u"

subsection \<open>Cookies\<close>

definition cookie_new :: "('c, 'd, 't) cookie_ops \<Rightarrow> string \<Rightarrow> string \<Rightarrow> 'c" where
  "cookie_new K name value = ck_new K name value"

definition cookie_parse :: "('c, 'd, 't) cookie_ops \<Rightarrow> string \<Rightarrow> 'c pyres" where
  "cookie_parse K s = cookie_parse_inner K s"

definition cookie_name :: "('c, 'd, 't) cookie_ops \<Rightarrow> 'c \<Rightarrow> string" where
  "cookie_name K c = cv_name (ck_view K c)"

definition cookie_value :: "('c, 'd, 't) cookie_ops \<Rightarrow> 'c \<Rightarrow> string" where
  "cookie_value K c = cv_value (ck_view K c)"

text \<open>What the crate answers: the value without quotes, the text percent-encoded, and name and value only.\<close>

record 'c cookie_texts =
  ct_value_trimmed :: "'c \<Rightarrow> string"
  ct_encoded :: "'c \<Rightarrow> string"
  ct_stripped :: "'c \<Rightarrow> string"

definition cookie_value_trimmed :: "'c cookie_texts \<Rightarrow> 'c \<Rightarrow> string" where
  "cookie_value_trimmed T c = ct_value_trimmed T c"

definition cookie_encode :: "'c cookie_texts \<Rightarrow> 'c \<Rightarrow> string" where
  "cookie_encode T c = ct_encoded T c"

definition cookie_stripped :: "'c cookie_texts \<Rightarrow> 'c \<Rightarrow> string" where
  "cookie_stripped T c = ct_stripped T c"

definition cookie_max_age :: "('c, 'd, 't) cookie_ops \<Rightarrow> 'c \<Rightarrow> 'd option" where
  "cookie_max_age K c = cv_max_age (ck_view K c)"

definition cookie_path :: "('c, 'd, 't) cookie_ops \<Rightarrow> 'c \<Rightarrow> string option" where
  "cookie_path K c = cv_path (ck_view K c)"

definition cookie_domain :: "('c, 'd, 't) cookie_ops \<Rightarrow> 'c \<Rightarrow> string option" where
  "cookie_domain K c = cv_domain (ck_view K c)"

definition cookie_expires_datetime :: "('c, 'd, 't) cookie_ops \<Rightarrow> 'c \<Rightarrow> 't option" where
  "cookie_expires_datetime K c = cv_expires_datetime (ck_view K c)"

definition cookie_repr :: "('c, 'd, 't) cookie_ops \<Rightarrow> ('k, 'o) py_str \<Rightarrow> 'c \<Rightarrow> string" where
  "cookie_repr K P c = ''Cookie('' @ s_repr P (ck_show K c) @ '')''"

definition cookie_len :: "('c, 'd, 't) cookie_ops \<Rightarrow> 'c \<Rightarrow> nat" where
  "cookie_len K c = length (ck_show K c)"

definition cookie_contains :: "('c, 'd, 't) cookie_ops \<Rightarrow> 'c \<Rightarrow> string \<Rightarrow> bool" where
  "cookie_contains K c item = contains item (ck_show K c)"

definition cookie_getitem :: "('c, 'd, 't) cookie_ops \<Rightarrow> ('k, 'o) py_str \<Rightarrow> 'c \<Rightarrow> 'k \<Rightarrow> 'o pyres" where
  "cookie_getitem K P c k = s_get_item P (ck_show K c) k"

definition cookie_iter :: "('c, 'd, 't) cookie_ops \<Rightarrow> ('k, 'o) py_str \<Rightarrow> 'c \<Rightarrow> 'o pyres" where
  "cookie_iter K P c = s_iter P (ck_show K c)"

subsection \<open>MIME types\<close>

record ('mi, 'h) mime_view =
  mv_type :: "'mi \<Rightarrow> string"
  mv_subtype :: "'mi \<Rightarrow> string"
  mv_suffix :: "'mi \<Rightarrow> string option"
  mv_essence_str :: "'mi \<Rightarrow> string"
  mv_hash :: "'mi \<Rightarrow> 'h"

definition mime_parse :: "'mi mime_ops \<Rightarrow> string \<Rightarrow> 'mi pyres" where
  "mime_parse M s = mime_parse_inner M s"

definition mime_type :: "('mi, 'h) mime_view \<Rightarrow> 'mi \<Rightarrow> string" where
  "mime_type V m = mv_type V m"

definition mime_subtype :: "('mi, 'h) mime_view \<Rightarrow> 'mi \<Rightarrow> string" where
  "mime_subtype V m = mv_subtype V m"

definition mime_suffix :: "('mi, 'h) mime_view \<Rightarrow> 'mi \<Rightarrow> string option" where
  "mime_suffix V m = mv_suffix V m"

definition mime_parameters :: "'mi mime_ops \<Rightarrow> 'mi \<Rightarrow> (string \<times> string) list" where
  "mime_parameters M m = mi_params M m"

definition mime_essence_str :: "('mi, 'h) mime_view \<Rightarrow> 'mi \<Rightarrow> string" where
  "mime_essence_str V m = mv_essence_str V m"

definition mime_get_param :: "'mi mime_ops \<Rightarrow> 'mi \<Rightarrow> string \<Rightarrow> string option" where
  "mime_get_param M m name = mi_get_param M m name"

definition mime_repr :: "'mi mime_ops \<Rightarrow> ('k, 'o) py_str \<Rightarrow> 'mi \<Rightarrow> string" where
  "mime_repr M P m = ''Mime('' @ s_repr P (mi_str M m) @ '')''"

definition mime_hash :: "('mi, 'h) mime_view \<Rightarrow> 'mi \<Rightarrow> 'h" where
  "mime_hash V m = mv_hash V m"

definition mime_contains :: "'mi mime_ops \<Rightarrow> 'mi \<Rightarrow> string \<Rightarrow> bool" where
  "mime_contains M m item = contains item (mi_str M m)"

definition mime_getitem :: "'mi mime_ops \<Rightarrow> ('k, 'o) py_str \<Rightarrow> 'mi \<Rightarrow> 'k \<Rightarrow> 'o pyres" where
  "mime_getitem M P m k = s_get_item P (mi_str M m) k"

definition mime_iter :: "'mi mime_ops \<Rightarrow> ('k, 'o) py_str \<Rightarrow> 'mi \<Rightarrow> 'o pyres" where
  "mime_iter M P m = s_iter P (mi_str M m)"

subsection \<open>Header names and values\<close>

text \<open>The argument is the string that is extracted from the Python object.\<close>

definition header_name_extract :: "'m http_ops \<Rightarrow> string pyres \<Rightarrow> header_name pyres" where
  "header_name_extract H str = and_then str (\<lambda>s. map_err value_error (parse_name H s))"

definition header_name_into_py :: "header_name \<Rightarrow> string" where
  "header_name_into_py k = name_str k"

definition header_value_extract :: "'m http_ops \<Rightarrow> string pyres \<Rightarrow> header_value pyres" where
  "header_value_extract H str = and_then str (\<lambda>s. map_err value_error (parse_value H s))"

definition header_value_from_str :: "'m http_ops \<Rightarrow> string \<Rightarrow> header_value pyres" where
  "header_value_from_str H s = map_err value_error (parse_value H s)"

definition header_value_try_from :: "'m http_ops \<Rightarrow> string \<Rightarrow> header_value pyres" where
  "header_value_try_from H s = header_value_from_str H s"

lemma header_name_back:
  assumes "http_headers H" and "header_name_extract H (Inr s) = Inr k"
  shows "header_name_extract H (Inr (header_name_into_py k)) = Inr k"
proof -
  from assms(2) have "parse_name H s = Inr k" by (cases "parse_name H s") (simp_all add: header_name_extract_def)
  with http_headers.parse_idem [OF assms(1)] show ?thesis
    by (simp add: header_name_extract_def header_name_into_py_def)
qed

subsection \<open>The length of a cookie\<close>

text \<open>
  Python counts the characters of a string. In UTF-8 these are the bytes that do not continue one
  (\<open>10xxxxxx\<close>).
\<close>

definition continues :: "char \<Rightarrow> bool" where
  "continues c \<longleftrightarrow> of_char c div (64 :: nat) = 2"

definition py_len :: "string \<Rightarrow> nat" where
  "py_len s = length (filter (\<lambda>c. \<not> continues c) s)"

text \<open>\<open>len\<close> of a cookie is the length of its text exactly if the text is ASCII; else it is more.\<close>

theorem cookie_len_spec:
  "(cookie_len K c = py_len (ck_show K c) \<longleftrightarrow> (\<forall>b\<in>set (ck_show K c). \<not> continues b)) \<and>
   py_len (ck_show K c) \<le> cookie_len K c"
proof -
  have "length (filter (\<lambda>b. \<not> continues b) s) = length s \<longleftrightarrow> (\<forall>b\<in>set s. \<not> continues b)" for s
    by (metis filter_id_conv length_filter_less nat_neq_iff)
  from this [of "ck_show K c"] show ?thesis
    by (simp add: cookie_len_def py_len_def eq_commute [of "length (ck_show K c)"])
qed

end
