(* ===== verification/Request_Repr.thy ===== *)
theory Request_Repr
  imports Py_Values Request Header_Properties
begin

section \<open>The text of a request\<close>

text \<open>
  \<open>Request::repr\<close> of \<open>src/request/request.rs\<close>, with and without what is sensitive. \<open>show_me\<close> is the
  text of a method, \<open>dict_repr\<close> Python's \<open>repr\<close> of the dictionary of headers, \<open>py_repr\<close> that of the
  object a body streams from.
\<close>

definition disp_repr :: "('k, 'p) py_str \<Rightarrow> string \<Rightarrow> string" where
  "disp_repr P val = s_repr P val"

definition req_body_repr ::
    "('o \<Rightarrow> string pyres) \<Rightarrow> ('o, 'tl, 'co) req_body option \<Rightarrow>
     ('w, 'rq, 'sp, 'x, 'j, 'm, 'o, 'tl, 'co, 'mw) heap \<Rightarrow> string pyres" where
  "req_body_repr py_repr b hp =
     (case b of
        Some (ReqBody bd) \<Rightarrow> body_repr py_repr bd
      | Some (ReqPyBody n) \<Rightarrow> body_repr py_repr (rbodies hp n)
      | None \<Rightarrow> Inr ''None'')"

definition request_repr ::
    "'m http_ops \<Rightarrow> ('rq, 'm, 'b, 'me, 'u) reqwest_ops \<Rightarrow> ('u, 'fl, 'ip) url_ops \<Rightarrow> ('k, 'p) py_str \<Rightarrow>
     ('me \<Rightarrow> string) \<Rightarrow> ((string \<times> dict_value) list \<Rightarrow> string pyres) \<Rightarrow> ('o \<Rightarrow> string pyres) \<Rightarrow> bool \<Rightarrow> nat \<Rightarrow>
     ('w, 'rq, 'sp, 'x, 'j, 'm, 'o, 'tl, 'co, 'mw) heap \<Rightarrow> string pyres" where
  "request_repr H R U P show_me dict_repr py_repr hide_sensitive a hp =
     and_then (request_ref_inner a hp) (\<lambda>i.
       let url = url_from_reqwest (rq_url R (reqwest (request i)));
           key_url = (if hide_sensitive then ''origin_path'' else ''url'');
           url = (if hide_sensitive then with_query_string U url None else url)
       in
       and_then (dict_multi_value_inner H (rq_headers R (reqwest (request i))) hide_sensitive) (\<lambda>headers_dict.
       and_then (req_body_repr py_repr (ri_body i) hp) (\<lambda>body_repr.
       map_res (\<lambda>headers.
           ''Request(method='' @ disp_repr P (show_me (rq_method R (reqwest (request i)))) @ '', '' @
           key_url @ ''='' @ disp_repr P (url_as_str U url) @ '', headers='' @ headers @ '', body='' @ body_repr @ '')'')
         (dict_repr headers_dict))))"

lemma req_body_repr_cong: "rbodies hp = rbodies hp' \<Longrightarrow> req_body_repr py_repr b hp = req_body_repr py_repr b hp'"
  by (simp add: req_body_repr_def split: option.split req_body.split)

lemma req_body_repr_put [simp]: "req_body_repr py_repr b (put_request a r hp) = req_body_repr py_repr b hp"
  by (rule req_body_repr_cong) simp

text \<open>
  The text that hides what is sensitive does not tell the query of the URL, the values marked sensitive or
  the bytes of the body apart. It shows the headers of the underlying request: those of the headers object
  that was handed out, which are the ones that are sent, do not show.
\<close>

theorem request_repr_hides:
  assumes "requests hp a = Some i" and "requests hp' a' = Some i'"
    and "rq_method R (reqwest (request i)) = rq_method R (reqwest (request i'))"
    and "u_set_query U None (rq_url R (reqwest (request i))) = u_set_query U None (rq_url R (reqwest (request i')))"
    and "list_all2 same_public (hm_iter H (rq_headers R (reqwest (request i)))) (hm_iter H (rq_headers R (reqwest (request i'))))"
    and "ri_body i = Some (ReqBody (from_bytes bs))" and "ri_body i' = Some (ReqBody (from_bytes bs'))" and "length bs = length bs'"
  shows "request_repr H R U P show_me dict_repr py_repr True a hp = request_repr H R U P show_me dict_repr py_repr True a' hp' \<and>
    (\<forall>hide h. request_repr H R U P show_me dict_repr py_repr hide a (put_request a (Some (i\<lparr>ri_headers := h\<rparr>)) hp) =
      request_repr H R U P show_me dict_repr py_repr hide a hp)"
proof
  have "dict_multi_value_inner H (rq_headers R (reqwest (request i))) True =
      dict_multi_value_inner H (rq_headers R (reqwest (request i'))) True"
    by (simp add: dict_multi_value_inner_def dict_loop_public [OF assms(5)])
  moreover have "req_body_repr py_repr (ri_body i) hp = req_body_repr py_repr (ri_body i') hp'"
    using assms(6-8) by (simp add: req_body_repr_def body_repr_def body_lock_def from_bytes_def request_body_new_def)
  ultimately show "request_repr H R U P show_me dict_repr py_repr True a hp =
      request_repr H R U P show_me dict_repr py_repr True a' hp'"
    using assms(1-4) by (simp add: request_repr_def request_ref_inner_def with_query_string_def url_from_reqwest_def
        url_new_def Let_def)
  show "\<forall>hide h. request_repr H R U P show_me dict_repr py_repr hide a (put_request a (Some (i\<lparr>ri_headers := h\<rparr>)) hp) =
      request_repr H R U P show_me dict_repr py_repr hide a hp"
    using assms(1) by (simp add: request_repr_def request_ref_inner_def Let_def)
qed

end
