(* ===== verification/Sync_Api.thy ===== *)
theory Sync_Api
  imports Round_Trip Stream_Request One_Off Response_Builder
begin

section \<open>The classes that Python sees\<close>

text \<open>
  The thin classes over the operations of the other theories: \<open>Response\<close> and \<open>SyncResponse\<close>, the two reader
  classes, the request builders and requests of both kinds, \<open>Client\<close> and \<open>SyncClient\<close>. The blocking classes run
  the futures of the others on the runtime of their object, without a handle to cancel them. A future is
  what it returns when it is run to its end (\<open>None\<close> if it has none).
\<close>

definition blocking_spawn :: "runtime_handle \<Rightarrow> 'a option \<Rightarrow> 'a option" where
  "blocking_spawn rt fut = fut"

subsection \<open>Responses\<close>

definition response_bytes :: "'r recv_fun \<Rightarrow> cancel_handle \<Rightarrow> ('w, 'r, 'm, 'st, 'x, 'f, bytes) resp_call" where
  "response_bytes rcv c r hp = bytes_inner rcv c r hp"

definition response_text ::
    "'m http_ops \<Rightarrow> ('mi, 'en, 'v, 'o) decoders \<Rightarrow> 'r recv_fun \<Rightarrow> cancel_handle \<Rightarrow>
     ('w, 'r, 'm, 'st, 'x, 'f, string) resp_call" where
  "response_text H D rcv c r hp = text_inner H D rcv c r hp"

definition response_get_header ::
    "'m http_ops \<Rightarrow> string \<Rightarrow> ('r, 'm, 'st, 'x, 'f) response \<Rightarrow> ('w, 'r, 'm) resp_heap \<Rightarrow> header_value option pyres" where
  "response_get_header H key r hp = get_header_inner H key r hp"

definition response_get_header_all ::
    "'m http_ops \<Rightarrow> string \<Rightarrow> ('r, 'm, 'st, 'x, 'f) response \<Rightarrow> ('w, 'r, 'm) resp_heap \<Rightarrow> header_value list pyres" where
  "response_get_header_all H key r hp = get_header_all_inner H key r hp"

definition response_content_type_mime ::
    "'m http_ops \<Rightarrow> ('mi, 'en, 'v, 'o) decoders \<Rightarrow> ('r, 'm, 'st, 'x, 'f) response \<Rightarrow> ('w, 'r, 'm) resp_heap \<Rightarrow>
     'mi option pyres" where
  "response_content_type_mime H D r hp = content_type_mime_inner H D r hp"

definition response_body_reader ::
    "('r, 'm, 'st, 'x, 'f) response \<Rightarrow> ('w, 'r, 'm) resp_heap \<Rightarrow>
     nat pyres \<times> ('r, 'm, 'st, 'x, 'f) response \<times> ('w, 'r, 'm) resp_heap" where
  "response_body_reader r hp = get_body_reader_inner r hp"

definition sync_response_body_reader ::
    "('r, 'm, 'st, 'x, 'f) response \<Rightarrow> ('w, 'r, 'm) resp_heap \<Rightarrow>
     nat pyres \<times> ('r, 'm, 'st, 'x, 'f) response \<times> ('w, 'r, 'm) resp_heap" where
  "sync_response_body_reader r hp = get_body_reader_inner r hp"

definition response_runtime :: "('r, 'm, 'st, 'x, 'f) response \<Rightarrow> runtime_handle pyres" where
  "response_runtime r = map_res resp_runtime (resp_ref_inner r)"

definition sync_response_bytes :: "'r recv_fun \<Rightarrow> ('w, 'r, 'm, 'st, 'x, 'f, bytes) resp_call" where
  "sync_response_bytes rcv r hp =
     (case response_runtime r of
        Inl e \<Rightarrow> Some (Inl e, r, hp)
      | Inr rt \<Rightarrow> blocking_spawn rt (response_bytes rcv None r hp))"

definition sync_response_text ::
    "'m http_ops \<Rightarrow> ('mi, 'en, 'v, 'o) decoders \<Rightarrow> 'r recv_fun \<Rightarrow> ('w, 'r, 'm, 'st, 'x, 'f, string) resp_call" where
  "sync_response_text H D rcv r hp =
     (case response_runtime r of
        Inl e \<Rightarrow> Some (Inl e, r, hp)
      | Inr rt \<Rightarrow> blocking_spawn rt (response_text H D rcv None r hp))"

text \<open>A new response object.\<close>

definition response_new_py ::
    "('r, 'm, 'st, 'x, 'f) response \<Rightarrow> ('r, 'm, 'st, 'x, 'f) resp_objs \<Rightarrow> nat \<times> ('r, 'm, 'st, 'x, 'f) resp_objs" where
  "response_new_py resp os = (onext os, \<lparr>objs = (objs os)(onext os := resp), onext = onext os + 1\<rparr>)"

subsection \<open>Body readers\<close>

text \<open>A reader object is made of a reader, whose runtime (\<open>rt\<close> below) it keeps.\<close>

definition reader_object_new :: "'r body_reader \<Rightarrow> ('w, 'r, 'm) resp_heap \<Rightarrow> nat \<times> ('w, 'r, 'm) resp_heap" where
  "reader_object_new br hp = (rnext hp, hp\<lparr>readers := (readers hp)(rnext hp := br), rnext := rnext hp + 1\<rparr>)"

definition sync_reader_bytes ::
    "runtime_handle \<Rightarrow> 'r recv_fun \<Rightarrow> nat \<Rightarrow> ('w, 'r, 'm) resp_heap \<Rightarrow> (bytes pyres \<times> ('w, 'r, 'm) resp_heap) option" where
  "sync_reader_bytes rt rcv n hp = blocking_spawn rt (reader_bytes rcv None n hp)"

definition sync_reader_read ::
    "runtime_handle \<Rightarrow> 'r recv_fun \<Rightarrow> nat \<Rightarrow> nat \<Rightarrow> ('w, 'r, 'm) resp_heap \<Rightarrow>
     (bytes option pyres \<times> ('w, 'r, 'm) resp_heap) option" where
  "sync_reader_read rt rcv amount n hp = blocking_spawn rt (reader_read rcv None amount n hp)"

definition sync_reader_read_chunk ::
    "runtime_handle \<Rightarrow> 'r recv_fun \<Rightarrow> nat \<Rightarrow> ('w, 'r, 'm) resp_heap \<Rightarrow>
     (bytes option pyres \<times> ('w, 'r, 'm) resp_heap) option" where
  "sync_reader_read_chunk rt rcv n hp = blocking_spawn rt (Some (reader_read_chunk rcv None n hp))"

subsection \<open>Requests and their builders\<close>

text \<open>\<open>send\<close> of the consumed requests makes a response object; \<open>sent\<close> is what \<open>send_inner\<close> returned.\<close>

definition consumed_send ::
    "('r, 'm, 'st, 'x, 'f) response pyres \<Rightarrow> ('r, 'm, 'st, 'x, 'f) resp_objs \<Rightarrow>
     nat pyres \<times> ('r, 'm, 'st, 'x, 'f) resp_objs" where
  "consumed_send sent os =
     (case sent of Inl e \<Rightarrow> (Inl e, os) | Inr resp \<Rightarrow> (case response_new_py resp os of (a, os') \<Rightarrow> (Inr a, os')))"

definition sync_consumed_send ::
    "('r, 'm, 'st, 'x, 'f) response pyres \<Rightarrow> ('r, 'm, 'st, 'x, 'f) resp_objs \<Rightarrow>
     nat pyres \<times> ('r, 'm, 'st, 'x, 'f) resp_objs" where
  "sync_consumed_send sent os =
     (case sent of Inl e \<Rightarrow> (Inl e, os) | Inr resp \<Rightarrow> (case response_new_py resp os of (a, os') \<Rightarrow> (Inr a, os')))"

text \<open>A streamed request is a request object with no response yet.\<close>

definition stream_request_new_py ::
    "nat \<Rightarrow> ('rq, 'sp, 'x, 'j, 'm, 'o, 'tl, 'co, 'mw) request_inner \<Rightarrow>
     (('w, 'rq, 'sp, 'x, 'j, 'm, 'o, 'tl, 'co, 'mw) heap, nat \<times> stream_request) eff" where
  "stream_request_new_py fresh i hp = (case request_new_py fresh i hp of (r, hp') \<Rightarrow> (map_res (\<lambda>a. (a, None)) r, hp'))"

definition stream_request_copy ::
    "('rq, 'm, 'b, 'me, 'u) reqwest_ops \<Rightarrow> ('x \<Rightarrow> 'w \<Rightarrow> 'x pyres \<times> 'w) \<Rightarrow> ('sp \<Rightarrow> 'sp) \<Rightarrow>
     ('w, 'o, 'tl, 'co) stream_env \<Rightarrow> nat \<Rightarrow> nat \<Rightarrow>
     (('w, 'rq, 'sp, 'x, 'j, 'm, 'o, 'tl, 'co, 'mw) heap, nat \<times> stream_request) eff" where
  "stream_request_copy R copy_dict clone_spawner SE fresh a =
     bind_eff (try_clone_inner R copy_dict clone_spawner SE None a) (stream_request_new_py fresh)"

definition stream_from_request_and_body ::
    "('rq, 'm, 'b, 'me, 'u) reqwest_ops \<Rightarrow> ('x \<Rightarrow> 'w \<Rightarrow> 'x pyres \<times> 'w) \<Rightarrow> ('sp \<Rightarrow> 'sp) \<Rightarrow>
     ('w, 'o, 'tl, 'co) stream_env \<Rightarrow> nat \<Rightarrow> nat \<Rightarrow> nat option \<Rightarrow>
     (('w, 'rq, 'sp, 'x, 'j, 'm, 'o, 'tl, 'co, 'mw) heap, nat \<times> stream_request) eff" where
  "stream_from_request_and_body R copy_dict clone_spawner SE fresh a body_obj =
     bind_eff (try_clone_inner R copy_dict clone_spawner SE body_obj a) (stream_request_new_py fresh)"

text \<open>The blocking request classes are made and copied by code of their own.\<close>

definition sync_request_new_py ::
    "nat \<Rightarrow> ('rq, 'sp, 'x, 'j, 'm, 'o, 'tl, 'co, 'mw) request_inner \<Rightarrow>
     (('w, 'rq, 'sp, 'x, 'j, 'm, 'o, 'tl, 'co, 'mw) heap, nat) eff" where
  "sync_request_new_py fresh i hp = (Inr fresh, put_request fresh (Some i) hp)"

definition sync_request_copy ::
    "('rq, 'm, 'b, 'me, 'u) reqwest_ops \<Rightarrow> ('x \<Rightarrow> 'w \<Rightarrow> 'x pyres \<times> 'w) \<Rightarrow> ('sp \<Rightarrow> 'sp) \<Rightarrow>
     ('w, 'o, 'tl, 'co) stream_env \<Rightarrow> nat \<Rightarrow> nat \<Rightarrow>
     (('w, 'rq, 'sp, 'x, 'j, 'm, 'o, 'tl, 'co, 'mw) heap, nat) eff" where
  "sync_request_copy R copy_dict clone_spawner SE fresh a =
     bind_eff (try_clone_inner R copy_dict clone_spawner SE None a) (sync_request_new_py fresh)"

definition sync_from_request_and_body ::
    "('rq, 'm, 'b, 'me, 'u) reqwest_ops \<Rightarrow> ('x \<Rightarrow> 'w \<Rightarrow> 'x pyres \<times> 'w) \<Rightarrow> ('sp \<Rightarrow> 'sp) \<Rightarrow>
     ('w, 'o, 'tl, 'co) stream_env \<Rightarrow> nat \<Rightarrow> nat \<Rightarrow> nat option \<Rightarrow>
     (('w, 'rq, 'sp, 'x, 'j, 'm, 'o, 'tl, 'co, 'mw) heap, nat) eff" where
  "sync_from_request_and_body R copy_dict clone_spawner SE fresh a body_obj =
     bind_eff (try_clone_inner R copy_dict clone_spawner SE body_obj a) (sync_request_new_py fresh)"

definition sync_stream_request_new_py ::
    "nat \<Rightarrow> ('rq, 'sp, 'x, 'j, 'm, 'o, 'tl, 'co, 'mw) request_inner \<Rightarrow>
     (('w, 'rq, 'sp, 'x, 'j, 'm, 'o, 'tl, 'co, 'mw) heap, nat \<times> stream_request) eff" where
  "sync_stream_request_new_py fresh i hp =
     (case sync_request_new_py fresh i hp of (r, hp') \<Rightarrow> (map_res (\<lambda>a. (a, None)) r, hp'))"

definition sync_stream_request_copy ::
    "('rq, 'm, 'b, 'me, 'u) reqwest_ops \<Rightarrow> ('x \<Rightarrow> 'w \<Rightarrow> 'x pyres \<times> 'w) \<Rightarrow> ('sp \<Rightarrow> 'sp) \<Rightarrow>
     ('w, 'o, 'tl, 'co) stream_env \<Rightarrow> nat \<Rightarrow> nat \<Rightarrow>
     (('w, 'rq, 'sp, 'x, 'j, 'm, 'o, 'tl, 'co, 'mw) heap, nat \<times> stream_request) eff" where
  "sync_stream_request_copy R copy_dict clone_spawner SE fresh a =
     bind_eff (try_clone_inner R copy_dict clone_spawner SE None a) (sync_stream_request_new_py fresh)"

definition sync_stream_from_request_and_body ::
    "('rq, 'm, 'b, 'me, 'u) reqwest_ops \<Rightarrow> ('x \<Rightarrow> 'w \<Rightarrow> 'x pyres \<times> 'w) \<Rightarrow> ('sp \<Rightarrow> 'sp) \<Rightarrow>
     ('w, 'o, 'tl, 'co) stream_env \<Rightarrow> nat \<Rightarrow> nat \<Rightarrow> nat option \<Rightarrow>
     (('w, 'rq, 'sp, 'x, 'j, 'm, 'o, 'tl, 'co, 'mw) heap, nat \<times> stream_request) eff" where
  "sync_stream_from_request_and_body R copy_dict clone_spawner SE fresh a body_obj =
     bind_eff (try_clone_inner R copy_dict clone_spawner SE body_obj a) (sync_stream_request_new_py fresh)"

text \<open>Leaving the blocking context asks the response for its runtime before it takes the reader.\<close>

definition sync_stream_enter ::
    "('r, 'm, 'st, 'x, 'f) response pyres \<Rightarrow> stream_request \<Rightarrow> ('r, 'm, 'st, 'x, 'f) resp_objs \<Rightarrow>
     nat pyres \<times> stream_request \<times> ('r, 'm, 'st, 'x, 'f) resp_objs" where
  "sync_stream_enter sent slf os =
     (case sent of
        Inl e \<Rightarrow> (Inl e, slf, os)
      | Inr resp \<Rightarrow> (case response_new_py resp os of (a, os') \<Rightarrow> (Inr a, Some a, os')))"

definition sync_stream_exit ::
    "('r \<Rightarrow> 'r) \<Rightarrow> stream_request \<Rightarrow> ('r, 'm, 'st, 'x, 'f) resp_objs \<Rightarrow> ('w, 'r, 'm) resp_heap \<Rightarrow>
     unit pyres \<times> stream_request \<times> ('r, 'm, 'st, 'x, 'f) resp_objs \<times> ('w, 'r, 'm) resp_heap" where
  "sync_stream_exit rx_close slf os hp =
     (case slf of
        None \<Rightarrow> (Inl not_entered, None, os, hp)
      | Some a \<Rightarrow>
          (case response_runtime (objs os a) of
             Inl e \<Rightarrow> (Inl e, None, os, hp)
           | Inr rt \<Rightarrow>
               (case take_body_reader (objs os a) of
                  (Inl e, r') \<Rightarrow> (Inl e, None, os\<lparr>objs := (objs os)(a := r')\<rparr>, hp)
                | (Inr rr, r') \<Rightarrow>
                    (case resp_reader_close rx_close rr hp of
                       (_, hp') \<Rightarrow> (Inr (), None, os\<lparr>objs := (objs os)(a := r')\<rparr>, hp')))))"

text \<open>\<open>copy\<close>, \<open>__copy__\<close> and \<open>from_request_and_body\<close> of the base class, which is not made by anything here.\<close>

definition base_request_copy :: "'a pyres" where
  "base_request_copy = Inl (PyErr PyNotImplementedError ''Should be implemented in a subclass'' NoDetails)"

text \<open>The builders: \<open>build\<close> and \<open>build_streamed\<close> make the object of the built request.\<close>

definition py_build ::
    "'m http_ops \<Rightarrow> ('rb, 'rq, 'q, 'form) rb_ops \<Rightarrow> ('rq, 'm, 'b, 'me, 'u) reqwest_ops \<Rightarrow> bool \<Rightarrow> nat \<Rightarrow>
     ('rb, 'sp, 'm, 'o, 'tl, 'co, 'x, 'mw, 'f) request_builder \<Rightarrow>
     ('w, 'rq, 'sp, 'x, 'f json_handler, 'm, 'o, 'tl, 'co, 'mw) heap \<Rightarrow>
     (nat pyres \<times> ('w, 'rq, 'sp, 'x, 'f json_handler, 'm, 'o, 'tl, 'co, 'mw) heap) \<times>
     ('rb, 'sp, 'm, 'o, 'tl, 'co, 'x, 'mw, 'f) request_builder" where
  "py_build H B R is_streamed fresh b hp =
     (case build H B R is_streamed b of
        (Inl e, b') \<Rightarrow> ((Inl e, hp), b')
      | (Inr i, b') \<Rightarrow> (request_new_py fresh i hp, b'))"

definition sync_py_build ::
    "'m http_ops \<Rightarrow> ('rb, 'rq, 'q, 'form) rb_ops \<Rightarrow> ('rq, 'm, 'b, 'me, 'u) reqwest_ops \<Rightarrow> bool \<Rightarrow> nat \<Rightarrow>
     ('rb, 'sp, 'm, 'o, 'tl, 'co, 'x, 'mw, 'f) request_builder \<Rightarrow>
     ('w, 'rq, 'sp, 'x, 'f json_handler, 'm, 'o, 'tl, 'co, 'mw) heap \<Rightarrow>
     (nat pyres \<times> ('w, 'rq, 'sp, 'x, 'f json_handler, 'm, 'o, 'tl, 'co, 'mw) heap) \<times>
     ('rb, 'sp, 'm, 'o, 'tl, 'co, 'x, 'mw, 'f) request_builder" where
  "sync_py_build H B R is_streamed fresh b hp =
     (case inner_build H B R (body_consume_config_of is_streamed b) b of
        (Inl e, b') \<Rightarrow> ((Inl e, hp), b')
      | (Inr i, b') \<Rightarrow> (sync_request_new_py fresh i hp, b'))"

definition sync_body_stream where
  "sync_body_stream E stream b w = body_stream_set E stream b w"

definition sync_with_middleware :: "nat \<Rightarrow> 'mw \<Rightarrow> ('rb, 'sp, 'm, 'o, 'tl, 'co, 'x, 'mw, 'f) setter" where
  "sync_with_middleware ptr mw b = inner_with_middleware ptr mw b"

definition one_off_new_py ::
    "('rb, 'sp, 'm, 'o, 'tl, 'co, 'x, 'mw, 'f) request_builder \<Rightarrow> 'cl \<Rightarrow>
     ('rb, 'sp, 'm, 'o, 'tl, 'co, 'x, 'mw, 'f, 'cl) one_off" where
  "one_off_new_py b client = \<lparr>oo_builder = b, oo_client = Some client\<rparr>"

definition sync_one_off_new where
  "sync_one_off_new C handle verbose tok ptr U B mk fresh me ob =
     and_then (fst (build_client_base C handle verbose tok ptr (client_builder_new C))) (\<lambda>client.
       map_res (\<lambda>b. one_off_new_py b client) (create_request_builder U B mk fresh client me ob True))"

definition sync_one_off_with_middleware ::
    "nat \<Rightarrow> 'mw \<Rightarrow> ('rb, 'sp, 'm, 'o, 'tl, 'co, 'x, 'mw, 'f, 'cl) one_off \<Rightarrow>
     unit pyres \<times> ('rb, 'sp, 'm, 'o, 'tl, 'co, 'x, 'mw, 'f, 'cl) one_off" where
  "sync_one_off_with_middleware ptr mw oo =
     (case inner_with_middleware ptr mw (oo_builder oo) of (r, b') \<Rightarrow> (r, oo\<lparr>oo_builder := b'\<rparr>))"

definition py_body_stream where
  "py_body_stream E stream b w = body_stream_set E stream b w"

definition py_with_middleware :: "nat \<Rightarrow> 'mw \<Rightarrow> ('rb, 'sp, 'm, 'o, 'tl, 'co, 'x, 'mw, 'f) setter" where
  "py_with_middleware ptr mw b = inner_with_middleware ptr mw b"

definition default_streamed_read_buffer_limit :: nat where
  "default_streamed_read_buffer_limit = DEFAULT_READ_BUFFER_LIMIT"

definition blocking_spawn_reqwest ::
    "'m http_ops \<Rightarrow> ('rq, 'm, 'b, 'me, 'u) reqwest_ops \<Rightarrow> patterns \<Rightarrow> chunk_fun \<Rightarrow> ('me \<Rightarrow> bool) \<Rightarrow>
     ('cl \<Rightarrow> 'rq \<Rightarrow> std_error + (('m, 'st, 'x option) http_parts \<times> frames)) \<Rightarrow> std_error \<Rightarrow> acquire \<Rightarrow> nat \<Rightarrow>
     ('rq, 'cl spawner_data, 'x, 'f json_handler) request_data \<Rightarrow> (chan, 'm, 'st, 'x, 'f) response pyres option" where
  "blocking_spawn_reqwest H R is_match next_data is_head execute err acq elapsed rd =
     blocking_spawn (sp_runtime (spawner rd))
       (Some (fst (spawn_reqwest H R is_match next_data is_head execute err acq elapsed rd ())))"

subsection \<open>Clients\<close>

text \<open>\<open>cs\<close> are the tokens cancelled so far. Leaving the context closes, whatever it is left with.\<close>

definition async_client_close :: "('cl, 'u, 'mw, 'f, 'm) client \<Rightarrow> token list \<Rightarrow> unit pyres \<times> token list" where
  "async_client_close c cs = (Inr (), client_close c cs)"

definition client_aexit :: "('cl, 'u, 'mw, 'f, 'm) client \<Rightarrow> 'e \<Rightarrow> token list \<Rightarrow> unit pyres \<times> token list" where
  "client_aexit c exc cs = async_client_close c cs"

definition sync_client_close :: "('cl, 'u, 'mw, 'f, 'm) client \<Rightarrow> token list \<Rightarrow> token list" where
  "sync_client_close c cs = client_close c cs"

definition client_exit :: "('cl, 'u, 'mw, 'f, 'm) client \<Rightarrow> 'e \<Rightarrow> token list \<Rightarrow> token list" where
  "client_exit c exc cs = sync_client_close c cs"

text \<open>Entering the context of a client gives the client itself.\<close>

definition client_aenter :: "'c \<Rightarrow> 'c" where
  "client_aenter c = c"

definition client_enter :: "'c \<Rightarrow> 'c" where
  "client_enter c = c"

definition create_async_request_builder where
  "create_async_request_builder U B mk fresh c me ob = create_request_builder U B mk fresh c me ob False"

definition create_sync_request_builder where
  "create_sync_request_builder U B mk fresh c me ob = create_request_builder U B mk fresh c me ob True"

subsection \<open>The blocking classes do what the others do\<close>

text \<open>
  On every response, consumed or not, and every reader object: the blocking operations return and leave
  behind what the asynchronous ones do when they are not cancelled; \<open>json\<close> does as long as no callback is
  set.
\<close>

theorem sync_api_agrees:
  "sync_response_bytes rcv r hp = response_bytes rcv None r hp \<and>
   sync_response_text H D rcv r hp = response_text H D rcv None r hp \<and>
   sync_reader_bytes rt rcv n hp = reader_bytes rcv None n hp \<and>
   sync_reader_read rt rcv amount n hp = reader_read rcv None amount n hp \<and>
   ((\<forall>i h. r = Some i \<longrightarrow> resp_json_handler i = Some h \<longrightarrow> \<not> has_loads h) \<longrightarrow>
     sync_json H D rcv new_dict call r hp = async_json H D rcv None new_dict cur call_co await_loads r hp)"
  by (cases r)
    (auto simp: sync_response_bytes_def sync_response_text_def response_runtime_def blocking_spawn_def response_bytes_def
      response_text_def text_inner_def bytes_inner_def resp_ref_inner_def sync_reader_bytes_def sync_reader_read_def
      sync_json_def async_json_def split: option.split)

text \<open>The same for requests and builders, whatever is on the heap and in which state the objects are.\<close>

theorem sync_requests_agree:
  "sync_request_copy R copy_dict clone_spawner SE fresh a hp = request_copy R copy_dict clone_spawner SE fresh a hp \<and>
   sync_from_request_and_body R copy_dict clone_spawner SE fresh a body_obj hp =
     from_request_and_body R copy_dict clone_spawner SE fresh a body_obj hp \<and>
   sync_stream_request_copy R copy_dict clone_spawner SE fresh a hp =
     stream_request_copy R copy_dict clone_spawner SE fresh a hp \<and>
   sync_py_build H B R is_streamed fresh b hp = py_build H B R is_streamed fresh b hp \<and>
   sync_stream_enter sent slf os = stream_enter sent slf os \<and>
   sync_stream_exit rx_close slf os rhp = stream_exit rx_close slf os rhp"
proof -
  have new: "sync_request_new_py fresh = request_new_py fresh" for fresh :: nat
    by (simp add: fun_eq_iff sync_request_new_py_def request_new_py_def)
  have snew: "sync_stream_request_new_py fresh = stream_request_new_py fresh" for fresh :: nat
    by (simp add: fun_eq_iff sync_stream_request_new_py_def stream_request_new_py_def new)
  have exit: "sync_stream_exit rx_close slf os rhp = stream_exit rx_close slf os rhp"
    by (auto simp: sync_stream_exit_def stream_exit_def response_runtime_def take_body_reader_def resp_ref_inner_def
        ok_or_def fun_upd_idem split: option.split)
  have enter: "sync_stream_enter sent slf os = stream_enter sent slf os"
    by (simp add: sync_stream_enter_def stream_enter_def response_new_py_def Let_def split: sum.split)
  have build: "sync_py_build H B R is_streamed fresh b hp = py_build H B R is_streamed fresh b hp"
    by (simp add: sync_py_build_def py_build_def build_def new split: sum.split prod.split)
  show ?thesis
    by (simp add: sync_request_copy_def request_copy_def sync_from_request_and_body_def from_request_and_body_def
        sync_stream_request_copy_def stream_request_copy_def new snew exit enter build)
qed

end
