(* ===== verification/Py_Module.thy ===== *)
theory Py_Module
  imports Middleware
begin

section \<open>The Python module and the interpreter lock\<close>

text \<open>
  Models \<open>src/lib.rs\<close> and \<open>src/internal/module_utils.rs\<close>: the submodules with what they export, how each
  is put into \<open>sys.modules\<close>, and the names of modules that classes and functions get; and
  \<open>src/internal/allow_threads.rs\<close>. PyO3 makes a module by adding what it declares in order and then
  calling its \<open>init\<close>; nested modules come first. The interpreter is the record \<open>py_interp\<close> on a state
  \<open>'w\<close>, what Python documents of it the locale \<open>interpreter\<close>.
\<close>

subsection \<open>Modules\<close>

datatype 'o py_member = Object 'o | Module "(string \<times> 'o py_member) list"

type_synonym 'o py_module = "(string \<times> 'o py_member) list"

text \<open>
  \<open>pi_new_module\<close>: the attributes a module is made with. \<open>pi_set_module\<close>: \<open>sys.modules\<close>, set at a name.
  \<open>pi_set_attr\<close> is \<open>setattr\<close> of \<open>__module__\<close>; \<open>pi_register\<close> is \<open>register\<close> of an abstract class of
  \<open>collections.abc\<close>.
\<close>

record ('o, 'w) py_interp =
  pi_new_module :: "string \<Rightarrow> 'o py_module"
  pi_set_module :: "string \<Rightarrow> 'o py_module \<Rightarrow> ('w, unit) eff"
  pi_set_attr :: "'o py_member \<Rightarrow> string \<Rightarrow> ('w, unit) eff"
  pi_register :: "string \<Rightarrow> 'o \<Rightarrow> ('w, unit) eff"
  pi_version :: "nat \<times> nat"

definition py_dir :: "'o py_module \<Rightarrow> string list" where
  "py_dir m = sort (remdups (map fst m))"

definition py_getattr :: "'o py_module \<Rightarrow> string \<Rightarrow> 'o py_member pyres" where
  "py_getattr m name = ok_or (PyErr (PyUserException ''AttributeError'') name NoDetails) (map_of m name)"

subsection \<open>Registration\<close>

definition private_name :: "string \<Rightarrow> bool" where
  "private_name s = (take 1 s = ''_'')"

fun fix_loop :: "('o, 'w) py_interp \<Rightarrow> 'o py_module \<Rightarrow> string \<Rightarrow> string list \<Rightarrow> ('w, unit) eff" where
  "fix_loop I m sub [] w = (Inr (), w)"
| "fix_loop I m sub (attr_name # names) w =
     (if private_name attr_name then fix_loop I m sub names w
      else case py_getattr m attr_name of
             Inl e \<Rightarrow> (Inl e, w)
           | Inr ob \<Rightarrow> bind_eff (pi_set_attr I ob (''pyreqwest.'' @ sub)) (\<lambda>_. fix_loop I m sub names) w)"

definition fix_module :: "('o, 'w) py_interp \<Rightarrow> 'o py_module \<Rightarrow> string \<Rightarrow> ('w, unit) eff" where
  "fix_module I m sub = fix_loop I m sub (py_dir m)"

definition register_submodule :: "('o, 'w) py_interp \<Rightarrow> 'o py_module \<Rightarrow> string \<Rightarrow> ('w, unit) eff" where
  "register_submodule I m sub =
     bind_eff (pi_set_module I (''pyreqwest._pyreqwest.'' @ sub) m) (\<lambda>_. fix_module I m sub)"

definition register_collections_abc :: "('o, 'w) py_interp \<Rightarrow> 'o \<Rightarrow> string \<Rightarrow> ('w, unit) eff" where
  "register_collections_abc I cls base w =
     (if base = ''Buffer'' \<and> (fst (pi_version I) < 3 \<or> fst (pi_version I) = 3 \<and> snd (pi_version I) < 12)
      then (Inr (), w) else pi_register I base cls w)"

subsection \<open>What is declared\<close>

text \<open>
  A submodule: its name in its parent, the name it is registered with, the Python names of what it
  exports, in order, and the abstract classes its classes are registered for.
\<close>

record submodule =
  sm_attr :: string
  sm_name :: string
  sm_exports :: "string list"
  sm_abcs :: "(string \<times> string) list"

definition mod_client :: submodule where
  "mod_client = \<lparr>sm_attr = ''client'', sm_name = ''client'', sm_exports =
     [''BaseClient'', ''BaseClientBuilder'', ''Client'', ''ClientBuilder'', ''SyncClient'',
      ''SyncClientBuilder''],
     sm_abcs = []\<rparr>"

definition mod_request :: submodule where
  "mod_request = \<lparr>sm_attr = ''request'', sm_name = ''request'', sm_exports =
     [''BaseRequestBuilder'', ''ConsumedRequest'', ''OneOffRequestBuilder'', ''Request'',
      ''RequestBody'', ''RequestBuilder'', ''StreamRequest'', ''SyncConsumedRequest'',
      ''SyncOneOffRequestBuilder'', ''SyncRequestBuilder'', ''SyncStreamRequest''],
     sm_abcs = []\<rparr>"

definition mod_response :: submodule where
  "mod_response = \<lparr>sm_attr = ''response'', sm_name = ''response'', sm_exports =
     [''BaseResponse'', ''Response'', ''ResponseBodyReader'', ''ResponseBuilder'', ''SyncResponse'',
      ''SyncResponseBodyReader''],
     sm_abcs = []\<rparr>"

definition mod_middleware :: submodule where
  "mod_middleware = \<lparr>sm_attr = ''middleware'', sm_name = ''middleware'', sm_exports =
     [''Next'', ''SyncNext''],
     sm_abcs = []\<rparr>"

definition mod_proxy :: submodule where
  "mod_proxy = \<lparr>sm_attr = ''proxy'', sm_name = ''proxy'', sm_exports =
     [''ProxyBuilder''],
     sm_abcs = []\<rparr>"

definition mod_multipart :: submodule where
  "mod_multipart = \<lparr>sm_attr = ''multipart'', sm_name = ''multipart'', sm_exports =
     [''FormBuilder'', ''PartBuilder''],
     sm_abcs = []\<rparr>"

definition mod_http :: submodule where
  "mod_http = \<lparr>sm_attr = ''http'', sm_name = ''http'', sm_exports =
     [''HeaderMap'', ''HeaderMapItemsView'', ''HeaderMapKeysView'', ''HeaderMapValuesView'', ''Mime'',
      ''Url''],
     sm_abcs = [(''HeaderMap'', ''MutableMapping''), (''HeaderMapItemsView'', ''ItemsView''),
      (''HeaderMapKeysView'', ''KeysView''), (''HeaderMapValuesView'', ''ValuesView'')]\<rparr>"

definition mod_cookie :: submodule where
  "mod_cookie = \<lparr>sm_attr = ''cookie'', sm_name = ''cookie'', sm_exports =
     [''Cookie'', ''CookieStore''],
     sm_abcs = []\<rparr>"

definition mod_bytes :: submodule where
  "mod_bytes = \<lparr>sm_attr = ''bytes'', sm_name = ''bytes'', sm_exports =
     [''Bytes''],
     sm_abcs = [(''Bytes'', ''Buffer'')]\<rparr>"

definition mod_logging :: submodule where
  "mod_logging = \<lparr>sm_attr = ''logging'', sm_name = ''logging'', sm_exports =
     [''flush_logs''],
     sm_abcs = []\<rparr>"

definition mod_runtime :: submodule where
  "mod_runtime = \<lparr>sm_attr = ''runtime'', sm_name = ''runtime'', sm_exports =
     [''runtime_blocking_thread_keep_alive'', ''runtime_max_blocking_threads'',
      ''runtime_multithreaded_default'', ''runtime_worker_threads''],
     sm_abcs = []\<rparr>"

text \<open>The macros of \<open>src/internal/oneoff.rs\<close> make and register the same functions for both kinds of builder.\<close>

definition oneoff_functions :: "string list" where
  "oneoff_functions =
     [''pyreqwest_get'', ''pyreqwest_post'', ''pyreqwest_put'', ''pyreqwest_patch'', ''pyreqwest_delete'',
      ''pyreqwest_head'']"

definition registered_oneoff_functions :: "string list" where
  "registered_oneoff_functions = oneoff_functions @ [''pyreqwest_request'']"

definition mod_simple_request :: submodule where
  "mod_simple_request = \<lparr>sm_attr = ''request'', sm_name = ''simple.request'',
     sm_exports = registered_oneoff_functions, sm_abcs = []\<rparr>"

definition mod_simple_sync_request :: submodule where
  "mod_simple_sync_request = \<lparr>sm_attr = ''sync_request'', sm_name = ''simple.sync_request'',
     sm_exports = registered_oneoff_functions, sm_abcs = []\<rparr>"

subsection \<open>Making the module\<close>

text \<open>\<open>obj s n\<close> is the class or function that the submodule \<open>s\<close> exports as \<open>n\<close>.\<close>

fun register_abcs :: "('o, 'w) py_interp \<Rightarrow> (string \<Rightarrow> 'o) \<Rightarrow> (string \<times> string) list \<Rightarrow> ('w, unit) eff" where
  "register_abcs I cls [] w = (Inr (), w)"
| "register_abcs I cls ((c, base) # rest) w =
     bind_eff (register_collections_abc I (cls c) base) (\<lambda>_. register_abcs I cls rest) w"

definition submodule_new :: "('o, 'w) py_interp \<Rightarrow> (string \<Rightarrow> string \<Rightarrow> 'o) \<Rightarrow> submodule \<Rightarrow> 'o py_module" where
  "submodule_new I obj s =
     pi_new_module I (sm_attr s) @ map (\<lambda>n. (n, Object (obj (sm_name s) n))) (sm_exports s)"

definition submodule_init ::
    "('o, 'w) py_interp \<Rightarrow> (string \<Rightarrow> string \<Rightarrow> 'o) \<Rightarrow> submodule \<Rightarrow> ('w, 'o py_module) eff" where
  "submodule_init I obj s =
     bind_eff (register_abcs I (obj (sm_name s)) (sm_abcs s)) (\<lambda>_.
     bind_eff (register_submodule I (submodule_new I obj s) (sm_name s)) (\<lambda>_ w.
       (Inr (submodule_new I obj s), w)))"

fun submodules_init ::
    "('o, 'w) py_interp \<Rightarrow> (string \<Rightarrow> string \<Rightarrow> 'o) \<Rightarrow> submodule list \<Rightarrow> ('w, 'o py_module) eff" where
  "submodules_init I obj [] w = (Inr [], w)"
| "submodules_init I obj (s # rest) w =
     bind_eff (submodule_init I obj s) (\<lambda>m.
     bind_eff (submodules_init I obj rest) (\<lambda>ms w.
       (Inr ((sm_attr s, Module m) # ms), w))) w"

text \<open>The whole module; \<open>nanos\<close> is the time since the epoch, 0 if the clock is before it.\<close>

definition pyreqwest_init :: "'o \<Rightarrow> 'o \<Rightarrow> 'o py_module" where
  "pyreqwest_init version nanos = [(''__version__'', Object version), (''_start_time_ns'', Object nanos)]"

definition pyreqwest_module ::
    "('o, 'w) py_interp \<Rightarrow> (string \<Rightarrow> string \<Rightarrow> 'o) \<Rightarrow> 'o \<Rightarrow> 'o \<Rightarrow> ('w, 'o py_module) eff" where
  "pyreqwest_module I obj version nanos =
     bind_eff (submodules_init I obj
       [mod_client, mod_request, mod_response, mod_middleware, mod_proxy, mod_multipart, mod_http, mod_cookie, mod_bytes])
       (\<lambda>ms. bind_eff (submodules_init I obj [mod_simple_request, mod_simple_sync_request])
       (\<lambda>ss. bind_eff (submodules_init I obj [mod_logging, mod_runtime])
       (\<lambda>ls w. (Inr (pi_new_module I ''_pyreqwest'' @ ms @
         [(''simple'', Module (pi_new_module I ''simple'' @ ss))] @ ls @ pyreqwest_init version nanos), w))))"

definition all_submodules :: "submodule list" where
  "all_submodules =
     [mod_client, mod_request, mod_response, mod_middleware, mod_proxy, mod_multipart, mod_http, mod_cookie, mod_bytes] @
     [mod_simple_request, mod_simple_sync_request] @ [mod_logging, mod_runtime]"

lemmas module_defs = mod_client_def mod_request_def mod_response_def mod_middleware_def mod_proxy_def
  mod_multipart_def mod_http_def mod_cookie_def mod_bytes_def mod_simple_request_def mod_simple_sync_request_def
  mod_logging_def mod_runtime_def registered_oneoff_functions_def oneoff_functions_def

subsection \<open>Exception classes\<close>

text \<open>
  The classes of \<open>pyreqwest.exceptions\<close> are imported at the first use and kept; an import that fails panics.
  \<open>show_err\<close> is the text of an exception.
\<close>

definition exception_type ::
    "(py_err \<Rightarrow> string) \<Rightarrow> (string \<Rightarrow> ('w, 'ty) eff) \<Rightarrow> string \<Rightarrow> 'ty option \<Rightarrow> 'w \<Rightarrow> 'ty pyres \<times> 'ty option \<times> 'w" where
  "exception_type show_err import_class name cached w =
     (case cached of
        Some ty \<Rightarrow> (Inr ty, cached, w)
      | None \<Rightarrow>
          (case import_class name w of
             (Inl e, w') \<Rightarrow> (Inl (panic (''failed to import exception '' @ name @ '': '' @ show_err e)), None, w')
           | (Inr ty, w') \<Rightarrow> (Inr ty, Some ty, w')))"

lemma exception_type_kept:
  assumes "exception_type show_err import_class name cached w = (Inr ty, cached', w')"
  shows "exception_type show_err import_class' name cached' v = (Inr ty, Some ty, v)"
  using assms by (auto simp: exception_type_def split: option.splits prod.splits sum.splits)

subsection \<open>The interpreter lock\<close>

text \<open>
  \<open>lk\<close>: whether the thread holds the lock (is attached). \<open>attach\<close> and \<open>detach\<close> run a closure and
  then restore what held before. A future is its \<open>poll\<close>.
\<close>

type_synonym ('w, 'a) locked = "bool \<Rightarrow> 'w \<Rightarrow> 'a \<times> 'w \<times> bool"

definition attach :: "('w, 'a) locked \<Rightarrow> ('w, 'a) locked" where
  "attach f lk w = (case f True w of (a, w', _) \<Rightarrow> (a, w', lk))"

definition detach :: "('w, 'a) locked \<Rightarrow> ('w, 'a) locked" where
  "detach f lk w = (case f False w of (a, w', _) \<Rightarrow> (a, w', lk))"

definition allow_threads_poll :: "('w, 'a) locked \<Rightarrow> ('w, 'a) locked" where
  "allow_threads_poll fut = attach (detach fut)"

text \<open>The inner future always runs without the lock, and the thread has it after exactly if it had it before.\<close>

theorem allow_threads_poll_spec:
  "allow_threads_poll fut lk w = (fst (fut False w), fst (snd (fut False w)), lk)"
  by (simp add: allow_threads_poll_def attach_def detach_def split_beta)

subsection \<open>What importing does\<close>

text \<open>
  \<open>sys w\<close> is \<open>sys.modules\<close>, \<open>mn w\<close> the \<open>__module__\<close> of classes and functions. The attributes a module
  is made with (\<open>__name__\<close> and the like) start with an underscore.
\<close>

locale interpreter =
  fixes I :: "('o, 'w) py_interp" and sys :: "'w \<Rightarrow> string \<Rightarrow> 'o py_module option"
    and mn :: "'w \<Rightarrow> 'o \<Rightarrow> string option"
  assumes new_private: "(n, x) \<in> set (pi_new_module I name) \<Longrightarrow> private_name n"
    and set_module: "\<exists>w'. pi_set_module I n m w = (Inr (), w') \<and> sys w' = (sys w)(n \<mapsto> m) \<and> mn w' = mn w"
    and set_attr: "\<exists>w'. pi_set_attr I (Object ob) v w = (Inr (), w') \<and> sys w' = sys w \<and> mn w' = (mn w)(ob \<mapsto> v)"
    and register: "\<exists>w'. pi_register I base cls w = (Inr (), w') \<and> sys w' = sys w \<and> mn w' = mn w"
begin

lemma fix_loop_names:
  assumes "\<forall>n\<in>set names. private_name n \<or> (\<exists>ob. map_of m n = Some (Object ob))"
  shows "\<exists>w'. fix_loop I m sub names w = (Inr (), w') \<and> sys w' = sys w \<and>
    mn w' = (\<lambda>ob. if \<exists>n\<in>set names. \<not> private_name n \<and> map_of m n = Some (Object ob)
                  then Some (''pyreqwest.'' @ sub) else mn w ob)"
  using assms
proof (induction names arbitrary: w)
  case (Cons n names)
  show ?case
  proof (cases "private_name n")
    case True
    with Cons.IH [of w] Cons.prems show ?thesis by simp
  next
    case False
    with Cons.prems obtain ob where ob: "map_of m n = Some (Object ob)" by auto
    obtain w1 where w1: "pi_set_attr I (Object ob) (''pyreqwest.'' @ sub) w = (Inr (), w1)"
        "sys w1 = sys w" "mn w1 = (mn w)(ob \<mapsto> ''pyreqwest.'' @ sub)"
      using set_attr by blast
    from Cons.IH [of w1] Cons.prems obtain w2 where w2: "fix_loop I m sub names w1 = (Inr (), w2)" "sys w2 = sys w1"
        "mn w2 = (\<lambda>ob. if \<exists>n\<in>set names. \<not> private_name n \<and> map_of m n = Some (Object ob)
                      then Some (''pyreqwest.'' @ sub) else mn w1 ob)" by auto
    have "fix_loop I m sub (n # names) w = (Inr (), w2)"
      using False ob w1(1) w2(1) by (simp add: py_getattr_def bind_eff_def)
    moreover have "mn w2 = (\<lambda>ob. if \<exists>n\<in>set (n # names). \<not> private_name n \<and> map_of m n = Some (Object ob)
                  then Some (''pyreqwest.'' @ sub) else mn w ob)"
    proof
      fix x
      show "mn w2 x = (if \<exists>n\<in>set (n # names). \<not> private_name n \<and> map_of m n = Some (Object x)
                       then Some (''pyreqwest.'' @ sub) else mn w x)"
      proof -
        have iff: "(\<exists>n\<in>set (n # names). \<not> private_name n \<and> map_of m n = Some (Object x)) \<longleftrightarrow>
            x = ob \<or> (\<exists>n\<in>set names. \<not> private_name n \<and> map_of m n = Some (Object x))"
          using False ob by (simp add: eq_commute [of x ob])
        show ?thesis unfolding iff w2(3) w1(3) fun_upd_apply by argo
      qed
    qed
    moreover have "sys w2 = sys w" by (simp only: w2(2) w1(2))
    ultimately show ?thesis by (intro exI [of _ w2] conjI)
  qed
qed simp

lemma register_quiet:
  "\<exists>w'. register_collections_abc I cls base w = (Inr (), w') \<and> sys w' = sys w \<and> mn w' = mn w"
proof (cases "register_collections_abc I cls base w = (Inr (), w)")
  case False
  then have "register_collections_abc I cls base w = pi_register I base cls w"
    by (auto simp: register_collections_abc_def split: if_splits)
  then show ?thesis using register [of base cls w] by simp
qed blast

lemma register_abcs_quiet: "\<exists>w'. register_abcs I cls abcs w = (Inr (), w') \<and> sys w' = sys w \<and> mn w' = mn w"
proof (induction abcs arbitrary: w)
  case (Cons a abcs)
  obtain c base where a: "a = (c, base)" by force
  obtain w1 where w1: "register_collections_abc I (cls c) base w = (Inr (), w1)" "sys w1 = sys w" "mn w1 = mn w"
    using register_quiet by blast
  from Cons.IH [of w1] w1 show ?case by (auto simp: a bind_eff_def)
qed simp

lemma submodule_init_spec:
  assumes "distinct (sm_exports s)" and "\<forall>n\<in>set (sm_exports s). \<not> private_name n"
  shows "\<exists>w'. submodule_init I obj s w = (Inr (submodule_new I obj s), w') \<and>
    sys w' = (sys w)(''pyreqwest._pyreqwest.'' @ sm_name s \<mapsto> submodule_new I obj s) \<and>
    mn w' = (\<lambda>ob. if ob \<in> obj (sm_name s) ` set (sm_exports s)
                  then Some (''pyreqwest.'' @ sm_name s) else mn w ob)"
proof -
  let ?m = "submodule_new I obj s"
  obtain w1 where w1: "register_abcs I (obj (sm_name s)) (sm_abcs s) w = (Inr (), w1)" "sys w1 = sys w" "mn w1 = mn w"
    using register_abcs_quiet by blast
  obtain w2 where w2: "pi_set_module I (''pyreqwest._pyreqwest.'' @ sm_name s) ?m w1 = (Inr (), w2)"
      "sys w2 = (sys w1)(''pyreqwest._pyreqwest.'' @ sm_name s \<mapsto> ?m)" "mn w2 = mn w1"
    using set_module by blast
  have exports: "map_of (map (\<lambda>n. (n, Object (obj (sm_name s) n))) (sm_exports s)) n =
      (if n \<in> set (sm_exports s) then Some (Object (obj (sm_name s) n)) else None)" for n
    by (simp add: map_of_map_restrict restrict_map_def)
  have hidden: "map_of (pi_new_module I (sm_attr s)) n = None" if "\<not> private_name n" for n
    using new_private that by (auto simp: map_of_eq_None_iff)
  have look: "map_of ?m n = (if n \<in> set (sm_exports s) then Some (Object (obj (sm_name s) n)) else None)"
    if "\<not> private_name n" for n
    using hidden [OF that] by (simp add: submodule_new_def map_add_def exports split: option.split)
  have names: "n \<in> set (sm_exports s)" if "n \<in> set (py_dir ?m)" "\<not> private_name n" for n
    using that new_private by (auto simp: py_dir_def submodule_new_def)
  have dir: "set (sm_exports s) \<subseteq> set (py_dir ?m)" by (auto simp: py_dir_def submodule_new_def)
  have ok: "\<forall>n\<in>set (py_dir ?m). private_name n \<or> (\<exists>ob. map_of ?m n = Some (Object ob))"
    using names look by auto
  obtain w3 where w3: "fix_module I ?m (sm_name s) w2 = (Inr (), w3)" "sys w3 = sys w2"
      "mn w3 = (\<lambda>ob. if \<exists>n\<in>set (py_dir ?m). \<not> private_name n \<and> map_of ?m n = Some (Object ob)
                    then Some (''pyreqwest.'' @ sm_name s) else mn w2 ob)"
    unfolding fix_module_def using fix_loop_names [OF ok] by blast
  have "(\<exists>n\<in>set (py_dir ?m). \<not> private_name n \<and> map_of ?m n = Some (Object ob)) \<longleftrightarrow>
      ob \<in> obj (sm_name s) ` set (sm_exports s)" for ob
    using names dir assms(2) by (auto simp: look split: if_splits)
  with w3 have "mn w3 = (\<lambda>ob. if ob \<in> obj (sm_name s) ` set (sm_exports s)
      then Some (''pyreqwest.'' @ sm_name s) else mn w ob)" by (simp add: w2(3) w1(3) cong: if_cong)
  moreover have "submodule_init I obj s w = (Inr ?m, w3)"
    using w1(1) w2(1) w3(1) by (simp add: submodule_init_def register_submodule_def bind_eff_def)
  ultimately show ?thesis using w3(2) w2(2) w1(2) by auto
qed

lemma submodules_init_spec:
  assumes "\<forall>s\<in>set ss. distinct (sm_exports s) \<and> (\<forall>n\<in>set (sm_exports s). \<not> private_name n)"
    and "distinct (map sm_name ss)"
    and inj: "\<And>s n s' n'. obj s n = obj s' n' \<Longrightarrow> s = s' \<and> n = n'"
  shows "\<exists>w'. submodules_init I obj ss w = (Inr (map (\<lambda>s. (sm_attr s, Module (submodule_new I obj s))) ss), w') \<and>
    (\<forall>s\<in>set ss. sys w' (''pyreqwest._pyreqwest.'' @ sm_name s) = Some (submodule_new I obj s) \<and>
      (\<forall>n\<in>set (sm_exports s). mn w' (obj (sm_name s) n) = Some (''pyreqwest.'' @ sm_name s))) \<and>
    (\<forall>k. (\<forall>s\<in>set ss. k \<noteq> ''pyreqwest._pyreqwest.'' @ sm_name s) \<longrightarrow> sys w' k = sys w k) \<and>
    (\<forall>ob. (\<forall>s\<in>set ss. ob \<notin> obj (sm_name s) ` set (sm_exports s)) \<longrightarrow> mn w' ob = mn w ob)"
  using assms(1,2)
proof (induction ss arbitrary: w)
  case (Cons s ss)
  obtain w1 where w1: "submodule_init I obj s w = (Inr (submodule_new I obj s), w1)"
      "sys w1 = (sys w)(''pyreqwest._pyreqwest.'' @ sm_name s \<mapsto> submodule_new I obj s)"
      "mn w1 = (\<lambda>ob. if ob \<in> obj (sm_name s) ` set (sm_exports s) then Some (''pyreqwest.'' @ sm_name s) else mn w ob)"
    using submodule_init_spec [of s obj w] Cons.prems(1) by auto
  from Cons.prems have "\<forall>t\<in>set ss. distinct (sm_exports t) \<and> (\<forall>n\<in>set (sm_exports t). \<not> private_name n)"
      "distinct (map sm_name ss)" by simp_all
  from Cons.IH [OF this, of w1] obtain w2 where
      w2: "submodules_init I obj ss w1 = (Inr (map (\<lambda>s. (sm_attr s, Module (submodule_new I obj s))) ss), w2)"
        "\<forall>t\<in>set ss. sys w2 (''pyreqwest._pyreqwest.'' @ sm_name t) = Some (submodule_new I obj t) \<and>
          (\<forall>n\<in>set (sm_exports t). mn w2 (obj (sm_name t) n) = Some (''pyreqwest.'' @ sm_name t))"
        "\<And>k. (\<forall>t\<in>set ss. k \<noteq> ''pyreqwest._pyreqwest.'' @ sm_name t) \<Longrightarrow> sys w2 k = sys w1 k"
        "\<And>ob. (\<forall>t\<in>set ss. ob \<notin> obj (sm_name t) ` set (sm_exports t)) \<Longrightarrow> mn w2 ob = mn w1 ob"
    by blast
  have new: "\<forall>t\<in>set ss. sm_name s \<noteq> sm_name t" using Cons.prems(2) by auto
  have "sys w2 (''pyreqwest._pyreqwest.'' @ sm_name s) = Some (submodule_new I obj s)"
    using w2(3) [of "''pyreqwest._pyreqwest.'' @ sm_name s"] new by (simp add: w1(2))
  moreover have "mn w2 (obj (sm_name s) n) = Some (''pyreqwest.'' @ sm_name s)" if "n \<in> set (sm_exports s)" for n
  proof -
    from new inj have "\<forall>t\<in>set ss. obj (sm_name s) n \<notin> obj (sm_name t) ` set (sm_exports t)" by blast
    from w2(4) [OF this] that show ?thesis by (simp add: w1(3))
  qed
  moreover have "submodules_init I obj (s # ss) w =
      (Inr (map (\<lambda>s. (sm_attr s, Module (submodule_new I obj s))) (s # ss)), w2)"
    by (simp add: bind_eff_def w1(1) w2(1))
  moreover have "sys w2 k = sys w k" if "\<forall>t\<in>set (s # ss). k \<noteq> ''pyreqwest._pyreqwest.'' @ sm_name t" for k
    using that w2(3) [of k] by (simp add: w1(2))
  moreover have "mn w2 ob = mn w ob" if "\<forall>t\<in>set (s # ss). ob \<notin> obj (sm_name t) ` set (sm_exports t)" for ob
    using that w2(4) [of ob] by (simp add: w1(3))
  ultimately show ?case using w2(2) by (intro exI [of _ w2]) auto
qed simp

end

text \<open>An interpreter whose state is just \<open>sys.modules\<close> and the \<open>__module__\<close> attributes.\<close>

type_synonym 'o py_state = "(string \<Rightarrow> 'o py_module option) \<times> ('o \<Rightarrow> string option)"

definition plain_interp :: "('o, 'o py_state) py_interp" where
  "plain_interp = \<lparr>pi_new_module = (\<lambda>name. [(''__name__'', Module [])]),
     pi_set_module = (\<lambda>n m w. (Inr (), (fst w)(n \<mapsto> m), snd w)),
     pi_set_attr = (\<lambda>x v w. case x of Object ob \<Rightarrow> (Inr (), fst w, (snd w)(ob \<mapsto> v))
                                 | Module _ \<Rightarrow> (Inr (), w)),
     pi_register = (\<lambda>base cls w. (Inr (), w)), pi_version = (3, 11)\<rparr>"

interpretation plain: interpreter plain_interp fst snd
  by unfold_locales (auto simp: plain_interp_def private_name_def)

lemma submodules_wf:
  "\<forall>s\<in>set all_submodules. distinct (sm_exports s) \<and> (\<forall>n\<in>set (sm_exports s). \<not> private_name n)"
  "distinct (map sm_name all_submodules)"
  by code_simp+

lemma submodules_init_append:
  "submodules_init I obj (ss @ ts) =
     bind_eff (submodules_init I obj ss) (\<lambda>a. bind_eff (submodules_init I obj ts) (\<lambda>b w. (Inr (a @ b), w)))"
proof
  fix w
  show "submodules_init I obj (ss @ ts) w = bind_eff (submodules_init I obj ss)
      (\<lambda>a. bind_eff (submodules_init I obj ts) (\<lambda>b w. (Inr (a @ b), w))) w"
    by (induction ss arbitrary: w) (auto simp: bind_eff_def split: prod.split sum.split)
qed

text \<open>
  Importing the extension: no call fails, each of the submodules is found in \<open>sys.modules\<close> under the name
  that the Python package imports it by, with everything it exports, and each exported class and
  function is shown as one of the Python module that offers it. No other module and no other object
  is changed.
\<close>

theorem import_spec:
  assumes "interpreter I sys mn" and inj: "\<And>s n s' n'. obj s n = obj s' n' \<Longrightarrow> s = s' \<and> n = n'"
  shows "\<exists>m w'. pyreqwest_module I obj version nanos w = (Inr m, w') \<and>
    (\<forall>s\<in>set all_submodules. \<forall>n\<in>set (sm_exports s).
       (\<exists>sub. sys w' (''pyreqwest._pyreqwest.'' @ sm_name s) = Some sub \<and> (n, Object (obj (sm_name s) n)) \<in> set sub) \<and>
       mn w' (obj (sm_name s) n) = Some (''pyreqwest.'' @ sm_name s)) \<and>
    (\<forall>k. (\<forall>s\<in>set all_submodules. k \<noteq> ''pyreqwest._pyreqwest.'' @ sm_name s) \<longrightarrow> sys w' k = sys w k) \<and>
    (\<forall>ob. (\<forall>s\<in>set all_submodules. ob \<notin> obj (sm_name s) ` set (sm_exports s)) \<longrightarrow> mn w' ob = mn w ob)"
proof -
  from interpreter.submodules_init_spec [where obj = obj and w = w, OF assms(1) submodules_wf inj] obtain ms w' where
      init: "submodules_init I obj all_submodules w = (Inr ms, w')"
    and regs: "\<forall>s\<in>set all_submodules. sys w' (''pyreqwest._pyreqwest.'' @ sm_name s) = Some (submodule_new I obj s) \<and>
      (\<forall>n\<in>set (sm_exports s). mn w' (obj (sm_name s) n) = Some (''pyreqwest.'' @ sm_name s))"
    and rest: "\<forall>k. (\<forall>s\<in>set all_submodules. k \<noteq> ''pyreqwest._pyreqwest.'' @ sm_name s) \<longrightarrow> sys w' k = sys w k"
      "\<forall>ob. (\<forall>s\<in>set all_submodules. ob \<notin> obj (sm_name s) ` set (sm_exports s)) \<longrightarrow> mn w' ob = mn w ob" by blast
  have "\<exists>m. pyreqwest_module I obj version nanos w = (Inr m, w')"
    using init unfolding all_submodules_def submodules_init_append
    by (auto simp: pyreqwest_module_def bind_eff_def split: prod.splits sum.splits simp del: submodules_init.simps)
  moreover have "(n, Object (obj (sm_name s) n)) \<in> set (submodule_new I obj s)" if "n \<in> set (sm_exports s)" for s n
    using that by (simp add: submodule_new_def)
  ultimately show ?thesis using regs rest by blast
qed

theorem import_spec_witness:
  "\<exists>m w'. pyreqwest_module plain_interp Pair (''version'', ''0.11.8'') (''start'', ''0'') (Map.empty, Map.empty) = (Inr m, w') \<and>
     snd w' (''http'', ''Url'') = Some ''pyreqwest.http''"
proof -
  have "mod_http \<in> set all_submodules" "''Url'' \<in> set (sm_exports mod_http)" "sm_name mod_http = ''http''"
    by (simp_all add: all_submodules_def mod_http_def)
  then show ?thesis
    using import_spec [OF plain.interpreter_axioms, of Pair "(''version'', ''0.11.8'')" "(''start'', ''0'')" "(Map.empty, Map.empty)"]
    by fastforce
qed

end
