(* ===== verification/Spec2Isabelle.thy ===== *)
theory Spec2Isabelle
  imports Body_Properties Header_Properties Request_Properties Response_Properties Client_Properties
    Client_Builder_Properties Coro_Waiter Runtime Arguments Cookie_Properties Mime Task_Local One_Off Logger Round_Trip
    Gc Request_Heap Error_Mapping Header_Access Request_Repr Sync_Api Py_Module
begin

text \<open>
  pyreqwest: a verification development of the Rust extension under \<open>src/\<close>, the Python HTTP
  client built on \<open>reqwest\<close>.

  The program. A Python user makes a client, a request builder and a request, whose headers,
  body, extensions and middlewares can still be changed, sends it through the middlewares, and
  gets a response whose body is read whole or in pieces while a background task receives it. The
  core logic of the extension is in what it keeps between the calls: the header map and its
  views, the builders, the request and the response, the chain of middlewares, the streams in both
  directions, the limit on concurrent requests, the mapping of errors to Python exceptions. What it
  calls (the crates \<open>http\<close>, \<open>reqwest\<close>, \<open>tokio\<close>, \<open>hyper\<close>, the Python interpreter) is not modelled: it
  is a parameter of the definitions, a record of functions, and what the code relies on is a locale
  over that record.

  The theories, in the order of imports.

  \<^item> \<open>Prelude\<close>: bytes, results, text, lists. \<open>Exceptions\<close>: \<open>src/exceptions\<close>, the classes with
    their details, the walk along the sources of an error, the classification of transport errors;
    \<open>Error_Mapping\<close>: which class an error gets, stated over the chain of its causes.
  \<^item> Response bodies, \<open>src/response/internal/body_reader.rs\<close>. \<open>Body_Reader\<close>: the state and the
    operations of the receiving side (\<open>read\<close>, \<open>next_chunk\<close>, \<open>bytes\<close>, \<open>close\<close>) over any source of
    chunks. \<open>Body_Channel\<close>: the background task, its channel of two messages, the permit that
    limits concurrent requests, as a step relation in which task, receiver and cancellation
    interleave in any order; invariants by rule induction, progress by a measure.
    \<open>Http_Types\<close>: versions, status codes, the parts of a response. \<open>Body_Init\<close>: reading up to the
    limit, and not a chunk further, before the reader is handed out. \<open>Body_Properties\<close>: the properties.
  \<^item> Header maps, \<open>src/http/header_map\<close>, \<open>src/internal/utils.rs\<close>, \<open>src/internal/types.rs\<close>.
    \<open>Header_Api\<close>: the operations of \<open>http::HeaderMap\<close> as the record \<open>http_ops\<close> with the locale
    \<open>http_headers\<close> of its documented laws. \<open>Header_Ref\<close>: an implementation that meets them.
    \<open>Key_Val_Pairs\<close>: arguments given as mappings or pairs. \<open>Header_Map\<close>: every method.
    \<open>Header_Views\<close>: iterators and views. \<open>Header_Properties\<close>: the properties, among them that the
    methods refine an abstract multimap.
  \<^item> \<open>Take_Once\<close>: the locale of objects that are consumed once, interpreted on header maps, options,
    request bodies, parts, forms, proxies, requests and responses.
  \<^item> Requests, \<open>src/request\<close>, \<open>src/multipart\<close>, \<open>src/proxy\<close>, \<open>src/middleware\<close>, \<open>src/internal\<close>.
    \<open>Middleware\<close>: \<open>next.rs\<close>, the chain and its runs, asynchronous and synchronous, as total
    functions (the measure is what is left of the chain). \<open>Request_Headers\<close>: the merge of client
    defaults and set headers. \<open>Body_Stream\<close>: Python iterables as streams of chunks.
    \<open>Request_Body\<close>, \<open>Builders\<close> (parts, forms, proxies, the JSON callbacks), \<open>Request\<close> (the request
    on a heap of objects shared with Python: attributes, sending, copying), \<open>Request_Builder\<close>
    (the setters and \<open>build\<close>). \<open>Request_Properties\<close>: the properties.

  \<^item> Responses, \<open>src/response\<close>, \<open>src/request/stream_request.rs\<close>. \<open>Response\<close>: the response and the
    reader object of its body, on a heap of shared objects. \<open>Stream_Request\<close>: entering and leaving
    the context of a streamed request. \<open>Response_Builder\<close>: responses made by hand.
    \<open>Response_Properties\<close>: the properties.
  \<^item> Clients, \<open>src/client\<close>, \<open>src/runtime\<close>. \<open>Client\<close>: clients, cancellation tokens, the limit on
    connections, the future of a request and how its end is reported. \<open>Request_Pool\<close>: all requests
    of a client with their permits and background readers as a transition system, built on that of
    \<open>Body_Channel\<close>; when a caller gives up, what the waiting future still has is dropped, with the effect
    \<open>tokio\<close> documents, and a simulation shows that the tasks do not notice. \<open>Client_Properties\<close>: the properties of both. \<open>Client_Builder\<close>: every setter
    and the building of a client. \<open>Client_Builder_Properties\<close>: sequences of calls on it.
    \<open>Round_Trip\<close>: the whole way of a request, from the client over the server and back.
    \<open>Runtime\<close>: the configuration of the \<open>tokio\<close> runtimes and their making, with its properties.
  \<^item> \<open>Coro_Waiter\<close>: \<open>src/internal/asyncio_coro.rs\<close>, the future that waits for a Python coroutine,
    with the event loop as a transition system, and its properties. \<open>Task_Local\<close>: the event loop
    and context a request remembers, and the test for asynchronous callables.
  \<^item> URLs, cookies and what else is a Python object of its own. \<open>Url\<close>: \<open>src/http/url.rs\<close> over the
    record \<open>url_ops\<close> of the \<open>url\<close> crate, with query values; that query parameters come back.
    \<open>Arguments\<close>: query and form parameters and extensions, and what lists in them do. \<open>Cookies\<close>:
    \<open>src/cookie\<close>, with \<open>Cookie_Properties\<close>: the header made of the cookies of a URL, read back, and the
    attributes a cookie has after \<open>with_*\<close>. \<open>Mime\<close>: \<open>src/http/mime.rs\<close>.
  \<^item> \<open>One_Off\<close>: making and copying request objects and the builders of one-off requests, which are
    sent like those of a client. \<open>Request_Heap\<close>: all operations on requests as steps on the heap of objects,
    and what every reachable heap satisfies. \<open>Logger\<close>: \<open>src/logging\<close>, the bounded log and its flush, in one piece
    and in batches of 1000 (the measure is what is left), with what a flush delivers.
  \<^item> What Python sees of all this. \<open>Header_Access\<close>: header maps as arguments and their views as collections.
    \<open>Py_Values\<close>: getters and the protocol of strings of URLs, cookies and MIME types. \<open>Request_Repr\<close>:
    the text of a request and what it hides. \<open>Sync_Api\<close>: the asynchronous and the blocking classes, which
    do the same.
  \<^item> \<open>Py_Module\<close>: \<open>src/lib.rs\<close> and \<open>src/internal/module_utils.rs\<close>, what the submodules export and what
    importing them registers; the classes of exceptions; \<open>src/internal/allow_threads.rs\<close>.
  \<^item> \<open>Gc\<close>: the hooks \<open>__traverse__\<close> and \<open>__clear__\<close> of all classes, and what the garbage collector
    counts of them beside the references there are, a vector behind a shared \<open>Arc\<close> counted once.

  Correspondence. A Rust struct is a record with its fields, an enum a datatype with its
  variants; a method is a definition of its name (with a prefix where the name is taken) that
  takes the object and returns the result beside the changed object, on error paths too. \<open>PyResult\<close>
  is a sum whose left side is the exception. Panics are values of the same kind, since PyO3 turns
  them into exceptions. Objects shared with Python are addresses of a heap; objects that are not
  shared are values; an \<open>Arc\<close> is the address of its allocation with the content, so that clones are the
  same address. The state of the interpreter is a type variable that the operations pass on.

  Bounds and termination. The only fuel is that of the concrete schedules of the examples. Loops
  are total functions, with a measure where the recursion is not structural; reading a body to
  its end and pulling a stream are partial functions, and the properties state that they return.
  \<open>usize\<close> values are natural numbers, with the width written out where the code can reach it.

  Not modelled: borrow flags of Python objects, fairness of the schedulers (liveness is stated as:
  these steps are enabled and lead there), conversion of JSON values by \<open>pythonize\<close>, the setters of
  the client builder for other platforms. What the crates do inside is a parameter.
\<close>

end
